(* ===== verification/Prelude.thy ===== *)
theory Prelude
  imports Complex_Main "HOL-Library.AList" "HOL-Library.Char_ord" "HOL-Library.List_Lexorder"
    "HOL-Library.Product_Lexorder" "HOL-Library.Multiset"
begin

text \<open>
  Shared vocabulary of the development.

  \<^item> Python dictionaries keep insertion order, so a dictionary is an association list;
    \<open>dget\<close>, \<open>dset\<close>, \<open>dpop\<close> are \<open>d.get(k)\<close>, \<open>d[k] = v\<close> and \<open>d.pop(k, None)\<close>.
    \<open>dset\<close> overwrites in place and appends a new key at the end, as CPython does.
  \<^item> An operation that may raise returns \<open>'e + 'a\<close>: \<open>Inl\<close> is the exception.
    \<open>sbind\<close> sequences such operations: the first exception wins.
  \<^item> The collection \<open>dict_simps\<close> rewrites look-ups after updates; \<open>res_simps\<close>
    unfolds sequencing.
  \<^item> The locale \<open>transition_system\<close> is the shared interface of everything that moves by
    steps: an invariant kept by each step holds after every run.
\<close>

named_theorems dict_simps \<open>look-up laws of dictionaries\<close>
named_theorems res_simps \<open>sequencing of operations that may raise\<close>

section \<open>Dictionaries\<close>

type_synonym ('k, 'v) dict = "('k \<times> 'v) list"

abbreviation dget :: "('k, 'v) dict \<Rightarrow> 'k \<Rightarrow> 'v option" where
  "dget d k \<equiv> map_of d k"

abbreviation dset :: "('k, 'v) dict \<Rightarrow> 'k \<Rightarrow> 'v \<Rightarrow> ('k, 'v) dict" where
  "dset d k v \<equiv> AList.update k v d"

abbreviation dpop :: "('k, 'v) dict \<Rightarrow> 'k \<Rightarrow> ('k, 'v) dict" where
  "dpop d k \<equiv> AList.delete k d"

abbreviation dkeys :: "('k, 'v) dict \<Rightarrow> 'k list" where
  "dkeys d \<equiv> map fst d"

abbreviation dvals :: "('k, 'v) dict \<Rightarrow> 'v list" where
  "dvals d \<equiv> map snd d"

lemma dget_dset [dict_simps, simp]: "dget (dset d k v) k' = (if k' = k then Some v else dget d k')"
  by (simp add: AList.update_conv')

lemma dget_dpop [dict_simps, simp]: "dget (dpop d k) k' = (if k' = k then None else dget d k')"
  by (simp add: AList.delete_conv')

lemma dget_in_keys: "dget d k = Some v \<Longrightarrow> k \<in> set (dkeys d)"
  by (force dest: map_of_SomeD)

lemma dget_None_keys: "dget d k = None \<longleftrightarrow> k \<notin> set (dkeys d)"
  by (simp add: map_of_eq_None_iff)

lemma dget_in_set: "dget d k = Some v \<Longrightarrow> (k, v) \<in> set d"
  by (rule map_of_SomeD)

lemma distinct_dset [simp]: "distinct (dkeys d) \<Longrightarrow> distinct (dkeys (dset d k v))"
  by (rule AList.distinct_update)

lemma distinct_dpop [simp]: "distinct (dkeys d) \<Longrightarrow> distinct (dkeys (dpop d k))"
  by (rule AList.distinct_delete)

lemma set_dpop: "set (dpop d k) = {x \<in> set d. fst x \<noteq> k}"
  by (auto simp: AList.delete_eq)

lemma dset_fresh: "k \<notin> set (dkeys d) \<Longrightarrow> dset d k v = d @ [(k, v)]"
  by (induction d) auto

lemma dpop_fresh: "k \<notin> set (dkeys d) \<Longrightarrow> dpop d k = d"
  by (simp add: AList.delete_eq filter_id_conv) force

lemma length_dset: "length (dset d k v) = (if dget d k = None then Suc (length d) else length d)"
  by (induction d) auto

lemma set_dset: "distinct (dkeys d) \<Longrightarrow> (k', v') \<in> set (dset d k v) \<Longrightarrow> (k', v') = (k, v) \<or> (k', v') \<in> set d"
  by (induction d) (auto split: if_splits)

section \<open>Operations that may raise\<close>

definition sbind :: "'e + 'a \<Rightarrow> ('a \<Rightarrow> 'e + 'b) \<Rightarrow> 'e + 'b" where
  "sbind r f = (case r of Inl e \<Rightarrow> Inl e | Inr x \<Rightarrow> f x)"

lemma sbind_simps [res_simps, simp]:
  "sbind (Inl e) f = Inl e"
  "sbind (Inr x) f = f x"
  by (simp_all add: sbind_def)

lemma sbind_cong [fundef_cong]:
  "r = r' \<Longrightarrow> (\<And>x. r' = Inr x \<Longrightarrow> f x = g x) \<Longrightarrow> sbind r f = sbind r' g"
  by (cases r') auto

lemma sbind_Inr_iff [res_simps]: "sbind r f = Inr y \<longleftrightarrow> (\<exists>x. r = Inr x \<and> f x = Inr y)"
  by (cases r) auto

lemma sbind_Inl_iff [res_simps]:
  "sbind r f = Inl e \<longleftrightarrow> r = Inl e \<or> (\<exists>x. r = Inr x \<and> f x = Inl e)"
  by (cases r) auto

lemma unit_sum_ok [simp]: "(\<forall>e. r \<noteq> Inl e) \<longleftrightarrow> r = Inr ()"
  by (cases r) auto

lemma succeeded: "\<not> Sum_Type.isl (fst r) \<Longrightarrow> \<exists>v. r = (Inr v, snd r)"
  by (cases r; cases "fst r") auto

definition guard :: "bool \<Rightarrow> 'e \<Rightarrow> 'e + unit" where
  "guard ok e = (if ok then Inr () else Inl e)"

lemma guard_iff [res_simps, simp]:
  "guard ok e = Inr u \<longleftrightarrow> ok"
  "guard ok e = Inl e' \<longleftrightarrow> \<not> ok \<and> e' = e"
  by (auto simp: guard_def)

text \<open>\<open>for x in xs: body(x)\<close> where the body may raise and threads a state.\<close>

fun sfold :: "('s \<Rightarrow> 'x \<Rightarrow> 'e + 's) \<Rightarrow> 's \<Rightarrow> 'x list \<Rightarrow> 'e + 's" where
  "sfold f s [] = Inr s"
| "sfold f s (x # xs) = sbind (f s x) (\<lambda>s'. sfold f s' xs)"

lemma sfold_invariant:
  assumes "sfold f s xs = Inr t" and "P s"
    and "\<And>s x s'. x \<in> set xs \<Longrightarrow> P s \<Longrightarrow> f s x = Inr s' \<Longrightarrow> P s'"
  shows "P t"
  using assms
proof (induction xs arbitrary: s)
  case Nil
  then show ?case by simp
next
  case (Cons x xs)
  from Cons.prems(1) obtain s' where s': "f s x = Inr s'" "sfold f s' xs = Inr t"
    by (auto simp: res_simps)
  have "P s'" using Cons.prems(2,3) s'(1) by auto
  then show ?case using Cons.IH [OF s'(2)] Cons.prems(3) by auto
qed

lemma sfold_append: "sfold f s (xs @ ys) = sbind (sfold f s xs) (\<lambda>t. sfold f t ys)"
  by (induction xs arbitrary: s) (auto simp: sbind_def split: sum.splits)

lemma sfold_collect:
  assumes "sfold f s xs = Inr t"
    and est: "\<And>s x s'. x \<in> set xs \<Longrightarrow> f s x = Inr s' \<Longrightarrow> Q x s'"
    and keep: "\<And>s x y s'. y \<in> set xs \<Longrightarrow> f s y = Inr s' \<Longrightarrow> Q x s \<Longrightarrow> Q x s'"
  shows "\<forall>x \<in> set xs. Q x t"
  using assms
proof (induction xs arbitrary: s)
  case (Cons x xs)
  from Cons.prems(1) obtain s' where s': "f s x = Inr s'" "sfold f s' xs = Inr t"
    by (auto simp: res_simps)
  have "Q x s'" using Cons.prems(2) s'(1) by simp
  then have "Q x t" using sfold_invariant [OF s'(2), of "Q x"] Cons.prems(3) by auto
  moreover have "\<forall>x \<in> set xs. Q x t"
    by (rule Cons.IH [OF s'(2)]) (erule Cons.prems(2) [rotated] Cons.prems(3) [rotated], simp_all)+
  ultimately show ?case by simp
qed simp

text \<open>\<open>[body(x) for x in xs]\<close> where the body may raise.\<close>

fun smap :: "('x \<Rightarrow> 'e + 'y) \<Rightarrow> 'x list \<Rightarrow> 'e + 'y list" where
  "smap f [] = Inr []"
| "smap f (x # xs) = sbind (f x) (\<lambda>y. sbind (smap f xs) (\<lambda>ys. Inr (y # ys)))"

lemma smap_total:
  "(\<And>x. x \<in> set xs \<Longrightarrow> \<exists>y. f x = Inr y) \<Longrightarrow> \<exists>ys. smap f xs = Inr ys"
proof (induction xs)
  case (Cons x xs)
  then obtain y ys where "f x = Inr y" "smap f xs = Inr ys" by (meson list.set_intros)
  then show ?case by simp
qed simp

lemma smap_all:
  "smap f xs = Inr ys \<Longrightarrow> (\<And>x y. x \<in> set xs \<Longrightarrow> f x = Inr y \<Longrightarrow> P y) \<Longrightarrow> \<forall>y \<in> set ys. P y"
proof (induction xs arbitrary: ys)
  case (Cons x xs)
  from Cons.prems(1) obtain y zs where "f x = Inr y" "smap f xs = Inr zs" "ys = y # zs"
    by (auto simp: res_simps)
  with Cons.IH [of zs] Cons.prems(2) show ?case by auto
qed simp

lemma smap_nth:
  "smap f xs = Inr ys \<Longrightarrow> length ys = length xs \<and> (\<forall>i < length xs. f (xs ! i) = Inr (ys ! i))"
  by (induction xs arbitrary: ys) (auto simp: res_simps nth_Cons split: nat.splits)

section \<open>Building dictionaries\<close>

text \<open>\<open>{k: v for ...}\<close> and \<open>{**a, **b}\<close>.\<close>

definition dict_of :: "('k \<times> 'v) list \<Rightarrow> ('k, 'v) dict" where
  "dict_of kvs = fold (\<lambda>(k, v) d. dset d k v) kvs []"

definition dmerge :: "('k, 'v) dict \<Rightarrow> ('k, 'v) dict \<Rightarrow> ('k, 'v) dict" where
  "dmerge d e = fold (\<lambda>(k, v) d. dset d k v) e d"

lemma fold_dset_fresh:
  "distinct (dkeys (d @ kvs)) \<Longrightarrow> fold (\<lambda>(k, v) d. dset d k v) kvs d = d @ kvs"
proof (induction kvs arbitrary: d)
  case (Cons kv kvs)
  then have "fst kv \<notin> set (dkeys d)" by auto
  then have "dset d (fst kv) (snd kv) = d @ [kv]" by (simp add: dset_fresh)
  then show ?case using Cons by (simp add: case_prod_beta)
qed simp

lemma dict_of_distinct: "distinct (dkeys kvs) \<Longrightarrow> dict_of kvs = kvs"
  using fold_dset_fresh [of "[]" kvs] by (simp add: dict_of_def)

lemma dget_fold_dset:
  "dget (fold (\<lambda>(k, v) d. dset d k v) kvs d) k = Some v \<Longrightarrow> (k, v) \<in> set kvs \<or> dget d k = Some v"
  by (induction kvs arbitrary: d) (force split: if_splits)+

lemma dget_dict_of: "dget (dict_of kvs) k = Some v \<Longrightarrow> (k, v) \<in> set kvs"
  using dget_fold_dset [of kvs "[]" k v] by (simp add: dict_of_def)

lemma dget_fold_dset_key:
  "k \<in> set (dkeys kvs) \<or> dget d k \<noteq> None \<Longrightarrow> dget (fold (\<lambda>(k, v) d. dset d k v) kvs d) k \<noteq> None"
  by (induction kvs arbitrary: d) auto

lemma dget_dict_of_key: "k \<in> set (dkeys kvs) \<Longrightarrow> \<exists>v. dget (dict_of kvs) k = Some v"
  using dget_fold_dset_key [of k kvs "[]"] by (simp add: dict_of_def)

lemma dget_filter: "dget d k = (case filter (\<lambda>x. fst x = k) d of [] \<Rightarrow> None | x # xs \<Rightarrow> Some (snd x))"
  by (induction d) auto

lemma dget_sort_key [simp]: "dget (sort_key fst d) k = dget d (k :: 'k :: linorder)"
  by (simp add: dget_filter sort_key_stable)

lemma dget_map_snd: "dget (map (\<lambda>kv. (fst kv, f (snd kv))) d) k = map_option f (dget d k)"
  by (induction d) auto

lemma sum_list_sort_key [simp]: "sum_list (map f (sort_key g xs)) = (sum_list (map f xs) :: 'a :: comm_monoid_add)"
proof -
  have "mset (map f (sort_key g xs)) = mset (map f xs)" by simp
  then show ?thesis by (metis sum_mset_sum_list)
qed

lemma dmerge_simps [simp]:
  "dmerge d [] = d"
  "dmerge d ((k, v) # e) = dmerge (dset d k v) e"
  by (simp_all add: dmerge_def)

lemma dget_dmerge_other: "k \<notin> set (dkeys e) \<Longrightarrow> dget (dmerge d e) k = dget d k"
  by (induction e arbitrary: d) (auto simp: dmerge_def)

text \<open>Loading a dictionary entry by entry.\<close>

lemma sfold_dset_map:
  assumes f: "\<And>k v y. (k, v) \<in> set d \<Longrightarrow> f k (enc v) = Inr y \<longleftrightarrow> y = v \<and> P k v"
    and "distinct (dkeys (acc @ d))"
  shows "sfold (\<lambda>acc (k, x). sbind (f k x) (\<lambda>y. Inr (dset acc k y))) acc
           (map (\<lambda>kv. (fst kv, enc (snd kv))) d) = Inr res \<longleftrightarrow> res = acc @ d \<and> list_all (\<lambda>(k, v). P k v) d"
  using assms
proof (induction d arbitrary: acc)
  case (Cons kv d)
  obtain k v where kv: "kv = (k, v)" by (cases kv)
  have fr: "k \<notin> set (dkeys acc)" using Cons.prems(2) kv by auto
  have step: "f k (enc v) = Inr y \<longleftrightarrow> y = v \<and> P k v" for y using Cons.prems(1) kv by simp
  show ?case
  proof (cases "P k v")
    case True
    then have "f k (enc v) = Inr v" using step by simp
    moreover have "sfold (\<lambda>acc (k, x). sbind (f k x) (\<lambda>y. Inr (dset acc k y))) (acc @ [(k, v)])
           (map (\<lambda>kv. (fst kv, enc (snd kv))) d) = Inr res \<longleftrightarrow>
        res = (acc @ [(k, v)]) @ d \<and> list_all (\<lambda>(k, v). P k v) d"
      by (rule Cons.IH) (use Cons.prems kv in auto)
    ultimately show ?thesis using True kv by (simp add: dset_fresh [OF fr])
  next
    case False
    then obtain e where "f k (enc v) = Inl e" using step by (cases "f k (enc v)") auto
    then show ?thesis using False kv by simp
  qed
qed auto

lemma sfold_dset_all:
  assumes "sfold (\<lambda>acc (k, x). sbind (f k x) (\<lambda>y. Inr (dset acc k y))) acc xs = Inr d"
    and P: "\<And>k x y. f k x = Inr y \<Longrightarrow> P k y"
    and "distinct (dkeys acc)" "list_all (\<lambda>(k, y). P k y) acc"
  shows "distinct (dkeys d) \<and> list_all (\<lambda>(k, y). P k y) d"
proof (rule sfold_invariant [OF assms(1)])
  have upd: "list_all (\<lambda>(k, y). P k y) (dset a k y)" if "list_all (\<lambda>(k, y). P k y) a" "P k y" for a k y
    using that by (induction a) auto
  fix s x s'
  assume s: "distinct (dkeys s) \<and> list_all (\<lambda>(k, y). P k y) s"
    and "(case x of (k, x) \<Rightarrow> sbind (f k x) (\<lambda>y. Inr (dset s k y))) = Inr s'"
  then obtain k x' y where "f k x' = Inr y" "s' = dset s k y" by (cases x) (auto simp: sbind_Inr_iff)
  then show "distinct (dkeys s') \<and> list_all (\<lambda>(k, y). P k y) s'" using s upd P by simp
qed (use assms in simp)

section \<open>Sorting by a key\<close>

lemma sorted_key_unique:
  assumes "sorted (map f xs)" "sorted (map f ys)" "distinct xs" "distinct ys"
    and "set xs = set ys" and inj: "inj_on f (set xs)"
  shows "xs = ys"
proof -
  have "map f xs = map f ys"
    by (rule sorted_distinct_set_unique) (use assms in \<open>auto simp: distinct_map\<close>)
  then show ?thesis by (rule map_inj_on) (use assms in simp)
qed

lemma sort_key_least_first:
  assumes h: "h \<in> set xs" "\<And>x. x \<in> set xs \<Longrightarrow> f h \<le> f x"
    and d: "distinct xs" and inj: "inj_on f (set xs)"
  shows "sort_key f xs = h # sort_key f (remove1 h xs)"
proof (rule sorted_key_unique)
  show "sorted (map f (h # sort_key f (remove1 h xs)))"
    using h d by (auto simp: set_remove1_eq)
  show "inj_on f (set (sort_key f xs))" using inj by simp
qed (use h d in \<open>auto simp: set_remove1_eq\<close>)

lemma arg_min_list_least: "x \<in> set xs \<Longrightarrow> f (arg_min_list f xs) \<le> (f x :: 'b :: linorder)"
proof -
  assume x: "x \<in> set xs"
  then have "f (arg_min_list f xs) = Min (f ` set xs)" by (intro f_arg_min_list_f) auto
  also have "\<dots> \<le> f x" using x by simp
  finally show ?thesis .
qed

section \<open>Unicode text\<close>

text \<open>A text of the code where single code points matter; \<open>points\<close> are those of an ASCII literal.\<close>

type_synonym utext = "nat list"

definition points :: "string \<Rightarrow> utext" where "points s = map of_char s"

lemma points_inject [simp]: "points s = points t \<longleftrightarrow> s = t"
  by (simp add: points_def inj_map_eq_map inj_on_def)

section \<open>Step systems\<close>

locale transition_system =
  fixes init :: "'s \<Rightarrow> bool"
    and step :: "'s \<Rightarrow> 's \<Rightarrow> bool"
    and inv :: "'s \<Rightarrow> bool"
  assumes inv_init: "init s \<Longrightarrow> inv s"
    and inv_step: "inv s \<Longrightarrow> step s t \<Longrightarrow> inv t"
begin

lemma inv_steps: "step\<^sup>*\<^sup>* s t \<Longrightarrow> inv s \<Longrightarrow> inv t"
  by (induction rule: rtranclp_induct) (auto intro: inv_step)

lemma inv_reachable: "init s \<Longrightarrow> step\<^sup>*\<^sup>* s t \<Longrightarrow> inv t"
  by (blast intro: inv_init inv_steps)

end

end
