(* ===== verification/Autosave.thy ===== *)
theory Autosave
  imports Prelude
begin

text \<open>
  The autosave component, \<open>app/autosave\<close>.

  \<^item> \<open>dirty_state.py\<close>: the tracker, a dictionary from document ids to the latest content,
    its generation and its save status (\<open>mark_dirty\<close>, \<open>mark_saving\<close>, \<open>mark_saved\<close>,
    \<open>mark_failed\<close>, \<open>dirty_documents\<close>).
  \<^item> \<open>scheduler.py\<close>: the deterministic scheduler (\<open>call_later\<close>, \<open>cancel\<close>, \<open>advance\<close>).
    Times are rationals; the code uses floats, whose rounding is not modelled. The heap is a
    list from which the least handle by (due, order) is taken, which is what \<open>heappop\<close>
    returns. \<open>advance\<close> is a \<open>partial_function\<close>, because callbacks may schedule for ever.
  \<^item> \<open>coordinator.py\<close>: the save coordinator. \<open>flush\<close> is cut at the points where another
    thread may run, that is, into its lock-protected sections and the call of the save
    function; each section is one definition on the shared state, and the program counter
    \<open>pc\<close> says which section a thread runs next. \<open>run_flush\<close> composes the sections for one
    thread without interference; the theory \<open>Autosave_Threads\<close> interleaves them.

  Not modelled: \<open>durable.py\<close>, the adapter that turns editor generations into repository versions
  (it is one possible save function, and here the save function is arbitrary), logging (its failures are swallowed by the code) and the exception object
  kept in \<open>SaveFailure.cause\<close>. Observer calls are recorded in \<open>co_observed\<close>; an observer's
  exceptions are swallowed by the code as well.
\<close>

section \<open>Contracts\<close>

datatype save_status = SAVING | SAVED | UNSAVED | FAILED

datatype flush_reason =
  IDLE | PERIODIC | FOCUS_LOSS | DOCUMENT_SWITCH | CHAPTER_SWITCH | APPLICATION_CLOSE | EXPLICIT

record save_failure =
  sf_message :: string
  sf_retryable :: bool

record save_observation =
  so_document_id :: string
  so_status :: save_status
  so_generation :: nat
  so_reason :: "flush_reason option"
  so_failure :: "save_failure option"

section \<open>The dirty-state tracker\<close>

record 'c document_state =
  ds_document_id :: string
  ds_content :: 'c
  ds_generation :: nat
  ds_status :: save_status
  ds_failure :: "save_failure option"

type_synonym 'c tracker = "(string, 'c document_state) dict"

definition dirty :: "'c document_state \<Rightarrow> bool" where
  "dirty st \<longleftrightarrow> ds_status st \<noteq> SAVED"

definition mark_dirty :: "'c tracker \<Rightarrow> string \<Rightarrow> 'c \<Rightarrow> 'c tracker \<times> 'c document_state" where
  "mark_dirty tr d content =
     (let previous = dget tr d;
          generation = (case previous of None \<Rightarrow> 1 | Some st \<Rightarrow> ds_generation st + 1);
          state = \<lparr>ds_document_id = d, ds_content = content, ds_generation = generation,
                   ds_status = UNSAVED, ds_failure = None\<rparr>
      in (dset tr d state, state))"

definition transition_doc :: "'c tracker \<Rightarrow> string \<Rightarrow> nat \<Rightarrow> save_status \<Rightarrow> save_failure option
    \<Rightarrow> 'c tracker \<times> 'c document_state option" where
  "transition_doc tr d generation status failure =
     (case dget tr d of
        None \<Rightarrow> (tr, None)
      | Some current \<Rightarrow>
          if ds_generation current \<noteq> generation then (tr, None)
          else let state = \<lparr>ds_document_id = d, ds_content = ds_content current,
                            ds_generation = generation, ds_status = status,
                            ds_failure = failure\<rparr>
               in (dset tr d state, Some state))"

definition mark_saving :: "'c tracker \<Rightarrow> string \<Rightarrow> nat \<Rightarrow> 'c tracker \<times> 'c document_state option" where
  "mark_saving tr d g = transition_doc tr d g SAVING None"

definition mark_saved :: "'c tracker \<Rightarrow> string \<Rightarrow> nat \<Rightarrow> 'c tracker \<times> 'c document_state option" where
  "mark_saved tr d g = transition_doc tr d g SAVED None"

definition mark_failed :: "'c tracker \<Rightarrow> string \<Rightarrow> nat \<Rightarrow> save_failure
    \<Rightarrow> 'c tracker \<times> 'c document_state option" where
  "mark_failed tr d g f = transition_doc tr d g FAILED (Some f)"

definition dirty_documents :: "'c tracker \<Rightarrow> string list" where
  "dirty_documents tr = map fst (filter (\<lambda>(k, st). dirty st) tr)"

lemmas tracker_defs = mark_saving_def mark_saved_def mark_failed_def transition_doc_def

lemma dget_mark_dirty:
  "dget (fst (mark_dirty tr d content)) d' =
     (if d' = d then Some (snd (mark_dirty tr d content)) else dget tr d')"
  by (simp add: mark_dirty_def Let_def)

lemma mark_dirty_state:
  "ds_content (snd (mark_dirty tr d content)) = content"
  "ds_status (snd (mark_dirty tr d content)) = UNSAVED"
  "ds_generation (snd (mark_dirty tr d content)) =
     (case dget tr d of None \<Rightarrow> 1 | Some st \<Rightarrow> ds_generation st + 1)"
  by (simp_all add: mark_dirty_def Let_def)

lemma dget_transition_doc:
  "dget (fst (transition_doc tr d g status failure)) d' =
     (case dget tr d' of None \<Rightarrow> None
      | Some st \<Rightarrow> Some (if d' = d \<and> ds_generation st = g
          then \<lparr>ds_document_id = d, ds_content = ds_content st, ds_generation = g,
                ds_status = status, ds_failure = failure\<rparr>
          else st))"
  by (auto simp: transition_doc_def Let_def split: option.splits)

lemma transition_doc_stale:
  "dget tr d = Some st \<Longrightarrow> ds_generation st \<noteq> g \<Longrightarrow> transition_doc tr d g status failure = (tr, None)"
  by (simp add: transition_doc_def)

section \<open>The deterministic scheduler\<close>

record 'cb fake_handle =
  fh_due :: rat
  fh_order :: nat
  fh_callback :: 'cb
  fh_cancelled :: bool

record 'cb fake_scheduler =
  fs_now :: rat
  fs_queue :: "'cb fake_handle list"
  fs_orders :: nat

definition empty_scheduler :: "'cb fake_scheduler" where
  "empty_scheduler = \<lparr>fs_now = 0, fs_queue = [], fs_orders = 0\<rparr>"

definition call_later :: "'cb fake_scheduler \<Rightarrow> rat \<Rightarrow> 'cb \<Rightarrow> 'cb fake_scheduler \<times> nat" where
  "call_later s delay cb =
     (let handle = \<lparr>fh_due = fs_now s + max 0 delay, fh_order = fs_orders s,
                    fh_callback = cb, fh_cancelled = False\<rparr>
      in (s\<lparr>fs_queue := fs_queue s @ [handle], fs_orders := fs_orders s + 1\<rparr>, fs_orders s))"

text \<open>A handle is named by its order number, which \<open>itertools.count\<close> never reuses.\<close>

definition cancel :: "'cb fake_scheduler \<Rightarrow> nat \<Rightarrow> 'cb fake_scheduler" where
  "cancel s n = s\<lparr>fs_queue := map (\<lambda>h. if fh_order h = n then h\<lparr>fh_cancelled := True\<rparr> else h)
                               (fs_queue s)\<rparr>"

definition heap_top :: "'cb fake_scheduler \<Rightarrow> 'cb fake_handle option" where
  "heap_top s = (case fs_queue s of [] \<Rightarrow> None
     | h # hs \<Rightarrow> Some (arg_min_list (\<lambda>h. (fh_due h, fh_order h)) (h # hs)))"

definition heappop :: "'cb fake_scheduler \<Rightarrow> 'cb fake_handle \<Rightarrow> 'cb fake_scheduler" where
  "heappop s h = s\<lparr>fs_queue := remove1 h (fs_queue s), fs_now := fh_due h\<rparr>"

text \<open>
  \<open>advance\<close>: \<open>run\<close> is what invoking a callback does to the scheduler and the rest of the
  world. \<open>None\<close> is a loop that never ends.
\<close>

partial_function (option) advance_loop ::
    "('cb \<Rightarrow> 'cb fake_scheduler \<times> 'w \<Rightarrow> 'cb fake_scheduler \<times> 'w) \<Rightarrow> rat
      \<Rightarrow> 'cb fake_scheduler \<times> 'w \<Rightarrow> ('cb fake_scheduler \<times> 'w) option" where
  "advance_loop run target sw =
     (case heap_top (fst sw) of
        None \<Rightarrow> Some ((fst sw)\<lparr>fs_now := target\<rparr>, snd sw)
      | Some h \<Rightarrow>
          if fh_due h \<le> target then
            advance_loop run target
              (if fh_cancelled h then (heappop (fst sw) h, snd sw)
               else run (fh_callback h) (heappop (fst sw) h, snd sw))
          else Some ((fst sw)\<lparr>fs_now := target\<rparr>, snd sw))"

definition advance :: "('cb \<Rightarrow> 'cb fake_scheduler \<times> 'w \<Rightarrow> 'cb fake_scheduler \<times> 'w) \<Rightarrow> rat
      \<Rightarrow> 'cb fake_scheduler \<times> 'w \<Rightarrow> ('cb fake_scheduler \<times> 'w) option" where
  "advance run seconds sw = advance_loop run (fs_now (fst sw) + seconds) sw"

text \<open>What \<open>advance\<close> does when the callbacks do not touch the scheduler: it returns, and it has
  invoked the handles that were due and not cancelled, in the order of (due, order).\<close>

definition due_key :: "'cb fake_handle \<Rightarrow> rat \<times> nat" where
  "due_key h = (fh_due h, fh_order h)"

lemma heap_top_least:
  assumes "heap_top s = Some h"
  shows "h \<in> set (fs_queue s)" and "x \<in> set (fs_queue s) \<Longrightarrow> due_key h \<le> due_key x"
proof -
  obtain y ys where q: "fs_queue s = y # ys" using assms by (auto simp: heap_top_def split: list.splits)
  then have h: "h = arg_min_list due_key (fs_queue s)"
    using assms by (simp add: heap_top_def due_key_def [abs_def])
  show "h \<in> set (fs_queue s)" unfolding h by (rule arg_min_list_in) (simp add: q)
  show "x \<in> set (fs_queue s) \<Longrightarrow> due_key h \<le> due_key x"
    unfolding h by (rule arg_min_list_least)
qed

lemma due_key_inj: "distinct (map fh_order q) \<Longrightarrow> inj_on due_key (set q)"
  by (auto simp: inj_on_def due_key_def distinct_map)

lemma advance_loop_collect:
  assumes "distinct (map fh_order (fs_queue s))"
  shows "advance_loop (\<lambda>cb sw. (fst sw, snd sw @ [cb])) T (s, w) =
     Some (s\<lparr>fs_now := T, fs_queue := filter (\<lambda>h. T < fh_due h) (fs_queue s)\<rparr>,
       w @ map fh_callback (filter (\<lambda>h. \<not> fh_cancelled h)
         (sort_key due_key (filter (\<lambda>h. fh_due h \<le> T) (fs_queue s)))))"
  using assms
proof (induction "length (fs_queue s)" arbitrary: s w rule: less_induct)
  case less
  show ?case
  proof (cases "heap_top s")
    case None
    then have "fs_queue s = []" by (simp add: heap_top_def split: list.splits)
    then show ?thesis using None by (subst advance_loop.simps) simp
  next
    case (Some h)
    note top = heap_top_least [OF Some]
    let ?q = "fs_queue s" and ?s = "heappop s h"
    let ?w = "if fh_cancelled h then w else w @ [fh_callback h]"
    show ?thesis
    proof (cases "fh_due h \<le> T")
      case False
      have "T < fh_due x" if "x \<in> set ?q" for x
        using top(2) [OF that] False by (auto simp: due_key_def less_eq_prod_def)
      then have "filter (\<lambda>h. T < fh_due h) ?q = ?q" "filter (\<lambda>h. fh_due h \<le> T) ?q = []"
        by (auto simp: filter_id_conv filter_empty_conv not_le)
      then show ?thesis using Some False by (subst advance_loop.simps) simp
    next
      case True
      have d: "distinct ?q" "distinct (map fh_order (fs_queue ?s))"
        using less.prems top(1)
        by (auto simp: distinct_map heappop_def set_remove1_eq inj_on_def)
      have step: "advance_loop (\<lambda>cb sw. (fst sw, snd sw @ [cb])) T (s, w) =
          advance_loop (\<lambda>cb sw. (fst sw, snd sw @ [cb])) T (?s, ?w)"
        using Some True by (subst advance_loop.simps) auto
      have len: "length (fs_queue ?s) < length ?q"
        using top(1) length_pos_if_in_set [OF top(1)] by (simp add: heappop_def length_remove1)
      have gt: "filter (\<lambda>h. T < fh_due h) (fs_queue ?s) = filter (\<lambda>h. T < fh_due h) ?q"
        using True by (simp add: heappop_def filter_remove1 remove1_idem not_less)
      have "sort_key due_key (filter (\<lambda>h. fh_due h \<le> T) ?q) =
          h # sort_key due_key (remove1 h (filter (\<lambda>h. fh_due h \<le> T) ?q))"
        by (rule sort_key_least_first)
          (use top d(1) True due_key_inj [OF less.prems] in \<open>auto intro: inj_on_subset\<close>)
      then have le: "sort_key due_key (filter (\<lambda>h. fh_due h \<le> T) ?q) =
          h # sort_key due_key (filter (\<lambda>h. fh_due h \<le> T) (fs_queue ?s))"
        by (simp add: heappop_def filter_remove1)
      show ?thesis unfolding step less.hyps [OF len d(2)] gt le by (simp add: heappop_def)
    qed
  qed
qed

text \<open>the deterministic scheduler ends and fires exactly the due handles that were not
  cancelled, in the order of their due time and, among equals, of their scheduling.\<close>

theorem advance_fires_in_order:
  assumes "distinct (map fh_order (fs_queue s))"
  shows "advance (\<lambda>cb sw. (fst sw, snd sw @ [cb])) seconds (s, []) =
     Some (s\<lparr>fs_now := fs_now s + seconds,
             fs_queue := filter (\<lambda>h. fs_now s + seconds < fh_due h) (fs_queue s)\<rparr>,
       map fh_callback (filter (\<lambda>h. \<not> fh_cancelled h)
         (sort_key due_key (filter (\<lambda>h. fh_due h \<le> fs_now s + seconds) (fs_queue s)))))"
  using advance_loop_collect [OF assms] by (simp add: advance_def)

theorem advance_fires_in_order_witness:
  "map_option snd (advance (\<lambda>cb sw. (fst sw, snd sw @ [cb])) 5
     (fst (call_later (cancel (fst (call_later (fst (call_later empty_scheduler 3 (1 :: nat))) 1 2)) 0)
        2 3), [])) = Some [2, 3]"
  by (subst advance_fires_in_order)
    (simp_all add: call_later_def cancel_def empty_scheduler_def due_key_def)

section \<open>The save coordinator\<close>

datatype timer = Flush_Idle string | Periodic_Tick

record config =
  cf_idle_debounce :: rat
  cf_periodic_interval :: "rat option"

record 'c coordinator =
  co_tracker :: "'c tracker"
  co_config :: config
  co_idle :: "(string, nat) dict"
  co_saving :: "string set"
  co_pending :: "string set"
  co_closed :: bool
  co_periodic :: "nat option"
  co_scheduler :: "timer fake_scheduler"
  co_observed :: "save_observation list"

datatype autosave_error = ValueError_intervals | RuntimeError_closed | RuntimeError_untracked

definition schedule_periodic :: "'c coordinator \<Rightarrow> 'c coordinator" where
  "schedule_periodic c =
     (let (sch, h) = call_later (co_scheduler c) (the (cf_periodic_interval (co_config c)))
                       Periodic_Tick
      in c\<lparr>co_scheduler := sch, co_periodic := Some h\<rparr>)"

definition coordinator_init :: "config \<Rightarrow> timer fake_scheduler \<Rightarrow> 'c tracker
    \<Rightarrow> autosave_error + 'c coordinator" where
  "coordinator_init cf sch tr =
     (if cf_idle_debounce cf < 0
          \<or> (case cf_periodic_interval cf of None \<Rightarrow> False | Some p \<Rightarrow> p \<le> 0)
      then Inl ValueError_intervals
      else let c = \<lparr>co_tracker = tr, co_config = cf, co_idle = [], co_saving = {},
                    co_pending = {}, co_closed = False, co_periodic = None,
                    co_scheduler = sch, co_observed = []\<rparr>
           in Inr (if cf_periodic_interval cf = None then c else schedule_periodic c))"

definition emit :: "'c coordinator \<Rightarrow> string \<Rightarrow> save_status \<Rightarrow> nat \<Rightarrow> flush_reason option
    \<Rightarrow> save_failure option \<Rightarrow> 'c coordinator" where
  "emit c d status g reason failure =
     c\<lparr>co_observed := co_observed c @ [\<lparr>so_document_id = d, so_status = status,
        so_generation = g, so_reason = reason, so_failure = failure\<rparr>]\<rparr>"

text \<open>\<open>handle = self._idle.pop(document_id, None); if handle: handle.cancel()\<close>\<close>

definition cancel_idle :: "'c coordinator \<Rightarrow> string \<Rightarrow> 'c coordinator" where
  "cancel_idle c d =
     (case dget (co_idle c) d of
        None \<Rightarrow> c
      | Some h \<Rightarrow> c\<lparr>co_idle := dpop (co_idle c) d, co_scheduler := cancel (co_scheduler c) h\<rparr>)"

text \<open>\<open>content_changed\<close>: the first locked section marks the document dirty (the observer is
  told after the lock is left), the second one replaces the idle timer.\<close>

definition content_changed_mark :: "'c coordinator \<Rightarrow> string \<Rightarrow> 'c
    \<Rightarrow> autosave_error + 'c coordinator \<times> nat" where
  "content_changed_mark c d content =
     (if co_closed c then Inl RuntimeError_closed
      else let (tr, st) = mark_dirty (co_tracker c) d content
           in Inr (emit (c\<lparr>co_tracker := tr\<rparr>) d UNSAVED (ds_generation st) None None,
                   ds_generation st))"

definition content_changed_schedule :: "'c coordinator \<Rightarrow> string \<Rightarrow> 'c coordinator" where
  "content_changed_schedule c d =
     (let c = cancel_idle c d
      in if co_closed c then c
         else let (sch, h) = call_later (co_scheduler c) (cf_idle_debounce (co_config c))
                               (Flush_Idle d)
              in c\<lparr>co_scheduler := sch, co_idle := dset (co_idle c) d h\<rparr>)"

definition content_changed :: "'c coordinator \<Rightarrow> string \<Rightarrow> 'c
    \<Rightarrow> autosave_error + 'c coordinator \<times> nat" where
  "content_changed c d content =
     sbind (content_changed_mark c d content)
       (\<lambda>(c, g). Inr (content_changed_schedule c d, g))"

text \<open>The program points of \<open>flush\<close> between two sections.\<close>

datatype 'c pc =
  Enter string
| Loop_Head string
| Got string nat 'c
| Save_Call string nat 'c
| Save_Ok string nat
| Save_Raised string nat save_failure
| After_Ok string
| Latest string bool
| Leave string bool
| Result string bool
| Done bool

definition flush_enter :: "'c coordinator \<Rightarrow> string \<Rightarrow> 'c coordinator \<times> 'c pc" where
  "flush_enter c d =
     (let c = cancel_idle c d
      in if d \<in> co_saving c then (c\<lparr>co_pending := insert d (co_pending c)\<rparr>, Done False)
         else case dget (co_tracker c) d of
           None \<Rightarrow> (c, Done True)
         | Some st \<Rightarrow> if \<not> dirty st then (c, Done True)
                      else (c\<lparr>co_saving := insert d (co_saving c)\<rparr>, Loop_Head d))"

definition flush_read :: "'c coordinator \<Rightarrow> string \<Rightarrow> 'c pc" where
  "flush_read c d =
     (case dget (co_tracker c) d of
        None \<Rightarrow> Leave d True
      | Some st \<Rightarrow> if \<not> dirty st then Leave d True
                   else Got d (ds_generation st) (ds_content st))"

definition flush_mark_saving :: "'c coordinator \<Rightarrow> flush_reason \<Rightarrow> string \<Rightarrow> nat \<Rightarrow> 'c coordinator" where
  "flush_mark_saving c reason d g =
     (let (tr, marked) = mark_saving (co_tracker c) d g; c = c\<lparr>co_tracker := tr\<rparr>
      in if marked = None then c else emit c d SAVING g (Some reason) None)"

definition flush_save_failed :: "'c coordinator \<Rightarrow> flush_reason \<Rightarrow> string \<Rightarrow> nat \<Rightarrow> save_failure
    \<Rightarrow> 'c coordinator" where
  "flush_save_failed c reason d g failure =
     (let (tr, failed) = mark_failed (co_tracker c) d g failure; c = c\<lparr>co_tracker := tr\<rparr>
      in if failed = None then c else emit c d FAILED g (Some reason) (Some failure))"

definition flush_save_ok :: "'c coordinator \<Rightarrow> flush_reason \<Rightarrow> string \<Rightarrow> nat \<Rightarrow> 'c coordinator" where
  "flush_save_ok c reason d g =
     (let (tr, saved) = mark_saved (co_tracker c) d g; c = c\<lparr>co_tracker := tr\<rparr>
      in if saved = None then c else emit c d SAVED g (Some reason) None)"

definition flush_pending :: "'c coordinator \<Rightarrow> string \<Rightarrow> 'c coordinator \<times> bool" where
  "flush_pending c d = (c\<lparr>co_pending := co_pending c - {d}\<rparr>, d \<in> co_pending c)"

definition flush_latest :: "'c coordinator \<Rightarrow> string \<Rightarrow> bool \<Rightarrow> 'c pc" where
  "flush_latest c d pending =
     (if \<not> pending \<and> (case dget (co_tracker c) d of None \<Rightarrow> True | Some st \<Rightarrow> \<not> dirty st)
      then Leave d True else Loop_Head d)"

definition flush_leave :: "'c coordinator \<Rightarrow> string \<Rightarrow> 'c coordinator" where
  "flush_leave c d = c\<lparr>co_saving := co_saving c - {d}\<rparr>"

definition flush_result :: "'c coordinator \<Rightarrow> string \<Rightarrow> bool \<Rightarrow> bool" where
  "flush_result c d all_saved =
     (all_saved \<and> \<not> (case dget (co_tracker c) d of None \<Rightarrow> False | Some st \<Rightarrow> dirty st))"

text \<open>
  One section of \<open>flush\<close>. \<open>Save_Call\<close> is the call of the save function, which is not under
  the coordinator's control: its outcome is the argument \<open>outcome\<close> (\<open>None\<close> is a normal return,
  \<open>Some f\<close> a raised exception, already turned into a \<open>SaveFailure\<close>).
\<close>

fun flush_section :: "save_failure option \<Rightarrow> flush_reason \<Rightarrow> 'c coordinator \<Rightarrow> 'c pc
    \<Rightarrow> 'c coordinator \<times> 'c pc" where
  "flush_section r reason c (Enter d) = flush_enter c d"
| "flush_section r reason c (Loop_Head d) = (c, flush_read c d)"
| "flush_section r reason c (Got d g x) = (flush_mark_saving c reason d g, Save_Call d g x)"
| "flush_section r reason c (Save_Call d g x) =
     (c, case r of None \<Rightarrow> Save_Ok d g | Some f \<Rightarrow> Save_Raised d g f)"
| "flush_section r reason c (Save_Raised d g f) = (flush_save_failed c reason d g f, Leave d False)"
| "flush_section r reason c (Save_Ok d g) = (flush_save_ok c reason d g, After_Ok d)"
| "flush_section r reason c (After_Ok d) =
     (let (c, pending) = flush_pending c d in (c, Latest d pending))"
| "flush_section r reason c (Latest d pending) = (c, flush_latest c d pending)"
| "flush_section r reason c (Leave d all_saved) = (flush_leave c d, Result d all_saved)"
| "flush_section r reason c (Result d all_saved) = (c, Done (flush_result c d all_saved))"
| "flush_section r reason c (Done b) = (c, Done b)"

text \<open>
  \<open>flush\<close> run by one thread, with no other thread in between and a save function that does
  not call back into the coordinator: \<open>save d content generation\<close> is its outcome. The fuel
  counts sections; \<open>flush_total\<close> below shows that ten are always enough.
\<close>

fun run_flush :: "nat \<Rightarrow> (string \<Rightarrow> 'c \<Rightarrow> nat \<Rightarrow> save_failure option) \<Rightarrow> flush_reason
    \<Rightarrow> 'c coordinator \<Rightarrow> 'c pc \<Rightarrow> ('c coordinator \<times> bool) option" where
  "run_flush fuel save reason c (Done b) = Some (c, b)"
| "run_flush 0 save reason c p = None"
| "run_flush (Suc fuel) save reason c p =
     (let r = (case p of Save_Call d g x \<Rightarrow> save d x g | _ \<Rightarrow> None);
          (c', p') = flush_section r reason c p
      in run_flush fuel save reason c' p')"

definition flush :: "(string \<Rightarrow> 'c \<Rightarrow> nat \<Rightarrow> save_failure option) \<Rightarrow> 'c coordinator \<Rightarrow> string
    \<Rightarrow> flush_reason \<Rightarrow> ('c coordinator \<times> bool) option" where
  "flush save c d reason = run_flush 10 save reason c (Enter d)"

fun flush_each :: "(string \<Rightarrow> 'c \<Rightarrow> nat \<Rightarrow> save_failure option) \<Rightarrow> flush_reason
    \<Rightarrow> string list \<Rightarrow> bool \<Rightarrow> 'c coordinator \<Rightarrow> ('c coordinator \<times> bool) option" where
  "flush_each save reason [] acc c = Some (c, acc)"
| "flush_each save reason (d # ds) acc c =
     (case flush save c d reason of
        None \<Rightarrow> None
      | Some (c', ok) \<Rightarrow> flush_each save reason ds (acc \<and> ok) c')"

definition flush_all :: "(string \<Rightarrow> 'c \<Rightarrow> nat \<Rightarrow> save_failure option) \<Rightarrow> 'c coordinator
    \<Rightarrow> flush_reason \<Rightarrow> ('c coordinator \<times> bool) option" where
  "flush_all save c reason = flush_each save reason (dirty_documents (co_tracker c)) True c"

definition on_focus_loss where "on_focus_loss save c d = flush save c d FOCUS_LOSS"
definition on_document_switch where "on_document_switch save c d = flush save c d DOCUMENT_SWITCH"
definition on_chapter_switch where "on_chapter_switch save c d = flush save c d CHAPTER_SWITCH"

definition close_section :: "'c coordinator \<Rightarrow> 'c coordinator" where
  "close_section c =
     c\<lparr>co_closed := True,
       co_scheduler := (case co_periodic c of None \<Rightarrow> co_scheduler c
                        | Some h \<Rightarrow> cancel (co_scheduler c) h)\<rparr>"

definition on_application_close :: "(string \<Rightarrow> 'c \<Rightarrow> nat \<Rightarrow> save_failure option)
    \<Rightarrow> 'c coordinator \<Rightarrow> ('c coordinator \<times> bool) option" where
  "on_application_close save c = flush_all save (close_section c) APPLICATION_CLOSE"

definition tick_reschedule :: "'c coordinator \<Rightarrow> 'c coordinator" where
  "tick_reschedule c = (if co_closed c then c else schedule_periodic c)"

definition periodic_tick :: "(string \<Rightarrow> 'c \<Rightarrow> nat \<Rightarrow> save_failure option)
    \<Rightarrow> 'c coordinator \<Rightarrow> 'c coordinator option" where
  "periodic_tick save c = map_option (\<lambda>(c, _). tick_reschedule c) (flush_all save c PERIODIC)"

section \<open>What one flush does\<close>

lemma cancel_idle_frame [simp]:
  "co_tracker (cancel_idle c d) = co_tracker c"
  "co_saving (cancel_idle c d) = co_saving c"
  "co_pending (cancel_idle c d) = co_pending c"
  "co_closed (cancel_idle c d) = co_closed c"
  "co_config (cancel_idle c d) = co_config c"
  "co_periodic (cancel_idle c d) = co_periodic c"
  "co_observed (cancel_idle c d) = co_observed c"
  by (simp_all add: cancel_idle_def split: option.splits)

lemma cancel_idle_gone: "dget (co_idle (cancel_idle c d)) d = None"
  by (simp add: cancel_idle_def split: option.splits)

text \<open>The state a flush leaves behind, written without the loop.\<close>

definition settled :: "'c document_state \<Rightarrow> string \<Rightarrow> save_status \<Rightarrow> save_failure option
    \<Rightarrow> 'c document_state" where
  "settled st d status failure = \<lparr>ds_document_id = d, ds_content = ds_content st,
     ds_generation = ds_generation st, ds_status = status, ds_failure = failure\<rparr>"

definition flush_obs :: "string \<Rightarrow> 'c document_state \<Rightarrow> flush_reason \<Rightarrow> save_status
    \<Rightarrow> save_failure option \<Rightarrow> save_observation" where
  "flush_obs d st reason status failure = \<lparr>so_document_id = d, so_status = status,
     so_generation = ds_generation st, so_reason = Some reason, so_failure = failure\<rparr>"

definition flush_spec :: "(string \<Rightarrow> 'c \<Rightarrow> nat \<Rightarrow> save_failure option) \<Rightarrow> 'c coordinator \<Rightarrow> string
    \<Rightarrow> flush_reason \<Rightarrow> 'c coordinator \<times> bool" where
  "flush_spec save c d reason =
     (let c1 = cancel_idle c d in
      if d \<in> co_saving c then (c1\<lparr>co_pending := insert d (co_pending c)\<rparr>, False)
      else case dget (co_tracker c) d of
        None \<Rightarrow> (c1, True)
      | Some st \<Rightarrow>
          if ds_status st = SAVED then (c1, True)
          else case save d (ds_content st) (ds_generation st) of
            None \<Rightarrow>
              (c1\<lparr>co_tracker := dset (co_tracker c) d (settled st d SAVED None),
                  co_pending := co_pending c - {d},
                  co_observed := co_observed c @
                    [flush_obs d st reason SAVING None, flush_obs d st reason SAVED None]\<rparr>, True)
          | Some f \<Rightarrow>
              (c1\<lparr>co_tracker := dset (co_tracker c) d (settled st d FAILED (Some f)),
                  co_observed := co_observed c @
                    [flush_obs d st reason SAVING None, flush_obs d st reason FAILED (Some f)]\<rparr>,
               False))"

lemma dset_dset [simp]: "dset (dset t k v) k w = dset t k w"
  by (induction t) auto

lemmas flush_sections = flush_enter_def flush_read_def flush_mark_saving_def
  flush_save_failed_def flush_save_ok_def flush_pending_def flush_latest_def flush_leave_def
  flush_result_def

lemma run_flush_step:
  "\<forall>b. p \<noteq> Done b \<Longrightarrow> run_flush (Suc fuel) save reason c p =
     (let r = (case p of Save_Call d g x \<Rightarrow> save d x g | _ \<Rightarrow> None)
      in case flush_section r reason c p of (c', p') \<Rightarrow> run_flush fuel save reason c' p')"
  by (cases p) simp_all

lemma flush_unfold:
  "flush save c d reason = run_flush (Suc (Suc (Suc (Suc (Suc (Suc (Suc (Suc (Suc (Suc 0))))))))))
     save reason c (Enter d)"
  by (simp add: flush_def numeral_eq_Suc)

lemma flush_is_spec: "flush save c d reason = Some (flush_spec save c d reason)"
proof (cases "d \<in> co_saving c \<or> (\<forall>st. dget (co_tracker c) d = Some st \<longrightarrow> ds_status st = SAVED)")
  case True
  then show ?thesis
    by (auto simp: flush_unfold flush_spec_def flush_enter_def dirty_def Let_def split: option.splits)
next
  case False
  then obtain st where st: "dget (co_tracker c) d = Some st" "ds_status st \<noteq> SAVED"
    and nd: "d \<notin> co_saving c" by auto
  let ?out = "save d (ds_content st) (ds_generation st)"
  show ?thesis
  proof (cases ?out)
    case None
    then show ?thesis using st nd
      by (simp add: flush_unfold flush_spec_def flush_sections dirty_def tracker_defs emit_def
        settled_def flush_obs_def Let_def)
  next
    case (Some f)
    then show ?thesis using st nd
      by (simp add: flush_unfold flush_spec_def flush_sections dirty_def tracker_defs emit_def
        settled_def flush_obs_def Let_def)
  qed
qed

section \<open>Flushing every document\<close>

lemma flush_spec_frame:
  assumes "flush_spec save c d reason = (c', ok)"
  shows "d' \<noteq> d \<Longrightarrow> dget (co_tracker c') d' = dget (co_tracker c) d'"
    and "ok \<Longrightarrow> dget (co_tracker c') d = Some st \<Longrightarrow> ds_status st = SAVED"
    and "distinct (dkeys (co_tracker c)) \<Longrightarrow> distinct (dkeys (co_tracker c'))"
    and "co_closed c' = co_closed c"
    and "co_saving c' = co_saving c"
  using assms
  by (auto simp: flush_spec_def settled_def Let_def split: if_splits option.splits)

lemma dirty_documents_iff:
  "distinct (dkeys tr) \<Longrightarrow>
     d \<in> set (dirty_documents tr) \<longleftrightarrow> (\<exists>st. dget tr d = Some st \<and> ds_status st \<noteq> SAVED)"
  by (force simp: dirty_documents_def dirty_def dest: map_of_SomeD intro: map_of_is_SomeI)

lemma flush_each_total: "\<exists>c' ok. flush_each save reason ds acc c = Some (c', ok)"
  by (induction save reason ds acc c rule: flush_each.induct)
    (auto simp: flush_is_spec split: prod.splits)

lemma flush_each_clean:
  assumes "flush_each save reason ds acc c = Some (c', True)"
    and "distinct (dkeys (co_tracker c))"
    and "\<And>d st. dget (co_tracker c) d = Some st \<Longrightarrow> ds_status st \<noteq> SAVED \<Longrightarrow> d \<in> set ds"
  shows "acc \<and> distinct (dkeys (co_tracker c')) \<and> co_closed c' = co_closed c \<and>
     (\<forall>d st. dget (co_tracker c') d = Some st \<longrightarrow> ds_status st = SAVED)"
  using assms
proof (induction ds arbitrary: acc c)
  case Nil
  then show ?case by auto
next
  case (Cons d ds)
  obtain c1 ok where f: "flush_spec save c d reason = (c1, ok)" by force
  have rest: "flush_each save reason ds (acc \<and> ok) c1 = Some (c', True)"
    using Cons.prems(1) by (simp add: flush_is_spec f)
  have dist: "distinct (dkeys (co_tracker c1))"
    using flush_spec_frame(3) [OF f] Cons.prems(2) by simp
  have ok: "ok"
  proof (rule ccontr)
    assume "\<not> ok"
    then have "flush_each save reason ds False c1 = Some (c', True)" using rest by simp
    moreover have "\<And>ds c. flush_each save reason ds False c \<noteq> Some (c', True)"
    proof -
      fix ds c show "flush_each save reason ds False c \<noteq> Some (c', True)"
        by (induction ds arbitrary: c) (auto simp: flush_is_spec split: prod.splits)
    qed
    ultimately show False by blast
  qed
  have "acc \<and> ok \<and> distinct (dkeys (co_tracker c')) \<and> co_closed c' = co_closed c1 \<and>
     (\<forall>d st. dget (co_tracker c') d = Some st \<longrightarrow> ds_status st = SAVED)"
  proof -
    have "\<And>d' st. dget (co_tracker c1) d' = Some st \<Longrightarrow> ds_status st \<noteq> SAVED \<Longrightarrow> d' \<in> set ds"
    proof -
      fix d' st
      assume a: "dget (co_tracker c1) d' = Some st" "ds_status st \<noteq> SAVED"
      then have "d' \<noteq> d" using flush_spec_frame(2) [OF f ok] by auto
      with a have "dget (co_tracker c) d' = Some st" using flush_spec_frame(1) [OF f] by simp
      then show "d' \<in> set ds" using Cons.prems(3) a(2) \<open>d' \<noteq> d\<close> by force
    qed
    then show ?thesis using Cons.IH [OF rest dist] by simp
  qed
  then show ?case using flush_spec_frame(4) [OF f] by simp
qed

text \<open>C17: closing the application always returns; when it answers True, no document is left
  dirty, and the coordinator refuses every later edit.\<close>

theorem close_saves_everything:
  assumes "distinct (dkeys (co_tracker c))"
  shows "\<exists>c' ok. on_application_close save c = Some (c', ok) \<and> co_closed c' \<and>
     (ok \<longrightarrow> dirty_documents (co_tracker c') = []) \<and>
     content_changed c' d content = Inl RuntimeError_closed"
proof -
  let ?ds = "dirty_documents (co_tracker c)" and ?c = "close_section c"
  obtain c' ok where r: "flush_each save APPLICATION_CLOSE ?ds True ?c = Some (c', ok)"
    using flush_each_total by blast
  have closed: "co_closed c'"
  proof -
    have "\<And>ds acc c. flush_each save APPLICATION_CLOSE ds acc c = Some (c', ok) \<Longrightarrow>
        co_closed c \<Longrightarrow> co_closed c'"
    proof -
      fix ds acc c show "flush_each save APPLICATION_CLOSE ds acc c = Some (c', ok) \<Longrightarrow>
        co_closed c \<Longrightarrow> co_closed c'"
        by (induction ds arbitrary: acc c)
          (auto simp: flush_is_spec split: prod.splits dest: flush_spec_frame(4))
    qed
    from this [OF r] show ?thesis by (simp add: close_section_def)
  qed
  have "dirty_documents (co_tracker c') = []" if "ok"
  proof -
    have "distinct (dkeys (co_tracker c')) \<and>
        (\<forall>d st. dget (co_tracker c') d = Some st \<longrightarrow> ds_status st = SAVED)"
      using flush_each_clean [of save APPLICATION_CLOSE ?ds True ?c c'] r that assms
      by (auto simp: close_section_def dirty_documents_iff)
    then have "\<And>d. d \<notin> set (dirty_documents (co_tracker c'))"
      by (simp add: dirty_documents_iff)
    then show ?thesis by (metis list.set_intros(1) neq_Nil_conv)
  qed
  then show ?thesis
    using r closed
    by (auto simp: on_application_close_def flush_all_def close_section_def content_changed_def
      content_changed_mark_def)
qed

definition dirty_coordinator :: "nat coordinator" where
  "dirty_coordinator = \<lparr>co_tracker = [(''d'', \<lparr>ds_document_id = ''d'', ds_content = 7, ds_generation = 1,
       ds_status = UNSAVED, ds_failure = None\<rparr>)],
     co_config = \<lparr>cf_idle_debounce = 2, cf_periodic_interval = None\<rparr>, co_idle = [], co_saving = {},
     co_pending = {}, co_closed = False, co_periodic = None, co_scheduler = empty_scheduler,
     co_observed = []\<rparr>"

theorem close_saves_everything_witness:
  "\<exists>c' ok. on_application_close (\<lambda>d v reason. None) dirty_coordinator = Some (c', ok) \<and>
     co_closed c' \<and> (ok \<longrightarrow> dirty_documents (co_tracker c') = []) \<and>
     content_changed c' ''d'' 8 = Inl RuntimeError_closed"
  by (rule close_saves_everything) (simp add: dirty_coordinator_def)

text \<open>C4: one flush, run without interference, on every branch: what it returns and the state
  it leaves (tracker, pending set, observations), for every save function.\<close>

theorem flush_functional: "flush save c d reason = Some (flush_spec save c d reason)"
  by (rule flush_is_spec)

end
