(* ===== verification/Autosave_Threads.thy ===== *)
theory Autosave_Threads
  imports Autosave
begin

text \<open>
  Threads over one save coordinator. A thread is a call of \<open>content_changed\<close>, of \<open>flush\<close>
  (\<open>on_focus_loss\<close> and its kin are \<open>flush\<close> with another reason), of \<open>flush_all\<close>, of
  \<open>on_application_close\<close>, or a timer callback. \<open>auto_step\<close> lets any thread run its next
  section (the definitions of the theory \<open>Autosave\<close>); what happens inside the save function
  is one step that either appends to \<open>sy_stored\<close>, the ghost record of what the save function
  accepted, or raises.

  Shown for every reachable state: at most one thread is between \<open>self._saving.add\<close> and
  \<open>self._saving.discard\<close> of a document; the generations that reach the save function of one
  document strictly increase, so an older text never overwrites a newer one; a document
  marked \<open>SAVED\<close> has had exactly this content accepted. Also shown: a flush request can be
  lost (\<open>lost_wakeup\<close>), see the findings.
\<close>

datatype 'c thread =
  Scheduling string
| All_Start flush_reason bool
| Flushing "'c pc" flush_reason "string list" bool bool

text \<open>
  \<open>Flushing p reason todo acc tick\<close>: inside \<open>flush\<close> at point \<open>p\<close>, with the documents \<open>todo\<close>
  still to be flushed by the surrounding \<open>flush_all\<close>, whose answer so far is \<open>acc\<close>; \<open>tick\<close>
  says that it is the callback of the periodic timer, which reschedules itself at the end.
\<close>

record 'c system =
  sy_co :: "'c coordinator"
  sy_threads :: "nat \<Rightarrow> 'c thread option"
  sy_stored :: "(string \<times> nat \<times> 'c) list"

fun thread_step :: "save_failure option \<Rightarrow> 'c coordinator \<Rightarrow> 'c thread
    \<Rightarrow> 'c coordinator \<times> 'c thread option" where
  "thread_step r c (Scheduling d) = (content_changed_schedule c d, None)"
| "thread_step r c (All_Start reason tick) =
     (c, Some (Flushing (Done True) reason (dirty_documents (co_tracker c)) True tick))"
| "thread_step r c (Flushing (Done b) reason [] acc tick) =
     (if tick then tick_reschedule c else c, None)"
| "thread_step r c (Flushing (Done b) reason (d # ds) acc tick) =
     (c, Some (Flushing (Enter d) reason ds (acc \<and> b) tick))"
| "thread_step r c (Flushing p reason todo acc tick) =
     (let (c', p') = flush_section r reason c p in (c', Some (Flushing p' reason todo acc tick)))"

fun saved_by :: "'c thread \<Rightarrow> (string \<times> nat \<times> 'c) list" where
  "saved_by (Flushing (Save_Call d g x) reason todo acc tick) = [(d, g, x)]"
| "saved_by th = []"

fun timer_thread :: "timer \<Rightarrow> 'c thread" where
  "timer_thread (Flush_Idle d) = Flushing (Enter d) IDLE [] True False"
| "timer_thread Periodic_Tick = All_Start PERIODIC True"

inductive auto_step :: "'c system \<Rightarrow> 'c system \<Rightarrow> bool" where
  edit: "sy_threads s t = None \<Longrightarrow> content_changed_mark (sy_co s) d x = Inr (c, g) \<Longrightarrow>
     auto_step s (s\<lparr>sy_co := c, sy_threads := (sy_threads s)(t \<mapsto> Scheduling d)\<rparr>)"
| call_flush: "sy_threads s t = None \<Longrightarrow>
     auto_step s (s\<lparr>sy_threads := (sy_threads s)(t \<mapsto> Flushing (Enter d) reason [] True False)\<rparr>)"
| call_flush_all: "sy_threads s t = None \<Longrightarrow>
     auto_step s (s\<lparr>sy_threads := (sy_threads s)(t \<mapsto> All_Start reason False)\<rparr>)"
| call_close: "sy_threads s t = None \<Longrightarrow>
     auto_step s (s\<lparr>sy_co := close_section (sy_co s),
                    sy_threads := (sy_threads s)(t \<mapsto> All_Start APPLICATION_CLOSE False)\<rparr>)"
| fire: "sy_threads s t = None \<Longrightarrow> h \<in> set (fs_queue (co_scheduler (sy_co s))) \<Longrightarrow>
     \<not> fh_cancelled h \<Longrightarrow>
     auto_step s (s\<lparr>sy_co := (sy_co s)\<lparr>co_scheduler := heappop (co_scheduler (sy_co s)) h\<rparr>,
                    sy_threads := (sy_threads s)(t \<mapsto> timer_thread (fh_callback h))\<rparr>)"
| run: "sy_threads s t = Some th \<Longrightarrow> thread_step None (sy_co s) th = (c, th') \<Longrightarrow>
     auto_step s (s\<lparr>sy_co := c, sy_threads := (sy_threads s)(t := th'),
                    sy_stored := sy_stored s @ saved_by th\<rparr>)"
| raises: "sy_threads s t = Some (Flushing (Save_Call d g x) reason todo acc tick) \<Longrightarrow>
     auto_step s (s\<lparr>sy_threads := (sy_threads s)(t \<mapsto>
                    Flushing (Save_Raised d g f) reason todo acc tick)\<rparr>)"

definition sys_init :: "'c system \<Rightarrow> bool" where
  "sys_init s \<longleftrightarrow> (\<exists>cf. coordinator_init cf empty_scheduler [] = Inr (sy_co s)) \<and>
     sy_threads s = (\<lambda>_. None) \<and> sy_stored s = []"

section \<open>The invariant\<close>

fun pc_of :: "'c thread \<Rightarrow> 'c pc option" where
  "pc_of (Flushing p reason todo acc tick) = Some p"
| "pc_of th = None"

text \<open>The document a program point works on, between \<open>_saving.add\<close> and \<open>_saving.discard\<close>.\<close>

fun work_doc :: "'c pc \<Rightarrow> string option" where
  "work_doc (Loop_Head d) = Some d"
| "work_doc (Got d g x) = Some d"
| "work_doc (Save_Call d g x) = Some d"
| "work_doc (Save_Ok d g) = Some d"
| "work_doc (Save_Raised d g f) = Some d"
| "work_doc (After_Ok d) = Some d"
| "work_doc (Latest d b) = Some d"
| "work_doc (Leave d b) = Some d"
| "work_doc _ = None"

definition work_of :: "'c thread option \<Rightarrow> string option" where
  "work_of tho = (case tho of None \<Rightarrow> None
     | Some th \<Rightarrow> (case pc_of th of None \<Rightarrow> None | Some p \<Rightarrow> work_doc p))"

abbreviation doc :: "'c system \<Rightarrow> string \<Rightarrow> 'c document_state option" where
  "doc s d \<equiv> dget (co_tracker (sy_co s)) d"

definition log_of :: "(string \<times> nat \<times> 'c) list \<Rightarrow> string \<Rightarrow> (nat \<times> 'c) list" where
  "log_of stored d = map snd (filter (\<lambda>e. fst e = d) stored)"

definition exclusive :: "'c system \<Rightarrow> bool" where
  "exclusive s \<longleftrightarrow>
     (\<forall>d. d \<in> co_saving (sy_co s) \<longleftrightarrow> (\<exists>t. work_of (sy_threads s t) = Some d)) \<and>
     (\<forall>d t u. work_of (sy_threads s t) = Some d \<longrightarrow> work_of (sy_threads s u) = Some d \<longrightarrow> t = u)"

text \<open>What is known at a program point about its document (\<open>st\<close>) and the accepted saves (\<open>l\<close>).\<close>

fun pc_ok :: "'c document_state option \<Rightarrow> (nat \<times> 'c) list \<Rightarrow> 'c pc \<Rightarrow> bool" where
  "pc_ok st l (Got d g x) = (\<exists>s. st = Some s \<and> g \<le> ds_generation s \<and>
      (g = ds_generation s \<longrightarrow> x = ds_content s \<and> ds_status s \<noteq> SAVED) \<and> (\<forall>e\<in>set l. fst e < g))"
| "pc_ok st l (Save_Call d g x) = (\<exists>s. st = Some s \<and> g \<le> ds_generation s \<and>
      (g = ds_generation s \<longrightarrow> x = ds_content s \<and> ds_status s \<noteq> SAVED) \<and> (\<forall>e\<in>set l. fst e < g))"
| "pc_ok st l (Save_Ok d g) = (\<exists>s. st = Some s \<and> g \<le> ds_generation s \<and>
      (g = ds_generation s \<longrightarrow> (g, ds_content s) \<in> set l \<and> ds_status s \<noteq> SAVED) \<and>
      (\<forall>e\<in>set l. fst e \<le> g))"
| "pc_ok st l (Save_Raised d g f) = (\<exists>s. st = Some s \<and> g \<le> ds_generation s \<and>
      (g = ds_generation s \<longrightarrow> ds_status s \<noteq> SAVED))"
| "pc_ok st l _ = True"

definition is_ok :: "string \<Rightarrow> 'c pc \<Rightarrow> bool" where
  "is_ok d p \<longleftrightarrow> (\<exists>g. p = Save_Ok d g)"

definition doc_ok :: "'c document_state option \<Rightarrow> (nat \<times> 'c) list \<Rightarrow> bool" where
  "doc_ok st l \<longleftrightarrow> sorted_wrt (<) (map fst l) \<and>
     (\<forall>e\<in>set l. \<exists>s. st = Some s \<and> fst e \<le> ds_generation s) \<and>
     (\<forall>s. st = Some s \<longrightarrow> ds_status s = SAVED \<longrightarrow> (ds_generation s, ds_content s) \<in> set l)"

definition unsaved_ok :: "'c document_state option \<Rightarrow> (nat \<times> 'c) list \<Rightarrow> bool" where
  "unsaved_ok st l \<longleftrightarrow>
     (\<forall>s. st = Some s \<longrightarrow> ds_status s \<noteq> SAVED \<longrightarrow> (\<forall>e\<in>set l. fst e < ds_generation s))"

definition thread_at :: "'c system \<Rightarrow> nat \<Rightarrow> 'c pc \<Rightarrow> bool" where
  "thread_at s t p \<longleftrightarrow> (\<exists>th. sy_threads s t = Some th \<and> pc_of th = Some p)"

definition storage_ok :: "'c system \<Rightarrow> bool" where
  "storage_ok s \<longleftrightarrow> (\<forall>d. doc_ok (doc s d) (log_of (sy_stored s) d) \<and>
     (\<forall>t p. thread_at s t p \<longrightarrow> work_doc p = Some d \<longrightarrow> pc_ok (doc s d) (log_of (sy_stored s) d) p) \<and>
     ((\<forall>t p. thread_at s t p \<longrightarrow> \<not> is_ok d p) \<longrightarrow> unsaved_ok (doc s d) (log_of (sy_stored s) d)))"

definition auto_inv :: "'c system \<Rightarrow> bool" where
  "auto_inv s \<longleftrightarrow> exclusive s \<and> storage_ok s"

section \<open>One section\<close>

lemma emit_frame [simp]:
  "co_tracker (emit c d st g r f) = co_tracker c"
  "co_saving (emit c d st g r f) = co_saving c"
  by (simp_all add: emit_def)

lemma section_frame [simp]:
  "co_saving (flush_mark_saving c reason d g) = co_saving c"
  "co_saving (flush_save_failed c reason d g f) = co_saving c"
  "co_saving (flush_save_ok c reason d g) = co_saving c"
  "co_tracker (flush_mark_saving c reason d g) = fst (mark_saving (co_tracker c) d g)"
  "co_tracker (flush_save_failed c reason d g f) = fst (mark_failed (co_tracker c) d g f)"
  "co_tracker (flush_save_ok c reason d g) = fst (mark_saved (co_tracker c) d g)"
  by (simp_all add: flush_mark_saving_def flush_save_failed_def flush_save_ok_def Let_def
    split: prod.splits)

lemma work_of_simps [simp]:
  "work_of None = None"
  "work_of (Some (Scheduling d)) = None"
  "work_of (Some (All_Start r tk)) = None"
  "work_of (Some (Flushing p reason todo acc tick)) = work_doc p"
  by (simp_all add: work_of_def)

definition same_work :: "'c coordinator \<Rightarrow> string option \<Rightarrow> 'c coordinator \<Rightarrow> string option \<Rightarrow> bool" where
  "same_work c w c' w' \<longleftrightarrow>
     w' = w \<and> co_saving c' = co_saving c \<or>
     (\<exists>d. w = None \<and> w' = Some d \<and> d \<notin> co_saving c \<and> co_saving c' = insert d (co_saving c)) \<or>
     (\<exists>d. w = Some d \<and> w' = None \<and> co_saving c' = co_saving c - {d})"

lemma schedule_frame [simp]:
  "co_saving (content_changed_schedule c d) = co_saving c"
  "co_tracker (content_changed_schedule c d) = co_tracker c"
  "co_saving (schedule_periodic c) = co_saving c"
  "co_tracker (schedule_periodic c) = co_tracker c"
  "co_saving (tick_reschedule c) = co_saving c"
  "co_tracker (tick_reschedule c) = co_tracker c"
  "co_saving (close_section c) = co_saving c"
  "co_tracker (close_section c) = co_tracker c"
  by (simp_all add: content_changed_schedule_def schedule_periodic_def tick_reschedule_def
    close_section_def Let_def split: prod.splits)

lemma flush_section_work:
  "flush_section r reason c p = (c', p') \<Longrightarrow> same_work c (work_doc p) c' (work_doc p')"
  by (cases p) (auto simp: same_work_def flush_enter_def flush_read_def flush_pending_def
    flush_latest_def flush_leave_def Let_def split: if_splits option.splits)

lemma thread_step_pc:
  "\<forall>b. p \<noteq> Done b \<Longrightarrow> thread_step r c (Flushing p reason todo acc tick) =
     (case flush_section r reason c p of (c', p') \<Rightarrow> (c', Some (Flushing p' reason todo acc tick)))"
  by (cases p) (auto simp: Let_def)

lemma thread_step_done:
  "thread_step r c (Flushing (Done b) reason todo acc tick) =
     (case todo of [] \<Rightarrow> (if tick then tick_reschedule c else c, None)
      | d # ds \<Rightarrow> (c, Some (Flushing (Enter d) reason ds (acc \<and> b) tick)))"
  by (cases todo) simp_all

lemma thread_step_work:
  assumes "thread_step r c th = (c', th')"
  shows "same_work c (work_of (Some th)) c' (work_of th')"
proof (cases th)
  case (Flushing p reason todo acc tick)
  show ?thesis
  proof (cases "\<exists>b. p = Done b")
    case True
    then show ?thesis using assms Flushing
      by (auto simp: thread_step_done same_work_def split: list.splits if_splits)
  next
    case False
    then show ?thesis using assms Flushing
      by (auto simp: thread_step_pc split: prod.splits dest!: flush_section_work)
  qed
qed (use assms in \<open>auto simp: same_work_def\<close>)

lemma exclusive_update:
  assumes S: "\<And>d. d \<in> S \<longleftrightarrow> (\<exists>t. f t = Some d)"
    and U: "\<And>d t u. f t = Some d \<Longrightarrow> f u = Some d \<Longrightarrow> t = u"
    and step: "w' = f t \<and> S' = S
       \<or> (\<exists>d. f t = None \<and> w' = Some d \<and> d \<notin> S \<and> S' = insert d S)
       \<or> (\<exists>d. f t = Some d \<and> w' = None \<and> S' = S - {d})"
  shows "(\<forall>d. d \<in> S' \<longleftrightarrow> (\<exists>u. (f(t := w')) u = Some d)) \<and>
    (\<forall>d u v. (f(t := w')) u = Some d \<longrightarrow> (f(t := w')) v = Some d \<longrightarrow> u = v)"
  using step
proof (elim disjE exE conjE)
  assume "w' = f t" "S' = S"
  then have "f(t := w') = f" by auto
  then show ?thesis using S U \<open>S' = S\<close> by metis
next
  fix d assume d: "f t = None" "w' = Some d" "d \<notin> S" "S' = insert d S"
  have n: "f u \<noteq> Some d" for u using S d(3) by auto
  have "e \<in> S' \<longleftrightarrow> (\<exists>u. (f(t := w')) u = Some e)" for e
    using d S [of e] by (metis fun_upd_apply insert_iff option.distinct(1) option.inject)
  moreover have "u = v" if "(f(t := w')) u = Some e" "(f(t := w')) v = Some e" for e u v
    using that d n U by (metis fun_upd_apply option.inject)
  ultimately show ?thesis by blast
next
  fix d assume d: "f t = Some d" "w' = None" "S' = S - {d}"
  have n: "u = t" if "f u = Some d" for u using U d(1) that by blast
  have "e \<in> S' \<longleftrightarrow> (\<exists>u. (f(t := w')) u = Some e)" for e
    using d S [of e] n by (metis Diff_iff fun_upd_apply insertE insertI1 empty_iff option.distinct(1) option.inject)
  moreover have "u = v" if "(f(t := w')) u = Some e" "(f(t := w')) v = Some e" for e u v
    using that d U by (metis fun_upd_apply option.distinct(1))
  ultimately show ?thesis by blast
qed

lemma exclusive_thread:
  assumes "exclusive s" and "same_work (sy_co s) (work_of (sy_threads s t)) c (work_of th')"
  shows "exclusive (s\<lparr>sy_co := c, sy_threads := (sy_threads s)(t := th'), sy_stored := l\<rparr>)"
proof -
  have f: "work_of (((sy_threads s)(t := th')) u) =
      ((\<lambda>u. work_of (sy_threads s u))(t := work_of th')) u" for u by simp
  have main: "(\<forall>d. d \<in> co_saving c \<longleftrightarrow> (\<exists>u. ((\<lambda>u. work_of (sy_threads s u))(t := work_of th')) u = Some d)) \<and>
    (\<forall>d u v. ((\<lambda>u. work_of (sy_threads s u))(t := work_of th')) u = Some d \<longrightarrow>
       ((\<lambda>u. work_of (sy_threads s u))(t := work_of th')) v = Some d \<longrightarrow> u = v)"
  proof (rule exclusive_update)
    show "\<And>d. (d \<in> co_saving (sy_co s)) = (\<exists>t. work_of (sy_threads s t) = Some d)"
      and "\<And>d t u. work_of (sy_threads s t) = Some d \<Longrightarrow> work_of (sy_threads s u) = Some d \<Longrightarrow> t = u"
      using assms(1) by (auto simp: exclusive_def)
  qed (use assms(2) in \<open>auto simp: same_work_def\<close>)
  have e: "sy_co (s\<lparr>sy_co := c, sy_threads := (sy_threads s)(t := th'), sy_stored := l\<rparr>) = c"
    "sy_threads (s\<lparr>sy_co := c, sy_threads := (sy_threads s)(t := th'), sy_stored := l\<rparr>) =
       (sy_threads s)(t := th')" by simp_all
  show ?thesis unfolding exclusive_def e f by (fact main)
qed

lemma tracker_other:
  "d' \<noteq> d \<Longrightarrow> dget (fst (mark_saving tr d g)) d' = dget tr d'"
  "d' \<noteq> d \<Longrightarrow> dget (fst (mark_saved tr d g)) d' = dget tr d'"
  "d' \<noteq> d \<Longrightarrow> dget (fst (mark_failed tr d g f)) d' = dget tr d'"
  by (simp_all add: mark_saving_def mark_saved_def mark_failed_def dget_transition_doc
    split: option.splits)

lemma tracker_same:
  "dget tr d = Some st \<Longrightarrow> dget (fst (transition_doc tr d g status failure)) d =
     Some (if ds_generation st = g then settled st d status failure else st)"
  by (simp add: dget_transition_doc settled_def)

definition log_by :: "save_failure option \<Rightarrow> 'c pc \<Rightarrow> (nat \<times> 'c) list" where
  "log_by r p = (case p of Save_Call d g x \<Rightarrow> (if r = None then [(g, x)] else []) | _ \<Rightarrow> [])"

lemma log_by_simps [simp]:
  "log_by r (Enter d) = []" "log_by r (Loop_Head d) = []" "log_by r (Got d g x) = []"
  "log_by r (Save_Call d g x) = (if r = None then [(g, x)] else [])"
  "log_by r (Save_Ok d g) = []" "log_by r (Save_Raised d g f) = []" "log_by r (After_Ok d) = []"
  "log_by r (Latest d b) = []" "log_by r (Leave d b) = []" "log_by r (Result d b) = []"
  "log_by r (Done b) = []"
  by (simp_all add: log_by_def)

text \<open>One section keeps what is known about its own document.\<close>

definition known :: "'c document_state option \<Rightarrow> (nat \<times> 'c) list \<Rightarrow> string \<Rightarrow> 'c pc \<Rightarrow> bool" where
  "known st l d p \<longleftrightarrow> doc_ok st l \<and> pc_ok st l p \<and> (\<not> is_ok d p \<longrightarrow> unsaved_ok st l)"

lemma section_known:
  assumes s: "flush_section r reason c p = (c', p')" and w: "work_doc p = Some d"
    and k: "known (dget (co_tracker c) d) l d p"
  shows "known (dget (co_tracker c') d) (l @ log_by r p) d p'"
proof (cases p)
  case (Got d' g x)
  then show ?thesis using s w k
    by (fastforce simp: known_def is_ok_def doc_ok_def unsaved_ok_def mark_saving_def tracker_same
      settled_def split: if_splits)
next
  case (Save_Call d' g x)
  then show ?thesis using s w k
    by (fastforce simp: known_def is_ok_def doc_ok_def unsaved_ok_def sorted_wrt_append
      split: option.splits)
next
  case (Save_Ok d' g)
  then show ?thesis using s w k
    by (fastforce simp: known_def is_ok_def doc_ok_def unsaved_ok_def mark_saved_def tracker_same
      settled_def split: if_splits)
next
  case (Save_Raised d' g f)
  then show ?thesis using s w k
    by (fastforce simp: known_def is_ok_def doc_ok_def unsaved_ok_def mark_failed_def tracker_same
      settled_def split: if_splits)
next
  case (Loop_Head d')
  then show ?thesis using s w k
    by (auto simp: known_def is_ok_def doc_ok_def unsaved_ok_def flush_read_def dirty_def
      split: option.splits if_splits)
qed (use s w k in \<open>auto simp: known_def is_ok_def flush_pending_def flush_latest_def flush_leave_def
    split: if_splits option.splits\<close>)

lemma section_other:
  assumes "flush_section r reason c p = (c', p')" and "work_doc p \<noteq> Some d"
  shows "dget (co_tracker c') d = dget (co_tracker c) d"
  using assms
  by (cases p) (auto simp: tracker_other flush_enter_def flush_pending_def flush_leave_def Let_def
    split: if_splits option.splits)

section \<open>Every step keeps the invariant\<close>

definition next_pc :: "'c thread option \<Rightarrow> 'c pc option" where
  "next_pc tho = (case tho of None \<Rightarrow> None | Some th \<Rightarrow> pc_of th)"

lemma thread_at_update:
  "thread_at (s\<lparr>sy_co := c, sy_threads := (sy_threads s)(t := th'), sy_stored := l\<rparr>) u q \<longleftrightarrow>
     (if u = t then next_pc th' = Some q else thread_at s u q)"
  by (auto simp: thread_at_def next_pc_def split: option.splits)

lemma thread_at_next: "thread_at s t p \<longleftrightarrow> next_pc (sy_threads s t) = Some p"
  by (auto simp: thread_at_def next_pc_def split: option.splits)

lemma work_of_next: "work_of tho = (case next_pc tho of None \<Rightarrow> None | Some p \<Rightarrow> work_doc p)"
  by (auto simp: work_of_def next_pc_def split: option.splits)

lemma is_ok_work: "is_ok d p \<Longrightarrow> work_doc p = Some d"
  by (auto simp: is_ok_def)

lemma worker_known:
  assumes "exclusive s" and "storage_ok s" and p: "next_pc (sy_threads s t) = Some p"
    and w: "work_doc p = Some d"
  shows "known (doc s d) (log_of (sy_stored s) d) d p"
proof -
  have unique: "u = t" if "thread_at s u q" "work_doc q = Some d" for u q
    using assms(1) that p w unfolding exclusive_def
    by (simp add: thread_at_next work_of_next)
  have "unsaved_ok (doc s d) (log_of (sy_stored s) d)" if "\<not> is_ok d p"
  proof -
    have "\<forall>u q. thread_at s u q \<longrightarrow> \<not> is_ok d q"
      using unique is_ok_work p that by (metis option.inject thread_at_next)
    then show ?thesis using assms(2) by (auto simp: storage_ok_def)
  qed
  then show ?thesis using assms(2) p w by (auto simp: storage_ok_def known_def thread_at_next)
qed

definition settles :: "'c tracker \<Rightarrow> (string \<times> nat \<times> 'c) list \<Rightarrow> string \<Rightarrow> 'c pc option \<Rightarrow> bool" where
  "settles tr l d po \<longleftrightarrow> doc_ok (dget tr d) (log_of l d) \<and>
     (case po of None \<Rightarrow> unsaved_ok (dget tr d) (log_of l d)
      | Some q \<Rightarrow> (work_doc q = Some d \<longrightarrow> pc_ok (dget tr d) (log_of l d) q) \<and>
          (\<not> is_ok d q \<longrightarrow> unsaved_ok (dget tr d) (log_of l d)))"

lemma storage_update:
  assumes ex: "exclusive s" and st: "storage_ok s"
    and other: "\<And>d. work_of (sy_threads s t) \<noteq> Some d \<Longrightarrow> dget (co_tracker c) d = doc s d \<and>
        log_of l d = log_of (sy_stored s) d \<and>
        (\<forall>q. next_pc th' = Some q \<longrightarrow> work_doc q = Some d \<longrightarrow> q = Loop_Head d)"
    and own: "\<And>d p. next_pc (sy_threads s t) = Some p \<Longrightarrow> work_doc p = Some d \<Longrightarrow>
        known (doc s d) (log_of (sy_stored s) d) d p \<Longrightarrow> settles (co_tracker c) l d (next_pc th')"
  shows "storage_ok (s\<lparr>sy_co := c, sy_threads := (sy_threads s)(t := th'), sy_stored := l\<rparr>)"
    (is "storage_ok ?s")
  unfolding storage_ok_def
proof
  fix d
  show "doc_ok (doc ?s d) (log_of (sy_stored ?s) d) \<and>
     (\<forall>u p. thread_at ?s u p \<longrightarrow> work_doc p = Some d \<longrightarrow> pc_ok (doc ?s d) (log_of (sy_stored ?s) d) p) \<and>
     ((\<forall>u p. thread_at ?s u p \<longrightarrow> \<not> is_ok d p) \<longrightarrow> unsaved_ok (doc ?s d) (log_of (sy_stored ?s) d))"
  proof (cases "work_of (sy_threads s t) = Some d")
    case True
    then obtain p where p: "next_pc (sy_threads s t) = Some p" "work_doc p = Some d"
      by (auto simp: work_of_next split: option.splits)
    have S: "settles (co_tracker c) l d (next_pc th')"
      using own [OF p] worker_known [OF ex st p] by blast
    have unique: "u = t" if "thread_at s u q" "work_doc q = Some d" for u q
      using ex that p unfolding exclusive_def
      by (simp add: thread_at_next work_of_next)
    show ?thesis using S unique
      by (auto simp: settles_def thread_at_update split: option.splits if_splits)
  next
    case False
    have "\<not> is_ok d p" if "next_pc (sy_threads s t) = Some p" for p
      using False is_ok_work that by (auto simp: work_of_next)
    then have keep: "(\<forall>u p. thread_at ?s u p \<longrightarrow> \<not> is_ok d p) \<Longrightarrow> (\<forall>u p. thread_at s u p \<longrightarrow> \<not> is_ok d p)"
      by (metis thread_at_next thread_at_update)
    have same: "doc ?s d = doc s d" "log_of (sy_stored ?s) d = log_of (sy_stored s) d"
      using other [OF False] by simp_all
    have old: "doc_ok (doc s d) (log_of (sy_stored s) d)"
      "\<And>u p. thread_at s u p \<Longrightarrow> work_doc p = Some d \<Longrightarrow> pc_ok (doc s d) (log_of (sy_stored s) d) p"
      "(\<forall>u p. thread_at s u p \<longrightarrow> \<not> is_ok d p) \<Longrightarrow> unsaved_ok (doc s d) (log_of (sy_stored s) d)"
      using st by (auto simp: storage_ok_def)
    have "pc_ok (doc s d) (log_of (sy_stored s) d) p" if "thread_at ?s u p" "work_doc p = Some d" for u p
    proof (cases "u = t")
      case True
      then have "p = Loop_Head d" using other [OF False] that by (simp add: thread_at_update)
      then show ?thesis by simp
    next
      case False
      then show ?thesis using old(2) that by (simp add: thread_at_update)
    qed
    then show ?thesis unfolding same using old(1) old(3) [OF keep] by blast
  qed
qed

lemma pc_ok_dirtied:
  "pc_ok (Some st) l p \<Longrightarrow> ds_generation st < ds_generation st' \<Longrightarrow> pc_ok (Some st') l p"
  by (cases p) auto

lemma pc_ok_None: "pc_ok None l p \<Longrightarrow> pc_ok st l p"
  by (cases p) auto

lemma storage_edit:
  assumes "storage_ok s" and t: "sy_threads s t = None"
    and c: "content_changed_mark (sy_co s) d0 x = Inr (c, g)"
  shows "storage_ok (s\<lparr>sy_co := c, sy_threads := (sy_threads s)(t \<mapsto> Scheduling d0)\<rparr>)"
    (is "storage_ok ?s")
  unfolding storage_ok_def
proof
  fix d
  let ?new = "snd (mark_dirty (co_tracker (sy_co s)) d0 x)"
  have doc: "doc ?s d = (if d = d0 then Some ?new else doc s d)"
    using c by (auto simp: content_changed_mark_def Let_def dget_mark_dirty case_prod_unfold
      split: if_splits)
  have at: "thread_at ?s u p \<longleftrightarrow> thread_at s u p" for u p
    using t by (auto simp: thread_at_def)
  have old: "doc_ok (doc s d) (log_of (sy_stored s) d)"
    "\<And>u p. thread_at s u p \<Longrightarrow> work_doc p = Some d \<Longrightarrow> pc_ok (doc s d) (log_of (sy_stored s) d) p"
    using assms(1) by (auto simp: storage_ok_def)
  have new: "ds_status ?new = UNSAVED" "\<And>st. doc s d0 = Some st \<Longrightarrow> ds_generation st < ds_generation ?new"
    by (simp_all add: mark_dirty_state)
  show "doc_ok (doc ?s d) (log_of (sy_stored ?s) d) \<and>
     (\<forall>u p. thread_at ?s u p \<longrightarrow> work_doc p = Some d \<longrightarrow> pc_ok (doc ?s d) (log_of (sy_stored ?s) d) p) \<and>
     ((\<forall>u p. thread_at ?s u p \<longrightarrow> \<not> is_ok d p) \<longrightarrow> unsaved_ok (doc ?s d) (log_of (sy_stored ?s) d))"
  proof (cases "d = d0")
    case False
    then show ?thesis using assms(1) unfolding storage_ok_def at doc by auto
  next
    case True
    have log: "fst e < ds_generation ?new" if e: "e \<in> set (log_of (sy_stored s) d)" for e
    proof -
      obtain st where st: "doc s d = Some st" "fst e \<le> ds_generation st"
        using old(1) e by (auto simp: doc_ok_def)
      have "ds_generation st < ds_generation ?new"
        by (rule new(2)) (use st(1) True in \<open>simp only:\<close>)
      with st(2) show ?thesis by (rule le_less_trans)
    qed
    have "doc_ok (Some ?new) (log_of (sy_stored s) d)" "unsaved_ok (Some ?new) (log_of (sy_stored s) d)"
      using old(1) log new(1) by (auto simp: doc_ok_def unsaved_ok_def intro: less_imp_le)
    moreover have "pc_ok (Some ?new) (log_of (sy_stored s) d) p"
      if "thread_at s u p" "work_doc p = Some d" for u p
    proof (cases "doc s d")
      case None
      then show ?thesis using old(2) [OF that] pc_ok_None by metis
    next
      case (Some st)
      then show ?thesis using old(2) [OF that] new(2) True pc_ok_dirtied by metis
    qed
    ultimately show ?thesis using True at doc by simp
  qed
qed

lemma log_of_append [simp]: "log_of (l @ l') d = log_of l d @ log_of l' d"
  by (simp add: log_of_def)

lemma log_of_saved_by:
  "log_of (saved_by (Flushing p reason todo acc tick)) d = (if work_doc p = Some d then log_by None p else [])"
  by (cases p) (auto simp: log_of_def)

lemma flush_section_new_work:
  "flush_section r reason c p = (c', p') \<Longrightarrow> work_doc p \<noteq> Some d \<Longrightarrow> work_doc p' = Some d \<Longrightarrow>
     p' = Loop_Head d"
  by (cases p) (auto simp: flush_enter_def flush_read_def flush_pending_def
    flush_latest_def flush_leave_def Let_def split: if_splits option.splits)

lemma next_pc_simps [simp]:
  "next_pc None = None" "next_pc (Some (Scheduling d)) = None"
  "next_pc (Some (All_Start r tk)) = None"
  "next_pc (Some (Flushing p reason todo acc tick)) = Some p"
  by (simp_all add: next_pc_def)

lemma known_settles:
  "known (dget tr d) (log_of l d) d p \<Longrightarrow> settles tr l d (Some p)"
  by (auto simp: known_def settles_def)

lemma storage_section:
  assumes ex: "exclusive s" and st: "storage_ok s"
    and t: "sy_threads s t = Some (Flushing p reason todo acc tick)" and p: "\<forall>b. p \<noteq> Done b"
    and f: "flush_section r reason (sy_co s) p = (c, p')"
    and l: "l = sy_stored s @ (if r = None then saved_by (Flushing p reason todo acc tick) else [])"
    and r: "r = None \<or> (\<exists>d g x. p = Save_Call d g x)"
  shows "storage_ok (s\<lparr>sy_co := c, sy_threads := (sy_threads s)(t \<mapsto> Flushing p' reason todo acc tick),
     sy_stored := l\<rparr>)"
proof (rule storage_update [OF ex st])
  fix d
  assume "work_of (sy_threads s t) \<noteq> Some d"
  then have w: "work_doc p \<noteq> Some d" by (simp add: t)
  show "dget (co_tracker c) d = doc s d \<and> log_of l d = log_of (sy_stored s) d \<and>
     (\<forall>q. next_pc (Some (Flushing p' reason todo acc tick)) = Some q \<longrightarrow> work_doc q = Some d \<longrightarrow> q = Loop_Head d)"
    using section_other [OF f w] flush_section_new_work [OF f w] w
    by (simp add: l log_of_saved_by log_of_def [of "[]"])
next
  fix d q
  assume q: "next_pc (sy_threads s t) = Some q" "work_doc q = Some d"
    and k: "known (doc s d) (log_of (sy_stored s) d) d q"
  have pq: "q = p" using q(1) t by simp
  have "log_of l d = log_of (sy_stored s) d @ log_by r p"
    using q(2) r pq by (cases r) (auto simp: l log_of_saved_by log_of_def [of "[]"])
  then show "settles (co_tracker c) l d (next_pc (Some (Flushing p' reason todo acc tick)))"
    using section_known [OF f, of d "log_of (sy_stored s) d"] q(2) k pq by (simp add: known_settles)
qed

text \<open>A step that leaves tracker, saving set and store alone, by a thread that works on nothing
  before and after.\<close>

lemma quiet_inv:
  assumes inv: "auto_inv s" and w: "work_of (sy_threads s t) = None" "work_of th' = None"
    and c: "co_tracker c = co_tracker (sy_co s)" "co_saving c = co_saving (sy_co s)"
  shows "auto_inv (s\<lparr>sy_co := c, sy_threads := (sy_threads s)(t := th'), sy_stored := sy_stored s\<rparr>)"
proof -
  have "exclusive (s\<lparr>sy_co := c, sy_threads := (sy_threads s)(t := th'), sy_stored := sy_stored s\<rparr>)"
    by (rule exclusive_thread) (use inv w c in \<open>auto simp: auto_inv_def same_work_def\<close>)
  moreover have "storage_ok (s\<lparr>sy_co := c, sy_threads := (sy_threads s)(t := th'), sy_stored := sy_stored s\<rparr>)"
    by (rule storage_update) (use inv w c in \<open>auto simp: auto_inv_def work_of_next\<close>)
  ultimately show ?thesis by (simp add: auto_inv_def)
qed

lemma run_inv:
  assumes inv: "auto_inv s" and t: "sy_threads s t = Some th"
    and step: "thread_step None (sy_co s) th = (c, th')"
  shows "auto_inv (s\<lparr>sy_co := c, sy_threads := (sy_threads s)(t := th'),
                    sy_stored := sy_stored s @ saved_by th\<rparr>)"
proof (cases "\<exists>p reason todo acc tick. th = Flushing p reason todo acc tick \<and> (\<forall>b. p \<noteq> Done b)")
  case True
  then obtain p reason todo acc tick where th: "th = Flushing p reason todo acc tick"
    and p: "\<forall>b. p \<noteq> Done b" by blast
  obtain p' where f: "flush_section None reason (sy_co s) p = (c, p')"
    and th': "th' = Some (Flushing p' reason todo acc tick)"
    using step unfolding th thread_step_pc [OF p] by (auto split: prod.splits)
  have "exclusive (s\<lparr>sy_co := c, sy_threads := (sy_threads s)(t := th'),
                    sy_stored := sy_stored s @ saved_by th\<rparr>)"
    by (rule exclusive_thread) (use inv t thread_step_work [OF step] in \<open>auto simp: auto_inv_def\<close>)
  moreover have "storage_ok (s\<lparr>sy_co := c, sy_threads := (sy_threads s)(t := th'),
                    sy_stored := sy_stored s @ saved_by th\<rparr>)"
    unfolding th' by (rule storage_section [OF _ _ _ p f]) (use inv t th in \<open>auto simp: auto_inv_def\<close>)
  ultimately show ?thesis by (simp add: auto_inv_def)
next
  case False
  then have saved: "saved_by th = []" and w: "work_of (Some th) = None"
    by (cases th; fastforce elim: saved_by.elims)+
  have "work_of th' = None \<and> co_tracker c = co_tracker (sy_co s) \<and> co_saving c = co_saving (sy_co s)"
    using False step by (cases th) (auto simp: thread_step_done split: list.splits if_splits)
  then show ?thesis
    using quiet_inv [OF inv, of t th' c] t w by (simp add: saved)
qed

lemma raises_inv:
  assumes inv: "auto_inv s" and t: "sy_threads s t = Some (Flushing (Save_Call d g x) reason todo acc tick)"
  shows "auto_inv (s\<lparr>sy_threads := (sy_threads s)(t \<mapsto> Flushing (Save_Raised d g f) reason todo acc tick)\<rparr>)"
proof -
  let ?th = "Some (Flushing (Save_Raised d g f) reason todo acc tick)"
  have "exclusive (s\<lparr>sy_co := sy_co s, sy_threads := (sy_threads s)(t := ?th), sy_stored := sy_stored s\<rparr>)"
    by (rule exclusive_thread) (use inv t in \<open>auto simp: auto_inv_def same_work_def\<close>)
  moreover have "storage_ok (s\<lparr>sy_co := sy_co s, sy_threads := (sy_threads s)(t := ?th), sy_stored := sy_stored s\<rparr>)"
    by (rule storage_section [where r = "Some f" and p = "Save_Call d g x"])
      (use inv t in \<open>auto simp: auto_inv_def\<close>)
  ultimately show ?thesis by (simp add: auto_inv_def)
qed

lemma edit_inv:
  assumes inv: "auto_inv s" and t: "sy_threads s t = None"
    and c: "content_changed_mark (sy_co s) d x = Inr (c, g)"
  shows "auto_inv (s\<lparr>sy_co := c, sy_threads := (sy_threads s)(t \<mapsto> Scheduling d)\<rparr>)"
proof -
  have "co_saving c = co_saving (sy_co s)"
    using c by (auto simp: content_changed_mark_def Let_def case_prod_unfold split: if_splits)
  then have "exclusive (s\<lparr>sy_co := c, sy_threads := (sy_threads s)(t \<mapsto> Scheduling d), sy_stored := sy_stored s\<rparr>)"
    by (intro exclusive_thread) (use inv t in \<open>auto simp: auto_inv_def same_work_def\<close>)
  then show ?thesis using storage_edit [OF _ t c] inv by (simp add: auto_inv_def)
qed

inductive_cases auto_stepE: "auto_step s s'"

lemma auto_step_inv:
  assumes inv: "auto_inv s" and "auto_step s s'"
  shows "auto_inv s'"
  using assms(2)
proof (rule auto_stepE)
  fix t d x c g
  assume "s' = s\<lparr>sy_co := c, sy_threads := (sy_threads s)(t \<mapsto> Scheduling d)\<rparr>"
    "sy_threads s t = None" "content_changed_mark (sy_co s) d x = Inr (c, g)"
  then show ?thesis using edit_inv [OF inv] by simp
next
  fix t d reason
  assume "s' = s\<lparr>sy_threads := (sy_threads s)(t \<mapsto> Flushing (Enter d) reason [] True False)\<rparr>"
    "sy_threads s t = None"
  then show ?thesis
    using quiet_inv [OF inv, of t "Some (Flushing (Enter d) reason [] True False)" "sy_co s"] by simp
next
  fix t reason
  assume "s' = s\<lparr>sy_threads := (sy_threads s)(t \<mapsto> All_Start reason False)\<rparr>" "sy_threads s t = None"
  then show ?thesis using quiet_inv [OF inv, of t "Some (All_Start reason False)" "sy_co s"] by simp
next
  fix t
  assume "s' = s\<lparr>sy_co := close_section (sy_co s),
      sy_threads := (sy_threads s)(t \<mapsto> All_Start APPLICATION_CLOSE False)\<rparr>" "sy_threads s t = None"
  then show ?thesis
    using quiet_inv [OF inv, of t "Some (All_Start APPLICATION_CLOSE False)" "close_section (sy_co s)"]
    by simp
next
  fix t h
  assume s': "s' = s\<lparr>sy_co := (sy_co s)\<lparr>co_scheduler := heappop (co_scheduler (sy_co s)) h\<rparr>,
      sy_threads := (sy_threads s)(t \<mapsto> timer_thread (fh_callback h))\<rparr>" and t: "sy_threads s t = None"
  have "work_of (Some (timer_thread (fh_callback h) :: 'a thread)) = None"
    by (cases "fh_callback h") simp_all
  then show ?thesis
    using quiet_inv [OF inv, of t "Some (timer_thread (fh_callback h))"
      "(sy_co s)\<lparr>co_scheduler := heappop (co_scheduler (sy_co s)) h\<rparr>"] t
    by (simp add: s')
next
  fix t th c th'
  assume "s' = s\<lparr>sy_co := c, sy_threads := (sy_threads s)(t := th'), sy_stored := sy_stored s @ saved_by th\<rparr>"
    "sy_threads s t = Some th" "thread_step None (sy_co s) th = (c, th')"
  then show ?thesis using run_inv [OF inv] by simp
next
  fix t d g x reason todo acc tick f
  assume "s' = s\<lparr>sy_threads := (sy_threads s)(t \<mapsto> Flushing (Save_Raised d g f) reason todo acc tick)\<rparr>"
    "sy_threads s t = Some (Flushing (Save_Call d g x) reason todo acc tick)"
  then show ?thesis using raises_inv [OF inv] by simp
qed

lemma coordinator_init_frame:
  "coordinator_init cf sch tr = Inr c \<Longrightarrow> co_tracker c = tr \<and> co_saving c = {} \<and> co_pending c = {}"
  by (auto simp: coordinator_init_def schedule_periodic_def Let_def split: if_splits prod.splits)

lemma sys_init_inv: "sys_init s \<Longrightarrow> auto_inv s"
  by (auto simp: sys_init_def auto_inv_def exclusive_def storage_ok_def doc_ok_def unsaved_ok_def
    thread_at_def log_of_def dest!: coordinator_init_frame)

interpretation autosave: transition_system sys_init auto_step auto_inv
  by unfold_locales (auto intro: sys_init_inv auto_step_inv)

section \<open>What holds in every reachable state\<close>

text \<open>C3: at most one thread saves a document at any time, whatever the interleaving of edits,
  timers, flushes and close.\<close>

theorem one_saver_per_document:
  assumes "sys_init s\<^sub>0" and "auto_step\<^sup>*\<^sup>* s\<^sub>0 s"
    and "sy_threads s t = Some (Flushing (Save_Call d g x) r1 l1 a1 k1)"
    and "sy_threads s u = Some (Flushing (Save_Call d g' x') r2 l2 a2 k2)"
  shows "t = u"
proof -
  have "exclusive s" using autosave.inv_reachable [OF assms(1,2)] by (simp add: auto_inv_def)
  then show ?thesis using assms(3,4) by (fastforce simp: exclusive_def)
qed

text \<open>C1: the generations the save function accepts for one document strictly increase, so a
  stale text is never written over a newer one.\<close>

theorem no_stale_overwrite:
  assumes "sys_init s\<^sub>0" and "auto_step\<^sup>*\<^sup>* s\<^sub>0 s"
  shows "sorted_wrt (<) (map fst (log_of (sy_stored s) d))"
  using autosave.inv_reachable [OF assms] by (simp add: auto_inv_def storage_ok_def doc_ok_def)

text \<open>C2: a document shown as saved has had exactly its current content, at its current
  generation, accepted by the save function.\<close>

theorem saved_is_stored:
  assumes "sys_init s\<^sub>0" and "auto_step\<^sup>*\<^sup>* s\<^sub>0 s"
    and "dget (co_tracker (sy_co s)) d = Some st" and "ds_status st = SAVED"
  shows "(d, ds_generation st, ds_content st) \<in> set (sy_stored s)"
proof -
  have "(ds_generation st, ds_content st) \<in> set (log_of (sy_stored s) d)"
    using autosave.inv_reachable [OF assms(1,2)] assms(3,4)
    by (simp add: auto_inv_def storage_ok_def doc_ok_def)
  then show ?thesis by (force simp: log_of_def)
qed

section \<open>Executable runs\<close>

text \<open>A schedule is a list of moves; \<open>run_moves\<close> carries it out and so exhibits a run of
  \<open>auto_step\<close>. \<open>Fire t i\<close> lets the \<open>i\<close>-th timer of the queue start thread \<open>t\<close>.\<close>

datatype 'c move = Edit nat string 'c | Fire nat nat | Run nat

fun perform :: "'c system \<Rightarrow> 'c move \<Rightarrow> 'c system option" where
  "perform s (Edit t d x) =
     (case (sy_threads s t, content_changed_mark (sy_co s) d x) of
        (None, Inr (c, g)) \<Rightarrow>
          Some (s\<lparr>sy_co := c, sy_threads := (sy_threads s)(t \<mapsto> Scheduling d)\<rparr>)
      | _ \<Rightarrow> None)"
| "perform s (Fire t i) =
     (let q = fs_queue (co_scheduler (sy_co s)) in
      if sy_threads s t = None \<and> i < length q \<and> \<not> fh_cancelled (q ! i) then
        Some (s\<lparr>sy_co := (sy_co s)\<lparr>co_scheduler := heappop (co_scheduler (sy_co s)) (q ! i)\<rparr>,
                sy_threads := (sy_threads s)(t \<mapsto> timer_thread (fh_callback (q ! i)))\<rparr>)
      else None)"
| "perform s (Run t) =
     (case sy_threads s t of None \<Rightarrow> None
      | Some th \<Rightarrow> (case thread_step None (sy_co s) th of (c, th') \<Rightarrow>
          Some (s\<lparr>sy_co := c, sy_threads := (sy_threads s)(t := th'),
                  sy_stored := sy_stored s @ saved_by th\<rparr>)))"

fun run_moves :: "'c system \<Rightarrow> 'c move list \<Rightarrow> 'c system option" where
  "run_moves s [] = Some s"
| "run_moves s (m # ms) = (case perform s m of None \<Rightarrow> None | Some s' \<Rightarrow> run_moves s' ms)"

lemma perform_step: "perform s m = Some s' \<Longrightarrow> auto_step s s'"
  by (cases m) (auto split: option.splits sum.splits prod.splits if_splits simp: Let_def
    intro: auto_step.intros)

lemma run_moves_steps: "run_moves s ms = Some s' \<Longrightarrow> auto_step\<^sup>*\<^sup>* s s'"
  by (induction ms arbitrary: s)
    (auto split: option.splits dest!: perform_step intro: converse_rtranclp_into_rtranclp)

definition start_system :: "nat system" where
  "start_system = \<lparr>sy_co = \<lparr>co_tracker = [],
       co_config = \<lparr>cf_idle_debounce = 1, cf_periodic_interval = None\<rparr>, co_idle = [],
       co_saving = {}, co_pending = {}, co_closed = False, co_periodic = None,
       co_scheduler = empty_scheduler, co_observed = []\<rparr>,
     sy_threads = (\<lambda>_. None), sy_stored = []\<rparr>"

lemma start_system_init: "sys_init start_system"
  by (auto simp: sys_init_def start_system_def coordinator_init_def
    intro!: exI [of _ "\<lparr>cf_idle_debounce = 1, cf_periodic_interval = None\<rparr>"])

lemmas run_simps = start_system_def empty_scheduler_def content_changed_mark_def mark_dirty_def
  emit_def content_changed_schedule_def cancel_idle_def call_later_def cancel_def heappop_def
  flush_sections tracker_defs dirty_def Let_def

text \<open>One edit, saved by its idle timer.\<close>

definition one_save :: "nat move list" where
  "one_save = [Edit 0 ''d'' 7, Run 0, Fire 0 0, Run 0, Run 0, Run 0]"

definition saved_run :: "nat move list" where
  "saved_run = one_save @ [Run 0, Run 0]"

lemma one_save_run: "\<exists>s. run_moves start_system one_save = Some s \<and>
   sy_threads s 0 = Some (Flushing (Save_Call ''d'' 1 7) IDLE [] True False)"
  by (simp add: one_save_def run_simps)

lemma saved_run_run: "\<exists>s st. run_moves start_system saved_run = Some s \<and>
   dget (co_tracker (sy_co s)) ''d'' = Some st \<and> ds_status st = SAVED \<and>
   ds_generation st = 1 \<and> ds_content st = 7"
  by (simp add: saved_run_def one_save_def run_simps)

text \<open>
  A lost request. Thread 0 saves the document and leaves the loop (nothing is pending, the
  document is clean). Before it reaches \<open>self._saving.discard\<close>, the document is edited again
  (thread 1) and its idle timer fires (thread 2): that flush finds the document in
  \<open>_saving\<close>, only records it in \<open>_pending\<close> and returns. Thread 0 then discards and returns
  without looking at \<open>_pending\<close> again.
\<close>

definition lost_run :: "nat move list" where
  "lost_run = saved_run @ [Run 0, Run 0, Edit 1 ''d'' 8, Run 1, Fire 2 0, Run 2, Run 2,
     Run 0, Run 0, Run 0]"

lemma lost_run_run: "\<exists>s st. run_moves start_system lost_run = Some s \<and>
   (\<forall>t. sy_threads s t = None) \<and> fs_queue (co_scheduler (sy_co s)) = [] \<and>
   ''d'' \<in> co_pending (sy_co s) \<and> dget (co_tracker (sy_co s)) ''d'' = Some st \<and>
   ds_status st = UNSAVED \<and> ds_content st = 8 \<and> (''d'', 2, 8) \<notin> set (sy_stored s)"
  by (simp add: lost_run_def saved_run_def one_save_def run_simps)

text \<open>C16: with no periodic interval, a reachable state has a dirty document whose flush was
  requested and recorded as pending, although no thread is running and no timer is left:
  nothing will save it.\<close>

theorem lost_wakeup:
  "\<exists>(s :: nat system) st. auto_step\<^sup>*\<^sup>* start_system s \<and> sys_init start_system \<and>
     (\<forall>t. sy_threads s t = None) \<and> fs_queue (co_scheduler (sy_co s)) = [] \<and>
     ''d'' \<in> co_pending (sy_co s) \<and>
     dget (co_tracker (sy_co s)) ''d'' = Some st \<and> ds_status st = UNSAVED"
  using lost_run_run run_moves_steps start_system_init by blast

theorem one_saver_per_document_witness:
  "\<exists>(s :: nat system) t. sy_threads s t = Some (Flushing (Save_Call ''d'' 1 7) IDLE [] True False) \<and>
     (\<forall>u g' x' r2 l2 a2 k2. sy_threads s u = Some (Flushing (Save_Call ''d'' g' x') r2 l2 a2 k2) \<longrightarrow> u = t)"
proof -
  obtain s where s: "run_moves start_system one_save = Some s"
    and t: "sy_threads s 0 = Some (Flushing (Save_Call ''d'' 1 7) IDLE [] True False)"
    using one_save_run by blast
  show ?thesis
    using one_saver_per_document [OF start_system_init run_moves_steps [OF s] _ t] t by blast
qed

theorem no_stale_overwrite_witness:
  "\<exists>s :: nat system. auto_step\<^sup>*\<^sup>* start_system s \<and> sy_stored s = [(''d'', 1, 7)] \<and>
     sorted_wrt (<) (map fst (log_of (sy_stored s) ''d''))"
proof -
  obtain s where s: "run_moves start_system saved_run = Some s" "sy_stored s = [(''d'', 1, 7)]"
    by (simp add: saved_run_def one_save_def run_simps)
  then show ?thesis
    using no_stale_overwrite [OF start_system_init run_moves_steps [OF s(1)]] run_moves_steps by blast
qed

theorem saved_is_stored_witness:
  "\<exists>(s :: nat system) st. dget (co_tracker (sy_co s)) ''d'' = Some st \<and> ds_status st = SAVED \<and>
     (''d'', ds_generation st, ds_content st) \<in> set (sy_stored s)"
proof -
  obtain s st where s: "run_moves start_system saved_run = Some s"
    and st: "dget (co_tracker (sy_co s)) ''d'' = Some st" "ds_status st = SAVED"
    using saved_run_run by blast
  show ?thesis
    using saved_is_stored [OF start_system_init run_moves_steps [OF s] st] st by blast
qed

end
