(* ===== verification/Json.thy ===== *)
theory Json
  imports Prelude
begin

text \<open>
  Python values as they come out of \<open>json.loads\<close> and as plain dictionaries of the code: the
  data that the stores, ledgers and validators test with \<open>isinstance\<close> and \<open>type(..) is\<close>. A
  number with a fraction or exponent is opaque (\<open>JFloat\<close> with its text); no modelled
  check looks inside it. Strings are lists of 8-bit characters; the modelled tests only compare
  strings, test them for emptiness or match ASCII patterns.
\<close>

datatype json =
  JNull
| JBool bool
| JInt int
| JFloat string
| JStr string
| JList "json list"
| JDict "(string \<times> json) list"

lemma size_dget [termination_simp]:
  "dget d k = Some v \<Longrightarrow> size v < Suc (size_list (size_prod f size) d)"
proof -
  assume "dget d k = Some v"
  then have "(k, v) \<in> set d" by (rule map_of_SomeD)
  then have "size_prod f size (k, v) \<le> size_list (size_prod f size) d"
    by (rule size_list_estimation') simp
  then show ?thesis by simp
qed

definition has_keys :: "(string \<times> json) list \<Rightarrow> string list \<Rightarrow> bool" where
  "has_keys d ks \<longleftrightarrow> set (dkeys d) = set ks"

text \<open>\<open>re.fullmatch(r'[a-z][a-z0-9_]{0,31}', s)\<close>, a pattern several modules share.\<close>

definition lower :: "char \<Rightarrow> bool" where "lower c \<longleftrightarrow> CHR ''a'' \<le> c \<and> c \<le> CHR ''z''"
definition digit :: "char \<Rightarrow> bool" where "digit c \<longleftrightarrow> CHR ''0'' \<le> c \<and> c \<le> CHR ''9''"

definition name_ok :: "string \<Rightarrow> bool" where
  "name_ok s = (case s of [] \<Rightarrow> False
     | c # cs \<Rightarrow> lower c \<and> list_all (\<lambda>c. lower c \<or> digit c \<or> c = CHR ''_'') cs \<and> length cs \<le> 31)"

section \<open>Taking a value of a given type\<close>

text \<open>\<open>if not isinstance(v, T): raise e\<close>, for the types \<open>json.loads\<close> produces.\<close>

definition json_bool :: "'e \<Rightarrow> json \<Rightarrow> 'e + bool" where
  "json_bool e v = (case v of JBool b \<Rightarrow> Inr b | _ \<Rightarrow> Inl e)"

definition json_int :: "'e \<Rightarrow> json \<Rightarrow> 'e + int" where
  "json_int e v = (case v of JInt i \<Rightarrow> Inr i | _ \<Rightarrow> Inl e)"

definition json_str :: "'e \<Rightarrow> json \<Rightarrow> 'e + string" where
  "json_str e v = (case v of JStr s \<Rightarrow> Inr s | _ \<Rightarrow> Inl e)"

definition json_list :: "'e \<Rightarrow> json \<Rightarrow> 'e + json list" where
  "json_list e v = (case v of JList xs \<Rightarrow> Inr xs | _ \<Rightarrow> Inl e)"

definition json_dict :: "'e \<Rightarrow> json \<Rightarrow> 'e + (string \<times> json) list" where
  "json_dict e v = (case v of JDict d \<Rightarrow> Inr d | _ \<Rightarrow> Inl e)"

lemma json_as_iff [simp]:
  "json_bool e v = Inr b \<longleftrightarrow> v = JBool b"
  "json_int e v = Inr i \<longleftrightarrow> v = JInt i"
  "json_str e v = Inr s \<longleftrightarrow> v = JStr s"
  "json_list e v = Inr xs \<longleftrightarrow> v = JList xs"
  "json_dict e v = Inr d \<longleftrightarrow> v = JDict d"
  by (cases v; auto simp: json_bool_def json_int_def json_str_def json_list_def json_dict_def)+

lemma json_as_JX [simp]:
  "json_bool e (JBool b) = Inr b" "json_int e (JInt i) = Inr i" "json_str e (JStr s) = Inr s"
  "json_list e (JList xs) = Inr xs" "json_dict e (JDict d) = Inr d"
  by simp_all

text \<open>\<open>d.get(k)\<close>, which is \<open>None\<close> for a missing key.\<close>

definition get_field :: "(string \<times> json) list \<Rightarrow> string \<Rightarrow> json" where
  "get_field d k = (case dget d k of Some v \<Rightarrow> v | None \<Rightarrow> JNull)"

lemma get_field_iff: "v \<noteq> JNull \<Longrightarrow> get_field d k = v \<longleftrightarrow> dget d k = Some v"
  by (auto simp: get_field_def split: option.splits)

text \<open>\<open>json.dumps(..., sort_keys=True)\<close> and back.\<close>

fun sort_json :: "json \<Rightarrow> json" where
  "sort_json (JDict d) = JDict (sort_key fst (map (\<lambda>kv. (fst kv, sort_json (snd kv))) d))"
| "sort_json (JList xs) = JList (map sort_json xs)"
| "sort_json v = v"

end
