(* ===== verification/Story_Cond.thy ===== *)
theory Story_Cond
  imports Json
begin

text \<open>
  The condition language of interactive stories, \<open>app/experimental/interactive_story.py\<close>:
  \<open>parse_condition\<close>, \<open>expression_type\<close>, \<open>interpret\<close>, \<open>renpy_expression\<close>,
  \<open>validate_condition_tree\<close>.

  Python's own parser is an argument: \<open>parse_condition\<close> takes the tree that
  \<open>ast.parse(expression.strip(), mode='eval')\<close> returns for its stripped text (\<open>None\<close> when
  it raises). \<open>pyast\<close> has a constructor for each node class the code tests for and \<open>PyOther\<close>
  with its children for every other class; \<open>walk_count\<close> is the number of nodes
  \<open>ast.walk\<close> yields, contexts and operators included.

  Shown: a condition that type-checks always evaluates, to a value of its type; a parsed
  condition is within the bounds that the engine adapters accept again.
\<close>

section \<open>Values, conditions, Python syntax trees\<close>

datatype scalar = SBool bool | SInt int

datatype ty = TBool | TInt

fun type_of :: "scalar \<Rightarrow> ty" where
  "type_of (SBool b) = TBool"
| "type_of (SInt i) = TInt"

datatype cmp_op = CEq | CNe | CLt | CLe | CGt | CGe

datatype cond =
  CLit scalar
| CVar string
| CAnd "cond list"
| COr "cond list"
| CNot cond
| CCmp cmp_op cond cond

datatype story_error =
  Condition_Too_Long | Invalid_Restricted_Condition | Condition_Too_Complex
| Condition_Nesting_Limit | Only_Bool_Int_Forms
| UNDEFINED_VARIABLE | CONDITION_TYPE_MISMATCH | ASSIGNMENT_TYPE_MISMATCH
| ASSIGNMENT_OUT_OF_BOUNDS | Key_Error
| ENGINE_CONDITION_INVALID | Type_Error_Unhashable
| Fix_Errors_Before_Playback | STEP_CAP_REACHED | CHOICE_UNAVAILABLE
| Invalid_Target_Story

datatype py_unop = USub | UNot | UAdd | UInvert
datatype py_cmp = PyEq | PyNotEq | PyLt | PyLtE | PyGt | PyGtE | PyIs | PyIsNot | PyIn | PyNotIn

datatype pyast =
  PyInt int
| PyBool bool
| PyConstOther
| PyName string
| PyBoolOp bool "pyast list"
| PyUnary py_unop pyast
| PyCompare pyast "py_cmp list" "pyast list"
| PyOther "pyast list"

fun walk_count :: "pyast \<Rightarrow> nat" and walk_counts :: "pyast list \<Rightarrow> nat" where
  "walk_count (PyInt i) = 1"
| "walk_count (PyBool b) = 1"
| "walk_count PyConstOther = 1"
| "walk_count (PyName n) = 2"
| "walk_count (PyBoolOp is_and vs) = 2 + walk_counts vs"
| "walk_count (PyUnary u x) = 2 + walk_count x"
| "walk_count (PyCompare l ops cs) = 1 + walk_count l + length ops + walk_counts cs"
| "walk_count (PyOther xs) = 1 + walk_counts xs"
| "walk_counts [] = 0"
| "walk_counts (x # xs) = walk_count x + walk_counts xs"

section \<open>Parsing\<close>

fun comparison :: "py_cmp \<Rightarrow> cmp_op option" where
  "comparison PyEq = Some CEq"
| "comparison PyNotEq = Some CNe"
| "comparison PyLt = Some CLt"
| "comparison PyLtE = Some CLe"
| "comparison PyGt = Some CGt"
| "comparison PyGtE = Some CGe"
| "comparison _ = None"

text \<open>The nested \<open>walk\<close> of \<open>parse_condition\<close>.\<close>

fun parse_walk :: "pyast \<Rightarrow> nat \<Rightarrow> story_error + cond"
  and parse_walks :: "pyast list \<Rightarrow> nat \<Rightarrow> story_error + cond list" where
  "parse_walk node depth =
     (if depth > 12 then Inl Condition_Nesting_Limit
      else case node of
        PyInt i \<Rightarrow> if -10000 \<le> i \<and> i \<le> 10000 then Inr (CLit (SInt i)) else Inl Only_Bool_Int_Forms
      | PyBool b \<Rightarrow> Inr (CLit (SBool b))
      | PyUnary USub (PyInt i) \<Rightarrow>
          if 0 \<le> i \<and> i \<le> 10000 then Inr (CLit (SInt (- i))) else Inl Only_Bool_Int_Forms
      | PyName n \<Rightarrow> if name_ok n then Inr (CVar n) else Inl Only_Bool_Int_Forms
      | PyBoolOp is_and vs \<Rightarrow>
          sbind (parse_walks vs (depth + 1)) (\<lambda>xs. Inr (if is_and then CAnd xs else COr xs))
      | PyUnary UNot x \<Rightarrow> sbind (parse_walk x (depth + 1)) (\<lambda>a. Inr (CNot a))
      | PyCompare l [c] [r] \<Rightarrow>
          (case comparison c of None \<Rightarrow> Inl Only_Bool_Int_Forms
           | Some op \<Rightarrow> sbind (parse_walk l (depth + 1)) (\<lambda>a.
                        sbind (parse_walk r (depth + 1)) (\<lambda>b. Inr (CCmp op a b))))
      | _ \<Rightarrow> Inl Only_Bool_Int_Forms)"
| "parse_walks [] depth = Inr []"
| "parse_walks (x # xs) depth =
     sbind (parse_walk x depth) (\<lambda>a. sbind (parse_walks xs depth) (\<lambda>xs. Inr (a # xs)))"

text \<open>\<open>str.isspace\<close> on the characters below 256, which is what \<open>str.strip\<close> removes.\<close>

definition py_space :: "char \<Rightarrow> bool" where
  "py_space c \<longleftrightarrow> of_char c \<in> ({9, 10, 11, 12, 13, 28, 29, 30, 31, 32, 133, 160} :: nat set)"

definition strip :: "string \<Rightarrow> string" where
  "strip s = rev (dropWhile py_space (rev (dropWhile py_space s)))"

definition parse_condition :: "(string \<Rightarrow> pyast option) \<Rightarrow> string \<Rightarrow> story_error + cond" where
  "parse_condition ast_parse expression =
     (if strip expression = [] then Inr (CLit (SBool True))
      else if length expression > 240 then Inl Condition_Too_Long
      else case ast_parse (strip expression) of
        None \<Rightarrow> Inl Invalid_Restricted_Condition
      | Some body \<Rightarrow>
          if 1 + walk_count body > 64 then Inl Condition_Too_Complex
          else parse_walk body 0)"

section \<open>Typing\<close>

record variable =
  va_name :: string
  va_type :: ty
  va_initial :: scalar
  va_minimum :: int
  va_maximum :: int

fun expression_type :: "cond \<Rightarrow> (string, variable) dict \<Rightarrow> story_error + ty"
  and all_bool :: "cond list \<Rightarrow> (string, variable) dict \<Rightarrow> story_error + ty" where
  "expression_type (CLit v) vars = Inr (type_of v)"
| "expression_type (CVar n) vars =
     (case dget vars n of None \<Rightarrow> Inl UNDEFINED_VARIABLE | Some va \<Rightarrow> Inr (va_type va))"
| "expression_type (CAnd xs) vars = all_bool xs vars"
| "expression_type (COr xs) vars = all_bool xs vars"
| "expression_type (CNot a) vars = all_bool [a] vars"
| "expression_type (CCmp op l r) vars =
     sbind (expression_type l vars) (\<lambda>tl. sbind (expression_type r vars) (\<lambda>tr.
       if tl \<noteq> tr \<or> (op \<noteq> CEq \<and> op \<noteq> CNe \<and> tl \<noteq> TInt) then Inl CONDITION_TYPE_MISMATCH
       else Inr TBool))"
| "all_bool [] vars = Inr TBool"
| "all_bool (a # xs) vars =
     sbind (expression_type a vars) (\<lambda>t.
       if t \<noteq> TBool then Inl CONDITION_TYPE_MISMATCH else all_bool xs vars)"

section \<open>Evaluation\<close>

text \<open>Python compares and tests booleans as the integers 0 and 1.\<close>

fun as_int :: "scalar \<Rightarrow> int" where
  "as_int (SBool b) = (if b then 1 else 0)"
| "as_int (SInt i) = i"

definition truthy :: "scalar \<Rightarrow> bool" where "truthy v \<longleftrightarrow> as_int v \<noteq> 0"

fun compare :: "cmp_op \<Rightarrow> int \<Rightarrow> int \<Rightarrow> bool" where
  "compare CEq a b = (a = b)"
| "compare CNe a b = (a \<noteq> b)"
| "compare CLt a b = (a < b)"
| "compare CLe a b = (a \<le> b)"
| "compare CGt a b = (b < a)"
| "compare CGe a b = (b \<le> a)"

fun interpret_cond :: "cond \<Rightarrow> (string, scalar) dict \<Rightarrow> story_error + scalar"
  and interpret_all :: "cond list \<Rightarrow> (string, scalar) dict \<Rightarrow> story_error + bool"
  and interpret_any :: "cond list \<Rightarrow> (string, scalar) dict \<Rightarrow> story_error + bool" where
  "interpret_cond (CLit v) vals = Inr v"
| "interpret_cond (CVar n) vals =
     (case dget vals n of None \<Rightarrow> Inl Key_Error | Some v \<Rightarrow> Inr v)"
| "interpret_cond (CAnd xs) vals = sbind (interpret_all xs vals) (\<lambda>b. Inr (SBool b))"
| "interpret_cond (COr xs) vals = sbind (interpret_any xs vals) (\<lambda>b. Inr (SBool b))"
| "interpret_cond (CNot a) vals = sbind (interpret_cond a vals) (\<lambda>v. Inr (SBool (\<not> truthy v)))"
| "interpret_cond (CCmp op l r) vals =
     sbind (interpret_cond l vals) (\<lambda>a. sbind (interpret_cond r vals) (\<lambda>b.
       Inr (SBool (compare op (as_int a) (as_int b)))))"
| "interpret_all [] vals = Inr True"
| "interpret_all (a # xs) vals =
     sbind (interpret_cond a vals) (\<lambda>v. if truthy v then interpret_all xs vals else Inr False)"
| "interpret_any [] vals = Inr False"
| "interpret_any (a # xs) vals =
     sbind (interpret_cond a vals) (\<lambda>v. if truthy v then Inr True else interpret_any xs vals)"

definition values_typed :: "(string, variable) dict \<Rightarrow> (string, scalar) dict \<Rightarrow> bool" where
  "values_typed vars vals \<longleftrightarrow>
     (\<forall>n va. dget vars n = Some va \<longrightarrow> (\<exists>v. dget vals n = Some v \<and> type_of v = va_type va))"

lemma interpret_typed:
  "expression_type t vars = Inr ty \<Longrightarrow> values_typed vars vals \<Longrightarrow>
     \<exists>v. interpret_cond t vals = Inr v \<and> type_of v = ty"
  "all_bool ts vars = Inr ty \<Longrightarrow> values_typed vars vals \<Longrightarrow>
     ty = TBool \<and> (\<exists>b. interpret_all ts vals = Inr b) \<and> (\<exists>b. interpret_any ts vals = Inr b)"
proof (induction t vars and ts vars arbitrary: ty and ty rule: expression_type_all_bool.induct)
  case (2 n vars)
  then show ?case by (fastforce simp: values_typed_def split: option.splits)
next
  case (3 xs vars)
  then show ?case by auto
next
  case (4 xs vars)
  then show ?case by auto
next
  case (5 a vars)
  from 5 have t: "all_bool [a] vars = Inr ty" by simp
  then have "ty = TBool" by (auto simp: res_simps split: if_splits)
  have "\<exists>b. interpret_all [a] vals = Inr b" using 5(1) [OF t 5(3)] by simp
  then have "\<exists>v. interpret_cond a vals = Inr v" by (auto simp: res_simps)
  with \<open>ty = TBool\<close> show ?case by (auto simp: res_simps)
next
  case (6 op l r vars)
  from "6.prems"(1) obtain tl tr where
    t: "expression_type l vars = Inr tl" "expression_type r vars = Inr tr" "ty = TBool"
    by (auto simp: res_simps split: if_splits)
  from "6.IH"(1) [OF t(1) "6.prems"(2)] "6.IH"(2) [OF t(1,2) "6.prems"(2)] t(3)
  show ?case by (auto simp: res_simps)
next
  case (8 a xs vars)
  from "8.prems"(1) have t: "expression_type a vars = Inr TBool" "all_bool xs vars = Inr ty"
    by (auto simp: res_simps split: if_splits)
  from "8.IH"(1) [OF t(1) "8.prems"(2)] "8.IH"(2) [OF t(1) _ t(2) "8.prems"(2)]
  show ?case by (auto simp: res_simps)
qed auto

section \<open>Trees as plain data\<close>

text \<open>The dictionary that \<open>parse_condition\<close> builds for a condition.\<close>

fun op_name :: "cmp_op \<Rightarrow> string" where
  "op_name CEq = ''eq''"
| "op_name CNe = ''ne''"
| "op_name CLt = ''lt''"
| "op_name CLe = ''le''"
| "op_name CGt = ''gt''"
| "op_name CGe = ''ge''"

fun scalar_json :: "scalar \<Rightarrow> json" where
  "scalar_json (SBool b) = JBool b"
| "scalar_json (SInt i) = JInt i"

fun tree_json :: "cond \<Rightarrow> json" where
  "tree_json (CLit v) = JDict [(''op'', JStr ''literal''), (''value'', scalar_json v)]"
| "tree_json (CVar n) = JDict [(''op'', JStr ''var''), (''name'', JStr n)]"
| "tree_json (CAnd xs) = JDict [(''op'', JStr ''and''), (''args'', JList (map tree_json xs))]"
| "tree_json (COr xs) = JDict [(''op'', JStr ''or''), (''args'', JList (map tree_json xs))]"
| "tree_json (CNot x) = JDict [(''op'', JStr ''not''), (''arg'', tree_json x)]"
| "tree_json (CCmp op l r) =
     JDict [(''op'', JStr (op_name op)), (''left'', tree_json l), (''right'', tree_json r)]"

text \<open>
  \<open>validate_condition_tree\<close>: the checks of one dictionary, giving the children the code
  visits next. An operator that is a list or dictionary cannot be tested for membership in a
  set: Python raises \<open>TypeError\<close>.
\<close>

definition tree_children :: "(string, json) dict \<Rightarrow> story_error + json list" where
  "tree_children d = (case dget d ''op'' of
     Some (JStr op) \<Rightarrow>
       if op = ''literal'' then
         sbind (guard (has_keys d [''op'', ''value''] \<and>
             (case dget d ''value'' of
                Some (JBool b) \<Rightarrow> True
              | Some (JInt i) \<Rightarrow> -10000 \<le> i \<and> i \<le> 10000
              | _ \<Rightarrow> False)) ENGINE_CONDITION_INVALID) (\<lambda>_. Inr [])
       else if op = ''var'' then
         sbind (guard (has_keys d [''op'', ''name''] \<and>
             (case dget d ''name'' of Some (JStr n) \<Rightarrow> name_ok n | _ \<Rightarrow> False))
           ENGINE_CONDITION_INVALID) (\<lambda>_. Inr [])
       else if op = ''not'' then
         sbind (guard (has_keys d [''op'', ''arg'']) ENGINE_CONDITION_INVALID) (\<lambda>_.
         (case dget d ''arg'' of Some x \<Rightarrow> Inr [x] | None \<Rightarrow> Inl Key_Error))
       else if op = ''and'' \<or> op = ''or'' then
         sbind (guard (has_keys d [''op'', ''args'']) ENGINE_CONDITION_INVALID) (\<lambda>_.
         (case dget d ''args'' of
            Some (JList xs) \<Rightarrow>
              if 2 \<le> length xs \<and> length xs \<le> 64 then Inr xs else Inl ENGINE_CONDITION_INVALID
          | _ \<Rightarrow> Inl ENGINE_CONDITION_INVALID))
       else if op \<in> {''eq'', ''ne'', ''lt'', ''le'', ''gt'', ''ge''} then
         sbind (guard (has_keys d [''op'', ''left'', ''right'']) ENGINE_CONDITION_INVALID) (\<lambda>_.
         (case (dget d ''left'', dget d ''right'') of
            (Some l, Some r) \<Rightarrow> Inr [l, r]
          | _ \<Rightarrow> Inl Key_Error))
       else Inl ENGINE_CONDITION_INVALID
   | Some (JList xs) \<Rightarrow> Inl Type_Error_Unhashable
   | Some (JDict xs) \<Rightarrow> Inl Type_Error_Unhashable
   | _ \<Rightarrow> Inl ENGINE_CONDITION_INVALID)"

text \<open>
  The recursion: the one-element list \<open>budget\<close> that the recursive calls share is passed along
  and returned. It ends because each level of calls is one deeper and depth 13 is refused.
\<close>

function validate_tree :: "json \<Rightarrow> nat \<Rightarrow> int \<Rightarrow> story_error + int"
  and validate_trees :: "json list \<Rightarrow> nat \<Rightarrow> int \<Rightarrow> story_error + int" where
  "validate_tree tree depth budget =
     (case tree of
        JDict d \<Rightarrow>
          if depth > 12 \<or> budget - 1 < 0 then Inl ENGINE_CONDITION_INVALID
          else (case tree_children d of
                  Inl e \<Rightarrow> Inl e
                | Inr children \<Rightarrow> validate_trees children (depth + 1) (budget - 1))
      | _ \<Rightarrow> Inl ENGINE_CONDITION_INVALID)"
| "validate_trees [] depth budget = Inr budget"
| "validate_trees (x # xs) depth budget =
     (case validate_tree x depth budget of
        Inl e \<Rightarrow> Inl e
      | Inr b \<Rightarrow> validate_trees xs depth b)"
  by pat_completeness auto

termination
  by (relation "measures
        [\<lambda>c. 14 - (case c of Inl (t, depth, b) \<Rightarrow> depth | Inr (ts, depth, b) \<Rightarrow> depth),
         \<lambda>c. case c of Inl (t, depth, b) \<Rightarrow> 0 | Inr (ts, depth, b) \<Rightarrow> 1 + length ts]") auto

declare validate_tree.simps [simp del]

definition validate_condition_tree :: "json \<Rightarrow> story_error + unit" where
  "validate_condition_tree tree = sbind (validate_tree tree 0 64) (\<lambda>b. Inr ())"

section \<open>A parsed condition passes the validator of the engine adapters\<close>

fun cond_nodes :: "cond \<Rightarrow> nat" and conds_nodes :: "cond list \<Rightarrow> nat" where
  "cond_nodes (CLit v) = 1"
| "cond_nodes (CVar n) = 1"
| "cond_nodes (CAnd xs) = 1 + conds_nodes xs"
| "cond_nodes (COr xs) = 1 + conds_nodes xs"
| "cond_nodes (CNot x) = 1 + cond_nodes x"
| "cond_nodes (CCmp op l r) = 1 + cond_nodes l + cond_nodes r"
| "conds_nodes [] = 0"
| "conds_nodes (x # xs) = cond_nodes x + conds_nodes xs"

text \<open>What the parser guarantees of a condition found at depth \<open>d\<close>.\<close>

fun cond_ok :: "cond \<Rightarrow> nat \<Rightarrow> bool" where
  "cond_ok (CLit v) d \<longleftrightarrow> d \<le> 12 \<and> (case v of SBool b \<Rightarrow> True | SInt i \<Rightarrow> -10000 \<le> i \<and> i \<le> 10000)"
| "cond_ok (CVar n) d \<longleftrightarrow> d \<le> 12 \<and> name_ok n"
| "cond_ok (CAnd xs) d \<longleftrightarrow> d \<le> 12 \<and> 2 \<le> length xs \<and> (\<forall>x \<in> set xs. cond_ok x (d + 1))"
| "cond_ok (COr xs) d \<longleftrightarrow> d \<le> 12 \<and> 2 \<le> length xs \<and> (\<forall>x \<in> set xs. cond_ok x (d + 1))"
| "cond_ok (CNot x) d \<longleftrightarrow> d \<le> 12 \<and> cond_ok x (d + 1)"
| "cond_ok (CCmp op l r) d \<longleftrightarrow> d \<le> 12 \<and> cond_ok l (d + 1) \<and> cond_ok r (d + 1)"

text \<open>\<open>ast\<close> documents that a \<open>BoolOp\<close> has at least two values.\<close>

fun boolops_wf :: "pyast \<Rightarrow> bool" where
  "boolops_wf (PyBoolOp is_and vs) \<longleftrightarrow> 2 \<le> length vs \<and> (\<forall>v \<in> set vs. boolops_wf v)"
| "boolops_wf (PyUnary u x) \<longleftrightarrow> boolops_wf x"
| "boolops_wf (PyCompare l ops cs) \<longleftrightarrow> boolops_wf l \<and> (\<forall>c \<in> set cs. boolops_wf c)"
| "boolops_wf (PyOther xs) \<longleftrightarrow> (\<forall>x \<in> set xs. boolops_wf x)"
| "boolops_wf _ \<longleftrightarrow> True"

lemma conds_nodes_length: "length xs \<le> conds_nodes xs"
proof (induction xs)
  case (Cons x xs)
  have "1 \<le> cond_nodes x" by (cases x) auto
  then show ?case using Cons by simp
qed simp

lemma parse_walk_ok:
  "parse_walk n d = Inr t \<Longrightarrow> boolops_wf n \<Longrightarrow> cond_ok t d \<and> cond_nodes t \<le> walk_count n"
  "parse_walks ns d = Inr ts \<Longrightarrow> \<forall>n \<in> set ns. boolops_wf n \<Longrightarrow>
     length ts = length ns \<and> (\<forall>t \<in> set ts. cond_ok t d) \<and> conds_nodes ts \<le> walk_counts ns"
proof (induction n d and ns d arbitrary: t and ts rule: parse_walk_parse_walks.induct)
  case (1 n d)
  have d: "d \<le> 12" using "1.prems"(1) by (simp split: if_splits)
  show ?case
  proof (cases n)
    case (PyBoolOp is_and vs)
    with "1.prems" d obtain ts where ts: "parse_walks vs (d + 1) = Inr ts"
      "t = (if is_and then CAnd ts else COr ts)" by (auto simp: res_simps)
    have "boolops_wf n" by fact
    then have "\<forall>v \<in> set vs. boolops_wf v" "2 \<le> length vs" using PyBoolOp by auto
    with "1.IH"(1) [OF _ PyBoolOp ts(1)] d
    have "length ts = length vs" "\<forall>t \<in> set ts. cond_ok t (d + 1)" "conds_nodes ts \<le> walk_counts vs"
      by auto
    with ts(2) d PyBoolOp \<open>2 \<le> length vs\<close> show ?thesis by auto
  next
    case (PyUnary u x)
    show ?thesis
    proof (cases u)
      case USub
      with "1.prems"(1) d PyUnary show ?thesis
        by (auto split: pyast.splits if_splits)
    next
      case UNot
      with "1.prems" d PyUnary obtain a where a: "parse_walk x (d + 1) = Inr a" "t = CNot a"
        by (auto simp: res_simps)
      then show ?thesis using "1.IH"(2) [OF _ PyUnary UNot a(1)] "1.prems"(2) PyUnary d by auto
    qed (use "1.prems"(1) d PyUnary in auto)
  next
    case (PyCompare l ops cs)
    with "1.prems" d obtain c r op a b where r: "ops = [c]" "cs = [r]" "comparison c = Some op"
      "parse_walk l (d + 1) = Inr a" "parse_walk r (d + 1) = Inr b" "t = CCmp op a b"
      by (auto simp: res_simps split: list.splits option.splits)
    have "cond_ok a (d + 1) \<and> cond_nodes a \<le> walk_count l"
      by (rule "1.IH"(3)) (use r PyCompare "1.prems"(2) d in auto)
    moreover have "cond_ok b (d + 1) \<and> cond_nodes b \<le> walk_count r"
      by (rule "1.IH"(4)) (use r PyCompare "1.prems"(2) d in auto)
    ultimately show ?thesis using PyCompare r d by auto
  qed (use "1.prems"(1) d in \<open>auto split: if_splits\<close>)
next
  case (3 x xs d)
  then obtain a as' where a: "parse_walk x d = Inr a" "parse_walks xs d = Inr as'" "ts = a # as'"
    by (auto simp: res_simps)
  with "3.IH"(1) [OF a(1)] "3.IH"(2) [OF a(1,2)] "3.prems"(2) show ?case by auto
qed simp

lemma tree_children_json:
  "tree_children [(''op'', JStr ''literal''), (''value'', scalar_json v)] =
     (if (case v of SBool b \<Rightarrow> True | SInt i \<Rightarrow> -10000 \<le> i \<and> i \<le> 10000)
      then Inr [] else Inl ENGINE_CONDITION_INVALID)"
  "tree_children [(''op'', JStr ''var''), (''name'', JStr n)] =
     (if name_ok n then Inr [] else Inl ENGINE_CONDITION_INVALID)"
  "tree_children [(''op'', JStr ''and''), (''args'', JList js)] =
     (if 2 \<le> length js \<and> length js \<le> 64 then Inr js else Inl ENGINE_CONDITION_INVALID)"
  "tree_children [(''op'', JStr ''or''), (''args'', JList js)] =
     (if 2 \<le> length js \<and> length js \<le> 64 then Inr js else Inl ENGINE_CONDITION_INVALID)"
  "tree_children [(''op'', JStr ''not''), (''arg'', j)] = Inr [j]"
  "tree_children [(''op'', JStr (op_name op)), (''left'', j), (''right'', k)] = Inr [j, k]"
  by (cases v; simp add: tree_children_def has_keys_def guard_def)
    (simp_all add: tree_children_def has_keys_def guard_def, cases op, simp_all)

lemma validate_tree_dict:
  "d \<le> 12 \<Longrightarrow> 1 \<le> b \<Longrightarrow> tree_children kv = Inr js \<Longrightarrow>
     validate_tree (JDict kv) d b = validate_trees js (d + 1) (b - 1)"
  by (subst validate_tree.simps) simp

lemma validate_tree_json:
  "cond_ok t d \<Longrightarrow> int (cond_nodes t) \<le> b \<Longrightarrow> b \<le> 64 \<Longrightarrow>
     validate_tree (tree_json t) d b = Inr (b - int (cond_nodes t))"
  "\<forall>t \<in> set ts. cond_ok t d \<Longrightarrow> int (conds_nodes ts) \<le> b \<Longrightarrow> b \<le> 64 \<Longrightarrow>
     validate_trees (map tree_json ts) d b = Inr (b - int (conds_nodes ts))"
proof (induction t and ts arbitrary: d b and d b rule: cond_nodes_conds_nodes.induct)
  case (3 xs)
  have "length xs \<le> 64" using "3.prems" conds_nodes_length [of xs] by simp
  with "3.prems" "3.IH" [of "d + 1" "b - 1"] show ?case
    by (simp add: validate_tree_dict tree_children_json)
next
  case (4 xs)
  have "length xs \<le> 64" using "4.prems" conds_nodes_length [of xs] by simp
  with "4.prems" "4.IH" [of "d + 1" "b - 1"] show ?case
    by (simp add: validate_tree_dict tree_children_json)
next
  case (5 x)
  then show ?case using "5.IH" [of "d + 1" "b - 1"]
    by (simp add: validate_tree_dict tree_children_json)
next
  case (6 op l r)
  then show ?case
    using "6.IH"(1) [of "d + 1" "b - 1"] "6.IH"(2) [of "d + 1" "b - 1 - int (cond_nodes l)"]
    by (simp add: validate_tree_dict tree_children_json)
next
  case (8 x xs)
  then show ?case using "8.IH"(1) [of d b] "8.IH"(2) [of d "b - int (cond_nodes x)"] by simp
qed (simp_all add: validate_tree_dict tree_children_json split: if_splits)

text \<open>C12: Whatever condition the parser accepts, the tree it produces passes
  \<open>validate_condition_tree\<close>, the check that the Godot and HTML exports apply again: names,
  literals, depth, node budget and argument counts all agree between the two.\<close>

theorem parsed_condition_is_valid:
  assumes "\<And>s body. ast_parse s = Some body \<Longrightarrow> boolops_wf body"
    and "parse_condition ast_parse expression = Inr t"
  shows "validate_condition_tree (tree_json t) = Inr ()"
proof -
  have "cond_ok t 0 \<and> cond_nodes t \<le> 63"
  proof (cases "strip expression = []")
    case True
    then show ?thesis using assms(2) by (auto simp: parse_condition_def)
  next
    case False
    with assms(2) obtain body where body: "ast_parse (strip expression) = Some body"
      "walk_count body \<le> 63" "parse_walk body 0 = Inr t"
      by (auto simp: parse_condition_def split: if_splits option.splits)
    show ?thesis using parse_walk_ok(1) [OF body(3) assms(1) [OF body(1)]] body(2) by linarith
  qed
  then show ?thesis using validate_tree_json(1) [of t 0 64] by (simp add: validate_condition_tree_def)
qed

definition example_ast :: pyast where
  "example_ast = PyBoolOp True [PyCompare (PyName ''gold'') [PyGtE] [PyInt 3], PyUnary UNot (PyName ''met'')]"

theorem parsed_condition_is_valid_witness:
  "validate_condition_tree (tree_json (CAnd [CCmp CGe (CVar ''gold'') (CLit (SInt 3)), CNot (CVar ''met'')]))
     = Inr ()"
proof (rule parsed_condition_is_valid [where ast_parse = "\<lambda>s. Some example_ast"
      and expression = "''gold >= 3 and not met''"])
  show "parse_condition (\<lambda>s. Some example_ast) ''gold >= 3 and not met'' =
      Inr (CAnd [CCmp CGe (CVar ''gold'') (CLit (SInt 3)), CNot (CVar ''met'')])"
    by code_simp
qed (simp add: example_ast_def)

text \<open>C11: A condition that type-checks against the declared variables always evaluates, whatever
  values of those types the variables hold, and to a value of its type: the interpreter of conditions
  cannot fail on a missing variable or an unknown operator during play.\<close>

theorem typed_condition_evaluates:
  assumes "expression_type t vars = Inr ty" and "values_typed vars vals"
  shows "\<exists>v. interpret_cond t vals = Inr v \<and> type_of v = ty"
  by (rule interpret_typed(1) [OF assms])

theorem typed_condition_evaluates_witness:
  "\<exists>v. interpret_cond (CNot (CCmp CLt (CVar ''gold'') (CLit (SInt 3)))) [(''gold'', SInt 5)] = Inr v \<and>
     type_of v = TBool"
proof (rule typed_condition_evaluates)
  let ?vars = "[(''gold'', \<lparr>va_name = ''gold'', va_type = TInt, va_initial = SInt 0,
    va_minimum = 0, va_maximum = 10\<rparr>)]"
  show "expression_type (CNot (CCmp CLt (CVar ''gold'') (CLit (SInt 3)))) ?vars = Inr TBool" by simp
  show "values_typed ?vars [(''gold'', SInt 5)]" by (simp add: values_typed_def)
qed

end
