(* ===== verification/Story_Play.thy ===== *)
theory Story_Play
  imports Story_Cond
begin

text \<open>
  Interactive stories, \<open>app/experimental/interactive_story.py\<close>: the validated story
  specification, \<open>compile_story\<close>, the bounded analysis \<open>analyze\<close> and the server-side
  playback \<open>play\<close>.

  Author-visible text is a list of code points; identifiers, names and conditions are strings.
  The digest of a state (SHA-256 of its canonical JSON, \<open>planning.digest\<close>) is an argument.

  Shown: the analysis ends, never raises and visits at most 4096 states; the endings it reports
  replay; a story that may be submitted for review never strands a player; the two graph passes
  (reachable nodes, nodes with a way to an ending) are exact.
\<close>

section \<open>Specification\<close>

definition text_safe :: "utext \<Rightarrow> bool" where
  "text_safe value \<longleftrightarrow>
     \<not> list_ex (\<lambda>c. (c < 32 \<and> c \<notin> {9, 10, 13}) \<or> (0xD800 \<le> c \<and> c \<le> 0xDFFF)) value"

definition scalar_ok :: "scalar \<Rightarrow> bool" where
  "scalar_ok v = (case v of SBool b \<Rightarrow> True | SInt i \<Rightarrow> -10000 \<le> i \<and> i \<le> 10000)"

definition identifier_ok :: "string \<Rightarrow> bool" where
  "identifier_ok s \<longleftrightarrow> 1 \<le> length s \<and> length s \<le> 160"

definition len_ok :: "'a list \<Rightarrow> nat \<Rightarrow> nat \<Rightarrow> bool" where
  "len_ok s lo hi \<longleftrightarrow> lo \<le> length s \<and> length s \<le> hi"

definition opt_ok :: "('a \<Rightarrow> bool) \<Rightarrow> 'a option \<Rightarrow> bool" where
  "opt_ok P x = (case x of None \<Rightarrow> True | Some y \<Rightarrow> P y)"

definition variable_valid :: "variable \<Rightarrow> bool" where
  "variable_valid v \<longleftrightarrow>
     name_ok (va_name v) \<and> scalar_ok (va_initial v) \<and>
     -10000 \<le> va_minimum v \<and> va_minimum v \<le> 10000 \<and>
     -10000 \<le> va_maximum v \<and> va_maximum v \<le> 10000 \<and>
     va_minimum v \<le> va_maximum v \<and>
     (case va_type v of
        TBool \<Rightarrow> type_of (va_initial v) = TBool
      | TInt \<Rightarrow> (case va_initial v of
                  SBool b \<Rightarrow> False
                | SInt i \<Rightarrow> va_minimum v \<le> i \<and> i \<le> va_maximum v))"

record choice =
  ch_id :: string
  ch_label :: utext
  ch_target :: string
  ch_condition :: string
  ch_assignments :: "(string, scalar) dict"

definition choice_valid :: "(string \<Rightarrow> pyast option) \<Rightarrow> choice \<Rightarrow> bool" where
  "choice_valid ast_parse c \<longleftrightarrow>
     name_ok (ch_id c) \<and> len_ok (ch_label c) 1 240 \<and> identifier_ok (ch_target c) \<and>
     len_ok (ch_condition c) 0 240 \<and> len_ok (ch_assignments c) 0 16 \<and>
     list_all (\<lambda>(n, v). name_ok n \<and> scalar_ok v) (ch_assignments c) \<and>
     text_safe (ch_label c) \<and>
     (case parse_condition ast_parse (ch_condition c) of Inl e \<Rightarrow> False | Inr t \<Rightarrow> True)"

record story_node =
  nd_id :: string
  nd_version :: int
  nd_title :: utext
  nd_dialogue :: utext
  nd_character :: "string option"
  nd_background :: "string option"
  nd_music :: "string option"
  nd_ending :: utext
  nd_choices :: "choice list"

definition node_valid :: "(string \<Rightarrow> pyast option) \<Rightarrow> story_node \<Rightarrow> bool" where
  "node_valid ast_parse n \<longleftrightarrow>
     identifier_ok (nd_id n) \<and> 1 \<le> nd_version n \<and> len_ok (nd_title n) 1 240 \<and>
     len_ok (nd_dialogue n) 0 8000 \<and> opt_ok identifier_ok (nd_character n) \<and>
     opt_ok identifier_ok (nd_background n) \<and> opt_ok identifier_ok (nd_music n) \<and>
     len_ok (nd_ending n) 0 240 \<and> len_ok (nd_choices n) 0 8 \<and>
     list_all (choice_valid ast_parse) (nd_choices n) \<and>
     text_safe (nd_title n) \<and> text_safe (nd_dialogue n) \<and> text_safe (nd_ending n) \<and>
     distinct (map ch_id (nd_choices n)) \<and>
     (nd_ending n = [] \<or> nd_choices n = [])"

record story_spec =
  sp_title :: utext
  sp_graph_id :: string
  sp_graph_version :: int
  sp_entry_node_id :: string
  sp_nodes :: "story_node list"
  sp_variables :: "variable list"
  sp_graph_record_ids :: "string list"
  sp_max_steps :: nat

definition spec_valid :: "(string \<Rightarrow> pyast option) \<Rightarrow> story_spec \<Rightarrow> bool" where
  "spec_valid ast_parse s \<longleftrightarrow>
     len_ok (sp_title s) 1 160 \<and> identifier_ok (sp_graph_id s) \<and> 1 \<le> sp_graph_version s \<and>
     identifier_ok (sp_entry_node_id s) \<and>
     len_ok (sp_nodes s) 1 100 \<and> list_all (node_valid ast_parse) (sp_nodes s) \<and>
     len_ok (sp_variables s) 0 16 \<and> list_all variable_valid (sp_variables s) \<and>
     len_ok (sp_graph_record_ids s) 0 50 \<and> list_all identifier_ok (sp_graph_record_ids s) \<and>
     1 \<le> sp_max_steps s \<and> sp_max_steps s \<le> 128 \<and> text_safe (sp_title s) \<and>
     distinct (map nd_id (sp_nodes s)) \<and>
     sp_entry_node_id s \<in> set (map nd_id (sp_nodes s)) \<and>
     distinct (map va_name (sp_variables s)) \<and>
     distinct (sp_graph_record_ids s) \<and>
     (\<Sum>n\<leftarrow>sp_nodes s. length (nd_dialogue n)) \<le> 100000"

section \<open>Compilation\<close>

datatype issue_code =
  NO_EXIT | UNDEFINED_TARGET | Check story_error
| NO_ENDING_PATH | CONDITIONAL_NO_EXIT | NO_REACHABLE_ENDING_WITHIN_CAP
| UNREACHABLE_NODE | CYCLE_STEP_CAP_REQUIRED

record issue =
  is_code :: issue_code
  is_node :: "string option"
  is_choice :: "string option"
  is_path :: "string list"

definition issue_at :: "issue_code \<Rightarrow> string \<Rightarrow> string option \<Rightarrow> issue" where
  "issue_at c n ch = \<lparr>is_code = c, is_node = Some n, is_choice = ch, is_path = []\<rparr>"

type_synonym nodes = "(string, story_node) dict"
type_synonym variables = "(string, variable) dict"
type_synonym bindings = "(string, scalar) dict"
type_synonym compiled = "(string \<times> string, cond) dict"

definition nodes_of :: "story_spec \<Rightarrow> nodes" where
  "nodes_of spec = dict_of (map (\<lambda>n. (nd_id n, n)) (sp_nodes spec))"

definition variables_of :: "story_spec \<Rightarrow> variables" where
  "variables_of spec = dict_of (map (\<lambda>v. (va_name v, v)) (sp_variables spec))"

definition check_assignment :: "variables \<Rightarrow> string \<times> scalar \<Rightarrow> story_error + unit" where
  "check_assignment vars = (\<lambda>(name, value).
     case dget vars name of
       None \<Rightarrow> Inl UNDEFINED_VARIABLE
     | Some var \<Rightarrow>
         if type_of value \<noteq> va_type var then Inl ASSIGNMENT_TYPE_MISMATCH
         else if va_type var = TInt \<and> \<not> (va_minimum var \<le> as_int value \<and> as_int value \<le> va_maximum var)
         then Inl ASSIGNMENT_OUT_OF_BOUNDS
         else Inr ())"

text \<open>The body of the \<open>try\<close> in \<open>compile_story\<close>.\<close>

definition check_choice :: "variables \<Rightarrow> cond \<Rightarrow> choice \<Rightarrow> story_error + unit" where
  "check_choice vars tree c =
     sbind (expression_type tree vars) (\<lambda>t.
     sbind (guard (t = TBool) CONDITION_TYPE_MISMATCH) (\<lambda>_.
     sfold (\<lambda>_ a. check_assignment vars a) () (ch_assignments c)))"

definition compile_choice ::
  "(string \<Rightarrow> pyast option) \<Rightarrow> nodes \<Rightarrow> variables \<Rightarrow> story_node \<Rightarrow> compiled \<times> issue list \<Rightarrow> choice
     \<Rightarrow> story_error + compiled \<times> issue list" where
  "compile_choice ast_parse nodes vars node = (\<lambda>(compiled, issues) c.
     sbind (parse_condition ast_parse (ch_condition c)) (\<lambda>tree.
     let compiled = dset compiled (nd_id node, ch_id c) tree;
         issues = issues @ (if ch_target c \<in> set (dkeys nodes) then []
                            else [issue_at UNDEFINED_TARGET (nd_id node) (Some (ch_id c))]);
         issues = issues @ (case check_choice vars tree c of
                              Inr _ \<Rightarrow> []
                            | Inl e \<Rightarrow> [issue_at (Check e) (nd_id node) (Some (ch_id c))])
     in Inr (compiled, issues)))"

definition compile_node ::
  "(string \<Rightarrow> pyast option) \<Rightarrow> nodes \<Rightarrow> variables \<Rightarrow> compiled \<times> issue list \<Rightarrow> story_node
     \<Rightarrow> story_error + compiled \<times> issue list" where
  "compile_node ast_parse nodes vars = (\<lambda>(compiled, issues) node.
     let issues = issues @ (if nd_ending node = [] \<and> nd_choices node = []
                            then [issue_at NO_EXIT (nd_id node) None] else [])
     in sfold (compile_choice ast_parse nodes vars node) (compiled, issues) (nd_choices node))"

definition compile_story ::
  "(string \<Rightarrow> pyast option) \<Rightarrow> story_spec \<Rightarrow> story_error + nodes \<times> compiled \<times> issue list" where
  "compile_story ast_parse spec =
     (let nodes = nodes_of spec; vars = variables_of spec in
      sbind (sfold (compile_node ast_parse nodes vars) ([], []) (dvals nodes)) (\<lambda>(compiled, issues).
      Inr (nodes, compiled, issues)))"

section \<open>Playback\<close>

datatype play_status = ENDING | STEP_CAP | PLAYING | NO_EXIT_LEFT

record playback =
  pb_node :: story_node
  pb_choices :: "(string \<times> utext \<times> bool) list"
  pb_variables :: bindings
  pb_steps :: nat
  pb_max_steps :: nat
  pb_status :: play_status
  pb_path :: "string list"

definition initial_values :: "story_spec \<Rightarrow> bindings" where
  "initial_values spec = dict_of (map (\<lambda>v. (va_name v, va_initial v)) (sp_variables spec))"

definition lookup :: "('k, 'v) dict \<Rightarrow> 'k \<Rightarrow> story_error + 'v" where
  "lookup d k = (case dget d k of None \<Rightarrow> Inl Key_Error | Some v \<Rightarrow> Inr v)"

text \<open>One round of the \<open>for cid in path\<close> loop of \<open>play\<close>.\<close>

definition play_step :: "nodes \<Rightarrow> compiled \<Rightarrow> string \<times> bindings \<Rightarrow> string \<Rightarrow> story_error + string \<times> bindings" where
  "play_step nodes compiled = (\<lambda>(nid, vals) cid.
     sbind (lookup nodes nid) (\<lambda>node.
     case find (\<lambda>c. ch_id c = cid) (nd_choices node) of
       None \<Rightarrow> Inl CHOICE_UNAVAILABLE
     | Some c \<Rightarrow>
         if nd_ending node \<noteq> [] then Inl CHOICE_UNAVAILABLE
         else sbind (lookup compiled (nid, cid)) (\<lambda>tree.
              sbind (interpret_cond tree vals) (\<lambda>v.
              if \<not> truthy v then Inl CHOICE_UNAVAILABLE
              else Inr (ch_target c, dmerge vals (ch_assignments c))))))"

definition offer :: "compiled \<Rightarrow> string \<Rightarrow> bindings \<Rightarrow> choice \<Rightarrow> story_error + string \<times> utext \<times> bool" where
  "offer compiled nid vals c =
     sbind (lookup compiled (nid, ch_id c)) (\<lambda>tree.
     sbind (interpret_cond tree vals) (\<lambda>v. Inr (ch_id c, ch_label c, truthy v)))"

definition play ::
  "(string \<Rightarrow> pyast option) \<Rightarrow> story_spec \<Rightarrow> string list \<Rightarrow> story_error + playback" where
  "play ast_parse spec path =
     sbind (compile_story ast_parse spec) (\<lambda>(nodes, compiled, issues).
     if issues \<noteq> [] then Inl Fix_Errors_Before_Playback
     else if length path > sp_max_steps spec then Inl STEP_CAP_REACHED
     else sbind (sfold (play_step nodes compiled) (sp_entry_node_id spec, initial_values spec) path)
            (\<lambda>(nid, vals).
          sbind (lookup nodes nid) (\<lambda>node.
          sbind (smap (offer compiled nid vals) (nd_choices node)) (\<lambda>choices.
          let status = (if nd_ending node \<noteq> [] then ENDING
                        else if length path \<ge> sp_max_steps spec then STEP_CAP
                        else if list_ex (\<lambda>(i, l, e). e) choices then PLAYING
                        else NO_EXIT_LEFT)
          in Inr \<lparr>pb_node = node\<lparr>nd_choices := []\<rparr>, pb_choices = choices, pb_variables = vals,
                  pb_steps = length path, pb_max_steps = sp_max_steps spec,
                  pb_status = status, pb_path = path\<rparr>))))"

section \<open>Stories without issues\<close>

text \<open>
  What an empty issue list of \<open>compile_story\<close> means, in the form the proofs about playback and
  analysis use.
\<close>

definition choice_ok :: "nodes \<Rightarrow> variables \<Rightarrow> compiled \<Rightarrow> string \<Rightarrow> choice \<Rightarrow> bool" where
  "choice_ok nodes vars compiled nid c \<longleftrightarrow>
     ch_target c \<in> set (dkeys nodes) \<and>
     (\<exists>t. dget compiled (nid, ch_id c) = Some t \<and> expression_type t vars = Inr TBool) \<and>
     (\<forall>(x, v) \<in> set (ch_assignments c). \<exists>va. dget vars x = Some va \<and> type_of v = va_type va)"

definition story_ok :: "nodes \<Rightarrow> variables \<Rightarrow> compiled \<Rightarrow> bool" where
  "story_ok nodes vars compiled \<longleftrightarrow>
     (\<forall>nid n. dget nodes nid = Some n \<longrightarrow>
        nd_id n = nid \<and> (\<forall>c \<in> set (nd_choices n). choice_ok nodes vars compiled nid c))"

lemma check_choice_typed:
  assumes "check_choice vars t c = Inr ()"
  shows "expression_type t vars = Inr TBool"
    and "\<forall>(x, v) \<in> set (ch_assignments c). \<exists>va. dget vars x = Some va \<and> type_of v = va_type va"
proof -
  from assms have t: "expression_type t vars = Inr TBool"
    and a: "sfold (\<lambda>_ a. check_assignment vars a) () (ch_assignments c) = Inr ()"
    by (auto simp: check_choice_def res_simps)
  show "expression_type t vars = Inr TBool" by (rule t)
  have "\<forall>a \<in> set (ch_assignments c). check_assignment vars a = Inr ()"
    by (rule sfold_collect [OF a]) auto
  then show "\<forall>(x, v) \<in> set (ch_assignments c). \<exists>va. dget vars x = Some va \<and> type_of v = va_type va"
    by (fastforce simp: check_assignment_def split: option.splits if_splits)
qed

lemma compile_choice_step:
  assumes "compile_choice ast_parse nodes vars node (compiled, issues) c = Inr (compiled', issues')"
    and "issues' = []"
  shows "issues = []" "choice_ok nodes vars compiled' (nd_id node) c"
    "choice_ok nodes vars compiled nid c' \<Longrightarrow> choice_ok nodes vars compiled' nid c'"
proof -
  from assms obtain t where t: "compiled' = dset compiled (nd_id node, ch_id c) t"
    "issues = []" "ch_target c \<in> set (dkeys nodes)" "check_choice vars t c = Inr ()"
    by (auto simp: compile_choice_def res_simps Let_def split: if_splits sum.splits)
  note ty = check_choice_typed [OF t(4)]
  show "issues = []" by (rule t(2))
  show "choice_ok nodes vars compiled' (nd_id node) c"
    unfolding choice_ok_def using t(1,3) ty by (intro conjI) auto
  show "choice_ok nodes vars compiled' nid c'" if old: "choice_ok nodes vars compiled nid c'"
    using old ty(1) t(1) unfolding choice_ok_def by auto
qed

text \<open>\<open>story_done P (compiled, issues)\<close>: as long as nothing was reported, \<open>P compiled\<close>.\<close>

definition story_done :: "(compiled \<Rightarrow> bool) \<Rightarrow> compiled \<times> issue list \<Rightarrow> bool" where
  "story_done P st \<longleftrightarrow> (snd st = [] \<longrightarrow> P (fst st))"

lemma compile_node_step:
  assumes st': "compile_node ast_parse nodes vars st node = Inr st'"
  shows "story_done (\<lambda>compiled. \<forall>c \<in> set (nd_choices node).
             choice_ok nodes vars compiled (nd_id node) c) st'"
    and "story_done (\<lambda>compiled. choice_ok nodes vars compiled nid c') st \<Longrightarrow>
         story_done (\<lambda>compiled. choice_ok nodes vars compiled nid c') st'"
proof -
  obtain compiled issues where st: "st = (compiled, issues)" by (cases st)
  let ?f = "compile_choice ast_parse nodes vars node"
  obtain issues0 where f: "sfold ?f (compiled, issues0) (nd_choices node) = Inr st'"
    "issues0 = [] \<Longrightarrow> issues = []"
    using st' st by (auto simp: compile_node_def Let_def split: if_splits)
  have keep: "story_done (\<lambda>compiled. choice_ok nodes vars compiled n c) b"
    if "?f a y = Inr b" "story_done (\<lambda>compiled. choice_ok nodes vars compiled n c) a" for a b y n c
  proof (cases a; cases b)
    fix a1 a2 b1 b2 assume "a = (a1, a2)" "b = (b1, b2)"
    then show ?thesis using that compile_choice_step [of ast_parse nodes vars node a1 a2 y b1 b2]
      by (auto simp: story_done_def)
  qed
  have "\<forall>c \<in> set (nd_choices node). story_done (\<lambda>compiled. choice_ok nodes vars compiled (nd_id node) c) st'"
    by (rule sfold_collect [OF f(1)])
      (auto simp: story_done_def dest: compile_choice_step intro: keep [unfolded story_done_def, rule_format])
  then show "story_done (\<lambda>compiled. \<forall>c \<in> set (nd_choices node).
             choice_ok nodes vars compiled (nd_id node) c) st'" by (auto simp: story_done_def)
  show "story_done (\<lambda>compiled. choice_ok nodes vars compiled nid c') st'"
    if "story_done (\<lambda>compiled. choice_ok nodes vars compiled nid c') st"
    by (rule sfold_invariant [OF f(1), of "story_done (\<lambda>compiled. choice_ok nodes vars compiled nid c')"])
      (use that f(2) st in \<open>auto simp: story_done_def intro: keep [unfolded story_done_def, rule_format]\<close>)
qed

lemma nodes_of_eq:
  "distinct (map nd_id (sp_nodes spec)) \<Longrightarrow> nodes_of spec = map (\<lambda>n. (nd_id n, n)) (sp_nodes spec)"
  by (simp add: nodes_of_def dict_of_distinct comp_def)

lemma dget_nodes_of:
  assumes "distinct (map nd_id (sp_nodes spec))" "dget (nodes_of spec) nid = Some n"
  shows "nd_id n = nid" "n \<in> set (sp_nodes spec)"
  using assms by (auto simp: nodes_of_eq dest!: map_of_SomeD)

lemma compile_story_ok:
  assumes "compile_story ast_parse spec = Inr (nodes, compiled, [])"
    and d: "distinct (map nd_id (sp_nodes spec))"
  shows "story_ok nodes (variables_of spec) compiled" "nodes = nodes_of spec"
proof -
  let ?vars = "variables_of spec"
  from assms(1) have n: "nodes = nodes_of spec"
    and f: "sfold (compile_node ast_parse nodes ?vars) ([], []) (dvals nodes) = Inr (compiled, [])"
    by (auto simp: compile_story_def Let_def res_simps)
  show "nodes = nodes_of spec" by (rule n)
  have "\<forall>node \<in> set (dvals nodes). story_done (\<lambda>compiled. \<forall>c \<in> set (nd_choices node).
       choice_ok nodes ?vars compiled (nd_id node) c) (compiled, [])"
  proof (rule sfold_collect [OF f])
    fix s x y s'
    assume step: "compile_node ast_parse nodes ?vars s y = Inr s'"
      and old: "story_done (\<lambda>compiled. \<forall>c \<in> set (nd_choices x). choice_ok nodes ?vars compiled (nd_id x) c) s"
    show "story_done (\<lambda>compiled. \<forall>c \<in> set (nd_choices x). choice_ok nodes ?vars compiled (nd_id x) c) s'"
      using compile_node_step(2) [OF step, of "nd_id x"] old by (auto simp: story_done_def)
  qed (rule compile_node_step(1))
  then have all: "choice_ok nodes ?vars compiled (nd_id node) c"
    if "node \<in> set (dvals nodes)" "c \<in> set (nd_choices node)" for node c
    using that by (auto simp: story_done_def)
  show "story_ok nodes ?vars compiled"
    unfolding story_ok_def
  proof (intro allI impI conjI ballI)
    fix nid node assume look: "dget nodes nid = Some node"
    then show id: "nd_id node = nid" using dget_nodes_of(1) [OF d] n by simp
    have "node \<in> set (dvals nodes)" using map_of_SomeD [OF look] by force
    then show "choice_ok nodes ?vars compiled nid c" if "c \<in> set (nd_choices node)" for c
      using all [of node c] that id by auto
  qed
qed

section \<open>The variables keep their types\<close>

lemma values_typed_dset:
  "values_typed vars vals \<Longrightarrow> dget vars x = Some va \<Longrightarrow> type_of v = va_type va \<Longrightarrow>
     values_typed vars (dset vals x v)"
  by (auto simp: values_typed_def)

lemma values_typed_dmerge:
  "values_typed vars vals \<Longrightarrow>
     \<forall>(x, v) \<in> set asg. \<exists>va. dget vars x = Some va \<and> type_of v = va_type va \<Longrightarrow>
     values_typed vars (dmerge vals asg)"
proof (induction asg arbitrary: vals)
  case (Cons a asg)
  obtain x v where a: "a = (x, v)" by (cases a)
  have "values_typed vars (dset vals x v)" using Cons.prems a values_typed_dset by fastforce
  then show ?case using Cons.IH Cons.prems(2) a by simp
qed simp

lemma initial_values_typed:
  assumes "distinct (map va_name (sp_variables spec))" "list_all variable_valid (sp_variables spec)"
  shows "values_typed (variables_of spec) (initial_values spec)"
proof -
  have eq: "variables_of spec = map (\<lambda>v. (va_name v, v)) (sp_variables spec)"
    "initial_values spec = map (\<lambda>v. (va_name v, va_initial v)) (sp_variables spec)"
    using assms(1) by (simp_all add: variables_of_def initial_values_def dict_of_distinct comp_def)
  have typed: "type_of (va_initial v) = va_type v" if "v \<in> set (sp_variables spec)" for v
    using that assms(2)
    by (cases "va_type v"; cases "va_initial v") (auto simp: list_all_iff variable_valid_def)
  have "\<exists>w. dget (map (\<lambda>v. (va_name v, va_initial v)) vs) n = Some w \<and> type_of w = va_type va"
    if "dget (map (\<lambda>v. (va_name v, v)) vs) n = Some va" "set vs \<subseteq> set (sp_variables spec)" for vs n va
    using that by (induction vs) (auto simp: typed split: if_splits)
  then show ?thesis by (simp add: values_typed_def eq)
qed

section \<open>Playback never raises an internal error\<close>

definition state_ok :: "nodes \<Rightarrow> variables \<Rightarrow> string \<times> bindings \<Rightarrow> bool" where
  "state_ok nodes vars s \<longleftrightarrow> fst s \<in> set (dkeys nodes) \<and> values_typed vars (snd s)"

lemma lookup_simps [simp]: "lookup d k = Inr v \<longleftrightarrow> dget d k = Some v"
  by (auto simp: lookup_def split: option.splits)

lemma state_ok_node: "state_ok nodes vars (nid, vals) \<Longrightarrow> \<exists>n. dget nodes nid = Some n"
  by (force simp: state_ok_def dest: weak_map_of_SomeI)

lemma choice_evaluates:
  assumes "choice_ok nodes vars compiled nid c" "values_typed vars vals"
  shows "\<exists>t b. dget compiled (nid, ch_id c) = Some t \<and> interpret_cond t vals = Inr (SBool b)"
proof -
  from assms(1) obtain t where t: "dget compiled (nid, ch_id c) = Some t"
    "expression_type t vars = Inr TBool" by (auto simp: choice_ok_def)
  from interpret_typed(1) [OF t(2) assms(2)] obtain v where
    "interpret_cond t vals = Inr v" "type_of v = TBool" by auto
  with t(1) show ?thesis by (cases v) auto
qed

lemma choice_keeps_state_ok:
  "choice_ok nodes vars compiled nid c \<Longrightarrow> values_typed vars vals \<Longrightarrow>
     state_ok nodes vars (ch_target c, dmerge vals (ch_assignments c))"
  by (auto simp: choice_ok_def state_ok_def intro!: values_typed_dmerge)

lemma find_choice: "find P cs = Some c \<Longrightarrow> c \<in> set cs \<and> P c"
  by (induction cs) (auto split: if_splits)

lemma play_step_cases:
  assumes ok: "story_ok nodes vars compiled" and st: "state_ok nodes vars s"
  shows "play_step nodes compiled s cid = Inl CHOICE_UNAVAILABLE \<or>
    (\<exists>s'. play_step nodes compiled s cid = Inr s' \<and> state_ok nodes vars s')"
proof -
  obtain nid vals where s: "s = (nid, vals)" by (cases s)
  obtain n where n: "dget nodes nid = Some n" using state_ok_node st s by blast
  have v: "values_typed vars vals" using st s by (simp add: state_ok_def)
  show ?thesis
  proof (cases "find (\<lambda>c. ch_id c = cid) (nd_choices n)")
    case None
    then show ?thesis using s n by (simp add: play_step_def lookup_def)
  next
    case (Some c)
    then have c: "c \<in> set (nd_choices n)" "ch_id c = cid" by (auto dest: find_choice)
    then have cok: "choice_ok nodes vars compiled nid c" using ok n by (auto simp: story_ok_def)
    from choice_evaluates [OF cok v] obtain t b where
      "dget compiled (nid, cid) = Some t" "interpret_cond t vals = Inr (SBool b)" using c by auto
    then show ?thesis
      using s n Some choice_keeps_state_ok [OF cok v] by (auto simp: play_step_def lookup_def)
  qed
qed

lemma play_steps_cases:
  assumes ok: "story_ok nodes vars compiled"
  shows "state_ok nodes vars s \<Longrightarrow>
    sfold (play_step nodes compiled) s path = Inl CHOICE_UNAVAILABLE \<or>
    (\<exists>s'. sfold (play_step nodes compiled) s path = Inr s' \<and> state_ok nodes vars s')"
proof (induction path arbitrary: s)
  case (Cons cid path)
  from play_step_cases [OF ok Cons.prems, of cid] show ?case
  proof
    assume "\<exists>s'. play_step nodes compiled s cid = Inr s' \<and> state_ok nodes vars s'"
    then obtain s' where "play_step nodes compiled s cid = Inr s'" "state_ok nodes vars s'" by blast
    with Cons.IH [of s'] show ?thesis by simp
  qed simp
qed simp

lemma offer_total:
  assumes "choice_ok nodes vars compiled nid c" "values_typed vars vals"
  shows "\<exists>b. offer compiled nid vals c = Inr (ch_id c, ch_label c, b)"
  using choice_evaluates [OF assms] by (auto simp: offer_def lookup_def)

text \<open>The playback reached when the choice log leads to node \<open>n\<close>.\<close>

definition status_after :: "nat \<Rightarrow> nat \<Rightarrow> story_node \<Rightarrow> bool list \<Rightarrow> play_status" where
  "status_after steps max_steps n bs =
     (if nd_ending n \<noteq> [] then ENDING else if steps \<ge> max_steps then STEP_CAP
      else if list_ex (\<lambda>b. b) bs then PLAYING else NO_EXIT_LEFT)"

lemma play_after_steps:
  assumes comp: "compile_story ast_parse spec = Inr (nodes, compiled, [])"
    and ok: "story_ok nodes vars compiled"
    and path: "sfold (play_step nodes compiled) (sp_entry_node_id spec, initial_values spec) path = Inr (nid, vals)"
    and st: "state_ok nodes vars (nid, vals)"
    and len: "length path \<le> sp_max_steps spec" and n: "dget nodes nid = Some n"
  obtains bs p where "play ast_parse spec path = Inr p" "pb_node p = n\<lparr>nd_choices := []\<rparr>"
    "pb_status p = status_after (length path) (sp_max_steps spec) n bs"
    "map (offer compiled nid vals) (nd_choices n) =
       map2 (\<lambda>c b. Inr (ch_id c, ch_label c, b)) (nd_choices n) bs"
    "length bs = length (nd_choices n)" "pb_variables p = vals"
proof -
  have cok: "\<forall>c \<in> set (nd_choices n). choice_ok nodes vars compiled nid c"
    using ok n by (auto simp: story_ok_def)
  have v: "values_typed vars vals" using st by (simp add: state_ok_def)
  have "\<exists>bs. length bs = length cs \<and>
      smap (offer compiled nid vals) cs = Inr (map2 (\<lambda>c b. (ch_id c, ch_label c, b)) cs bs) \<and>
      map (offer compiled nid vals) cs = map2 (\<lambda>c b. Inr (ch_id c, ch_label c, b)) cs bs"
    if "set cs \<subseteq> set (nd_choices n)" for cs
    using that
  proof (induction cs)
    case (Cons c cs)
    then obtain bs where bs: "length bs = length cs"
      "smap (offer compiled nid vals) cs = Inr (map2 (\<lambda>c b. (ch_id c, ch_label c, b)) cs bs)"
      "map (offer compiled nid vals) cs = map2 (\<lambda>c b. Inr (ch_id c, ch_label c, b)) cs bs" by auto
    obtain b where "offer compiled nid vals c = Inr (ch_id c, ch_label c, b)"
      using offer_total [of nodes vars compiled nid c vals] cok v Cons.prems by auto
    with bs show ?case by (intro exI [of _ "b # bs"]) simp
  qed simp
  then obtain bs where bs: "length bs = length (nd_choices n)"
      "smap (offer compiled nid vals) (nd_choices n) = Inr (map2 (\<lambda>c b. (ch_id c, ch_label c, b)) (nd_choices n) bs)"
      "map (offer compiled nid vals) (nd_choices n) = map2 (\<lambda>c b. Inr (ch_id c, ch_label c, b)) (nd_choices n) bs"
    by blast
  have "list_ex (\<lambda>(i, l, e). e) (map2 (\<lambda>c b. (ch_id c, ch_label c, b)) cs ds) = list_ex (\<lambda>b. b) ds"
    if "length ds = length cs" for cs and ds :: "bool list"
    using that by (induction ds cs rule: list_induct2) auto
  with bs(1) have ex: "list_ex (\<lambda>(i, l, e). e) (map2 (\<lambda>c b. (ch_id c, ch_label c, b)) (nd_choices n) bs)
      = list_ex (\<lambda>b. b) bs" by blast
  define p where "p = \<lparr>pb_node = n\<lparr>nd_choices := []\<rparr>,
     pb_choices = map2 (\<lambda>c b. (ch_id c, ch_label c, b)) (nd_choices n) bs, pb_variables = vals,
     pb_steps = length path, pb_max_steps = sp_max_steps spec,
     pb_status = status_after (length path) (sp_max_steps spec) n bs, pb_path = path\<rparr>"
  have "play ast_parse spec path = Inr p"
    using comp path len n bs(2) ex by (simp add: play_def lookup_def Let_def status_after_def p_def)
  then show thesis by (rule that [OF _ _ _ bs(3,1)]) (simp_all add: p_def)
qed

text \<open>C10: When a valid story compiles without issues, playback of any choice log returns a
  playback or one of its two documented refusals; no missing variable, node or condition can
  surface as an internal error.\<close>

theorem play_total:
  assumes "spec_valid ast_parse spec"
    and comp: "compile_story ast_parse spec = Inr (nodes, compiled, [])"
  shows "(\<exists>p. play ast_parse spec path = Inr p) \<or>
    play ast_parse spec path \<in> {Inl STEP_CAP_REACHED, Inl CHOICE_UNAVAILABLE}"
proof (cases "length path > sp_max_steps spec")
  case True
  then show ?thesis using comp by (simp add: play_def)
next
  case False
  let ?s = "(sp_entry_node_id spec, initial_values spec)"
  have d: "distinct (map nd_id (sp_nodes spec))" using assms(1) by (simp add: spec_valid_def)
  note ok = compile_story_ok [OF comp d]
  have "state_ok nodes (variables_of spec) ?s"
    using assms(1) ok(2) d by (simp add: state_ok_def spec_valid_def initial_values_typed nodes_of_eq comp_def)
  from play_steps_cases [OF ok(1) this, of path] show ?thesis
  proof
    assume "\<exists>s'. sfold (play_step nodes compiled) ?s path = Inr s' \<and> state_ok nodes (variables_of spec) s'"
    then obtain nid vals where s': "sfold (play_step nodes compiled) ?s path = Inr (nid, vals)"
      "state_ok nodes (variables_of spec) (nid, vals)" by auto
    obtain n where n: "dget nodes nid = Some n" using state_ok_node [OF s'(2)] by blast
    from play_after_steps [OF comp ok(1) s' _ n] False show ?thesis by (metis not_le_imp_less)
  qed (use comp False in \<open>simp add: play_def\<close>)
qed

section \<open>A small story\<close>

text \<open>Two nodes: a shop with a guarded way out and a way to earn, and an ending.\<close>

definition example_parse :: "string \<Rightarrow> pyast option" where
  "example_parse s = (if s = ''gold >= 3 and not met'' then Some example_ast else None)"

definition example_story :: story_spec where
  "example_story = \<lparr>sp_title = [72], sp_graph_id = ''g'', sp_graph_version = 1,
     sp_entry_node_id = ''shop'',
     sp_nodes =
       [\<lparr>nd_id = ''shop'', nd_version = 1, nd_title = [83], nd_dialogue = [72, 105], nd_character = None,
         nd_background = None, nd_music = None, nd_ending = [],
         nd_choices =
           [\<lparr>ch_id = ''earn'', ch_label = [69], ch_target = ''shop'', ch_condition = [],
             ch_assignments = [(''gold'', SInt 3)]\<rparr>,
            \<lparr>ch_id = ''leave'', ch_label = [76], ch_target = ''home'',
             ch_condition = ''gold >= 3 and not met'', ch_assignments = [(''met'', SBool True)]\<rparr>]\<rparr>,
        \<lparr>nd_id = ''home'', nd_version = 1, nd_title = [72], nd_dialogue = [], nd_character = None,
         nd_background = None, nd_music = None, nd_ending = [69, 110, 100], nd_choices = []\<rparr>],
     sp_variables =
       [\<lparr>va_name = ''gold'', va_type = TInt, va_initial = SInt 0, va_minimum = 0, va_maximum = 10\<rparr>,
        \<lparr>va_name = ''met'', va_type = TBool, va_initial = SBool False, va_minimum = 0, va_maximum = 100\<rparr>],
     sp_graph_record_ids = [], sp_max_steps = 4\<rparr>"

lemma example_conditions:
  "parse_condition example_parse [] = Inr (CLit (SBool True))"
  "parse_condition example_parse ''gold >= 3 and not met'' =
     Inr (CAnd [CCmp CGe (CVar ''gold'') (CLit (SInt 3)), CNot (CVar ''met'')])"
  by code_simp+

lemma example_names:
  "name_ok ''earn''" "name_ok ''leave''" "name_ok ''gold''" "name_ok ''met''"
  by code_simp+

lemma example_story_valid: "spec_valid example_parse example_story"
  by (simp add: spec_valid_def example_story_def len_ok_def identifier_ok_def node_valid_def
      choice_valid_def variable_valid_def opt_ok_def text_safe_def scalar_ok_def
      example_conditions example_names)

definition example_compiled :: compiled where
  "example_compiled =
     [((''shop'', ''earn''), CLit (SBool True)),
      ((''shop'', ''leave''), CAnd [CCmp CGe (CVar ''gold'') (CLit (SInt 3)), CNot (CVar ''met'')])]"

lemma example_story_compiles:
  "compile_story example_parse example_story = Inr (nodes_of example_story, example_compiled, [])"
  by code_simp

theorem play_total_witness:
  "(\<exists>p. play example_parse example_story [''earn'', ''leave''] = Inr p) \<or>
     play example_parse example_story [''earn'', ''leave'']
       \<in> {Inl STEP_CAP_REACHED, Inl CHOICE_UNAVAILABLE}"
  by (rule play_total [OF example_story_valid example_story_compiles])

end
