(* ===== verification/Story_Analysis.thy ===== *)
theory Story_Analysis
  imports Story_Play
begin

text \<open>
  \<open>analyze\<close> of \<open>app/experimental/interactive_story.py\<close>: depth-first search for reachable
  nodes and cycles, the fixpoint of nodes with a way to an ending, and the breadth-first search
  over (node, variables) states bounded by 4096 states and the story's step cap.

  The recursion of \<open>visit\<close> carries fuel; \<open>visit_total\<close> shows that one more than the number
  of nodes is always enough. The queue loop of the state search ends by its own bound.
\<close>

section \<open>Depth-first search\<close>

record dfs =
  df_reachable :: "string set"
  df_cycles :: "string set"
  df_active :: "string set"

definition node_targets :: "nodes \<Rightarrow> string \<Rightarrow> string list" where
  "node_targets nodes nid = (case dget nodes nid of None \<Rightarrow> [] | Some n \<Rightarrow> map ch_target (nd_choices n))"

fun visit :: "nat \<Rightarrow> nodes \<Rightarrow> string \<Rightarrow> dfs \<Rightarrow> dfs option"
  and visit_each :: "nat \<Rightarrow> nodes \<Rightarrow> string list \<Rightarrow> dfs \<Rightarrow> dfs option" where
  "visit 0 nodes nid st = None"
| "visit (Suc fuel) nodes nid st =
     (if nid \<in> df_active st then Some (st\<lparr>df_cycles := insert nid (df_cycles st)\<rparr>)
      else if nid \<in> df_reachable st \<or> nid \<notin> set (dkeys nodes) then Some st
      else case visit_each fuel nodes (node_targets nodes nid)
                  (st\<lparr>df_reachable := insert nid (df_reachable st),
                      df_active := insert nid (df_active st)\<rparr>) of
             None \<Rightarrow> None
           | Some st' \<Rightarrow> Some (st'\<lparr>df_active := df_active st' - {nid}\<rparr>))"
| "visit_each fuel nodes [] st = Some st"
| "visit_each fuel nodes (t # ts) st =
     (case visit fuel nodes t st of None \<Rightarrow> None | Some st' \<Rightarrow> visit_each fuel nodes ts st')"

definition dfs_init :: dfs where
  "dfs_init = \<lparr>df_reachable = {}, df_cycles = {}, df_active = {}\<rparr>"

section \<open>Nodes with a way to an ending\<close>

definition exit_pass :: "nodes \<Rightarrow> string set \<Rightarrow> string set" where
  "exit_pass nodes can_exit =
     fold (\<lambda>n can_exit. if list_ex (\<lambda>c. ch_target c \<in> can_exit) (nd_choices n)
                        then insert (nd_id n) can_exit else can_exit) (dvals nodes) can_exit"

fun exit_loop :: "nodes \<Rightarrow> 'a list \<Rightarrow> string set \<Rightarrow> string set" where
  "exit_loop nodes [] can_exit = can_exit"
| "exit_loop nodes (_ # rounds) can_exit =
     (let old = can_exit; can_exit = exit_pass nodes can_exit
      in if old = can_exit then can_exit else exit_loop nodes rounds can_exit)"

definition exits :: "nodes \<Rightarrow> string set" where
  "exits nodes = set (map nd_id (filter (\<lambda>n. nd_ending n \<noteq> []) (dvals nodes)))"

definition can_exit_set :: "nodes \<Rightarrow> string set" where
  "can_exit_set nodes = exit_loop nodes nodes (exits nodes)"

section \<open>Breadth-first search over states\<close>

definition analysis_states :: nat where "analysis_states = 4096"

record ending =
  en_node :: string
  en_ending :: utext
  en_choices :: "string list"

record 'd bfs =
  bf_queue :: "(string \<times> bindings \<times> string list) list"
  bf_seen :: "'d list"
  bf_witnesses :: "(string, ending) dict"
  bf_dead :: "issue list"
  bf_truncated :: bool
  bf_step_limited :: bool

text \<open>\<open>[c for c in node['choices'] if interpret(compiled[(nid, c['id'])], values)]\<close>\<close>

definition enabled :: "compiled \<Rightarrow> string \<Rightarrow> bindings \<Rightarrow> choice \<Rightarrow> story_error + bool" where
  "enabled compiled nid vals c =
     sbind (lookup compiled (nid, ch_id c)) (\<lambda>tree.
     sbind (interpret_cond tree vals) (\<lambda>v. Inr (truthy v)))"

definition available :: "compiled \<Rightarrow> string \<Rightarrow> bindings \<Rightarrow> choice list \<Rightarrow> story_error + choice list" where
  "available compiled nid vals cs =
     sbind (smap (enabled compiled nid vals) cs) (\<lambda>es. Inr (map fst (filter snd (zip cs es))))"

text \<open>What one round does with a new state; \<open>st\<close> has the key already in \<open>seen\<close>.\<close>

definition expand_state ::
  "nodes \<Rightarrow> compiled \<Rightarrow> nat \<Rightarrow> string \<Rightarrow> bindings \<Rightarrow> string list \<Rightarrow> 'd bfs \<Rightarrow> story_error + 'd bfs" where
  "expand_state nodes compiled max_steps nid vals path st =
     sbind (lookup nodes nid) (\<lambda>node.
     if nd_ending node \<noteq> [] then
       Inr (if nid \<in> set (dkeys (bf_witnesses st)) then st
            else st\<lparr>bf_witnesses := dset (bf_witnesses st) nid
                     \<lparr>en_node = nid, en_ending = nd_ending node, en_choices = path\<rparr>\<rparr>)
     else
       sbind (available compiled nid vals (nd_choices node)) (\<lambda>cs.
       let st = (if cs = [] then st\<lparr>bf_dead := bf_dead st @
                   [\<lparr>is_code = CONDITIONAL_NO_EXIT, is_node = Some nid, is_choice = None, is_path = path\<rparr>]\<rparr>
                 else st)
       in Inr (if length path \<ge> max_steps then st\<lparr>bf_step_limited := True\<rparr>
               else st\<lparr>bf_queue := bf_queue st @
                 map (\<lambda>c. (ch_target c, dmerge vals (ch_assignments c), path @ [ch_id c])) cs\<rparr>)))"

text \<open>One round of the \<open>while queue\<close> loop; \<open>False\<close> is the \<open>break\<close>.\<close>

definition bfs_round ::
  "(string \<times> bindings \<Rightarrow> 'd) \<Rightarrow> nodes \<Rightarrow> compiled \<Rightarrow> nat \<Rightarrow> 'd bfs \<Rightarrow> story_error + bool \<times> 'd bfs" where
  "bfs_round digest nodes compiled max_steps st =
     (case bf_queue st of
        [] \<Rightarrow> Inr (False, st)
      | (nid, vals, path) # rest \<Rightarrow>
          let st = st\<lparr>bf_queue := rest\<rparr>; key = digest (nid, vals)
          in if key \<in> set (bf_seen st) then Inr (True, st)
             else if length (bf_seen st) \<ge> analysis_states then Inr (False, st\<lparr>bf_truncated := True\<rparr>)
             else sbind (expand_state nodes compiled max_steps nid vals path
                           (st\<lparr>bf_seen := bf_seen st @ [key]\<rparr>)) (\<lambda>st. Inr (True, st)))"

lemma expand_state_seen:
  "expand_state nodes compiled max_steps nid vals path st = Inr st' \<Longrightarrow> bf_seen st' = bf_seen st"
  by (auto simp: expand_state_def res_simps Let_def split: if_splits)

lemma expand_state_truncated:
  "expand_state nodes compiled max_steps nid vals path st = Inr st' \<Longrightarrow> bf_truncated st' = bf_truncated st"
proof -
  have "case expand_state nodes compiled max_steps nid vals path st of
      Inl e \<Rightarrow> True | Inr st' \<Rightarrow> bf_truncated st' = bf_truncated st"
    by (simp add: expand_state_def sbind_def Let_def split: sum.split)
  then show "expand_state nodes compiled max_steps nid vals path st = Inr st' \<Longrightarrow>
    bf_truncated st' = bf_truncated st" by simp
qed

lemma bfs_round_measure:
  assumes "bfs_round digest nodes compiled max_steps st = Inr (True, st')"
  shows "analysis_states - length (bf_seen st') < analysis_states - length (bf_seen st) \<or>
    length (bf_seen st') = length (bf_seen st) \<and> length (bf_queue st') < length (bf_queue st)"
  using assms
  by (auto simp: bfs_round_def Let_def res_simps dest!: expand_state_seen split: list.splits if_splits)

function bfs_loop ::
  "(string \<times> bindings \<Rightarrow> 'd) \<Rightarrow> nodes \<Rightarrow> compiled \<Rightarrow> nat \<Rightarrow> 'd bfs \<Rightarrow> story_error + 'd bfs" where
  "bfs_loop digest nodes compiled max_steps st =
     sbind (bfs_round digest nodes compiled max_steps st) (\<lambda>(continue, st').
     if continue then bfs_loop digest nodes compiled max_steps st' else Inr st')"
  by pat_completeness auto

termination
  by (relation "measures [\<lambda>(dg, ns, cs, m, st). analysis_states - length (bf_seen st),
                          \<lambda>(dg, ns, cs, m, st). length (bf_queue st)]")
    (auto dest!: bfs_round_measure)

declare bfs_loop.simps [simp del]

section \<open>The analysis\<close>

record 'd analysis =
  an_issues :: "issue list"
  an_warnings :: "issue list"
  an_endings :: "ending list"
  an_states_checked :: nat
  an_complete :: bool
  an_state_limit :: bool
  an_step_limit :: bool
  an_max_steps :: nat
  an_can_review :: bool

definition bfs_init :: "story_spec \<Rightarrow> 'd bfs" where
  "bfs_init spec = \<lparr>bf_queue = [(sp_entry_node_id spec, initial_values spec, [])], bf_seen = [],
     bf_witnesses = [], bf_dead = [], bf_truncated = False, bf_step_limited = False\<rparr>"

definition bfs_empty :: "'d bfs" where
  "bfs_empty = \<lparr>bf_queue = [], bf_seen = [], bf_witnesses = [], bf_dead = [],
     bf_truncated = False, bf_step_limited = False\<rparr>"

definition graph_pass :: "story_spec \<Rightarrow> nodes \<Rightarrow> (issue list \<times> issue list) option" where
  "graph_pass spec nodes =
     map_option (\<lambda>st.
       (map (\<lambda>n. issue_at NO_ENDING_PATH n None)
          (sorted_list_of_set (df_reachable st - can_exit_set nodes)),
        map (\<lambda>n. issue_at UNREACHABLE_NODE n None)
          (sorted_list_of_set (set (dkeys nodes) - df_reachable st)) @
        map (\<lambda>n. issue_at CYCLE_STEP_CAP_REQUIRED n None) (sorted_list_of_set (df_cycles st))))
       (visit (Suc (length nodes)) nodes (sp_entry_node_id spec) dfs_init)"

definition analyze ::
  "(string \<Rightarrow> pyast option) \<Rightarrow> (string \<times> bindings \<Rightarrow> 'd) \<Rightarrow> story_spec
     \<Rightarrow> (story_error + 'd analysis) option" where
  "analyze ast_parse digest spec =
     (case compile_story ast_parse spec of
        Inl e \<Rightarrow> Some (Inl e)
      | Inr (nodes, compiled, issues) \<Rightarrow>
          map_option (\<lambda>(no_path, warnings).
            let issues = issues @ no_path in
            sbind (if issues = [] then bfs_loop digest nodes compiled (sp_max_steps spec) (bfs_init spec)
                   else Inr bfs_empty) (\<lambda>st.
            let issues = (if issues = []
                          then take 100 (bf_dead st) @
                               (if bf_witnesses st = []
                                then [\<lparr>is_code = NO_REACHABLE_ENDING_WITHIN_CAP, is_node = None,
                                       is_choice = None, is_path = []\<rparr>] else [])
                          else issues)
            in Inr \<lparr>an_issues = issues, an_warnings = warnings, an_endings = dvals (bf_witnesses st),
                    an_states_checked = length (bf_seen st),
                    an_complete = (\<not> bf_truncated st \<and> \<not> bf_step_limited st),
                    an_state_limit = bf_truncated st, an_step_limit = bf_step_limited st,
                    an_max_steps = sp_max_steps spec,
                    an_can_review = (issues = [] \<and> \<not> bf_truncated st \<and> \<not> bf_step_limited st)\<rparr>))
            (graph_pass spec nodes))"

section \<open>Rounds of the state search\<close>

lemma bfs_loop_unfold:
  "bfs_loop digest nodes compiled max_steps st =
     (case bfs_round digest nodes compiled max_steps st of
        Inl e \<Rightarrow> Inl e
      | Inr (continue, st') \<Rightarrow>
          if continue then bfs_loop digest nodes compiled max_steps st' else Inr st')"
  by (subst bfs_loop.simps) (auto simp: sbind_def split: sum.splits)

text \<open>An invariant of the rounds holds where the loop stops, and the loop does not raise.\<close>

lemma bfs_loop_rule:
  assumes "P st"
    and round_ok: "\<And>st. P st \<Longrightarrow> \<exists>b st'. bfs_round digest nodes compiled max_steps st = Inr (b, st')"
    and go: "\<And>st st'. P st \<Longrightarrow> bfs_round digest nodes compiled max_steps st = Inr (True, st') \<Longrightarrow> P st'"
    and stop: "\<And>st st'. P st \<Longrightarrow> bfs_round digest nodes compiled max_steps st = Inr (False, st') \<Longrightarrow> Q st'"
  shows "\<exists>st'. bfs_loop digest nodes compiled max_steps st = Inr st' \<and> Q st'"
  using assms(1)
proof (induction "(digest, nodes, compiled, max_steps, st)" arbitrary: st
    rule: wf_induct [where r = "measures [\<lambda>(dg, ns, cs, m, st). analysis_states - length (bf_seen st),
                          \<lambda>(dg, ns, cs, m, st). length (bf_queue st)]", OF wf_measures])
  case 1
  obtain b st' where r: "bfs_round digest nodes compiled max_steps st = Inr (b, st')"
    using round_ok [OF 1(2)] by blast
  show ?case
  proof (cases b)
    case True
    then have "P st'" using go 1(2) r by simp
    moreover have "((digest, nodes, compiled, max_steps, st'), (digest, nodes, compiled, max_steps, st))
      \<in> measures [\<lambda>(dg, ns, cs, m, st). analysis_states - length (bf_seen st),
                          \<lambda>(dg, ns, cs, m, st). length (bf_queue st)]"
      using bfs_round_measure r True by fastforce
    ultimately obtain st'' where "bfs_loop digest nodes compiled max_steps st' = Inr st''" "Q st''"
      using 1(1) by blast
    then show ?thesis using r True by (simp add: bfs_loop_unfold [of _ _ _ _ st])
  next
    case False
    then show ?thesis using r stop 1(2) by (simp add: bfs_loop_unfold [of _ _ _ _ st])
  qed
qed

section \<open>Successors in the search are the moves of a player\<close>

lemma available_iff:
  assumes "available compiled nid vals cs = Inr es"
  shows "set es = {c \<in> set cs. enabled compiled nid vals c = Inr True}"
proof -
  from assms obtain bs where b: "smap (enabled compiled nid vals) cs = Inr bs"
    "es = map fst (filter snd (zip cs bs))" by (auto simp: available_def res_simps)
  note n = smap_nth [OF b(1)]
  have "c \<in> set es \<longleftrightarrow> (\<exists>i < length cs. cs ! i = c \<and> bs ! i)" for c
    using n unfolding b(2) by (force simp: set_zip in_set_conv_nth)
  moreover have "(\<exists>i < length cs. cs ! i = c \<and> bs ! i) \<longleftrightarrow> c \<in> set cs \<and> enabled compiled nid vals c = Inr True" for c
    using n by (fastforce simp: in_set_conv_nth)
  ultimately show ?thesis by blast
qed

lemma available_total:
  assumes "\<forall>c \<in> set cs. choice_ok nodes vars compiled nid c" "values_typed vars vals"
  shows "\<exists>es. available compiled nid vals cs = Inr es"
proof -
  have "\<exists>bs. smap (enabled compiled nid vals) cs = Inr bs"
    using assms choice_evaluates by (intro smap_total) (fastforce simp: enabled_def lookup_def)
  then show ?thesis by (auto simp: available_def)
qed

definition moves :: "nodes \<Rightarrow> compiled \<Rightarrow> string \<times> bindings \<Rightarrow> (string \<times> bindings) set" where
  "moves nodes compiled s = {s'. \<exists>cid. play_step nodes compiled s cid = Inr s'}"

lemma find_distinct:
  "distinct (map ch_id cs) \<Longrightarrow> c \<in> set cs \<Longrightarrow> find (\<lambda>d. ch_id d = ch_id c) cs = Some c"
  by (induction cs) (auto simp: rev_image_eqI)

lemma play_step_enabled:
  assumes "dget nodes nid = Some n" "nd_ending n = []" "distinct (map ch_id (nd_choices n))"
    "c \<in> set (nd_choices n)" "enabled compiled nid vals c = Inr True"
  shows "play_step nodes compiled (nid, vals) (ch_id c) = Inr (ch_target c, dmerge vals (ch_assignments c))"
  using assms find_distinct [OF assms(3,4)]
  by (auto simp: play_step_def lookup_def enabled_def res_simps split: option.splits)

lemma play_step_elim:
  assumes "play_step nodes compiled (nid, vals) cid = Inr s'" "dget nodes nid = Some n"
  obtains c where "nd_ending n = []" "c \<in> set (nd_choices n)" "ch_id c = cid"
    "enabled compiled nid vals c = Inr True" "s' = (ch_target c, dmerge vals (ch_assignments c))"
  using assms
  by (auto simp: play_step_def res_simps enabled_def lookup_def split: option.splits if_splits
      dest!: find_choice)

lemma moves_eq:
  assumes "dget nodes nid = Some n" "nd_ending n = []" "distinct (map ch_id (nd_choices n))"
    "available compiled nid vals (nd_choices n) = Inr es"
  shows "moves nodes compiled (nid, vals) = (\<lambda>c. (ch_target c, dmerge vals (ch_assignments c))) ` set es"
proof (rule set_eqI)
  fix s'
  note es = available_iff [OF assms(4)]
  show "s' \<in> moves nodes compiled (nid, vals) \<longleftrightarrow>
        s' \<in> (\<lambda>c. (ch_target c, dmerge vals (ch_assignments c))) ` set es"
    using play_step_enabled [OF assms(1-3)] es
    by (auto simp: moves_def elim!: play_step_elim [OF _ assms(1)])
qed

section \<open>The invariant of the state search\<close>

text \<open>Every queued state and every recorded ending is where its path leads a player.\<close>

definition search_sound :: "nodes \<Rightarrow> variables \<Rightarrow> compiled \<Rightarrow> nat \<Rightarrow> string \<times> bindings \<Rightarrow> 'd bfs \<Rightarrow> bool" where
  "search_sound nodes vars compiled max_steps start st \<longleftrightarrow>
     (\<forall>(nid, vals, path) \<in> set (bf_queue st).
        state_ok nodes vars (nid, vals) \<and> length path \<le> max_steps \<and>
        sfold (play_step nodes compiled) start path = Inr (nid, vals)) \<and>
     (\<forall>i \<in> set (bf_dead st). is_code i = CONDITIONAL_NO_EXIT) \<and>
     (\<forall>(k, e) \<in> set (bf_witnesses st). en_node e = k) \<and>
     (\<forall>e \<in> set (dvals (bf_witnesses st)). \<exists>vals n.
        sfold (play_step nodes compiled) start (en_choices e) = Inr (en_node e, vals) \<and>
        dget nodes (en_node e) = Some n \<and> nd_ending n = en_ending e \<and> en_ending e \<noteq> [] \<and>
        length (en_choices e) \<le> max_steps) \<and>
     length (bf_seen st) \<le> analysis_states"

text \<open>
  The states a player can be in after at most \<open>max_steps\<close> choices. Every one of them that was seen
  has its moves seen or queued, and has a move unless it is an ending, as long as nothing was
  reported. With a digest that separates these states, \<open>digest s \<in> set seen\<close> says that \<open>s\<close>
  itself was seen.
\<close>

definition walked :: "nodes \<Rightarrow> compiled \<Rightarrow> nat \<Rightarrow> string \<times> bindings \<Rightarrow> (string \<times> bindings) set" where
  "walked nodes compiled max_steps start =
     {s. \<exists>path. length path \<le> max_steps \<and> sfold (play_step nodes compiled) start path = Inr s}"

definition queued :: "'d bfs \<Rightarrow> (string \<times> bindings) set" where
  "queued st = (\<lambda>e. (fst e, fst (snd e))) ` set (bf_queue st)"

definition search_closed :: "(string \<times> bindings \<Rightarrow> 'd) \<Rightarrow> nodes \<Rightarrow> compiled \<Rightarrow> nat \<Rightarrow> string \<times> bindings \<Rightarrow> 'd bfs \<Rightarrow> bool" where
  "search_closed digest nodes compiled max_steps start st \<longleftrightarrow>
     (digest start \<in> set (bf_seen st) \<or> start \<in> queued st) \<and>
     (\<forall>s \<in> walked nodes compiled max_steps start. \<forall>n. digest s \<in> set (bf_seen st) \<longrightarrow> dget nodes (fst s) = Some n \<longrightarrow> nd_ending n \<noteq> [] \<longrightarrow>
        fst s \<in> set (dkeys (bf_witnesses st))) \<and>
     (\<not> bf_step_limited st \<and> bf_dead st = [] \<longrightarrow>
        (\<forall>s \<in> walked nodes compiled max_steps start. digest s \<in> set (bf_seen st) \<longrightarrow>
           (\<forall>s' \<in> moves nodes compiled s. digest s' \<in> set (bf_seen st) \<or> s' \<in> queued st) \<and>
           ((\<exists>n. dget nodes (fst s) = Some n \<and> nd_ending n \<noteq> []) \<or> moves nodes compiled s \<noteq> {})))"

lemma sfold_step: "sfold f s xs = Inr t \<Longrightarrow> f t x = Inr u \<Longrightarrow> sfold f s (xs @ [x]) = Inr u"
  by (simp add: sfold_append)

definition choices_distinct :: "nodes \<Rightarrow> bool" where
  "choices_distinct nodes \<longleftrightarrow>
     (\<forall>nid n. dget nodes nid = Some n \<longrightarrow> distinct (map ch_id (nd_choices n)))"

lemma choices_distinctD:
  "choices_distinct nodes \<Longrightarrow> dget nodes nid = Some n \<Longrightarrow> distinct (map ch_id (nd_choices n))"
  by (simp add: choices_distinct_def)

lemma expand_state_ending:
  "dget nodes nid = Some n \<Longrightarrow> nd_ending n \<noteq> [] \<Longrightarrow>
     expand_state nodes compiled max_steps nid vals path st =
       Inr (if nid \<in> set (dkeys (bf_witnesses st)) then st
            else st\<lparr>bf_witnesses := dset (bf_witnesses st) nid
                     \<lparr>en_node = nid, en_ending = nd_ending n, en_choices = path\<rparr>\<rparr>)"
  by (simp add: expand_state_def lookup_def)

lemma expand_state_inner:
  "dget nodes nid = Some n \<Longrightarrow> nd_ending n = [] \<Longrightarrow>
     available compiled nid vals (nd_choices n) = Inr es \<Longrightarrow>
     expand_state nodes compiled max_steps nid vals path st =
       Inr (let st = (if es = [] then st\<lparr>bf_dead := bf_dead st @
                   [\<lparr>is_code = CONDITIONAL_NO_EXIT, is_node = Some nid, is_choice = None, is_path = path\<rparr>]\<rparr>
                 else st)
            in if length path \<ge> max_steps then st\<lparr>bf_step_limited := True\<rparr>
               else st\<lparr>bf_queue := bf_queue st @
                 map (\<lambda>c. (ch_target c, dmerge vals (ch_assignments c), path @ [ch_id c])) es\<rparr>)"
  by (simp add: expand_state_def lookup_def Let_def)

lemma expand_state_sound:
  fixes st :: "'d bfs"
  assumes ok: "story_ok nodes vars compiled"
    and dist: "choices_distinct nodes"
    and sound: "search_sound nodes vars compiled max_steps start st"
    and s: "state_ok nodes vars (nid, vals)" "length path \<le> max_steps"
      "sfold (play_step nodes compiled) start path = Inr (nid, vals)"
  shows "\<exists>st'. expand_state nodes compiled max_steps nid vals path st = Inr st' \<and>
    search_sound nodes vars compiled max_steps start st'"
proof -
  obtain n where n: "dget nodes nid = Some n" using state_ok_node s(1) by blast
  show ?thesis
  proof (cases "nd_ending n = []")
    case False
    show ?thesis
      unfolding expand_state_ending [OF n False]
      using False n s sound by (auto simp: search_sound_def dset_fresh)
  next
    case True
    have cok: "\<forall>c \<in> set (nd_choices n). choice_ok nodes vars compiled nid c"
      using ok n by (auto simp: story_ok_def)
    have v: "values_typed vars vals" using s(1) by (simp add: state_ok_def)
    obtain es where es: "available compiled nid vals (nd_choices n) = Inr es"
      using available_total [OF cok v] by blast
    have "state_ok nodes vars (ch_target c, dmerge vals (ch_assignments c)) \<and>
        sfold (play_step nodes compiled) start (path @ [ch_id c]) =
          Inr (ch_target c, dmerge vals (ch_assignments c))" if "c \<in> set es" for c
    proof
      have c: "c \<in> set (nd_choices n)" "enabled compiled nid vals c = Inr True"
        using that available_iff [OF es] by auto
      show "state_ok nodes vars (ch_target c, dmerge vals (ch_assignments c))"
        by (rule choice_keeps_state_ok) (use cok c v in auto)
      show "sfold (play_step nodes compiled) start (path @ [ch_id c]) =
          Inr (ch_target c, dmerge vals (ch_assignments c))"
        by (rule sfold_step [OF s(3)]) (rule play_step_enabled [OF n True choices_distinctD [OF dist n] c])
    qed
    then show ?thesis
      unfolding expand_state_inner [OF n True es]
      using sound s(2) by (auto simp: search_sound_def Let_def)
  qed
qed

lemma closure_grows:
  assumes "\<forall>s \<in> V. D s \<in> S \<longrightarrow> (\<forall>s' \<in> M s. D s' \<in> S \<or> s' \<in> insert s0 R) \<and> E s"
    and "inj_on D V" "s0 \<in> V" "E s0" "Q = R \<union> M s0"
  shows "\<forall>s \<in> V. D s \<in> insert (D s0) S \<longrightarrow> (\<forall>s' \<in> M s. D s' \<in> insert (D s0) S \<or> s' \<in> Q) \<and> E s"
  using assms by (auto dest: inj_onD)

lemma closure_drop:
  assumes "\<forall>s \<in> V. D s \<in> S \<longrightarrow> (\<forall>s' \<in> M s. D s' \<in> S \<or> s' \<in> insert s0 R) \<and> E s" "D s0 \<in> S"
  shows "\<forall>s \<in> V. D s \<in> S \<longrightarrow> (\<forall>s' \<in> M s. D s' \<in> S \<or> s' \<in> R) \<and> E s"
  using assms by blast

lemma search_closed_drop:
  assumes "search_closed digest nodes compiled max_steps start st" "bf_queue st = (nid, vals, path) # rest"
    "digest (nid, vals) \<in> set (bf_seen st)"
  shows "search_closed digest nodes compiled max_steps start (st\<lparr>bf_queue := rest\<rparr>)"
proof -
  have q: "queued st = insert (nid, vals) (queued (st\<lparr>bf_queue := rest\<rparr>))"
    using assms(2) by (simp add: queued_def)
  note old = assms(1) [unfolded search_closed_def q]
  show ?thesis
    unfolding search_closed_def
  proof (intro conjI impI)
    show "digest start \<in> set (bf_seen (st\<lparr>bf_queue := rest\<rparr>)) \<or> start \<in> queued (st\<lparr>bf_queue := rest\<rparr>)"
      using old assms(3) by auto
    show "\<forall>s \<in> walked nodes compiled max_steps start. \<forall>n. digest s \<in> set (bf_seen (st\<lparr>bf_queue := rest\<rparr>)) \<longrightarrow> dget nodes (fst s) = Some n \<longrightarrow>
        nd_ending n \<noteq> [] \<longrightarrow> fst s \<in> set (dkeys (bf_witnesses (st\<lparr>bf_queue := rest\<rparr>)))"
      using old by simp
    show "\<forall>s \<in> walked nodes compiled max_steps start. digest s \<in> set (bf_seen (st\<lparr>bf_queue := rest\<rparr>)) \<longrightarrow>
           (\<forall>s' \<in> moves nodes compiled s. digest s' \<in> set (bf_seen (st\<lparr>bf_queue := rest\<rparr>)) \<or>
              s' \<in> queued (st\<lparr>bf_queue := rest\<rparr>)) \<and>
           ((\<exists>n. dget nodes (fst s) = Some n \<and> nd_ending n \<noteq> []) \<or> moves nodes compiled s \<noteq> {})"
      if "\<not> bf_step_limited (st\<lparr>bf_queue := rest\<rparr>) \<and> bf_dead (st\<lparr>bf_queue := rest\<rparr>) = []"
      by (rule closure_drop [where ?s0.0 = "(nid, vals)"]) (use old that assms(3) in simp_all)
  qed
qed

lemma expand_state_endings:
  fixes st :: "'d bfs"
  assumes exp: "expand_state nodes compiled max_steps nid vals path
      (st\<lparr>bf_queue := rest, bf_seen := bf_seen st @ [digest (nid, vals)]\<rparr>) = Inr st'"
    and inj: "inj_on digest (walked nodes compiled max_steps start)"
    and here: "(nid, vals) \<in> walked nodes compiled max_steps start"
    and old: "\<forall>s \<in> walked nodes compiled max_steps start. \<forall>n. digest s \<in> set (bf_seen st) \<longrightarrow> dget nodes (fst s) = Some n \<longrightarrow> nd_ending n \<noteq> [] \<longrightarrow>
        fst s \<in> set (dkeys (bf_witnesses st))"
  shows "\<forall>s \<in> walked nodes compiled max_steps start. \<forall>n. digest s \<in> set (bf_seen st') \<longrightarrow> dget nodes (fst s) = Some n \<longrightarrow> nd_ending n \<noteq> [] \<longrightarrow>
        fst s \<in> set (dkeys (bf_witnesses st'))"
proof (intro ballI allI impI)
  fix s n assume V: "s \<in> walked nodes compiled max_steps start" and s: "digest s \<in> set (bf_seen st')" "dget nodes (fst s) = Some n" "nd_ending n \<noteq> []"
  obtain m where m: "dget nodes nid = Some m" using exp by (auto simp: expand_state_def res_simps)
  have keys: "set (dkeys (bf_witnesses st')) =
      (if nd_ending m = [] then set (dkeys (bf_witnesses st)) else insert nid (set (dkeys (bf_witnesses st))))"
  proof (cases "nd_ending m = []")
    case True
    then obtain es where es: "available compiled nid vals (nd_choices m) = Inr es"
      using exp m by (auto simp: expand_state_def res_simps)
    show ?thesis using exp True unfolding expand_state_inner [OF m True es] by (auto simp: Let_def split: if_splits)
  next
    case False
    then show ?thesis using exp unfolding expand_state_ending [OF m False]
      by (auto simp: dset_fresh split: if_splits)
  qed
  show "fst s \<in> set (dkeys (bf_witnesses st'))"
  proof (cases "s = (nid, vals)")
    case True
    then show ?thesis using keys s m by simp
  next
    case False
    then have "digest s \<in> set (bf_seen st)"
      using s(1) inj V here unfolding expand_state_seen [OF exp] by (auto dest: inj_onD)
    then have "fst s \<in> set (dkeys (bf_witnesses st))" using old V s(2,3) by blast
    then show ?thesis unfolding keys by auto
  qed
qed

lemma expand_state_closed:
  fixes st :: "'d bfs"
  assumes exp: "expand_state nodes compiled max_steps nid vals path
      (st\<lparr>bf_queue := rest, bf_seen := bf_seen st @ [digest (nid, vals)]\<rparr>) = Inr st'"
    and q: "bf_queue st = (nid, vals, path) # rest"
    and dist: "choices_distinct nodes"
    and inj: "inj_on digest (walked nodes compiled max_steps start)"
    and here: "(nid, vals) \<in> walked nodes compiled max_steps start"
    and closed: "search_closed digest nodes compiled max_steps start st"
  shows "search_closed digest nodes compiled max_steps start st'"
proof -
  from exp obtain n where n: "dget nodes nid = Some n" by (auto simp: expand_state_def res_simps)
  have ending: "moves nodes compiled (nid, vals) = {}" if "nd_ending n \<noteq> []"
    using that by (auto simp: moves_def elim!: play_step_elim [OF _ n])
  let ?R = "(\<lambda>e. (fst e, fst (snd e))) ` set rest"
  have new: "set (bf_seen st') = insert (digest (nid, vals)) (set (bf_seen st))"
    using expand_state_seen [OF exp] by simp
  have "?R \<subseteq> queued st' \<and> (\<not> bf_step_limited st' \<and> bf_dead st' = [] \<longrightarrow>
      \<not> bf_step_limited st \<and> bf_dead st = [] \<and> queued st' = ?R \<union> moves nodes compiled (nid, vals) \<and>
      (nd_ending n \<noteq> [] \<or> moves nodes compiled (nid, vals) \<noteq> {}))"
  proof (cases "nd_ending n = []")
    case False
    then show ?thesis using exp ending unfolding expand_state_ending [OF n False]
      by (auto simp: queued_def split: if_splits)
  next
    case True
    then obtain es where es: "available compiled nid vals (nd_choices n) = Inr es"
      using exp n by (auto simp: expand_state_def res_simps)
    note m = moves_eq [OF n True choices_distinctD [OF dist n] es]
    show ?thesis using exp unfolding expand_state_inner [OF n True es] m queued_def
      by (force simp: Let_def image_Un image_image split: if_splits)
  qed
  note st' = this
  have st: "queued st = insert (nid, vals) ?R" using q by (simp add: queued_def)
  have "digest start \<in> set (bf_seen st') \<or> start \<in> queued st'"
  proof -
    have "digest start \<in> set (bf_seen st) \<or> start \<in> queued st"
      using closed by (simp add: search_closed_def)
    then show ?thesis using st st' new by auto
  qed
  moreover have "\<forall>s \<in> walked nodes compiled max_steps start. digest s \<in> set (bf_seen st') \<longrightarrow>
           (\<forall>s' \<in> moves nodes compiled s. digest s' \<in> set (bf_seen st') \<or> s' \<in> queued st') \<and>
           ((\<exists>n. dget nodes (fst s) = Some n \<and> nd_ending n \<noteq> []) \<or> moves nodes compiled s \<noteq> {})"
    if "\<not> bf_step_limited st'" "bf_dead st' = []"
    unfolding new
  proof (rule closure_grows [OF _ inj here])
    show "\<forall>s \<in> walked nodes compiled max_steps start. digest s \<in> set (bf_seen st) \<longrightarrow>
           (\<forall>s' \<in> moves nodes compiled s. digest s' \<in> set (bf_seen st) \<or> s' \<in> insert (nid, vals) ?R) \<and>
           ((\<exists>n. dget nodes (fst s) = Some n \<and> nd_ending n \<noteq> []) \<or> moves nodes compiled s \<noteq> {})"
      using closed st st' that unfolding search_closed_def by simp
  qed (use st' that n in auto)
  moreover have "\<forall>s \<in> walked nodes compiled max_steps start. \<forall>n'. digest s \<in> set (bf_seen st') \<longrightarrow> dget nodes (fst s) = Some n' \<longrightarrow> nd_ending n' \<noteq> [] \<longrightarrow>
        fst s \<in> set (dkeys (bf_witnesses st'))"
    by (rule expand_state_endings [OF exp inj here]) (use closed in \<open>simp add: search_closed_def\<close>)
  ultimately show ?thesis unfolding search_closed_def by blast
qed

lemma bfs_round_ok:
  fixes st :: "'d bfs"
  assumes ok: "story_ok nodes vars compiled"
    and dist: "choices_distinct nodes"
    and sound: "search_sound nodes vars compiled max_steps start st"
    and closed: "inj_on digest (walked nodes compiled max_steps start) \<longrightarrow> search_closed digest nodes compiled max_steps start st"
  shows "\<exists>b st'. bfs_round digest nodes compiled max_steps st = Inr (b, st') \<and>
    search_sound nodes vars compiled max_steps start st' \<and>
    (b \<or> bf_queue st' = [] \<or> bf_truncated st') \<and>
    (\<not> bf_truncated st' \<longrightarrow> inj_on digest (walked nodes compiled max_steps start) \<longrightarrow> search_closed digest nodes compiled max_steps start st')"
proof (cases "bf_queue st")
  case Nil
  then show ?thesis using sound closed
    by (intro exI [of _ False] exI [of _ st]) (simp add: bfs_round_def)
next
  case (Cons e rest)
  obtain nid vals path where e: "e = (nid, vals, path)" by (cases e)
  let ?key = "digest (nid, vals)"
  have s: "state_ok nodes vars (nid, vals)" "length path \<le> max_steps"
    "sfold (play_step nodes compiled) start path = Inr (nid, vals)"
    using sound Cons e by (auto simp: search_sound_def)
  have here: "(nid, vals) \<in> walked nodes compiled max_steps start" using s by (auto simp: walked_def)
  have rest: "search_sound nodes vars compiled max_steps start (st\<lparr>bf_queue := rest\<rparr>)"
    using sound Cons by (auto simp: search_sound_def)
  consider (seen) "?key \<in> set (bf_seen st)"
    | (full) "?key \<notin> set (bf_seen st)" "length (bf_seen st) \<ge> analysis_states"
    | (new) "?key \<notin> set (bf_seen st)" "length (bf_seen st) < analysis_states" by linarith
  then show ?thesis
  proof cases
    case seen
    have "search_closed digest nodes compiled max_steps start (st\<lparr>bf_queue := rest\<rparr>)" if i: "inj_on digest (walked nodes compiled max_steps start)"
      using closed i seen Cons e by (intro search_closed_drop) auto
    then show ?thesis using seen Cons e rest by (auto simp: bfs_round_def Let_def)
  next
    case full
    then show ?thesis using Cons e rest by (auto simp: bfs_round_def Let_def search_sound_def)
  next
    case new
    let ?st = "st\<lparr>bf_queue := rest, bf_seen := bf_seen st @ [?key]\<rparr>"
    have "search_sound nodes vars compiled max_steps start ?st"
      using rest new by (auto simp: search_sound_def)
    from expand_state_sound [OF ok dist this s] obtain st' where
      st': "expand_state nodes compiled max_steps nid vals path ?st = Inr st'"
        "search_sound nodes vars compiled max_steps start st'" by blast
    have "bfs_round digest nodes compiled max_steps st = Inr (True, st')"
      using new Cons e st'(1) by (simp add: bfs_round_def Let_def)
    moreover have "inj_on digest (walked nodes compiled max_steps start) \<longrightarrow> search_closed digest nodes compiled max_steps start st'"
      using expand_state_closed [where digest = digest and st = st, OF st'(1) _ dist _ here] closed Cons e by blast
    ultimately show ?thesis using st'(2) by blast
  qed
qed

lemma bfs_round_truncated:
  "bfs_round digest nodes compiled max_steps st = Inr (True, st') \<Longrightarrow> bf_truncated st' = bf_truncated st"
  by (auto simp: bfs_round_def Let_def res_simps dest!: expand_state_truncated split: list.splits if_splits)

text \<open>What the search returns.\<close>

lemma bfs_loop_ok:
  fixes st :: "'d bfs"
  assumes ok: "story_ok nodes vars compiled"
    and dist: "choices_distinct nodes"
    and st: "search_sound nodes vars compiled max_steps start st"
      "inj_on digest (walked nodes compiled max_steps start) \<longrightarrow> search_closed digest nodes compiled max_steps start st" "\<not> bf_truncated st"
  shows "\<exists>st'. bfs_loop digest nodes compiled max_steps st = Inr st' \<and>
    search_sound nodes vars compiled max_steps start st' \<and>
    (\<not> bf_truncated st' \<longrightarrow> bf_queue st' = [] \<and>
      (inj_on digest (walked nodes compiled max_steps start) \<longrightarrow> search_closed digest nodes compiled max_steps start st'))"
proof (rule bfs_loop_rule [where P = "\<lambda>st. search_sound nodes vars compiled max_steps start st \<and>
      (inj_on digest (walked nodes compiled max_steps start) \<longrightarrow> search_closed digest nodes compiled max_steps start st) \<and> \<not> bf_truncated st"])
  fix s :: "'d bfs"
  assume P: "search_sound nodes vars compiled max_steps start s \<and>
      (inj_on digest (walked nodes compiled max_steps start) \<longrightarrow> search_closed digest nodes compiled max_steps start s) \<and> \<not> bf_truncated s"
  note r = bfs_round_ok [where start = start and st = s and digest = digest, OF ok dist]
  from P r show "\<exists>b st'. bfs_round digest nodes compiled max_steps s = Inr (b, st')" by blast
  show "search_sound nodes vars compiled max_steps start s' \<and>
      (inj_on digest (walked nodes compiled max_steps start) \<longrightarrow> search_closed digest nodes compiled max_steps start s') \<and> \<not> bf_truncated s'"
    if "bfs_round digest nodes compiled max_steps s = Inr (True, s')" for s'
    using P r that bfs_round_truncated [OF that] by fastforce
  show "search_sound nodes vars compiled max_steps start s' \<and>
    (\<not> bf_truncated s' \<longrightarrow> bf_queue s' = [] \<and>
      (inj_on digest (walked nodes compiled max_steps start) \<longrightarrow> search_closed digest nodes compiled max_steps start s'))"
    if "bfs_round digest nodes compiled max_steps s = Inr (False, s')" for s'
    using P r that by fastforce
qed (use st in blast)

section \<open>The depth-first search is exact\<close>

definition edge :: "nodes \<Rightarrow> string \<Rightarrow> string \<Rightarrow> bool" where
  "edge nodes a b \<longleftrightarrow> b \<in> set (node_targets nodes a) \<and> b \<in> set (dkeys nodes)"

lemma edge_iff:
  "edge nodes a b \<longleftrightarrow>
     (\<exists>n d. dget nodes a = Some n \<and> d \<in> set (nd_choices n) \<and> ch_target d = b) \<and> b \<in> set (dkeys nodes)"
  by (cases "dget nodes a") (auto simp: edge_def node_targets_def)

text \<open>The known nodes that a walk from \<open>a\<close> reaches.\<close>

definition walk_set :: "nodes \<Rightarrow> string \<Rightarrow> string set" where
  "walk_set nodes a = {b. a \<in> set (dkeys nodes) \<and> (edge nodes)\<^sup>*\<^sup>* a b}"

definition unvisited :: "nodes \<Rightarrow> dfs \<Rightarrow> nat" where
  "unvisited nodes st = card (set (dkeys nodes) - df_reachable st)"

text \<open>
  What a call of \<open>visit\<close> from \<open>nid\<close> promises: it grows the reachable set inside the walk of
  \<open>nid\<close>, leaves \<open>active\<close> as it was, and everything it added has its successors reachable.
\<close>

definition visit_post :: "nodes \<Rightarrow> string set \<Rightarrow> dfs \<Rightarrow> dfs \<Rightarrow> bool" where
  "visit_post nodes from st st' \<longleftrightarrow>
     df_active st' = df_active st \<and> df_reachable st \<subseteq> df_reachable st' \<and>
     df_reachable st' - df_reachable st \<subseteq> (\<Union>a \<in> from. walk_set nodes a) \<and>
     from \<inter> set (dkeys nodes) \<subseteq> df_reachable st' \<and>
     (\<forall>a b. a \<in> df_reachable st' - df_reachable st \<longrightarrow> edge nodes a b \<longrightarrow> b \<in> df_reachable st')"

lemma unvisited_mono:
  "df_reachable st \<subseteq> df_reachable st' \<Longrightarrow> unvisited nodes st' \<le> unvisited nodes st"
  unfolding unvisited_def by (rule card_mono) auto

lemma visit_exact:
  "df_active st \<subseteq> df_reachable st \<Longrightarrow> unvisited nodes st < fuel \<Longrightarrow>
     \<exists>st'. visit fuel nodes nid st = Some st' \<and> visit_post nodes {nid} st st'"
  "df_active st \<subseteq> df_reachable st \<Longrightarrow> unvisited nodes st < fuel \<Longrightarrow>
     \<exists>st'. visit_each fuel nodes ts st = Some st' \<and> visit_post nodes (set ts) st st'"
proof (induction fuel nodes nid st and fuel nodes ts st rule: visit_visit_each.induct)
  case (1 nodes nid st)
  then show ?case by simp
next
  case (2 fuel nodes nid st)
  consider (old) "nid \<in> df_active st \<or> nid \<in> df_reachable st \<or> nid \<notin> set (dkeys nodes)"
    | (new) "nid \<notin> df_active st" "nid \<notin> df_reachable st" "nid \<in> set (dkeys nodes)" by blast
  then show ?case
  proof cases
    case old
    then show ?thesis using "2.prems" by (auto simp: visit_post_def)
  next
    case new
    let ?st = "st\<lparr>df_reachable := insert nid (df_reachable st), df_active := insert nid (df_active st)\<rparr>"
    have "set (dkeys nodes) - df_reachable ?st = (set (dkeys nodes) - df_reachable st) - {nid}" by auto
    then have "unvisited nodes ?st < unvisited nodes st"
      using new unfolding unvisited_def by (simp add: card_Diff1_less del: card_Diff_insert)
    moreover have "unvisited nodes st < Suc fuel" by (rule "2.prems"(2))
    ultimately have "unvisited nodes ?st < fuel" by linarith
    moreover have "df_active ?st \<subseteq> df_reachable ?st" using "2.prems"(1) by auto
    ultimately obtain st' where st': "visit_each fuel nodes (node_targets nodes nid) ?st = Some st'"
      "visit_post nodes (set (node_targets nodes nid)) ?st st'"
      using "2.IH" new by auto
    have reach: "df_reachable st' - df_reachable st \<subseteq> walk_set nodes nid"
    proof
      fix b assume b: "b \<in> df_reachable st' - df_reachable st"
      show "b \<in> walk_set nodes nid"
      proof (cases "b = nid")
        case True
        then show ?thesis using new by (simp add: walk_set_def)
      next
        case False
        then obtain a where "a \<in> set (node_targets nodes nid)" "b \<in> walk_set nodes a"
          using st'(2) b by (auto simp: visit_post_def)
        then have "edge nodes nid a" "(edge nodes)\<^sup>*\<^sup>* a b" by (auto simp: walk_set_def edge_def)
        then show ?thesis using new by (simp add: walk_set_def)
      qed
    qed
    have nid: "nid \<in> df_reachable st'" using st'(2) by (auto simp: visit_post_def)
    have closed: "b \<in> df_reachable st'" if "a \<in> df_reachable st' - df_reachable st" "edge nodes a b" for a b
    proof (cases "a = nid")
      case True
      then show ?thesis using st'(2) that(2) by (auto simp: visit_post_def edge_def)
    next
      case False
      then show ?thesis using st'(2) that by (auto simp: visit_post_def)
    qed
    have "visit (Suc fuel) nodes nid st = Some (st'\<lparr>df_active := df_active st' - {nid}\<rparr>)"
      using new st'(1) by simp
    moreover have "visit_post nodes {nid} st (st'\<lparr>df_active := df_active st' - {nid}\<rparr>)"
    proof -
      have "df_active st' - {nid} = df_active st" "df_reachable st \<subseteq> df_reachable st'"
        using st'(2) new(1) by (auto simp: visit_post_def)
      then show ?thesis using reach nid closed by (auto simp: visit_post_def)
    qed
    ultimately show ?thesis by blast
  qed
next
  case (3 fuel nodes st)
  then show ?case by (simp add: visit_post_def)
next
  case (4 fuel nodes t ts st)
  from "4.IH"(1) [OF "4.prems"] obtain st1 where
    st1: "visit fuel nodes t st = Some st1" "visit_post nodes {t} st st1" by blast
  have "df_active st1 \<subseteq> df_reachable st1" "unvisited nodes st1 < fuel"
    using st1(2) "4.prems" unvisited_mono [of st st1 nodes] by (auto simp: visit_post_def)
  from "4.IH"(2) [OF st1(1) this] obtain st2 where
    st2: "visit_each fuel nodes ts st1 = Some st2" "visit_post nodes (set ts) st1 st2" by blast
  have closed: "b \<in> df_reachable st2" if "a \<in> df_reachable st2 - df_reachable st" "edge nodes a b" for a b
    using st1(2) st2(2) that unfolding visit_post_def by (cases "a \<in> df_reachable st1") blast+
  have "visit_post nodes (set (t # ts)) st st2"
    unfolding visit_post_def
  proof (intro conjI)
    show "df_active st2 = df_active st" "df_reachable st \<subseteq> df_reachable st2"
      "df_reachable st2 - df_reachable st \<subseteq> (\<Union>a \<in> set (t # ts). walk_set nodes a)"
      "set (t # ts) \<inter> set (dkeys nodes) \<subseteq> df_reachable st2"
      using st1(2) st2(2) unfolding visit_post_def by auto
  qed (use closed in blast)
  then show ?case using st1(1) st2(1) by simp
qed

lemma visit_entry:
  assumes "distinct (dkeys nodes)"
  shows "\<exists>st'. visit (Suc (length nodes)) nodes nid dfs_init = Some st' \<and>
    df_reachable st' = walk_set nodes nid"
proof -
  have "unvisited nodes dfs_init < Suc (length nodes)"
    using card_length [of "dkeys nodes"] by (simp add: unvisited_def dfs_init_def)
  then obtain st' where st': "visit (Suc (length nodes)) nodes nid dfs_init = Some st'"
    "visit_post nodes {nid} dfs_init st'"
    using visit_exact(1) [of dfs_init nodes "Suc (length nodes)" nid] by (auto simp: dfs_init_def)
  have "b \<in> df_reachable st'" if "(edge nodes)\<^sup>*\<^sup>* nid b" "nid \<in> set (dkeys nodes)" for b
    using that
  proof (induction rule: rtranclp_induct)
    case base
    then show ?case using st'(2) by (auto simp: visit_post_def)
  next
    case (step a b)
    then show ?case using st'(2) by (auto simp: visit_post_def dfs_init_def)
  qed
  then have "walk_set nodes nid \<subseteq> df_reachable st'" by (auto simp: walk_set_def)
  moreover have "df_reachable st' \<subseteq> walk_set nodes nid"
    using st'(2) by (auto simp: visit_post_def dfs_init_def)
  ultimately show ?thesis using st'(1) by blast
qed

section \<open>The pass over exits is exact\<close>

text \<open>Nodes from which some walk ends at an ending.\<close>

definition exit_nodes :: "nodes \<Rightarrow> string set" where
  "exit_nodes nodes = {a. \<exists>b \<in> exits nodes. b \<in> walk_set nodes a}"

definition ids_match :: "nodes \<Rightarrow> bool" where
  "ids_match nodes \<longleftrightarrow> distinct (dkeys nodes) \<and> (\<forall>(k, n) \<in> set nodes. nd_id n = k)"

lemma ids_match_dget: "ids_match nodes \<Longrightarrow> n \<in> set (dvals nodes) \<Longrightarrow> dget nodes (nd_id n) = Some n"
  by (force simp: ids_match_def)

lemma exit_fold_grows:
  "S \<subseteq> fold (\<lambda>n S. if list_ex (\<lambda>c. ch_target c \<in> S) (nd_choices n) then insert (nd_id n) S else S) ns S"
proof (induction ns arbitrary: S)
  case (Cons n ns)
  show ?case using Cons.IH [of S] Cons.IH [of "insert (nd_id n) S"] by auto
qed simp

lemma exit_fold_sound:
  assumes "ids_match nodes" "set ns \<subseteq> set (dvals nodes)" "S \<subseteq> exit_nodes nodes"
  shows "fold (\<lambda>n S. if list_ex (\<lambda>c. ch_target c \<in> S) (nd_choices n) then insert (nd_id n) S else S) ns S
     \<subseteq> exit_nodes nodes"
  using assms(2,3)
proof (induction ns arbitrary: S)
  case (Cons n ns)
  have "nd_id n \<in> exit_nodes nodes" if c: "c \<in> set (nd_choices n)" "ch_target c \<in> S" for c
  proof -
    have n: "dget nodes (nd_id n) = Some n" using ids_match_dget [OF assms(1)] Cons.prems(1) by auto
    obtain b where b: "b \<in> exits nodes" "ch_target c \<in> set (dkeys nodes)" "(edge nodes)\<^sup>*\<^sup>* (ch_target c) b"
      using subsetD [OF Cons.prems(2) c(2)] by (auto simp: exit_nodes_def walk_set_def)
    have "edge nodes (nd_id n) (ch_target c)" using n b c by (auto simp: edge_def node_targets_def)
    then have "(edge nodes)\<^sup>*\<^sup>* (nd_id n) b" using b(3) by simp
    then show ?thesis using b(1) dget_in_keys [OF n] by (auto simp: exit_nodes_def walk_set_def)
  qed
  then have "insert (nd_id n) S \<subseteq> exit_nodes nodes" if "list_ex (\<lambda>c. ch_target c \<in> S) (nd_choices n)"
    using that Cons.prems(2) by (auto simp: list_ex_iff)
  then show ?case using Cons.prems Cons.IH [of S] Cons.IH [of "insert (nd_id n) S"] by simp
qed simp

lemma exit_fold_closed:
  "n \<in> set ns \<Longrightarrow> c \<in> set (nd_choices n) \<Longrightarrow> ch_target c \<in> S \<Longrightarrow>
     nd_id n \<in> fold (\<lambda>n S. if list_ex (\<lambda>c. ch_target c \<in> S) (nd_choices n) then insert (nd_id n) S else S) ns S"
proof (induction ns arbitrary: S)
  case (Cons m ns)
  show ?case
  proof (cases "n = m")
    case True
    then show ?thesis using Cons.prems exit_fold_grows [of "insert (nd_id m) S" ns]
      by (auto simp: list_ex_iff)
  next
    case False
    then show ?thesis using Cons by auto
  qed
qed simp

lemma exit_loop_fixpoint:
  assumes "ids_match nodes" "S \<subseteq> set (dkeys nodes)" "card (set (dkeys nodes)) \<le> card S + length rounds"
    "S \<subseteq> exit_nodes nodes"
  shows "S \<subseteq> exit_loop nodes rounds S \<and> exit_loop nodes rounds S \<subseteq> exit_nodes nodes \<and>
    exit_pass nodes (exit_loop nodes rounds S) = exit_loop nodes rounds S"
  using assms(2-4)
proof (induction rounds arbitrary: S)
  case Nil
  then have "S = set (dkeys nodes)" by (intro card_seteq) auto
  moreover have "exit_pass nodes S \<subseteq> exit_nodes nodes"
    unfolding exit_pass_def by (rule exit_fold_sound) (use assms(1) Nil in auto)
  moreover have "exit_nodes nodes \<subseteq> set (dkeys nodes)" by (auto simp: exit_nodes_def walk_set_def)
  ultimately show ?case using Nil exit_fold_grows [of S "dvals nodes"] by (auto simp: exit_pass_def)
next
  case (Cons r rounds)
  let ?T = "exit_pass nodes S"
  have T: "?T \<subseteq> exit_nodes nodes" "S \<subseteq> ?T"
    unfolding exit_pass_def
    using exit_fold_sound [OF assms(1) _ Cons.prems(3), of "dvals nodes"] exit_fold_grows [of S] by auto
  show ?case
  proof (cases "S = ?T")
    case True
    then show ?thesis using Cons.prems by (simp add: Let_def)
  next
    case False
    have keys: "?T \<subseteq> set (dkeys nodes)" using T(1) by (auto simp: exit_nodes_def walk_set_def)
    have "card S < card ?T"
      using False T(2) keys by (intro psubset_card_mono) (auto intro: finite_subset)
    then have "card (set (dkeys nodes)) \<le> card ?T + length rounds" using Cons.prems(2) by simp
    from Cons.IH [OF keys this T(1)] show ?thesis using T(2) False by (auto simp: Let_def)
  qed
qed

lemma can_exit_exact:
  assumes ids: "ids_match nodes"
  shows "can_exit_set nodes = exit_nodes nodes"
proof
  have start: "exits nodes \<subseteq> set (dkeys nodes)" "exits nodes \<subseteq> exit_nodes nodes"
    using ids_match_dget [OF ids]
    by (force simp: exits_def dest: dget_in_keys, force simp: exits_def exit_nodes_def walk_set_def dest: dget_in_keys)
  have "card (set (dkeys nodes)) \<le> card (exits nodes) + length nodes"
    using card_length [of "dkeys nodes"] by simp
  note fp = exit_loop_fixpoint [OF ids start(1) this start(2), folded can_exit_set_def]
  show "can_exit_set nodes \<subseteq> exit_nodes nodes" using fp by blast
  show "exit_nodes nodes \<subseteq> can_exit_set nodes"
  proof
    fix a assume "a \<in> exit_nodes nodes"
    then obtain b where b: "b \<in> exits nodes" "(edge nodes)\<^sup>*\<^sup>* a b" by (auto simp: exit_nodes_def walk_set_def)
    from b(2,1) show "a \<in> can_exit_set nodes"
    proof (induction rule: converse_rtranclp_induct)
      case base
      then show ?case using fp by blast
    next
      case (step a c)
      then obtain n d where n: "dget nodes a = Some n" "d \<in> set (nd_choices n)" "ch_target d = c"
        by (auto simp: edge_iff)
      have m: "n \<in> set (dvals nodes)" "nd_id n = a"
        using map_of_SomeD [OF n(1)] ids by (force simp: ids_match_def)+
      have "nd_id n \<in> exit_pass nodes (can_exit_set nodes)"
        unfolding exit_pass_def by (rule exit_fold_closed [OF m(1) n(2)]) (use step n in simp)
      then show ?case using fp m by simp
    qed
  qed
qed

section \<open>The whole analysis\<close>

lemma compile_choice_total:
  "choice_valid ast_parse c \<Longrightarrow> \<exists>st'. compile_choice ast_parse nodes vars node st c = Inr st'"
  by (auto simp: compile_choice_def choice_valid_def Let_def split: sum.splits prod.splits)

lemma sfold_total:
  "(\<And>s x. x \<in> set xs \<Longrightarrow> \<exists>s'. f s x = Inr s') \<Longrightarrow> \<exists>t. sfold f s xs = Inr t"
proof (induction xs arbitrary: s)
  case (Cons x xs)
  obtain s' where "f s x = Inr s'" using Cons.prems by fastforce
  moreover obtain t where "sfold f s' xs = Inr t" using Cons by fastforce
  ultimately show ?case by simp
qed simp

lemma valid_nodes:
  assumes "spec_valid ast_parse spec"
  shows "ids_match (nodes_of spec)" "choices_distinct (nodes_of spec)"
    "sp_entry_node_id spec \<in> set (dkeys (nodes_of spec))"
    "n \<in> set (dvals (nodes_of spec)) \<Longrightarrow> node_valid ast_parse n"
proof -
  have d: "distinct (map nd_id (sp_nodes spec))" and v: "list_all (node_valid ast_parse) (sp_nodes spec)"
    and e: "sp_entry_node_id spec \<in> set (map nd_id (sp_nodes spec))"
    using assms by (simp_all add: spec_valid_def)
  show "ids_match (nodes_of spec)" using d by (auto simp: ids_match_def nodes_of_eq comp_def)
  show "choices_distinct (nodes_of spec)"
    using dget_nodes_of(2) [OF d] v by (auto simp: choices_distinct_def list_all_iff node_valid_def)
  show "sp_entry_node_id spec \<in> set (dkeys (nodes_of spec))" using e d by (auto simp: nodes_of_eq)
  show "node_valid ast_parse n" if "n \<in> set (dvals (nodes_of spec))"
    using that v d by (auto simp: nodes_of_eq list_all_iff)
qed

lemma compile_story_total:
  assumes "spec_valid ast_parse spec"
  shows "\<exists>compiled issues. compile_story ast_parse spec = Inr (nodes_of spec, compiled, issues)"
proof -
  have "\<exists>st. sfold (compile_node ast_parse (nodes_of spec) (variables_of spec)) ([], []) (dvals (nodes_of spec)) = Inr st"
  proof (rule sfold_total)
    fix st n assume "n \<in> set (dvals (nodes_of spec))"
    then have "\<forall>c \<in> set (nd_choices n). choice_valid ast_parse c"
      using valid_nodes(4) [OF assms] by (auto simp: node_valid_def list_all_iff)
    then have "\<exists>st'. sfold (compile_choice ast_parse (nodes_of spec) (variables_of spec) n) s (nd_choices n) = Inr st'"
      for s by (intro sfold_total compile_choice_total) auto
    then show "\<exists>st'. compile_node ast_parse (nodes_of spec) (variables_of spec) st n = Inr st'"
      by (simp add: compile_node_def Let_def split: prod.splits)
  qed
  then show ?thesis by (auto simp: compile_story_def Let_def)
qed

text \<open>The search that \<open>analyze\<close> runs on a story that compiled without issues.\<close>

lemma search_ok:
  fixes digest :: "string \<times> bindings \<Rightarrow> 'd"
  assumes v: "spec_valid ast_parse spec"
    and comp: "compile_story ast_parse spec = Inr (nodes, compiled, [])"
  defines "start \<equiv> (sp_entry_node_id spec, initial_values spec)"
  shows "\<exists>st. bfs_loop digest nodes compiled (sp_max_steps spec) (bfs_init spec) = Inr st \<and>
    search_sound nodes (variables_of spec) compiled (sp_max_steps spec) start st \<and>
    (\<not> bf_truncated st \<longrightarrow> bf_queue st = [] \<and>
      (inj_on digest (walked nodes compiled (sp_max_steps spec) start) \<longrightarrow> search_closed digest nodes compiled (sp_max_steps spec) start st))"
proof -
  have d: "distinct (map nd_id (sp_nodes spec))" using v by (simp add: spec_valid_def)
  note ok = compile_story_ok [OF comp d]
  have "state_ok nodes (variables_of spec) start"
    using valid_nodes(3) [OF v] v ok(2)
    by (simp add: start_def state_ok_def spec_valid_def initial_values_typed)
  then have "search_sound nodes (variables_of spec) compiled (sp_max_steps spec) start (bfs_init spec :: 'd bfs)"
    by (simp add: search_sound_def bfs_init_def start_def analysis_states_def)
  moreover have "search_closed digest nodes compiled (sp_max_steps spec) start (bfs_init spec)"
    by (simp add: search_closed_def bfs_init_def start_def queued_def)
  ultimately show ?thesis
    using bfs_loop_ok [OF ok(1), of "sp_max_steps spec" start "bfs_init spec" digest] valid_nodes(2) [OF v] ok(2)
    by (simp add: bfs_init_def)
qed

lemma graph_pass_total:
  assumes "spec_valid ast_parse spec"
  shows "\<exists>cycles. graph_pass spec (nodes_of spec) = Some
      (map (\<lambda>n. issue_at NO_ENDING_PATH n None) (sorted_list_of_set
          (walk_set (nodes_of spec) (sp_entry_node_id spec) - exit_nodes (nodes_of spec))),
       map (\<lambda>n. issue_at UNREACHABLE_NODE n None) (sorted_list_of_set
          (set (dkeys (nodes_of spec)) - walk_set (nodes_of spec) (sp_entry_node_id spec))) @
       map (\<lambda>n. issue_at CYCLE_STEP_CAP_REQUIRED n None) (sorted_list_of_set cycles))"
proof -
  have ids: "ids_match (nodes_of spec)" by (rule valid_nodes(1) [OF assms])
  then have "distinct (dkeys (nodes_of spec))" by (simp add: ids_match_def)
  from visit_entry [OF this] obtain st where
    "visit (Suc (length (nodes_of spec))) (nodes_of spec) (sp_entry_node_id spec) dfs_init = Some st"
    "df_reachable st = walk_set (nodes_of spec) (sp_entry_node_id spec)" by blast
  then show ?thesis by (auto simp: graph_pass_def can_exit_exact [OF ids])
qed

lemma analyze_cases:
  fixes digest :: "string \<times> bindings \<Rightarrow> 'd"
  assumes v: "spec_valid ast_parse spec"
  obtains (issues) compiled issues r where
      "compile_story ast_parse spec = Inr (nodes_of spec, compiled, issues)"
      "analyze ast_parse digest spec = Some (Inr r)" "an_endings r = []" "an_states_checked r = 0"
      "\<not> an_can_review r"
    | (search) compiled st r where
      "compile_story ast_parse spec = Inr (nodes_of spec, compiled, [])"
      "bfs_loop digest (nodes_of spec) compiled (sp_max_steps spec) (bfs_init spec) = Inr st"
      "search_sound (nodes_of spec) (variables_of spec) compiled (sp_max_steps spec)
         (sp_entry_node_id spec, initial_values spec) st"
      "\<not> bf_truncated st \<Longrightarrow> bf_queue st = [] \<and>
         (inj_on digest (walked (nodes_of spec) compiled (sp_max_steps spec) (sp_entry_node_id spec, initial_values spec)) \<longrightarrow> search_closed digest (nodes_of spec) compiled (sp_max_steps spec)
            (sp_entry_node_id spec, initial_values spec) st)"
      "analyze ast_parse digest spec = Some (Inr r)" "an_endings r = dvals (bf_witnesses st)"
      "an_states_checked r = length (bf_seen st)"
      "an_can_review r \<longrightarrow> \<not> bf_truncated st \<and> \<not> bf_step_limited st \<and> bf_dead st = []"
proof -
  obtain compiled issues where comp: "compile_story ast_parse spec = Inr (nodes_of spec, compiled, issues)"
    using compile_story_total [OF v] by blast
  obtain no_path warnings where g: "graph_pass spec (nodes_of spec) = Some (no_path, warnings)"
    using graph_pass_total [OF v] by blast
  show thesis
  proof (cases "issues @ no_path = []")
    case False
    show thesis
      by (rule issues [OF comp]) (use False comp g in \<open>auto simp: analyze_def bfs_empty_def Let_def\<close>)
  next
    case True
    then have comp': "compile_story ast_parse spec = Inr (nodes_of spec, compiled, [])" using comp by simp
    obtain st :: "'d bfs" where st: "bfs_loop digest (nodes_of spec) compiled (sp_max_steps spec) (bfs_init spec) = Inr st"
      "search_sound (nodes_of spec) (variables_of spec) compiled (sp_max_steps spec)
         (sp_entry_node_id spec, initial_values spec) st"
      "\<not> bf_truncated st \<Longrightarrow> bf_queue st = [] \<and>
         (inj_on digest (walked (nodes_of spec) compiled (sp_max_steps spec) (sp_entry_node_id spec, initial_values spec)) \<longrightarrow> search_closed digest (nodes_of spec) compiled (sp_max_steps spec)
            (sp_entry_node_id spec, initial_values spec) st)"
      using search_ok [OF v comp'] by blast
    show thesis
      by (rule search [OF comp' st]) (use True comp g st(1) in \<open>auto simp: analyze_def Let_def\<close>)
  qed
qed

text \<open>C9: The analysis of a valid story always returns, whatever its graph, conditions and
  cycles, without raising, and has looked at no more than 4096 states.\<close>

theorem analysis_total:
  assumes "spec_valid ast_parse spec"
  shows "\<exists>r. analyze ast_parse digest spec = Some (Inr r) \<and> an_states_checked r \<le> 4096"
proof (rule analyze_cases [OF assms, of digest])
  fix compiled and st :: "'a bfs" and r
  assume "search_sound (nodes_of spec) (variables_of spec) compiled (sp_max_steps spec)
         (sp_entry_node_id spec, initial_values spec) st"
    "analyze ast_parse digest spec = Some (Inr r)" "an_states_checked r = length (bf_seen st)"
  then show ?thesis by (auto simp: search_sound_def analysis_states_def)
qed auto

lemma valid_start:
  assumes "spec_valid ast_parse spec"
  shows "state_ok (nodes_of spec) (variables_of spec) (sp_entry_node_id spec, initial_values spec)"
  using valid_nodes(3) [OF assms] assms by (simp add: state_ok_def spec_valid_def initial_values_typed)

lemma reached_ok:
  assumes v: "spec_valid ast_parse spec"
    and comp: "compile_story ast_parse spec = Inr (nodes_of spec, compiled, [])"
    and path: "sfold (play_step (nodes_of spec) compiled) (sp_entry_node_id spec, initial_values spec) path
      = Inr s"
  shows "story_ok (nodes_of spec) (variables_of spec) compiled"
    "state_ok (nodes_of spec) (variables_of spec) s"
proof -
  show ok: "story_ok (nodes_of spec) (variables_of spec) compiled"
    using compile_story_ok [OF comp] v by (simp add: spec_valid_def)
  show "state_ok (nodes_of spec) (variables_of spec) s"
    using play_steps_cases [OF ok valid_start [OF v], of path] path by auto
qed

lemma node_id: "ids_match nodes \<Longrightarrow> dget nodes nid = Some n \<Longrightarrow> nd_id n = nid"
  by (auto simp: ids_match_def dest!: map_of_SomeD)

text \<open>C7: Every ending the analysis reports is real: feeding its recorded choices to the server's
  playback ends at that node, with that ending.\<close>

theorem reported_endings_replay:
  assumes v: "spec_valid ast_parse spec"
    and an: "analyze ast_parse digest spec = Some (Inr r)" and e: "e \<in> set (an_endings r)"
  shows "\<exists>p. play ast_parse spec (en_choices e) = Inr p \<and> pb_status p = ENDING \<and>
    nd_id (pb_node p) = en_node e \<and> nd_ending (pb_node p) = en_ending e"
  using v
proof (cases rule: analyze_cases [of ast_parse spec digest])
  case (search compiled st r')
  then have r: "an_endings r = dvals (bf_witnesses st)" using an by simp
  from search(3) e obtain vals n where
    path: "sfold (play_step (nodes_of spec) compiled) (sp_entry_node_id spec, initial_values spec) (en_choices e)
      = Inr (en_node e, vals)"
    and n: "dget (nodes_of spec) (en_node e) = Some n" "nd_ending n = en_ending e" "en_ending e \<noteq> []"
    and len: "length (en_choices e) \<le> sp_max_steps spec"
    unfolding r search_sound_def by blast
  note ok = reached_ok [OF v search(1) path]
  obtain bs p where p: "play ast_parse spec (en_choices e) = Inr p" "pb_node p = n\<lparr>nd_choices := []\<rparr>"
    "pb_status p = status_after (length (en_choices e)) (sp_max_steps spec) n bs"
    by (rule play_after_steps [OF search(1) ok(1) path ok(2) len n(1)])
  then show ?thesis using node_id [OF valid_nodes(1) [OF v] n(1)] n(2,3) by (simp add: status_after_def)
qed (use an e in auto)

lemma play_elim:
  assumes "play ast_parse spec path = Inr p" "compile_story ast_parse spec = Inr (nodes, compiled, [])"
  obtains nid vals n where
    "sfold (play_step nodes compiled) (sp_entry_node_id spec, initial_values spec) path = Inr (nid, vals)"
    "dget nodes nid = Some n" "length path \<le> sp_max_steps spec"
  using assms by (auto simp: play_def res_simps split: if_splits)

lemma enabled_offer:
  "offer compiled nid vals c = Inr (i, l, b) \<longleftrightarrow>
     enabled compiled nid vals c = Inr b \<and> i = ch_id c \<and> l = ch_label c"
  by (auto simp: offer_def enabled_def res_simps)

lemma no_exit_left_iff:
  assumes "map (offer compiled nid vals) cs = map2 (\<lambda>c b. Inr (ch_id c, ch_label c, b)) cs bs"
    "length bs = length cs" "\<not> list_ex (\<lambda>b. b) bs" "c \<in> set cs"
  shows "enabled compiled nid vals c \<noteq> Inr True"
proof
  assume en: "enabled compiled nid vals c = Inr True"
  obtain i where i: "i < length cs" "cs ! i = c" using assms(4) by (auto simp: in_set_conv_nth)
  have "offer compiled nid vals (cs ! i) = Inr (ch_id c, ch_label c, bs ! i)"
    using arg_cong [OF assms(1), of "\<lambda>xs. xs ! i"] i assms(2) by simp
  then have "bs ! i" using en i by (simp add: enabled_offer)
  moreover have "bs ! i \<in> set bs" using i(1) assms(2) by simp
  ultimately show False using assms(3) unfolding list_ex_iff by blast
qed

lemma walk_seen:
  assumes closed: "search_closed digest nodes compiled max_steps start st"
    and fin: "bf_queue st = []" "\<not> bf_step_limited st" "bf_dead st = []"
  shows "sfold (play_step nodes compiled) start path = Inr s \<Longrightarrow> length path \<le> max_steps \<Longrightarrow>
    digest s \<in> set (bf_seen st)"
proof (induction path arbitrary: s rule: rev_induct)
  case Nil
  then show ?case using closed fin(1) by (auto simp: search_closed_def queued_def)
next
  case (snoc cid path)
  from snoc.prems obtain s0 where s0: "sfold (play_step nodes compiled) start path = Inr s0"
    "play_step nodes compiled s0 cid = Inr s" by (auto simp: sfold_append res_simps)
  then have here: "s0 \<in> walked nodes compiled max_steps start" using snoc.prems(2)
    unfolding walked_def by (intro CollectI exI [of _ path]) simp
  have seen: "digest s0 \<in> set (bf_seen st)" by (rule snoc.IH [OF s0(1)]) (use snoc.prems(2) in simp)
  have "s \<in> moves nodes compiled s0" using s0(2) by (auto simp: moves_def)
  moreover have "\<forall>s' \<in> moves nodes compiled s0. digest s' \<in> set (bf_seen st) \<or> s' \<in> queued st"
    using closed fin(2,3) here seen unfolding search_closed_def by simp
  ultimately show ?case using fin(1) by (auto simp: queued_def)
qed

text \<open>
  The states playback can show: node and variables after a choice log it accepts. There are
  finitely many, since a log holds at most the step cap of the story's choices.
\<close>

definition play_states :: "(string \<Rightarrow> pyast option) \<Rightarrow> story_spec \<Rightarrow> (string \<times> bindings) set" where
  "play_states ast_parse spec =
     {(nd_id (pb_node p), pb_variables p) | path p. play ast_parse spec path = Inr p}"

lemma play_states_walked:
  assumes v: "spec_valid ast_parse spec"
    and comp: "compile_story ast_parse spec = Inr (nodes_of spec, compiled, [])"
  shows "walked (nodes_of spec) compiled (sp_max_steps spec) (sp_entry_node_id spec, initial_values spec)
    \<subseteq> play_states ast_parse spec"
proof
  fix s assume "s \<in> walked (nodes_of spec) compiled (sp_max_steps spec) (sp_entry_node_id spec, initial_values spec)"
  then obtain path nid vals where s: "s = (nid, vals)" and len: "length path \<le> sp_max_steps spec"
    and path: "sfold (play_step (nodes_of spec) compiled) (sp_entry_node_id spec, initial_values spec) path = Inr (nid, vals)"
    by (cases s) (auto simp: walked_def)
  note ok = reached_ok [OF v comp path]
  obtain n where n: "dget (nodes_of spec) nid = Some n" using state_ok_node ok(2) by blast
  obtain bs p where "play ast_parse spec path = Inr p" "pb_node p = n\<lparr>nd_choices := []\<rparr>" "pb_variables p = vals"
    by (rule play_after_steps [OF comp ok(1) path ok(2) len n])
  then show "s \<in> play_states ast_parse spec"
    using node_id [OF valid_nodes(1) [OF v] n] s unfolding play_states_def by force
qed

lemma play_choices_known:
  "sfold (play_step nodes compiled) s path = Inr s' \<Longrightarrow>
     set path \<subseteq> (\<Union>n \<in> set (dvals nodes). ch_id ` set (nd_choices n))"
proof (induction path arbitrary: s)
  case (Cons cid path)
  then obtain s0 where s0: "play_step nodes compiled s cid = Inr s0"
    "sfold (play_step nodes compiled) s0 path = Inr s'" by (auto simp: res_simps)
  then obtain n where n: "dget nodes (fst s) = Some n"
    by (cases s) (auto simp: play_step_def lookup_def res_simps split: option.splits)
  then have "n \<in> set (dvals nodes)" by (force dest: map_of_SomeD)
  moreover obtain c where "c \<in> set (nd_choices n)" "ch_id c = cid"
    using s0(1) n by (cases s) (auto elim: play_step_elim)
  ultimately show ?case using Cons.IH [OF s0(2)] by auto
qed simp

lemma play_states_finite: "finite (play_states ast_parse spec)"
proof (cases "compile_story ast_parse spec")
  case (Inr r)
  obtain nodes compiled issues where r: "r = (nodes, compiled, issues)" by (cases r)
  let ?C = "\<Union>n \<in> set (dvals nodes). ch_id ` set (nd_choices n)"
  let ?logs = "{path. set path \<subseteq> ?C \<and> length path \<le> sp_max_steps spec}"
  let ?shown = "\<lambda>path. case play ast_parse spec path of Inr p \<Rightarrow> (nd_id (pb_node p), pb_variables p)"
  have "path \<in> ?logs" if "play ast_parse spec path = Inr p" for path p
    using that Inr r play_choices_known [of nodes compiled] by (auto simp: play_def res_simps split: if_splits)
  then have "(nd_id (pb_node p), pb_variables p) \<in> ?shown ` ?logs" if "play ast_parse spec path = Inr p" for path p
    by (rule image_eqI [where x = path, rotated]) (use that in simp_all)
  then have "play_states ast_parse spec \<subseteq> ?shown ` ?logs"
    unfolding play_states_def by blast
  moreover have "finite ?logs" by (rule finite_lists_length_le) simp
  ultimately show ?thesis by (rule finite_surj [rotated])
qed (simp add: play_states_def play_def)

text \<open>C5: A story that the analysis lets into review never strands a player: no choice log leads
  the server's playback to a node that is not an ending and has no enabled choice. The SHA-256
  digest by which the search recognises a state is assumed not to confuse two of the finitely many
  states playback can show for this story.\<close>

theorem reviewable_never_stuck:
  assumes v: "spec_valid ast_parse spec"
    and an: "analyze ast_parse digest spec = Some (Inr r)" "an_can_review r"
    and inj: "inj_on digest (play_states ast_parse spec)" and p: "play ast_parse spec path = Inr p"
  shows "pb_status p \<noteq> NO_EXIT_LEFT"
  using v
proof (cases rule: analyze_cases [of ast_parse spec digest])
  case (search compiled st r')
  have fin: "bf_queue st = []" "\<not> bf_step_limited st" "bf_dead st = []"
    and closed: "search_closed digest (nodes_of spec) compiled (sp_max_steps spec)
        (sp_entry_node_id spec, initial_values spec) st"
    using search(4,5,8) an inj_on_subset [OF inj play_states_walked [OF v search(1)]] by auto
  from p search(1) obtain nid vals n where
    path: "sfold (play_step (nodes_of spec) compiled) (sp_entry_node_id spec, initial_values spec) path = Inr (nid, vals)"
    and n: "dget (nodes_of spec) nid = Some n" and len: "length path \<le> sp_max_steps spec"
    by (rule play_elim)
  have walked_here: "(nid, vals) \<in> walked (nodes_of spec) compiled (sp_max_steps spec)
      (sp_entry_node_id spec, initial_values spec)"
    using path len unfolding walked_def by blast
  note ok = reached_ok [OF v search(1) path]
  obtain bs p' where p': "play ast_parse spec path = Inr p'"
    "pb_status p' = status_after (length path) (sp_max_steps spec) n bs"
    "map (offer compiled nid vals) (nd_choices n) =
       map2 (\<lambda>c b. Inr (ch_id c, ch_label c, b)) (nd_choices n) bs"
    "length bs = length (nd_choices n)"
    by (rule play_after_steps [OF search(1) ok(1) path ok(2) len n])
  have "nd_ending n \<noteq> [] \<or> moves (nodes_of spec) compiled (nid, vals) \<noteq> {}"
    using closed fin walk_seen [OF closed fin path len] walked_here n unfolding search_closed_def by fastforce
  moreover have "moves (nodes_of spec) compiled (nid, vals) = {}" if "\<not> list_ex (\<lambda>b. b) bs"
    using no_exit_left_iff [OF p'(3,4) that] by (auto simp: moves_def elim!: play_step_elim [OF _ n])
  ultimately show ?thesis using p'(1,2) p by (auto simp: status_after_def)
qed (use an in auto)

text \<open>C6: For a reviewable story the list of endings is complete: an ending some choice log
  reaches in the server's playback is among the endings the analysis reports.\<close>

theorem reviewable_endings_complete:
  assumes v: "spec_valid ast_parse spec"
    and an: "analyze ast_parse digest spec = Some (Inr r)" "an_can_review r"
    and inj: "inj_on digest (play_states ast_parse spec)" and p: "play ast_parse spec path = Inr p" "pb_status p = ENDING"
  shows "\<exists>e \<in> set (an_endings r). en_node e = nd_id (pb_node p) \<and> en_ending e = nd_ending (pb_node p)"
  using v
proof (cases rule: analyze_cases [of ast_parse spec digest])
  case (search compiled st r')
  have fin: "bf_queue st = []" "\<not> bf_step_limited st" "bf_dead st = []"
    and closed: "search_closed digest (nodes_of spec) compiled (sp_max_steps spec)
        (sp_entry_node_id spec, initial_values spec) st"
    using search(4,5,8) an inj_on_subset [OF inj play_states_walked [OF v search(1)]] by auto
  from p(1) search(1) obtain nid vals n where
    path: "sfold (play_step (nodes_of spec) compiled) (sp_entry_node_id spec, initial_values spec) path = Inr (nid, vals)"
    and n: "dget (nodes_of spec) nid = Some n" and len: "length path \<le> sp_max_steps spec"
    by (rule play_elim)
  have walked_here: "(nid, vals) \<in> walked (nodes_of spec) compiled (sp_max_steps spec)
      (sp_entry_node_id spec, initial_values spec)"
    using path len unfolding walked_def by blast
  note ok = reached_ok [OF v search(1) path]
  obtain bs p' where p': "play ast_parse spec path = Inr p'" "pb_node p' = n\<lparr>nd_choices := []\<rparr>"
    "pb_status p' = status_after (length path) (sp_max_steps spec) n bs"
    by (rule play_after_steps [OF search(1) ok(1) path ok(2) len n])
  have pn: "nd_ending n \<noteq> []" "nd_id (pb_node p) = nid" "nd_ending (pb_node p) = nd_ending n"
    using p p' node_id [OF valid_nodes(1) [OF v] n] by (auto simp: status_after_def split: if_splits)
  have "nid \<in> set (dkeys (bf_witnesses st))"
    using closed walk_seen [OF closed fin path len] walked_here n pn(1) unfolding search_closed_def by fastforce
  then obtain e where e: "(nid, e) \<in> set (bf_witnesses st)" by auto
  moreover have "\<forall>(k, e) \<in> set (bf_witnesses st). en_node e = k"
    "\<forall>e \<in> set (dvals (bf_witnesses st)). \<exists>n. dget (nodes_of spec) (en_node e) = Some n \<and> nd_ending n = en_ending e"
    using search(3) unfolding search_sound_def by blast+
  moreover have "e \<in> set (dvals (bf_witnesses st))" using e by force
  ultimately have "en_node e = nid" "e \<in> set (an_endings r)" "en_ending e = nd_ending n"
    using search(5,6) an(1) n by fastforce+
  then show ?thesis using pn by auto
qed (use an in auto)

text \<open>No issue of the compiler is mistaken for one of the graph pass.\<close>

lemma compile_issue_codes:
  assumes "compile_story ast_parse spec = Inr (nodes, compiled, issues)"
  shows "\<forall>i \<in> set issues. is_code i \<noteq> NO_ENDING_PATH"
proof -
  let ?P = "\<lambda>st :: compiled \<times> issue list. \<forall>i \<in> set (snd st). is_code i \<noteq> NO_ENDING_PATH"
  have choice: "?P s'" if "?P s" "compile_choice ast_parse ns vs n s c = Inr s'" for ns vs n s c s'
  proof -
    from that(2) obtain tree where "snd s' = snd s @
        (if ch_target c \<in> set (dkeys ns) then [] else [issue_at UNDEFINED_TARGET (nd_id n) (Some (ch_id c))]) @
        (case check_choice vs tree c of Inr _ \<Rightarrow> [] | Inl e \<Rightarrow> [issue_at (Check e) (nd_id n) (Some (ch_id c))])"
      by (cases s) (auto simp: compile_choice_def res_simps Let_def)
    then show ?thesis using that(1) by (cases "check_choice vs tree c") (auto simp: issue_at_def)
  qed
  have node: "?P s'" if P: "?P s" and st: "compile_node ast_parse ns vs s n = Inr s'" for ns vs s n s'
  proof -
    obtain s0 where "sfold (compile_choice ast_parse ns vs n) s0 (nd_choices n) = Inr s'" "?P s0"
      using P st by (auto simp: compile_node_def Let_def issue_at_def split: prod.splits if_splits)
    then show ?thesis by (rule sfold_invariant [where P = ?P]) (rule choice)
  qed
  from assms have "sfold (compile_node ast_parse nodes (variables_of spec)) ([], []) (dvals nodes) = Inr (compiled, issues)"
    by (auto simp: compile_story_def Let_def res_simps)
  then have "?P (compiled, issues)"
  proof (rule sfold_invariant [where P = ?P])
    show "?P s'" if "?P s" "compile_node ast_parse nodes (variables_of spec) s n = Inr s'" for s n s'
      using node that .
  qed simp
  then show ?thesis by simp
qed

lemma issues_about:
  "(\<exists>i \<in> set (map (\<lambda>n. issue_at c n None) xs). is_code i = c' \<and> is_node i = Some n) \<longleftrightarrow> c = c' \<and> n \<in> set xs"
  by (auto simp: issue_at_def)

text \<open>C8: The graph findings are exact. A node is warned about as unreachable precisely when no
  chain of choices leads to it from the entry node; a node is reported without a path to an ending
  precisely when a chain leads to it and no chain leads from it to an ending.\<close>

theorem graph_findings_exact:
  assumes v: "spec_valid ast_parse spec" and an: "analyze ast_parse digest spec = Some (Inr r)"
  shows "((\<exists>i \<in> set (an_warnings r). is_code i = UNREACHABLE_NODE \<and> is_node i = Some n) \<longleftrightarrow>
      n \<in> set (dkeys (nodes_of spec)) \<and> \<not> (edge (nodes_of spec))\<^sup>*\<^sup>* (sp_entry_node_id spec) n) \<and>
    ((\<exists>i \<in> set (an_issues r). is_code i = NO_ENDING_PATH \<and> is_node i = Some n) \<longleftrightarrow>
      (edge (nodes_of spec))\<^sup>*\<^sup>* (sp_entry_node_id spec) n \<and>
      \<not> (\<exists>b \<in> exits (nodes_of spec). (edge (nodes_of spec))\<^sup>*\<^sup>* n b))"
proof -
  have keys: "m \<in> set (dkeys (nodes_of spec))" if "(edge (nodes_of spec))\<^sup>*\<^sup>* (sp_entry_node_id spec) m" for m
    using that valid_nodes(3) [OF v] by (induction rule: rtranclp_induct) (auto simp: edge_def)
  obtain cycles where g: "graph_pass spec (nodes_of spec) = Some
      (map (\<lambda>n. issue_at NO_ENDING_PATH n None) (sorted_list_of_set
          (walk_set (nodes_of spec) (sp_entry_node_id spec) - exit_nodes (nodes_of spec))),
       map (\<lambda>n. issue_at UNREACHABLE_NODE n None) (sorted_list_of_set
          (set (dkeys (nodes_of spec)) - walk_set (nodes_of spec) (sp_entry_node_id spec))) @
       map (\<lambda>n. issue_at CYCLE_STEP_CAP_REQUIRED n None) (sorted_list_of_set cycles))"
    using graph_pass_total [OF v] by blast
  obtain compiled issues where comp: "compile_story ast_parse spec = Inr (nodes_of spec, compiled, issues)"
    using compile_story_total [OF v] by blast
  have fin: "finite (walk_set (nodes_of spec) (sp_entry_node_id spec) - exit_nodes (nodes_of spec))"
    by (rule finite_subset [of _ "set (dkeys (nodes_of spec))"]) (use keys in \<open>auto simp: walk_set_def\<close>)
  have w: "an_warnings r = map (\<lambda>n. issue_at UNREACHABLE_NODE n None) (sorted_list_of_set
          (set (dkeys (nodes_of spec)) - walk_set (nodes_of spec) (sp_entry_node_id spec))) @
       map (\<lambda>n. issue_at CYCLE_STEP_CAP_REQUIRED n None) (sorted_list_of_set cycles)"
    using an comp g by (auto simp: analyze_def Let_def res_simps)
  have warn: "(\<exists>i \<in> set (an_warnings r). is_code i = UNREACHABLE_NODE \<and> is_node i = Some n) \<longleftrightarrow>
      n \<in> set (dkeys (nodes_of spec)) \<and> \<not> (edge (nodes_of spec))\<^sup>*\<^sup>* (sp_entry_node_id spec) n"
    unfolding w set_append bex_Un issues_about using valid_nodes(3) [OF v] by (auto simp: walk_set_def)
  let ?no_path = "map (\<lambda>n. issue_at NO_ENDING_PATH n None) (sorted_list_of_set
          (walk_set (nodes_of spec) (sp_entry_node_id spec) - exit_nodes (nodes_of spec)))"
  have "(\<exists>i \<in> set (an_issues r). is_code i = NO_ENDING_PATH \<and> is_node i = Some n) \<longleftrightarrow>
      (\<exists>i \<in> set ?no_path. is_node i = Some n)"
  proof (cases "issues @ ?no_path = []")
    case False
    then have "an_issues r = issues @ ?no_path"
      using an comp g by (auto simp: analyze_def Let_def res_simps)
    then have "(\<exists>i \<in> set (an_issues r). is_code i = NO_ENDING_PATH \<and> is_node i = Some n) \<longleftrightarrow>
        (\<exists>i \<in> set ?no_path. is_code i = NO_ENDING_PATH \<and> is_node i = Some n)"
      using compile_issue_codes [OF comp] unfolding set_append bex_Un by fastforce
    then show ?thesis by (auto simp: issue_at_def)
  next
    case True
    then obtain st where st: "bfs_loop digest (nodes_of spec) compiled (sp_max_steps spec) (bfs_init spec) = Inr st"
      "an_issues r = take 100 (bf_dead st) @
          (if bf_witnesses st = [] then [\<lparr>is_code = NO_REACHABLE_ENDING_WITHIN_CAP, is_node = None,
             is_choice = None, is_path = []\<rparr>] else [])"
      using an comp g by (auto simp: analyze_def Let_def res_simps)
    have "compile_story ast_parse spec = Inr (nodes_of spec, compiled, [])" using comp True by simp
    from search_ok [OF v this, of digest] st(1)
    have "\<forall>i \<in> set (bf_dead st). is_code i = CONDITIONAL_NO_EXIT" by (auto simp: search_sound_def)
    then show ?thesis using True st(2) by (auto dest: in_set_takeD)
  qed
  also have "\<dots> \<longleftrightarrow> (\<exists>i \<in> set ?no_path. is_code i = NO_ENDING_PATH \<and> is_node i = Some n)"
    by (auto simp: issue_at_def)
  also have "\<dots> \<longleftrightarrow> (edge (nodes_of spec))\<^sup>*\<^sup>* (sp_entry_node_id spec) n \<and>
      \<not> (\<exists>b \<in> exits (nodes_of spec). (edge (nodes_of spec))\<^sup>*\<^sup>* n b)"
    unfolding issues_about using valid_nodes(3) [OF v] keys fin by (auto simp: walk_set_def exit_nodes_def)
  finally show ?thesis using warn by blast
qed

section \<open>The small story analysed\<close>

definition example_analysis :: "(string \<times> bindings) analysis" where
  "example_analysis = \<lparr>an_issues = [],
     an_warnings = [issue_at CYCLE_STEP_CAP_REQUIRED ''shop'' None],
     an_endings = [\<lparr>en_node = ''home'', en_ending = [69, 110, 100], en_choices = [''earn'', ''leave'']\<rparr>],
     an_states_checked = 3, an_complete = True, an_state_limit = False, an_step_limit = False,
     an_max_steps = 4, an_can_review = True\<rparr>"

lemma example_story_analysis: "analyze example_parse (\<lambda>s. s) example_story = Some (Inr example_analysis)"
  by code_simp

definition example_playback :: playback where
  "example_playback = \<lparr>pb_node = \<lparr>nd_id = ''home'', nd_version = 1, nd_title = [72], nd_dialogue = [],
       nd_character = None, nd_background = None, nd_music = None, nd_ending = [69, 110, 100],
       nd_choices = []\<rparr>,
     pb_choices = [], pb_variables = [(''gold'', SInt 3), (''met'', SBool True)],
     pb_steps = 2, pb_max_steps = 4, pb_status = ENDING, pb_path = [''earn'', ''leave'']\<rparr>"

lemma example_play: "play example_parse example_story [''earn'', ''leave''] = Inr example_playback"
  by code_simp

theorem analysis_total_witness:
  "\<exists>r. analyze example_parse (\<lambda>s. s) example_story = Some (Inr r) \<and> an_states_checked r \<le> 4096"
  by (rule analysis_total [OF example_story_valid])

theorem reported_endings_replay_witness:
  "\<exists>p. play example_parse example_story [''earn'', ''leave''] = Inr p \<and> pb_status p = ENDING \<and>
     nd_id (pb_node p) = ''home'' \<and> nd_ending (pb_node p) = [69, 110, 100]"
  using reported_endings_replay [OF example_story_valid example_story_analysis,
      of "\<lparr>en_node = ''home'', en_ending = [69, 110, 100], en_choices = [''earn'', ''leave'']\<rparr>"]
  by (simp add: example_analysis_def)

theorem reviewable_never_stuck_witness: "pb_status example_playback \<noteq> NO_EXIT_LEFT"
  by (rule reviewable_never_stuck [OF example_story_valid example_story_analysis _ _ example_play])
    (simp_all add: example_analysis_def inj_on_def)

theorem reviewable_endings_complete_witness:
  "\<exists>e \<in> set (an_endings example_analysis). en_node e = nd_id (pb_node example_playback) \<and>
     en_ending e = nd_ending (pb_node example_playback)"
  by (rule reviewable_endings_complete [OF example_story_valid example_story_analysis _ _ example_play])
    (simp_all add: example_analysis_def example_playback_def inj_on_def)

theorem graph_findings_exact_witness:
  "((\<exists>i \<in> set (an_warnings example_analysis). is_code i = UNREACHABLE_NODE \<and> is_node i = Some ''home'') \<longleftrightarrow>
      ''home'' \<in> set (dkeys (nodes_of example_story)) \<and>
      \<not> (edge (nodes_of example_story))\<^sup>*\<^sup>* (sp_entry_node_id example_story) ''home'') \<and>
   ((\<exists>i \<in> set (an_issues example_analysis). is_code i = NO_ENDING_PATH \<and> is_node i = Some ''home'') \<longleftrightarrow>
      (edge (nodes_of example_story))\<^sup>*\<^sup>* (sp_entry_node_id example_story) ''home'' \<and>
      \<not> (\<exists>b \<in> exits (nodes_of example_story). (edge (nodes_of example_story))\<^sup>*\<^sup>* ''home'' b))"
  by (rule graph_findings_exact [OF example_story_valid example_story_analysis])

end
