(* ===== verification/Story_Export.thy ===== *)
theory Story_Export
  imports Story_Play
begin

text \<open>
  The Ren'Py export of \<open>app/experimental/interactive_story.py\<close>: \<open>renpy_text\<close>,
  \<open>renpy_expression\<close>, \<open>renpy_export\<close>. A script is a list of lines of code points, which the
  code joins with newlines.

  \<open>json.dumps(s, ensure_ascii=False)\<close> of the standard library is \<open>json_dumps\<close>: the quote, the
  backslash and the control characters below 32 are escaped, everything else is kept.

  Shown: no author text can add a line to the script or an instruction to an expression; exporting a
  story without issues never raises. How Ren'Py reads the literals is not modelled: its lexer is not
  part of the repository.
\<close>

section \<open>Decimal numbers\<close>

fun digits :: "nat \<Rightarrow> string" where
  "digits n = (if n < 10 then [char_of (48 + n)] else digits (n div 10) @ [char_of (48 + n mod 10)])"

declare digits.simps [simp del]

definition show_int :: "int \<Rightarrow> string" where
  "show_int i = (if i < 0 then CHR ''-'' # digits (nat (- i)) else digits (nat i))"

definition show_scalar :: "scalar \<Rightarrow> string" where
  "show_scalar v = (case v of SBool b \<Rightarrow> if b then ''True'' else ''False'' | SInt i \<Rightarrow> show_int i)"

section \<open>Text\<close>

text \<open>\<open>value.replace(c, c + c)\<close>\<close>

definition double :: "nat \<Rightarrow> utext \<Rightarrow> utext" where
  "double c s = concat (map (\<lambda>x. if x = c then [c, c] else [x]) s)"

definition hex_digit :: "nat \<Rightarrow> nat" where
  "hex_digit n = (if n < 10 then 48 + n else 87 + n)"

definition json_escape :: "nat \<Rightarrow> utext" where
  "json_escape c =
     (if c = 34 then [92, 34] else if c = 92 then [92, 92]
      else if c = 8 then [92, 98] else if c = 9 then [92, 116] else if c = 10 then [92, 110]
      else if c = 12 then [92, 102] else if c = 13 then [92, 114]
      else if c < 32 then [92, 117, 48, 48, hex_digit (c div 16), hex_digit (c mod 16)]
      else [c])"

definition json_dumps :: "utext \<Rightarrow> utext" where
  "json_dumps s = [34] @ concat (map json_escape s) @ [34]"

definition renpy_text :: "utext \<Rightarrow> utext" where
  "renpy_text value = json_dumps (double 37 (double 0x3016 (double 123 (double 91 value))))"

section \<open>Expressions\<close>

fun op_symbol :: "cmp_op \<Rightarrow> string" where
  "op_symbol CEq = ''==''"
| "op_symbol CNe = ''!=''"
| "op_symbol CLt = ''<''"
| "op_symbol CLe = ''<=''"
| "op_symbol CGt = ''>''"
| "op_symbol CGe = ''>=''"

definition join :: "'a list \<Rightarrow> 'a list list \<Rightarrow> 'a list" where
  "join sep xs = concat (case xs of [] \<Rightarrow> [] | y # ys \<Rightarrow> y # map (\<lambda>z. sep @ z) ys)"

fun renpy_expression :: "cond \<Rightarrow> (string, string) dict \<Rightarrow> story_error + string"
  and renpy_expressions :: "cond list \<Rightarrow> (string, string) dict \<Rightarrow> story_error + string list" where
  "renpy_expression (CLit v) names = Inr (show_scalar v)"
| "renpy_expression (CVar n) names = lookup names n"
| "renpy_expression (CNot x) names =
     sbind (renpy_expression x names) (\<lambda>s. Inr (''(not '' @ s @ '')''))"
| "renpy_expression (CAnd xs) names =
     sbind (renpy_expressions xs names) (\<lambda>ss. Inr (''('' @ join '' and '' ss @ '')''))"
| "renpy_expression (COr xs) names =
     sbind (renpy_expressions xs names) (\<lambda>ss. Inr (''('' @ join '' or '' ss @ '')''))"
| "renpy_expression (CCmp op l r) names =
     sbind (renpy_expression l names) (\<lambda>a. sbind (renpy_expression r names) (\<lambda>b.
       Inr (''('' @ a @ '' '' @ op_symbol op @ '' '' @ b @ '')'')))"
| "renpy_expressions [] names = Inr []"
| "renpy_expressions (x # xs) names =
     sbind (renpy_expression x names) (\<lambda>s. sbind (renpy_expressions xs names) (\<lambda>ss. Inr (s # ss)))"

section \<open>The script\<close>

text \<open>\<open>{x: prefix + str(i) for i, x in enumerate(xs)}\<close>\<close>

definition numbered :: "string \<Rightarrow> string list \<Rightarrow> (string, string) dict" where
  "numbered prefix xs = dict_of (zip xs (map (\<lambda>i. prefix @ digits i) [0..<length xs]))"

definition default_lines :: "string \<Rightarrow> (string, string) dict \<Rightarrow> variable list \<Rightarrow> story_error + utext list" where
  "default_lines prefix names = smap (\<lambda>v. sbind (lookup names (va_name v)) (\<lambda>n.
     Inr (points (prefix @ n @ '' = '' @ show_scalar (va_initial v)))))"

definition choice_lines ::
  "(string, string) dict \<Rightarrow> (string, string) dict \<Rightarrow> choice \<times> string \<Rightarrow> story_error + utext list" where
  "choice_lines labels names = (\<lambda>(c, condition).
     sbind (smap (\<lambda>(x, v). sbind (lookup names x) (\<lambda>n.
       Inr (points (''            $ '' @ n @ '' = '' @ show_scalar v)))) (ch_assignments c)) (\<lambda>sets.
     sbind (lookup labels (ch_target c)) (\<lambda>target.
     Inr ([points ''        '' @ renpy_text (ch_label c) @ points ('' if '' @ condition @ '':''),
           points ''            $ ans_steps += 1''] @ sets @
          [points (''            jump '' @ target)]))))"

definition speaker_of :: "(string, utext) dict \<Rightarrow> story_node \<Rightarrow> utext" where
  "speaker_of characters n =
     (case nd_character n of None \<Rightarrow> []
      | Some c \<Rightarrow> (case dget characters c of None \<Rightarrow> [] | Some s \<Rightarrow> s))"

definition node_lines ::
  "compiled \<Rightarrow> (string, string) dict \<Rightarrow> (string, string) dict \<Rightarrow> nat \<Rightarrow> (string, utext) dict
     \<Rightarrow> string \<times> story_node \<Rightarrow> story_error + utext list" where
  "node_lines compiled labels names max_steps characters = (\<lambda>(nid, n).
     sbind (lookup labels nid) (\<lambda>label.
     let speaker = speaker_of characters n;
         head = [[], points (''label '' @ label @ '':'')] @
           (if nd_dialogue n = [] then []
            else [points ''    '' @ (if speaker = [] then [] else renpy_text speaker @ points '' '') @
                  renpy_text (nd_dialogue n)])
     in if nd_ending n \<noteq> [] then
          Inr (head @ [points ''    '' @ renpy_text (nd_ending n), points ''    return''])
        else
          sbind (smap (\<lambda>c. sbind (lookup compiled (nid, ch_id c)) (\<lambda>t. renpy_expression t names))
                   (nd_choices n)) (\<lambda>conditions.
          sbind (smap (choice_lines labels names) (zip (nd_choices n) conditions)) (\<lambda>menu.
          Inr (head @
            [points (''    if ans_steps >= '' @ digits max_steps @ '':''),
             points ''        \"Step cap reached.\"'', points ''        return'',
             points (''    if not ('' @ join '' or '' conditions @ ''):''),
             points ''        \"No available choice.\"'', points ''        return'', points ''    menu:''] @
            concat menu)))))"

definition renpy_lines ::
  "(string \<Rightarrow> pyast option) \<Rightarrow> story_spec \<Rightarrow> (string, utext) dict \<Rightarrow> story_error + utext list" where
  "renpy_lines ast_parse spec characters =
     sbind (compile_story ast_parse spec) (\<lambda>(nodes, compiled, issues).
     if issues \<noteq> [] then Inl Invalid_Target_Story
     else
       let labels = numbered ''ans_node_'' (dkeys nodes);
           names = numbered ''ans_var_'' (map va_name (sp_variables spec))
       in sbind (default_lines ''default '' names (sp_variables spec)) (\<lambda>defaults.
          sbind (default_lines ''    $ '' names (sp_variables spec)) (\<lambda>resets.
          sbind (lookup labels (sp_entry_node_id spec)) (\<lambda>entry.
          sbind (smap (node_lines compiled labels names (sp_max_steps spec) characters) nodes) (\<lambda>body.
          Inr ([points ''# AI-Novel-Studio B07 trusted generated subset; Ren'' @ [39] @
                  points ''Py 8.5.4 docs.'',
                points ''# Media references are manifest-only. Target runtime: NOT_RUN.'',
                points ''default ans_steps = 0''] @ defaults @
               [[], points ''label start:'', points ''    $ ans_steps = 0''] @ resets @
               [points (''    jump '' @ entry)] @ concat body))))))"

definition renpy_export ::
  "(string \<Rightarrow> pyast option) \<Rightarrow> story_spec \<Rightarrow> (string, utext) dict \<Rightarrow> story_error + utext" where
  "renpy_export ast_parse spec characters =
     sbind (renpy_lines ast_parse spec characters) (\<lambda>ls. Inr (join [10] ls @ [10]))"

section \<open>No text adds a line\<close>

definition one_line :: "utext \<Rightarrow> bool" where "one_line s \<longleftrightarrow> 10 \<notin> set s"

lemma one_line_simps [simp]:
  "one_line []" "one_line (s @ t) \<longleftrightarrow> one_line s \<and> one_line t"
  "one_line (c # s) \<longleftrightarrow> c \<noteq> 10 \<and> one_line s"
  by (auto simp: one_line_def)

lemma one_line_escape: "one_line (json_escape c)"
  by (auto simp: json_escape_def hex_digit_def)

lemma one_line_text: "one_line (renpy_text s)"
proof -
  have "one_line (concat (map json_escape t))" for t by (induction t) (simp_all add: one_line_escape)
  then show ?thesis by (simp add: renpy_text_def json_dumps_def)
qed

text \<open>Characters of the generated code: no newline, quote, backslash or comment sign.\<close>

definition code_char :: "char \<Rightarrow> bool" where
  "code_char c \<longleftrightarrow> lower c \<or> digit c \<or> (CHR ''A'' \<le> c \<and> c \<le> CHR ''Z'') \<or> c \<in> set ''_ ()<>=!-''"

abbreviation code_string :: "string \<Rightarrow> bool" where "code_string s \<equiv> list_all code_char s"

lemma code_char_of_digit: "(n::nat) < 10 \<Longrightarrow> code_char (char_of (48 + n))"
proof -
  assume "n < 10"
  then have "n \<in> {0, 1, 2, 3, 4, 5, 6, 7, 8, 9}" by auto
  moreover have "list_all (\<lambda>n. code_char (char_of (48 + n :: nat))) [0, 1, 2, 3, 4, 5, 6, 7, 8, 9]"
    by code_simp
  ultimately show ?thesis by auto
qed

lemma code_digits: "code_string (digits n)"
proof (induction n rule: digits.induct)
  case (1 n)
  then show ?case
    by (subst digits.simps) (auto simp: code_char_of_digit simp del: of_nat_add)
qed

lemma code_const [simp]:
  "code_char CHR '' ''" "code_char CHR ''!''" "code_char CHR ''(''" "code_char CHR '')''" "code_char CHR ''-''"
  "code_char CHR ''<''" "code_char CHR ''=''" "code_char CHR ''>''" "code_char CHR ''F''" "code_char CHR ''T''"
  "code_char CHR ''_''" "code_char CHR ''a''" "code_char CHR ''d''" "code_char CHR ''e''" "code_char CHR ''l''"
  "code_char CHR ''n''" "code_char CHR ''o''" "code_char CHR ''r''" "code_char CHR ''s''" "code_char CHR ''t''"
  "code_char CHR ''u''" "code_char CHR ''v''"
  by code_simp+

lemma code_op: "code_string (op_symbol op)"
  by (cases op) simp_all

lemma code_scalar: "code_string (show_scalar v)"
  by (auto simp: show_scalar_def show_int_def code_digits code_const split: scalar.split)

lemma code_join: "code_string sep \<Longrightarrow> list_all code_string ss \<Longrightarrow> code_string (join sep ss)"
proof -
  assume "code_string sep" "list_all code_string ss"
  then have "code_string (concat (map (\<lambda>z. sep @ z) ts))" if "list_all code_string ts" for ts
    using that by (induction ts) auto
  then show ?thesis using \<open>list_all code_string ss\<close> by (cases ss) (auto simp: join_def)
qed

definition code_names :: "(string, string) dict \<Rightarrow> bool" where
  "code_names names \<longleftrightarrow> (\<forall>x n. dget names x = Some n \<longrightarrow> code_string n)"

lemma code_expression:
  "renpy_expression t names = Inr s \<Longrightarrow> code_names names \<Longrightarrow> code_string s"
  "renpy_expressions ts names = Inr ss \<Longrightarrow> code_names names \<Longrightarrow> list_all code_string ss"
proof (induction t names and ts names arbitrary: s and ss rule: renpy_expression_renpy_expressions.induct)
  case (1 v names)
  then show ?case by (auto simp: code_scalar)
next
  case (2 n names)
  then show ?case by (auto simp: code_names_def)
next
  case (3 x names)
  then obtain s' where "renpy_expression x names = Inr s'" "s = ''(not '' @ s' @ '')''" by (auto simp: res_simps)
  with 3 show ?case by simp
next
  case (4 xs names)
  then obtain ss where "renpy_expressions xs names = Inr ss" "s = ''('' @ join '' and '' ss @ '')''"
    by (auto simp: res_simps)
  with 4 code_join [of "'' and ''" ss] show ?case by simp
next
  case (5 xs names)
  then obtain ss where "renpy_expressions xs names = Inr ss" "s = ''('' @ join '' or '' ss @ '')''"
    by (auto simp: res_simps)
  with 5 code_join [of "'' or ''" ss] show ?case by simp
next
  case (6 op l r names)
  then obtain a b where "renpy_expression l names = Inr a" "renpy_expression r names = Inr b"
    "s = ''('' @ a @ '' '' @ op_symbol op @ '' '' @ b @ '')''" by (auto simp: res_simps)
  with 6 show ?case by (simp add: code_op)
next
  case (8 x xs names)
  then obtain a bs where "renpy_expression x names = Inr a" "renpy_expressions xs names = Inr bs" "ss = a # bs"
    by (auto simp: res_simps)
  with 8 show ?case by simp
qed simp

lemma code_numbered: "code_string prefix \<Longrightarrow> code_names (numbered prefix xs)"
  unfolding code_names_def numbered_def
proof (intro allI impI)
  fix x n assume p: "code_string prefix"
    and "dget (dict_of (zip xs (map (\<lambda>i. prefix @ digits i) [0..<length xs]))) x = Some n"
  then have "n \<in> set (map (\<lambda>i. prefix @ digits i) [0..<length xs])"
    by (blast dest: dget_dict_of set_zip_rightD)
  then show "code_string n" using p by (auto simp: code_digits)
qed

text \<open>C14: The expression written for a condition uses only letters, digits, underscores, parentheses,
  comparison signs, the minus sign and spaces: nothing an author can put in a condition reaches the
  script as anything else.\<close>

theorem renpy_expression_safe:
  assumes "renpy_expression t (numbered ''ans_var_'' xs) = Inr s"
  shows "list_all code_char s"
  by (rule code_expression(1) [OF assms]) (simp add: code_numbered)

theorem renpy_expression_safe_witness:
  "list_all code_char ''(ans_var_0 >= 3)''"
  by (rule renpy_expression_safe [of "CCmp CGe (CVar ''gold'') (CLit (SInt 3))" "[''gold'']"]) code_simp

lemma one_line_points: "code_string s \<Longrightarrow> one_line (points s)"
proof -
  have "of_char c \<noteq> (10::nat)" if "code_char c" for c
  proof
    assume "of_char c = (10::nat)"
    then have "char_of (of_char c :: nat) = char_of (10::nat)" by (simp only:)
    then have "c = char_of (10::nat)" by (simp only: char_of_char)
    moreover have "\<not> code_char (char_of (10::nat))" by code_simp
    ultimately show False using that by (simp only:)
  qed
  then show "code_string s \<Longrightarrow> one_line (points s)" by (induction s) (auto simp: points_def)
qed

lemma points_append: "points (s @ t) = points s @ points t"
  by (simp add: points_def)

lemma one_line_const:
  "one_line (points ''label '')" "one_line (points '':'')" "one_line (points ''    '')" "one_line (points '' '')"
  "one_line (points ''    return'')" "one_line (points ''    if ans_steps >= '')"
  "one_line (points ''        \"Step cap reached.\"'')" "one_line (points ''        return'')"
  "one_line (points ''    if not ('')" "one_line (points ''):'')"
  "one_line (points ''        \"No available choice.\"'')" "one_line (points ''    menu:'')"
  "one_line (points ''            $ '')" "one_line (points '' = '')" "one_line (points ''        '')"
  "one_line (points '' if '')" "one_line (points ''            $ ans_steps += 1'')"
  "one_line (points ''            jump '')" "one_line (points ''default '')" "one_line (points ''    $ '')"
  "one_line (points ''# AI-Novel-Studio B07 trusted generated subset; Ren'')"
  "one_line (points ''Py 8.5.4 docs.'')"
  "one_line (points ''# Media references are manifest-only. Target runtime: NOT_RUN.'')"
  "one_line (points ''default ans_steps = 0'')" "one_line (points ''label start:'')"
  "one_line (points ''    $ ans_steps = 0'')" "one_line (points ''    jump '')"
  by (simp_all add: one_line_def points_def)

lemmas one_line_facts = points_append one_line_const one_line_points one_line_text

definition all_lines :: "utext list \<Rightarrow> bool" where "all_lines ls \<longleftrightarrow> (\<forall>l \<in> set ls. one_line l)"

lemma all_lines_simps [simp]:
  "all_lines []" "all_lines (l # ls) \<longleftrightarrow> one_line l \<and> all_lines ls"
  "all_lines (ls @ ms) \<longleftrightarrow> all_lines ls \<and> all_lines ms"
  by (auto simp: all_lines_def)

lemma code_lookup: "code_names names \<Longrightarrow> lookup names x = Inr n \<Longrightarrow> code_string n"
  by (auto simp: code_names_def)

lemma one_line_assign:
  "code_string n \<Longrightarrow> one_line (points prefix) \<Longrightarrow> one_line (points (prefix @ n @ '' = '' @ show_scalar v))"
  by (simp only: one_line_facts code_scalar one_line_simps)

lemma default_lines_ok:
  "default_lines prefix names vs = Inr ls \<Longrightarrow> code_names names \<Longrightarrow> one_line (points prefix) \<Longrightarrow> all_lines ls"
  unfolding default_lines_def all_lines_def
  by (rule smap_all) (auto simp: sbind_Inr_iff code_names_def simp del: append.simps intro!: one_line_assign)

lemma choice_lines_ok:
  assumes "choice_lines labels names (c, condition) = Inr ls"
    and n: "code_names labels" "code_names names" "code_string condition"
  shows "all_lines ls"
proof -
  from assms(1) obtain sets target where
    s: "smap (\<lambda>(x, v). sbind (lookup names x) (\<lambda>n.
          Inr (points (''            $ '' @ n @ '' = '' @ show_scalar v)))) (ch_assignments c) = Inr sets"
    and t: "lookup labels (ch_target c) = Inr target"
    and ls: "ls = [points ''        '' @ renpy_text (ch_label c) @ points ('' if '' @ condition @ '':''),
           points ''            $ ans_steps += 1''] @ sets @ [points (''            jump '' @ target)]"
    by (auto simp: choice_lines_def res_simps)
  have "all_lines sets" unfolding all_lines_def
    by (rule smap_all [OF s]) (use n(2) in
        \<open>auto simp: sbind_Inr_iff code_names_def one_line_const simp del: append.simps intro!: one_line_assign\<close>)
  then show ?thesis
    unfolding ls using n code_lookup [OF n(1) t] by (simp only: all_lines_simps one_line_facts one_line_simps)
qed

lemma node_lines_ok:
  assumes "node_lines compiled labels names max_steps characters (nid, n) = Inr ls"
    and n: "code_names labels" "code_names names"
  shows "all_lines ls"
proof -
  from assms(1) obtain label where label: "lookup labels nid = Inr label" by (auto simp: node_lines_def res_simps)
  let ?head = "[[], points (''label '' @ label @ '':'')] @
           (if nd_dialogue n = [] then []
            else [points ''    '' @ (if speaker_of characters n = [] then []
                    else renpy_text (speaker_of characters n) @ points '' '') @ renpy_text (nd_dialogue n)])"
  have head: "all_lines ?head"
    using code_lookup [OF n(1) label] by (simp add: one_line_facts del: append.simps)
  show ?thesis
  proof (cases "nd_ending n = []")
    case False
    then have "ls = ?head @ [points ''    '' @ renpy_text (nd_ending n), points ''    return'']"
      using assms(1) label by (simp add: node_lines_def Let_def del: append.simps lookup_simps)
    then show ?thesis using head by (simp only: all_lines_simps one_line_facts one_line_simps)
  next
    case True
    then obtain conditions menu where
      cond: "smap (\<lambda>c. sbind (lookup compiled (nid, ch_id c)) (\<lambda>t. renpy_expression t names))
               (nd_choices n) = Inr conditions"
      and menu: "smap (choice_lines labels names) (zip (nd_choices n) conditions) = Inr menu"
      and ls: "ls = ?head @
            [points (''    if ans_steps >= '' @ digits max_steps @ '':''),
             points ''        \"Step cap reached.\"'', points ''        return'',
             points (''    if not ('' @ join '' or '' conditions @ ''):''),
             points ''        \"No available choice.\"'', points ''        return'', points ''    menu:''] @
            concat menu"
      using assms(1) label by (auto simp: node_lines_def Let_def sbind_Inr_iff simp del: append.simps lookup_simps)
    have cs: "\<forall>s \<in> set conditions. code_string s"
      by (rule smap_all [OF cond]) (use code_expression(1) n(2) in \<open>auto simp: sbind_Inr_iff\<close>)
    have "\<forall>m \<in> set menu. all_lines m"
      by (rule smap_all [OF menu]) (use choice_lines_ok n cs in \<open>auto dest: set_zip_rightD\<close>)
    then have "all_lines (concat menu)" by (auto simp: all_lines_def)
    moreover have "code_string (join '' or '' conditions)"
      by (rule code_join) (use cs in \<open>auto simp: list_all_iff\<close>)
    ultimately show ?thesis unfolding ls using head
      by (simp only: all_lines_simps one_line_facts one_line_simps code_digits)
  qed
qed

lemma renpy_lines_ok: "renpy_lines ast_parse spec characters = Inr ls \<Longrightarrow> all_lines ls"
proof -
  assume "renpy_lines ast_parse spec characters = Inr ls"
  then obtain nodes compiled defaults resets entry body where
    d: "default_lines ''default '' (numbered ''ans_var_'' (map va_name (sp_variables spec))) (sp_variables spec) = Inr defaults"
    and r: "default_lines ''    $ '' (numbered ''ans_var_'' (map va_name (sp_variables spec))) (sp_variables spec) = Inr resets"
    and e: "lookup (numbered ''ans_node_'' (dkeys nodes)) (sp_entry_node_id spec) = Inr entry"
    and b: "smap (node_lines compiled (numbered ''ans_node_'' (dkeys nodes))
              (numbered ''ans_var_'' (map va_name (sp_variables spec))) (sp_max_steps spec) characters) nodes = Inr body"
    and ls: "ls = [points ''# AI-Novel-Studio B07 trusted generated subset; Ren'' @ [39] @
                  points ''Py 8.5.4 docs.'',
                points ''# Media references are manifest-only. Target runtime: NOT_RUN.'',
                points ''default ans_steps = 0''] @ defaults @
               [[], points ''label start:'', points ''    $ ans_steps = 0''] @ resets @
               [points (''    jump '' @ entry)] @ concat body"
    by (auto simp: renpy_lines_def Let_def sbind_Inr_iff simp del: append.simps lookup_simps split: if_splits)
  have names: "code_names (numbered ''ans_var_'' xs)" "code_names (numbered ''ans_node_'' xs)" for xs
    by (simp_all add: code_numbered)
  have "all_lines defaults" "all_lines resets"
    by (rule default_lines_ok [OF d names(1) one_line_const(19)], rule default_lines_ok [OF r names(1) one_line_const(20)])
  moreover have "\<forall>l \<in> set body. all_lines l"
    by (rule smap_all [OF b]) (use node_lines_ok names in auto)
  then have "all_lines (concat body)" by (auto simp: all_lines_def)
  moreover have "code_string entry" by (rule code_lookup [OF names(2) e])
  moreover have "one_line [39]" by simp
  ultimately show ?thesis unfolding ls
    by (simp only: all_lines_simps one_line_facts one_line_simps simp_thms)
qed

fun newlines :: "utext \<Rightarrow> nat" where
  "newlines [] = 0"
| "newlines (c # s) = (if c = 10 then 1 else 0) + newlines s"

lemma newlines_append: "newlines (s @ t) = newlines s + newlines t"
  by (induction s) simp_all

lemma newlines_one_line: "one_line l \<Longrightarrow> newlines l = 0"
  by (induction l) auto

lemma newlines_join: "all_lines ls \<Longrightarrow> ls \<noteq> [] \<Longrightarrow> newlines (join [10] ls) = length ls - 1"
proof -
  have "newlines (concat (map ((@) [10]) ls)) = length ls" if "all_lines ls" for ls
    using that by (induction ls) (auto simp: newlines_append newlines_one_line)
  then show "all_lines ls \<Longrightarrow> ls \<noteq> [] \<Longrightarrow> newlines (join [10] ls) = length ls - 1"
    by (cases ls) (auto simp: join_def newlines_append newlines_one_line)
qed

text \<open>The script has exactly the lines the exporter builds: titles, dialogue, labels, endings
  and character names cannot contribute a line break, so they cannot inject a statement.\<close>

theorem renpy_export_line_count:
  assumes "renpy_lines ast_parse spec characters = Inr ls"
  shows "\<exists>script. renpy_export ast_parse spec characters = Inr script \<and> newlines script = length ls"
proof -
  have "ls \<noteq> []" using assms
    by (auto simp: renpy_lines_def Let_def sbind_Inr_iff split: if_splits)
  then show ?thesis
    using assms renpy_lines_ok [OF assms] by (simp add: renpy_export_def newlines_append newlines_join)
qed

section \<open>Exporting never fails on a story without issues\<close>

lemma numbered_key: "x \<in> set xs \<Longrightarrow> \<exists>n. lookup (numbered prefix xs) x = Inr n"
  using dget_dict_of_key [of x "zip xs (map (\<lambda>i. prefix @ digits i) [0..<length xs])"]
  by (simp add: numbered_def)

definition names_cover :: "variables \<Rightarrow> (string, string) dict \<Rightarrow> bool" where
  "names_cover vars names \<longleftrightarrow> (\<forall>x va. dget vars x = Some va \<longrightarrow> (\<exists>n. lookup names x = Inr n))"

lemma expression_names:
  "expression_type t vars = Inr ty \<Longrightarrow> names_cover vars names \<Longrightarrow>
     \<exists>s. renpy_expression t names = Inr s"
  "all_bool ts vars = Inr ty \<Longrightarrow> names_cover vars names \<Longrightarrow>
     \<exists>ss. renpy_expressions ts names = Inr ss"
proof (induction t vars and ts vars arbitrary: ty and ty rule: expression_type_all_bool.induct)
  case (2 n vars)
  then show ?case by (cases "dget vars n") (auto simp: names_cover_def)
next
  case (3 xs vars)
  then obtain ss where "renpy_expressions xs names = Inr ss" by auto
  then show ?case by simp
next
  case (4 xs vars)
  then obtain ss where "renpy_expressions xs names = Inr ss" by auto
  then show ?case by simp
next
  case (5 a vars)
  then obtain ss where "renpy_expressions [a] names = Inr ss" by auto
  then show ?case by (auto simp: res_simps)
next
  case (6 op l r vars)
  from "6.prems"(1) obtain tl tr where t: "expression_type l vars = Inr tl" "expression_type r vars = Inr tr"
    by (auto simp: res_simps)
  obtain a b where "renpy_expression l names = Inr a" "renpy_expression r names = Inr b"
    using "6.IH"(1) [OF t(1) "6.prems"(2)] "6.IH"(2) [OF t "6.prems"(2)] by blast
  then show ?case by simp
next
  case (8 a xs vars)
  from "8.prems"(1) have t: "expression_type a vars = Inr TBool" "all_bool xs vars = Inr ty"
    by (auto simp: res_simps split: if_splits)
  obtain b bs where "renpy_expression a names = Inr b" "renpy_expressions xs names = Inr bs"
    using "8.IH"(1) [OF t(1) "8.prems"(2)] "8.IH"(2) [OF t(1) _ t(2) "8.prems"(2)] by auto
  then show ?case by simp
qed simp_all

lemma choice_lines_total:
  assumes "choice_ok nodes vars compiled nid c" "names_cover vars names"
    "\<forall>x \<in> set (dkeys nodes). \<exists>l. lookup labels x = Inr l"
  shows "\<exists>ls. choice_lines labels names (c, condition) = Inr ls"
proof -
  let ?f = "\<lambda>(x, v). sbind (lookup names x) (\<lambda>n.
          Inr (points (''            $ '' @ n @ '' = '' @ show_scalar v)))"
  have "\<exists>sets. smap ?f (ch_assignments c) = Inr sets"
  proof (rule smap_total)
    fix a assume "a \<in> set (ch_assignments c)"
    then obtain x v va where "a = (x, v)" "dget vars x = Some va"
      using assms(1) by (cases a) (auto simp: choice_ok_def)
    moreover then obtain n where "lookup names x = Inr n" using assms(2) unfolding names_cover_def by blast
    ultimately show "\<exists>y. ?f a = Inr y" by (simp del: lookup_simps)
  qed
  then obtain sets where "smap ?f (ch_assignments c) = Inr sets" by blast
  moreover obtain target where "lookup labels (ch_target c) = Inr target"
    using assms(1,3) by (auto simp: choice_ok_def)
  ultimately show ?thesis by (simp add: choice_lines_def del: lookup_simps)
qed

lemma node_lines_total:
  assumes ok: "story_ok nodes vars compiled" and n: "dget nodes nid = Some n"
    and names: "names_cover vars names"
    and labels: "\<forall>x \<in> set (dkeys nodes). \<exists>l. lookup labels x = Inr l"
  shows "\<exists>ls. node_lines compiled labels names max_steps characters (nid, n) = Inr ls"
proof -
  obtain label where label: "lookup labels nid = Inr label" using labels dget_in_keys [OF n] by blast
  have cok: "\<forall>c \<in> set (nd_choices n). choice_ok nodes vars compiled nid c"
    using ok n by (auto simp: story_ok_def)
  let ?g = "\<lambda>c. sbind (lookup compiled (nid, ch_id c)) (\<lambda>t. renpy_expression t names)"
  have "\<exists>s. ?g c = Inr s" if "c \<in> set (nd_choices n)" for c
  proof -
    have "choice_ok nodes vars compiled nid c" using cok that by blast
    then obtain t where "dget compiled (nid, ch_id c) = Some t" "expression_type t vars = Inr TBool"
      unfolding choice_ok_def by blast
    then show ?thesis using expression_names(1) names by (auto simp: lookup_def)
  qed
  then obtain conditions where cond: "smap ?g (nd_choices n) = Inr conditions"
    using smap_total [of "nd_choices n" ?g] by blast
  have "\<exists>menu. smap (choice_lines labels names) (zip (nd_choices n) conditions) = Inr menu"
  proof (rule smap_total)
    fix p assume "p \<in> set (zip (nd_choices n) conditions)"
    then have "choice_ok nodes vars compiled nid (fst p)"
      using cok by (metis prod.collapse set_zip_leftD)
    then show "\<exists>y. choice_lines labels names p = Inr y"
      using choice_lines_total [OF _ names labels, of compiled nid "fst p" "snd p"] by simp
  qed
  then obtain menu where "smap (choice_lines labels names) (zip (nd_choices n) conditions) = Inr menu" by blast
  with label cond show ?thesis by (simp add: node_lines_def Let_def del: lookup_simps)
qed

lemma renpy_lines_total:
  assumes v: "spec_valid ast_parse spec"
    and comp: "compile_story ast_parse spec = Inr (nodes, compiled, [])"
  shows "\<exists>ls. renpy_lines ast_parse spec characters = Inr ls"
proof -
  have d: "distinct (map nd_id (sp_nodes spec))" "distinct (map va_name (sp_variables spec))"
    using v by (simp_all add: spec_valid_def)
  note ok = compile_story_ok [OF comp d(1)]
  let ?labels = "numbered ''ans_node_'' (dkeys nodes)"
  let ?names = "numbered ''ans_var_'' (map va_name (sp_variables spec))"
  have labels: "\<forall>x \<in> set (dkeys nodes). \<exists>l. lookup ?labels x = Inr l"
    using numbered_key by blast
  have var: "\<exists>n. lookup ?names (va_name va) = Inr n" if "va \<in> set (sp_variables spec)" for va
    by (rule numbered_key) (use that in simp)
  have names: "names_cover (variables_of spec) ?names"
    using d(2) numbered_key [where prefix = "''ans_var_''"]
    by (auto simp: names_cover_def variables_of_def dict_of_distinct comp_def dest!: map_of_SomeD simp del: lookup_simps)
  have defaults: "\<exists>ls. default_lines prefix ?names (sp_variables spec) = Inr ls" for prefix
    unfolding default_lines_def
  proof (rule smap_total)
    fix va assume "va \<in> set (sp_variables spec)"
    then obtain n where "lookup ?names (va_name va) = Inr n" using var by blast
    then show "\<exists>y. sbind (lookup ?names (va_name va)) (\<lambda>n.
        Inr (points (prefix @ n @ '' = '' @ show_scalar (va_initial va)))) = Inr y"
      by (simp del: lookup_simps)
  qed
  obtain ds where ds: "default_lines ''default '' ?names (sp_variables spec) = Inr ds" using defaults by blast
  obtain rs where rs: "default_lines ''    $ '' ?names (sp_variables spec) = Inr rs" using defaults by blast
  have "sp_entry_node_id spec \<in> set (dkeys nodes)"
    using v d ok(2) by (auto simp: spec_valid_def nodes_of_eq)
  then obtain entry where entry: "lookup ?labels (sp_entry_node_id spec) = Inr entry" using labels by blast
  have "distinct (dkeys nodes)" using d(1) ok(2) by (simp add: nodes_of_eq comp_def)
  then have "\<exists>ls. node_lines compiled ?labels ?names (sp_max_steps spec) characters kn = Inr ls"
    if "kn \<in> set nodes" for kn
    using that node_lines_total [OF ok(1) _ names labels] by (cases kn) simp
  then obtain body where
    body: "smap (node_lines compiled ?labels ?names (sp_max_steps spec) characters) nodes = Inr body"
    using smap_total [of nodes "node_lines compiled ?labels ?names (sp_max_steps spec) characters"] by blast
  show ?thesis
    using comp ds rs entry body by (simp add: renpy_lines_def Let_def del: lookup_simps)
qed

text \<open>C15: A valid story that compiles without issues is always exported: every label, variable and
  condition the script refers to has been generated.\<close>

theorem renpy_export_total:
  assumes "spec_valid ast_parse spec"
    and "compile_story ast_parse spec = Inr (nodes, compiled, [])"
  shows "\<exists>script. renpy_export ast_parse spec characters = Inr script"
  using renpy_lines_total [OF assms, of characters] by (auto simp: renpy_export_def)

theorem renpy_export_total_witness:
  "\<exists>script. renpy_export example_parse example_story [] = Inr script"
  by (rule renpy_export_total [OF example_story_valid example_story_compiles])

theorem renpy_export_line_count_witness:
  "\<exists>ls script. renpy_lines example_parse example_story [] = Inr ls \<and>
     renpy_export example_parse example_story [] = Inr script \<and> newlines script = length ls"
proof -
  obtain ls where ls: "renpy_lines example_parse example_story [] = Inr ls"
    using renpy_lines_total [OF example_story_valid example_story_compiles] by blast
  from renpy_export_line_count [OF ls] ls show ?thesis by blast
qed

end
