(* ===== verification/Routing.thy ===== *)
theory Routing
  imports Prelude "HOL-Library.Word" "HOL-Library.Multiset"
begin

text \<open>
  Provider routing: the contracts of \<open>app/provider_runtime_v2_contracts.py\<close> and the policy
  \<open>evaluate_routing\<close> of \<open>app/provider_routing_policy_v2.py\<close>.

  A UUID is a 128-bit word (\<open>UUID.int\<close> is its unsigned value, which is also its order). Frozen
  sets are finite sets. The pydantic constraints of a contract are its \<open>valid_\<close> predicate.

  Shown: an allowed route satisfies every check of the policy, privacy first; a paid cloud route
  is only allowed under a matching approval; the route is the least in the documented order and
  does not depend on the order of the inputs; every decision satisfies the decision contract.
\<close>

section \<open>Contracts\<close>

type_synonym uuid = "128 word"

datatype modality = TEXT | IMAGE | VIDEO | TTS | AUDIO | EMBEDDING
datatype credential_scope = SYSTEM | WORKSPACE | USER | EXECUTION_NODE
datatype privacy_policy = DEVICE_ONLY | SELF_HOSTED_ONLY | TRUSTED_WORKSPACE_NODES | CLOUD_ALLOWED
datatype location = DEVICE | SAME_USER_NODE | WORKSPACE_NODE | CLOUD
datatype preference = QUALITY | COST | LATENCY
datatype asset_type = A_TEXT | A_IMAGE | A_VIDEO | A_AUDIO | A_VECTOR

record route_identity =
  ri_provider :: uuid
  ri_model :: uuid
  ri_runtime :: uuid
  ri_node :: uuid

definition valid_identity :: "route_identity \<Rightarrow> bool" where
  "valid_identity i \<longleftrightarrow> ri_provider i \<noteq> 0 \<and> ri_model i \<noteq> 0 \<and> ri_runtime i \<noteq> 0 \<and> ri_node i \<noteq> 0"

record credential_reference =
  cr_handle :: uuid
  cr_scope :: credential_scope
  cr_scope_id :: "uuid option"

definition valid_reference :: "credential_reference \<Rightarrow> bool" where
  "valid_reference r \<longleftrightarrow> (cr_scope r = SYSTEM) = (cr_scope_id r = None)"

record credential_availability =
  ca_reference :: credential_reference
  ca_provider :: uuid
  ca_available :: bool
  ca_authorized :: bool

record availability =
  av_configured :: bool
  av_installed :: bool
  av_healthy :: bool
  av_reachable :: bool
  av_authorized :: bool
  av_compatible :: bool

record runtime_requirements =
  rr_runtime_family_id :: uuid
  rr_architecture_id :: uuid
  rr_gpu_vendor_id :: "uuid option"
  rr_minimum_vram_mib :: int
  rr_minimum_ram_mib :: int

record hardware_snapshot =
  hw_node :: uuid
  hw_architecture_id :: uuid
  hw_gpu_vendor_id :: "uuid option"
  hw_vram_mib :: int
  hw_ram_mib :: int
  hw_runtime_family_ids :: "uuid set"

record capability_descriptor =
  cp_supported_modalities :: "modality set"
  cp_input_asset_types :: "asset_type set"
  cp_output_asset_types :: "asset_type set"
  cp_streaming :: bool
  cp_batch :: bool
  cp_max_context_tokens :: "int option"
  cp_max_output_tokens :: "int option"
  cp_estimated_vram_mib :: "int option"
  cp_estimated_ram_mib :: "int option"
  cp_quantization_id :: "uuid option"
  cp_requirements :: runtime_requirements

record required_capabilities =
  rq_input_asset_types :: "asset_type set"
  rq_output_asset_types :: "asset_type set"
  rq_streaming :: bool
  rq_batch :: bool
  rq_context_tokens :: "int option"
  rq_output_tokens :: "int option"

record candidate =
  cd_identity :: route_identity
  cd_location :: location
  cd_owner_user_id :: "uuid option"
  cd_workspace_id :: "uuid option"
  cd_trusted :: bool
  cd_self_hosted :: bool
  cd_availability :: availability
  cd_capabilities :: capability_descriptor
  cd_credential :: "credential_reference option"
  cd_estimated_cost_microusd :: "int option"
  cd_estimated_latency_ms :: "int option"
  cd_quality_score :: "int option"

definition opt_range :: "(int \<Rightarrow> bool) \<Rightarrow> int option \<Rightarrow> bool" where
  "opt_range P x = (case x of None \<Rightarrow> True | Some i \<Rightarrow> P i)"

definition valid_capabilities :: "capability_descriptor \<Rightarrow> bool" where
  "valid_capabilities c \<longleftrightarrow>
     cp_supported_modalities c \<noteq> {} \<and>
     opt_range (\<lambda>i. 0 < i) (cp_max_context_tokens c) \<and> opt_range (\<lambda>i. 0 < i) (cp_max_output_tokens c) \<and>
     opt_range (\<lambda>i. 0 \<le> i) (cp_estimated_vram_mib c) \<and> opt_range (\<lambda>i. 0 \<le> i) (cp_estimated_ram_mib c) \<and>
     0 \<le> rr_minimum_vram_mib (cp_requirements c) \<and> 0 \<le> rr_minimum_ram_mib (cp_requirements c)"

definition valid_candidate :: "candidate \<Rightarrow> bool" where
  "valid_candidate c \<longleftrightarrow>
     valid_identity (cd_identity c) \<and> valid_capabilities (cd_capabilities c) \<and>
     (case cd_credential c of None \<Rightarrow> True | Some r \<Rightarrow> valid_reference r) \<and>
     opt_range (\<lambda>i. 0 \<le> i) (cd_estimated_cost_microusd c) \<and>
     opt_range (\<lambda>i. 0 \<le> i) (cd_estimated_latency_ms c) \<and>
     opt_range (\<lambda>i. 0 \<le> i \<and> i \<le> 100) (cd_quality_score c)"

record cloud_approval =
  cl_identity :: route_identity
  cl_user_id :: uuid
  cl_workspace_id :: uuid
  cl_maximum_cost_microusd :: int

record budget_policy =
  bp_maximum_cost_microusd :: int
  bp_approvals :: "cloud_approval list"

record routing_request =
  rt_modality :: modality
  rt_required :: required_capabilities
  rt_workspace_id :: uuid
  rt_user_id :: uuid
  rt_local_node :: uuid
  rt_privacy :: privacy_policy
  rt_budget :: budget_policy
  rt_candidate_locations :: "location set"
  rt_preferences :: "preference list"

definition valid_request :: "routing_request \<Rightarrow> bool" where
  "valid_request r \<longleftrightarrow>
     opt_range (\<lambda>i. 0 < i) (rq_context_tokens (rt_required r)) \<and>
     opt_range (\<lambda>i. 0 < i) (rq_output_tokens (rt_required r)) \<and>
     rt_local_node r \<noteq> 0 \<and> 0 \<le> bp_maximum_cost_microusd (rt_budget r) \<and>
     list_all (\<lambda>a. valid_identity (cl_identity a) \<and> 0 \<le> cl_maximum_cost_microusd a) (bp_approvals (rt_budget r)) \<and>
     distinct (rt_preferences r)"

datatype decision = ALLOW | DENY | NO_COMPATIBLE_ROUTE | REQUIRES_APPROVAL
datatype reason_code =
  SELECTED | NO_CANDIDATES | NO_ELIGIBLE_CANDIDATE | CLOUD_COST_APPROVAL | CONFLICTING_FACTS

record routing_decision =
  dc_decision :: decision
  dc_identity :: "route_identity option"
  dc_credential_handle :: "uuid option"
  dc_reason_code :: reason_code

definition reasons :: "decision \<Rightarrow> reason_code set" where
  "reasons d = (case d of
     ALLOW \<Rightarrow> {SELECTED}
   | REQUIRES_APPROVAL \<Rightarrow> {CLOUD_COST_APPROVAL}
   | DENY \<Rightarrow> {CONFLICTING_FACTS}
   | NO_COMPATIBLE_ROUTE \<Rightarrow> {NO_CANDIDATES, NO_ELIGIBLE_CANDIDATE})"

text \<open>The validator \<open>consistent\<close> of \<open>ProviderRoutingDecision\<close>.\<close>

definition consistent :: "routing_decision \<Rightarrow> bool" where
  "consistent d \<longleftrightarrow>
     (dc_decision d \<in> {ALLOW, REQUIRES_APPROVAL}) = (dc_identity d \<noteq> None) \<and>
     (dc_decision d \<noteq> ALLOW \<longrightarrow> dc_credential_handle d = None) \<and>
     dc_reason_code d \<in> reasons (dc_decision d)"

section \<open>The policy\<close>

fun location_order :: "location \<Rightarrow> nat" where
  "location_order DEVICE = 0"
| "location_order SAME_USER_NODE = 1"
| "location_order WORKSPACE_NODE = 2"
| "location_order CLOUD = 3"

definition location_allowed :: "routing_request \<Rightarrow> candidate \<Rightarrow> bool" where
  "location_allowed request candidate =
     (let location = cd_location candidate;
          same_device = (ri_node (cd_identity candidate) = rt_local_node request)
      in if location \<notin> rt_candidate_locations request then False
         else if (location = DEVICE) \<noteq> same_device then False
         else if location = DEVICE \<and> cd_owner_user_id candidate \<noteq> Some (rt_user_id request) then False
         else if location = SAME_USER_NODE \<and>
             \<not> (cd_trusted candidate \<and> cd_owner_user_id candidate = Some (rt_user_id request)) then False
         else if location = WORKSPACE_NODE \<and>
             \<not> (cd_trusted candidate \<and> cd_workspace_id candidate = Some (rt_workspace_id request)) then False
         else if location = CLOUD \<and> cd_self_hosted candidate then False
         else if rt_privacy request = DEVICE_ONLY then location = DEVICE
         else if rt_privacy request = SELF_HOSTED_ONLY then location \<noteq> CLOUD \<and> cd_self_hosted candidate
         else if rt_privacy request = TRUSTED_WORKSPACE_NODES then location \<noteq> CLOUD
         else rt_privacy request = CLOUD_ALLOWED)"

definition expected_scope_id :: "routing_request \<Rightarrow> candidate \<Rightarrow> credential_scope \<Rightarrow> uuid option" where
  "expected_scope_id request candidate scope = (case scope of
     SYSTEM \<Rightarrow> None
   | WORKSPACE \<Rightarrow> Some (rt_workspace_id request)
   | USER \<Rightarrow> Some (rt_user_id request)
   | EXECUTION_NODE \<Rightarrow> Some (ri_node (cd_identity candidate)))"

definition credential_allowed ::
  "routing_request \<Rightarrow> candidate \<Rightarrow> credential_availability list \<Rightarrow> bool" where
  "credential_allowed request candidate credentials = (case cd_credential candidate of
     None \<Rightarrow> True
   | Some ref \<Rightarrow>
       cr_scope_id ref = expected_scope_id request candidate (cr_scope ref) \<and>
       list_ex (\<lambda>f. ca_reference f = ref \<and> ca_provider f = ri_provider (cd_identity candidate) \<and>
                    ca_available f \<and> ca_authorized f) credentials)"

definition fits :: "int option \<Rightarrow> int option \<Rightarrow> bool" where
  "fits required maximum = (case required of
     None \<Rightarrow> True
   | Some r \<Rightarrow> (case maximum of None \<Rightarrow> False | Some m \<Rightarrow> r \<le> m))"

definition or_zero :: "int option \<Rightarrow> int" where
  "or_zero x = (case x of None \<Rightarrow> 0 | Some i \<Rightarrow> i)"

definition capable :: "routing_request \<Rightarrow> candidate \<Rightarrow> hardware_snapshot list \<Rightarrow> bool" where
  "capable request candidate hardware =
     (let cap = cd_capabilities candidate; need = rt_required request; req = cp_requirements cap
      in if rt_modality request \<notin> cp_supported_modalities cap then False
         else if \<not> rq_input_asset_types need \<subseteq> cp_input_asset_types cap
           \<or> \<not> rq_output_asset_types need \<subseteq> cp_output_asset_types cap then False
         else if (rq_streaming need \<and> \<not> cp_streaming cap) \<or> (rq_batch need \<and> \<not> cp_batch cap) then False
         else if \<not> fits (rq_context_tokens need) (cp_max_context_tokens cap)
           \<or> \<not> fits (rq_output_tokens need) (cp_max_output_tokens cap) then False
         else if cd_location candidate = CLOUD then True
         else case find (\<lambda>h. hw_node h = ri_node (cd_identity candidate)) hardware of
             None \<Rightarrow> False
           | Some facts \<Rightarrow>
               hw_architecture_id facts = rr_architecture_id req \<and>
               rr_runtime_family_id req \<in> hw_runtime_family_ids facts \<and>
               (rr_gpu_vendor_id req = None \<or> hw_gpu_vendor_id facts = rr_gpu_vendor_id req) \<and>
               hw_vram_mib facts \<ge> max (rr_minimum_vram_mib req) (or_zero (cp_estimated_vram_mib cap)) \<and>
               hw_ram_mib facts \<ge> max (rr_minimum_ram_mib req) (or_zero (cp_estimated_ram_mib cap)))"

definition approved :: "routing_request \<Rightarrow> candidate \<Rightarrow> int \<Rightarrow> bool" where
  "approved request candidate cost =
     list_ex (\<lambda>a. cl_identity a = cd_identity candidate \<and> cl_user_id a = rt_user_id request \<and>
                  cl_workspace_id a = rt_workspace_id request \<and> cl_maximum_cost_microusd a \<ge> cost)
       (bp_approvals (rt_budget request))"

definition metric :: "candidate \<Rightarrow> preference \<Rightarrow> int option" where
  "metric c p = (case p of
     COST \<Rightarrow> cd_estimated_cost_microusd c
   | LATENCY \<Rightarrow> cd_estimated_latency_ms c
   | QUALITY \<Rightarrow> map_option uminus (cd_quality_score c))"

type_synonym rank_key = "nat \<times> (bool \<times> int) list \<times> uuid \<times> uuid \<times> uuid \<times> uuid"

definition rank :: "routing_request \<Rightarrow> candidate \<Rightarrow> rank_key" where
  "rank request c =
     (location_order (cd_location c),
      map (\<lambda>p. (metric c p = None, or_zero (metric c p))) (rt_preferences request),
      ri_provider (cd_identity c), ri_model (cd_identity c), ri_runtime (cd_identity c), ri_node (cd_identity c))"

definition state_ok :: "candidate \<Rightarrow> bool" where
  "state_ok c = (let s = cd_availability c in
     av_configured s \<and> av_installed s \<and> av_healthy s \<and> av_reachable s \<and> av_authorized s \<and> av_compatible s)"

text \<open>The tests of one round of the loop that a candidate must pass to be kept at all.\<close>

definition acceptable ::
  "routing_request \<Rightarrow> credential_availability list \<Rightarrow> hardware_snapshot list \<Rightarrow> candidate \<Rightarrow> bool" where
  "acceptable request credentials hardware c \<longleftrightarrow>
     state_ok c \<and> location_allowed request c \<and> credential_allowed request c credentials \<and>
     capable request c hardware \<and>
     (case cd_estimated_cost_microusd c of
        None \<Rightarrow> False
      | Some cost \<Rightarrow> cost \<le> bp_maximum_cost_microusd (rt_budget request))"

definition needs_approval :: "routing_request \<Rightarrow> candidate \<Rightarrow> bool" where
  "needs_approval request c \<longleftrightarrow>
     cd_location c = CLOUD \<and> or_zero (cd_estimated_cost_microusd c) > 0 \<and>
     \<not> approved request c (or_zero (cd_estimated_cost_microusd c))"

text \<open>The loop: \<open>(eligible, pending)\<close>.\<close>

fun sort_out ::
  "routing_request \<Rightarrow> credential_availability list \<Rightarrow> hardware_snapshot list \<Rightarrow> candidate list
     \<Rightarrow> candidate list \<times> candidate list \<Rightarrow> candidate list \<times> candidate list" where
  "sort_out request credentials hardware [] acc = acc"
| "sort_out request credentials hardware (c # cs) (eligible, pending) =
     sort_out request credentials hardware cs
       (if \<not> acceptable request credentials hardware c then (eligible, pending)
        else if needs_approval request c then (eligible, pending @ [c])
        else (eligible @ [c], pending))"

definition conflicting ::
  "candidate list \<Rightarrow> credential_availability list \<Rightarrow> hardware_snapshot list \<Rightarrow> bool" where
  "conflicting candidates credentials hardware \<longleftrightarrow>
     \<not> distinct (map cd_identity candidates) \<or> \<not> distinct (map hw_node hardware) \<or>
     \<not> distinct (map (\<lambda>c. (cr_handle (ca_reference c), ca_provider c)) credentials)"

definition evaluate_routing ::
  "routing_request \<Rightarrow> candidate list \<Rightarrow> credential_availability list \<Rightarrow> hardware_snapshot list
     \<Rightarrow> routing_decision" where
  "evaluate_routing request candidates credentials hardware =
     (if conflicting candidates credentials hardware
      then \<lparr>dc_decision = DENY, dc_identity = None, dc_credential_handle = None,
            dc_reason_code = CONFLICTING_FACTS\<rparr>
      else
        let (eligible, pending) = sort_out request credentials hardware candidates ([], []);
            pool = (if eligible \<noteq> [] then eligible else pending)
        in if pool = []
           then \<lparr>dc_decision = NO_COMPATIBLE_ROUTE, dc_identity = None, dc_credential_handle = None,
                 dc_reason_code = (if candidates \<noteq> [] then NO_ELIGIBLE_CANDIDATE else NO_CANDIDATES)\<rparr>
           else
             let chosen = arg_min_list (rank request) pool; allowed = (eligible \<noteq> [])
             in \<lparr>dc_decision = (if allowed then ALLOW else REQUIRES_APPROVAL),
                 dc_identity = Some (cd_identity chosen),
                 dc_credential_handle = (if allowed then map_option cr_handle (cd_credential chosen) else None),
                 dc_reason_code = (if allowed then SELECTED else CLOUD_COST_APPROVAL)\<rparr>)"

section \<open>Choosing the least of a ranking\<close>

text \<open>
  The shape of the policy's last step, for any ranking that tells apart what is identified
  differently: \<open>min(pool, key=rank)\<close> is in the pool, is least, and does not depend on the
  order of the pool.
\<close>

locale ranked_choice =
  fixes rank :: "'c \<Rightarrow> 'k :: linorder"
    and ident :: "'c \<Rightarrow> 'i"
  assumes rank_ident: "rank a = rank b \<Longrightarrow> ident a = ident b"
begin

lemma choice_in: "pool \<noteq> [] \<Longrightarrow> arg_min_list rank pool \<in> set pool"
  by (rule arg_min_list_in)

lemma choice_least: "c \<in> set pool \<Longrightarrow> rank (arg_min_list rank pool) \<le> rank c"
  by (rule arg_min_list_least)

lemma choice_order_free:
  assumes "set pool = set pool'" "pool \<noteq> []" "inj_on ident (set pool)"
  shows "arg_min_list rank pool = arg_min_list rank pool'"
proof -
  let ?a = "arg_min_list rank pool" and ?b = "arg_min_list rank pool'"
  have "pool' \<noteq> []" using assms(1,2) by auto
  then have "?a \<in> set pool" "?b \<in> set pool'" using choice_in assms(2) by blast+
  note ab = this
  have "?b \<in> set pool" "?a \<in> set pool'" using ab assms(1) by blast+
  then have "rank ?a \<le> rank ?b" "rank ?b \<le> rank ?a"
    using choice_least [of ?b pool] choice_least [of ?a pool'] by blast+
  then have "ident ?a = ident ?b" by (intro rank_ident) (rule order.antisym)
  with assms(3) show ?thesis using ab(1) \<open>?b \<in> set pool\<close> by (rule inj_onD)
qed

end

interpretation route: ranked_choice "rank request" cd_identity for request
  by unfold_locales (simp add: rank_def)

section \<open>The pools\<close>

lemma sort_out_eq:
  "sort_out request credentials hardware cs (e, p) =
     (e @ filter (\<lambda>c. acceptable request credentials hardware c \<and> \<not> needs_approval request c) cs,
      p @ filter (\<lambda>c. acceptable request credentials hardware c \<and> needs_approval request c) cs)"
  by (induction cs arbitrary: e p) auto

definition eligible_pool where
  "eligible_pool request credentials hardware cs =
     filter (\<lambda>c. acceptable request credentials hardware c \<and> \<not> needs_approval request c) cs"

definition pending_pool where
  "pending_pool request credentials hardware cs =
     filter (\<lambda>c. acceptable request credentials hardware c \<and> needs_approval request c) cs"

definition chosen_pool where
  "chosen_pool request credentials hardware cs =
     (if eligible_pool request credentials hardware cs \<noteq> [] then eligible_pool request credentials hardware cs
      else pending_pool request credentials hardware cs)"

lemma evaluate_routing_eq:
  "evaluate_routing request candidates credentials hardware =
     (if conflicting candidates credentials hardware
      then \<lparr>dc_decision = DENY, dc_identity = None, dc_credential_handle = None,
            dc_reason_code = CONFLICTING_FACTS\<rparr>
      else if chosen_pool request credentials hardware candidates = []
      then \<lparr>dc_decision = NO_COMPATIBLE_ROUTE, dc_identity = None, dc_credential_handle = None,
            dc_reason_code = (if candidates \<noteq> [] then NO_ELIGIBLE_CANDIDATE else NO_CANDIDATES)\<rparr>
      else
        let chosen = arg_min_list (rank request) (chosen_pool request credentials hardware candidates);
            allowed = eligible_pool request credentials hardware candidates \<noteq> []
        in \<lparr>dc_decision = (if allowed then ALLOW else REQUIRES_APPROVAL),
            dc_identity = Some (cd_identity chosen),
            dc_credential_handle = (if allowed then map_option cr_handle (cd_credential chosen) else None),
            dc_reason_code = (if allowed then SELECTED else CLOUD_COST_APPROVAL)\<rparr>)"
  by (auto simp: evaluate_routing_def sort_out_eq chosen_pool_def eligible_pool_def pending_pool_def Let_def)

lemma selected_candidate:
  assumes "dc_identity (evaluate_routing request candidates credentials hardware) = Some i"
  obtains c where "c \<in> set candidates" "cd_identity c = i" "acceptable request credentials hardware c"
    "dc_decision (evaluate_routing request candidates credentials hardware) = ALLOW \<Longrightarrow> \<not> needs_approval request c"
    "c = arg_min_list (rank request) (chosen_pool request credentials hardware candidates)"
    "dc_credential_handle (evaluate_routing request candidates credentials hardware) =
       (if dc_decision (evaluate_routing request candidates credentials hardware) = ALLOW
        then map_option cr_handle (cd_credential c) else None)"
proof -
  let ?pool = "chosen_pool request credentials hardware candidates"
  have ne: "?pool \<noteq> []" "\<not> conflicting candidates credentials hardware"
    using assms by (auto simp: evaluate_routing_eq split: if_splits)
  let ?c = "arg_min_list (rank request) ?pool"
  have "?c \<in> set ?pool" by (rule route.choice_in [OF ne(1)])
  then have c: "?c \<in> set candidates" "acceptable request credentials hardware ?c"
    "eligible_pool request credentials hardware candidates \<noteq> [] \<Longrightarrow> \<not> needs_approval request ?c"
    by (auto simp: chosen_pool_def eligible_pool_def pending_pool_def split: if_splits)
  show thesis
    by (rule that [of ?c]) (use assms ne c in \<open>auto simp: evaluate_routing_eq Let_def split: if_splits\<close>)
qed

section \<open>Properties\<close>

text \<open>C18: An allowed route is one of the candidates, and that candidate passed every check of the
  policy: all six availability facts, its location under the request's privacy, a usable credential
  in the right scope, the capabilities and hardware asked for, and a known cost within the budget;
  and if it is a paid cloud route, the request carries an approval for exactly this route, user and
  workspace that covers the cost. The credential handle is the candidate's own.\<close>

theorem allowed_route_sound:
  assumes "evaluate_routing request candidates credentials hardware = d" and "dc_decision d = ALLOW"
  shows "\<exists>c \<in> set candidates. \<exists>cost. dc_identity d = Some (cd_identity c) \<and>
    dc_credential_handle d = map_option cr_handle (cd_credential c) \<and>
    state_ok c \<and> location_allowed request c \<and> credential_allowed request c credentials \<and>
    capable request c hardware \<and> cd_estimated_cost_microusd c = Some cost \<and>
    cost \<le> bp_maximum_cost_microusd (rt_budget request) \<and>
    (cd_location c \<noteq> CLOUD \<or> cost \<le> 0 \<or> approved request c cost)"
proof -
  obtain i where i: "dc_identity (evaluate_routing request candidates credentials hardware) = Some i"
    using assms by (auto simp: evaluate_routing_eq Let_def split: if_splits)
  obtain c where c: "c \<in> set candidates" "cd_identity c = i" "acceptable request credentials hardware c"
    "\<not> needs_approval request c"
    "dc_credential_handle d = map_option cr_handle (cd_credential c)"
    using selected_candidate [OF i] assms by metis
  then show ?thesis
    using i assms(1)
    by (intro bexI [OF _ c(1)]) (auto simp: acceptable_def needs_approval_def or_zero_def split: option.splits)
qed

lemma location_allowedD:
  assumes "location_allowed request c"
  shows "(rt_privacy request = DEVICE_ONLY \<longrightarrow>
        ri_node (cd_identity c) = rt_local_node request \<and> cd_location c = DEVICE) \<and>
    (rt_privacy request = SELF_HOSTED_ONLY \<longrightarrow> cd_self_hosted c \<and> cd_location c \<noteq> CLOUD) \<and>
    (cd_location c = CLOUD \<longrightarrow> rt_privacy request = CLOUD_ALLOWED \<and> \<not> cd_self_hosted c) \<and>
    (cd_location c \<noteq> DEVICE \<longrightarrow> ri_node (cd_identity c) \<noteq> rt_local_node request) \<and>
    cd_location c \<in> rt_candidate_locations request"
  using assms
  by (cases "cd_location c"; cases "rt_privacy request")
    (simp_all add: location_allowed_def Let_def split: if_split_asm)

text \<open>C19: Privacy holds for every route the policy names, allowed or waiting for approval: a
  device-only request never leaves the local node, a self-hosted request never names a cloud or
  rented node, and only a request that allows the cloud can name a cloud route. A route on the
  requester's own node is never described as remote.\<close>

theorem privacy_respected:
  assumes "dc_identity (evaluate_routing request candidates credentials hardware) = Some i"
  shows "\<exists>c \<in> set candidates. cd_identity c = i \<and>
    (rt_privacy request = DEVICE_ONLY \<longrightarrow> ri_node i = rt_local_node request \<and> cd_location c = DEVICE) \<and>
    (rt_privacy request = SELF_HOSTED_ONLY \<longrightarrow> cd_self_hosted c \<and> cd_location c \<noteq> CLOUD) \<and>
    (cd_location c = CLOUD \<longrightarrow> rt_privacy request = CLOUD_ALLOWED \<and> \<not> cd_self_hosted c) \<and>
    (cd_location c \<noteq> DEVICE \<longrightarrow> ri_node i \<noteq> rt_local_node request) \<and>
    cd_location c \<in> rt_candidate_locations request"
proof -
  obtain c where c: "c \<in> set candidates" "cd_identity c = i" "acceptable request credentials hardware c"
    using selected_candidate [OF assms] by metis
  then have "location_allowed request c" by (simp add: acceptable_def)
  from location_allowedD [OF this] c show ?thesis by blast
qed

text \<open>C20: The route named is the best one: no candidate the policy could have allowed is nearer in
  the order device, own node, workspace node, cloud, nor is one at the same distance better in the
  request's order of preferences.\<close>

theorem allowed_route_is_least:
  assumes "evaluate_routing request candidates credentials hardware = d" and "dc_decision d = ALLOW"
    and "c \<in> set candidates" and "acceptable request credentials hardware c"
    and "\<not> needs_approval request c"
  shows "\<exists>b \<in> set candidates. dc_identity d = Some (cd_identity b) \<and> rank request b \<le> rank request c \<and>
    location_order (cd_location b) \<le> location_order (cd_location c)"
proof -
  obtain i where i: "dc_identity (evaluate_routing request candidates credentials hardware) = Some i"
    using assms(1,2) by (auto simp: evaluate_routing_eq Let_def split: if_splits)
  obtain b where b: "b \<in> set candidates" "cd_identity b = i"
    "b = arg_min_list (rank request) (chosen_pool request credentials hardware candidates)"
    using selected_candidate [OF i] by metis
  have "c \<in> set (chosen_pool request credentials hardware candidates)"
    using assms(3-5) by (auto simp: chosen_pool_def eligible_pool_def filter_empty_conv)
  then have "rank request b \<le> rank request c" unfolding b(3) by (rule route.choice_least)
  moreover from this have "location_order (cd_location b) \<le> location_order (cd_location c)"
    by (auto simp: rank_def less_eq_prod_def less_le)
  ultimately show ?thesis using b(1,2) i assms(1) by blast
qed

lemma find_unique:
  assumes "distinct (map f xs)" "mset xs = mset ys"
  shows "find (\<lambda>x. f x = k) xs = find (\<lambda>x. f x = k) ys"
proof -
  have inj: "inj_on f (set xs)" using assms(1) by (simp add: distinct_map)
  have sets: "set xs = set ys" using assms(2) by (rule mset_eq_setD)
  have some: "find (\<lambda>x. f x = k) zs = Some z \<longleftrightarrow> z \<in> set zs \<and> f z = k" if "inj_on f (set zs)" for zs z
    using that
  proof (induction zs)
    case (Cons a zs)
    then show ?case by (auto simp: inj_on_def)
  qed simp
  show ?thesis
  proof (cases "find (\<lambda>x. f x = k) xs")
    case None
    then have "\<not> (\<exists>x. x \<in> set ys \<and> f x = k)" using sets by (simp add: find_None_iff)
    then have "find (\<lambda>x. f x = k) ys = None" by (auto simp: find_None_iff)
    then show ?thesis using None by simp
  next
    case (Some z)
    then have "z \<in> set xs" "f z = k" using some [OF inj] by auto
    then show ?thesis using Some some [of ys z] inj sets by simp
  qed
qed

text \<open>C21: The decision depends on the facts and not on their order: any permutation of the
  candidates, of the credential facts and of the hardware facts gives the same decision.\<close>

theorem routing_order_free:
  assumes c: "mset candidates = mset candidates'" and cr: "mset credentials = mset credentials'"
    and h: "mset hardware = mset hardware'"
  shows "evaluate_routing request candidates credentials hardware =
    evaluate_routing request candidates' credentials' hardware'"
proof -
  have dist: "distinct (map f xs) \<longleftrightarrow> distinct (map f ys)" if "mset xs = mset ys" for f :: "'a \<Rightarrow> 'b" and xs ys
    using that by (metis mset_eq_imp_distinct_iff mset_map)
  have conf: "conflicting candidates credentials hardware = conflicting candidates' credentials' hardware'"
    unfolding conflicting_def
    by (metis (mono_tags, lifting) assms mset_eq_imp_distinct_iff mset_map)
  show ?thesis
  proof (cases "conflicting candidates credentials hardware")
    case True
    then show ?thesis using conf by (simp add: evaluate_routing_def)
  next
    case False
    have "capable request x hardware = capable request x hardware'" for x
      using find_unique [OF _ h, of hw_node] False unfolding conflicting_def capable_def Let_def by auto
    moreover have "credential_allowed request x credentials = credential_allowed request x credentials'" for x
      using mset_eq_setD [OF cr] by (cases "cd_credential x") (simp_all add: credential_allowed_def list_ex_iff)
    ultimately have acc: "acceptable request credentials hardware = acceptable request credentials' hardware'"
      by (auto simp: acceptable_def fun_eq_iff)
    have sets: "set candidates = set candidates'" using c by (rule mset_eq_setD)
    have pools: "set (eligible_pool request credentials hardware candidates) =
          set (eligible_pool request credentials' hardware' candidates')"
      "set (chosen_pool request credentials hardware candidates) =
          set (chosen_pool request credentials' hardware' candidates')"
      using sets by (auto simp: eligible_pool_def chosen_pool_def pending_pool_def acc filter_empty_conv)
    have ne: "(eligible_pool request credentials hardware candidates = []) =
        (eligible_pool request credentials' hardware' candidates' = [])"
      "(chosen_pool request credentials hardware candidates = []) =
        (chosen_pool request credentials' hardware' candidates' = [])"
      "(candidates = []) = (candidates' = [])"
      using pools sets by (metis set_empty)+
    have "inj_on cd_identity (set candidates)" using False by (simp add: conflicting_def distinct_map)
    then have inj: "inj_on cd_identity (set (chosen_pool request credentials hardware candidates))"
      by (rule inj_on_subset) (auto simp: chosen_pool_def eligible_pool_def pending_pool_def)
    have "arg_min_list (rank request) (chosen_pool request credentials hardware candidates) =
        arg_min_list (rank request) (chosen_pool request credentials' hardware' candidates')"
      if "chosen_pool request credentials hardware candidates \<noteq> []"
      by (rule route.choice_order_free [OF pools(2) that inj])
    then show ?thesis using ne conf by (auto simp: evaluate_routing_eq Let_def)
  qed
qed

text \<open>Every decision satisfies the decision contract: a route is carried exactly by the two
  selecting decisions, a credential handle only by an allowed one, and the reason agrees with the
  decision; so building the answer never fails.\<close>

theorem decision_consistent: "consistent (evaluate_routing request candidates credentials hardware)"
  by (auto simp: evaluate_routing_eq consistent_def reasons_def Let_def)

section \<open>A small registry\<close>

definition example_candidate :: "uuid \<Rightarrow> location \<Rightarrow> int \<Rightarrow> candidate" where
  "example_candidate node loc cost =
     \<lparr>cd_identity = \<lparr>ri_provider = 1, ri_model = 2, ri_runtime = 3, ri_node = node\<rparr>,
      cd_location = loc, cd_owner_user_id = Some 7, cd_workspace_id = Some 8, cd_trusted = True,
      cd_self_hosted = False,
      cd_availability = \<lparr>av_configured = True, av_installed = True, av_healthy = True,
        av_reachable = True, av_authorized = True, av_compatible = True\<rparr>,
      cd_capabilities = \<lparr>cp_supported_modalities = {TEXT}, cp_input_asset_types = {A_TEXT},
        cp_output_asset_types = {A_TEXT}, cp_streaming = False, cp_batch = False,
        cp_max_context_tokens = Some 4096, cp_max_output_tokens = None, cp_estimated_vram_mib = None,
        cp_estimated_ram_mib = None, cp_quantization_id = None,
        cp_requirements = \<lparr>rr_runtime_family_id = 5, rr_architecture_id = 6, rr_gpu_vendor_id = None,
          rr_minimum_vram_mib = 0, rr_minimum_ram_mib = 0\<rparr>\<rparr>,
      cd_credential = None, cd_estimated_cost_microusd = Some cost, cd_estimated_latency_ms = None,
      cd_quality_score = None\<rparr>"

definition example_request :: "privacy_policy \<Rightarrow> routing_request" where
  "example_request privacy =
     \<lparr>rt_modality = TEXT,
      rt_required = \<lparr>rq_input_asset_types = {A_TEXT}, rq_output_asset_types = {}, rq_streaming = False,
        rq_batch = False, rq_context_tokens = Some 1000, rq_output_tokens = None\<rparr>,
      rt_workspace_id = 8, rt_user_id = 7, rt_local_node = 9, rt_privacy = privacy,
      rt_budget = \<lparr>bp_maximum_cost_microusd = 100, bp_approvals = []\<rparr>,
      rt_candidate_locations = {DEVICE, CLOUD}, rt_preferences = [COST, LATENCY, QUALITY]\<rparr>"

definition example_hardware :: hardware_snapshot where
  "example_hardware = \<lparr>hw_node = 9, hw_architecture_id = 6, hw_gpu_vendor_id = None, hw_vram_mib = 0,
     hw_ram_mib = 1024, hw_runtime_family_ids = {5}\<rparr>"

lemmas example_facts = example_candidate_def example_request_def example_hardware_def

text \<open>The device route is free, the cloud route costs 50 and has no approval.\<close>

definition example_candidates :: "candidate list" where
  "example_candidates = [example_candidate 4 CLOUD 50, example_candidate 9 DEVICE 0]"

lemma example_acceptable:
  "acceptable (example_request CLOUD_ALLOWED) [] [example_hardware] (example_candidate 9 DEVICE 0)"
  "\<not> needs_approval (example_request CLOUD_ALLOWED) (example_candidate 9 DEVICE 0)"
  "acceptable (example_request CLOUD_ALLOWED) [] [example_hardware] (example_candidate 4 CLOUD 50)"
  "needs_approval (example_request CLOUD_ALLOWED) (example_candidate 4 CLOUD 50)"
  by (simp_all add: example_facts acceptable_def needs_approval_def state_ok_def location_allowed_def
      credential_allowed_def capable_def fits_def or_zero_def approved_def Let_def)

lemma example_decision:
  "evaluate_routing (example_request CLOUD_ALLOWED) example_candidates [] [example_hardware] =
     \<lparr>dc_decision = ALLOW,
      dc_identity = Some \<lparr>ri_provider = 1, ri_model = 2, ri_runtime = 3, ri_node = 9\<rparr>,
      dc_credential_handle = None, dc_reason_code = SELECTED\<rparr>"
  using example_acceptable
  by (simp add: evaluate_routing_def example_candidates_def conflicting_def Let_def)
    (simp add: example_facts)

theorem allowed_route_sound_witness:
  "\<exists>c \<in> set example_candidates. \<exists>cost. cd_identity c = \<lparr>ri_provider = 1, ri_model = 2, ri_runtime = 3, ri_node = 9\<rparr> \<and>
     state_ok c \<and> cd_estimated_cost_microusd c = Some cost \<and> cost \<le> 100 \<and> (cd_location c \<noteq> CLOUD \<or> cost \<le> 0)"
  using allowed_route_sound [OF example_decision]
  by (auto simp: example_request_def approved_def)

lemma example_device_only:
  "acceptable (example_request DEVICE_ONLY) [] [example_hardware] (example_candidate 9 DEVICE 0)"
  "\<not> needs_approval (example_request DEVICE_ONLY) (example_candidate 9 DEVICE 0)"
  "\<not> acceptable (example_request DEVICE_ONLY) [] [example_hardware] (example_candidate 4 CLOUD 50)"
  by (simp_all add: example_facts acceptable_def needs_approval_def state_ok_def location_allowed_def
      credential_allowed_def capable_def fits_def or_zero_def approved_def Let_def)

theorem privacy_respected_witness:
  "\<exists>c \<in> set example_candidates. ri_node (cd_identity c) = 9 \<and> cd_location c = DEVICE"
proof -
  have "dc_identity (evaluate_routing (example_request DEVICE_ONLY) example_candidates [] [example_hardware]) =
      Some \<lparr>ri_provider = 1, ri_model = 2, ri_runtime = 3, ri_node = 9\<rparr>"
    using example_device_only
    by (simp add: evaluate_routing_def example_candidates_def conflicting_def Let_def)
      (simp add: example_facts)
  from privacy_respected [OF this] show ?thesis by (fastforce simp: example_request_def)
qed

theorem allowed_route_is_least_witness:
  "\<exists>b \<in> set example_candidates.
     cd_identity b = \<lparr>ri_provider = 1, ri_model = 2, ri_runtime = 3, ri_node = 9\<rparr> \<and>
     location_order (cd_location b) \<le> location_order DEVICE"
proof -
  have c: "example_candidate 9 DEVICE 0 \<in> set example_candidates" by (simp add: example_candidates_def)
  have "\<exists>b \<in> set example_candidates. Some \<lparr>ri_provider = 1, ri_model = 2, ri_runtime = 3, ri_node = 9\<rparr> =
      Some (cd_identity b) \<and> location_order (cd_location b) \<le> location_order (cd_location (example_candidate 9 DEVICE 0))"
    using allowed_route_is_least [OF example_decision _ c example_acceptable(1,2)] by auto
  then show ?thesis by (auto simp: example_candidate_def)
qed

theorem routing_order_free_witness:
  "evaluate_routing (example_request CLOUD_ALLOWED) example_candidates [] [example_hardware] =
   evaluate_routing (example_request CLOUD_ALLOWED) (rev example_candidates) [] [example_hardware]"
  by (rule routing_order_free) simp_all

end
