(* ===== verification/Capacity.thy ===== *)
theory Capacity
  imports Json
begin

text \<open>
  The project capacity ledger, \<open>app/project_capacity.py\<close>: one JSON file of limits, used bytes and
  reservations per project.

  \<^item> The file is a value: absent, unreadable, or a JSON document. \<open>json.dumps(sort_keys=True)\<close>
    followed by \<open>json.loads\<close> sorts the keys of every dictionary; \<open>canon\<close> does that for the
    dictionaries whose order the code can see (projects, reservations, audit entries), the
    dictionaries with a fixed set of keys are read by look-up only. The length of the payload is
    the argument \<open>payload_size\<close>.
  \<^item> The environment is an argument: the clock, the reading of \<open>_now_iso()\<close> at each place the
    code calls it (named by a tag), \<open>uuid.uuid4\<close>, \<open>datetime.fromisoformat\<close> and \<open>isoformat\<close>.
  \<^item> Operations run under the file lock, so each is one step of the file.

  Shown: an admitted reservation keeps used plus reserved bytes within the limit; committing moves
  bytes and never counts them twice; blocked projects admit nothing; refusals leave the file alone;
  versions count the writes, limit changes are compare-and-swap; what is written reads back, within
  bounds the code does not check before writing (\<open>ledger_bricked\<close>).
\<close>

section \<open>Data\<close>

datatype capacity_error =
  Unavailable string
| Refused string "(string, json) dict"

abbreviation no_ledger :: capacity_error where
  "no_ledger \<equiv> Unavailable ''PROJECT_CAPACITY_LEDGER_UNAVAILABLE''"

abbreviation unavailable :: "capacity_error + 'a" where
  "unavailable \<equiv> Inl no_ledger"

definition default_limit_bytes :: int where "default_limit_bytes = 512 * 1024 * 1024"
definition max_limit_bytes :: int where "max_limit_bytes = 64 * 1024 * 1024 * 1024"
definition max_reservation_bytes :: int where "max_reservation_bytes = 4 * 1024 * 1024 * 1024"
definition max_audit_entries :: nat where "max_audit_entries = 32"
definition max_file_bytes :: int where "max_file_bytes = 1024 * 1024"

record reservation =
  rs_bytes :: int
  rs_created_at :: string
  rs_expires_at :: string
  rs_operation :: string
  rs_owner_pid :: int
  rs_owner_host :: string
  rs_actor_id :: string

record project_record =
  pr_incarnation :: "string option"
  pr_limit_bytes :: int
  pr_used_bytes :: int
  pr_reservations :: "(string, reservation) dict"
  pr_unknown_objects :: int
  pr_unknown_blocked :: bool
  pr_audit :: "(string, json) dict list"
  pr_updated_at :: string
  pr_reconciled_at :: "string option"

record ledger =
  lg_version :: int
  lg_projects :: "(string, project_record) dict"

datatype ledger_file = Absent | Unreadable | Doc json

record env =
  ev_clock :: rat
  ev_now_iso :: "string \<Rightarrow> string"
  ev_uuid :: string
  ev_parse_iso :: "string \<Rightarrow> rat option"
  ev_iso_of :: "rat \<Rightarrow> string"
  ev_payload_size :: "json \<Rightarrow> int"

text \<open>The ledger object: \<open>__init__\<close> checks the default limit and keeps the owner identity.\<close>

record owner =
  ow_pid :: int
  ow_hostname :: string
  ow_default_limit :: int

section \<open>Field checks\<close>

definition positive_int :: "json \<Rightarrow> int \<Rightarrow> string \<Rightarrow> capacity_error + int" where
  "positive_int value maximum code = (case value of
     JInt i \<Rightarrow> if 1 \<le> i \<and> i \<le> maximum then Inr i else Inl (Refused code [])
   | _ \<Rightarrow> Inl (Refused code []))"

definition nonnegative_int :: "json \<Rightarrow> string \<Rightarrow> capacity_error + int" where
  "nonnegative_int value code = (case value of
     JInt i \<Rightarrow> if i < 0 then Inl (Refused code []) else Inr i
   | _ \<Rightarrow> Inl (Refused code []))"

definition make_owner :: "int \<Rightarrow> string \<Rightarrow> json \<Rightarrow> capacity_error + owner" where
  "make_owner pid hostname limit =
     sbind (positive_int limit max_limit_bytes ''PROJECT_CAPACITY_LIMIT_INVALID'') (\<lambda>l.
     Inr \<lparr>ow_pid = pid, ow_hostname = hostname, ow_default_limit = l\<rparr>)"

definition parse_iso :: "env \<Rightarrow> json \<Rightarrow> capacity_error + rat" where
  "parse_iso ev value = (case value of
     JStr s \<Rightarrow> if s = [] then unavailable
               else (case ev_parse_iso ev s of None \<Rightarrow> unavailable | Some t \<Rightarrow> Inr t)
   | _ \<Rightarrow> unavailable)"

abbreviation get_str :: "(string, json) dict \<Rightarrow> string \<Rightarrow> capacity_error + string" where
  "get_str d k \<equiv> json_str no_ledger (get_field d k)"

definition opt_str :: "json \<Rightarrow> capacity_error + string option" where
  "opt_str v = (case v of JNull \<Rightarrow> Inr None | JStr s \<Rightarrow> Inr (Some s) | _ \<Rightarrow> unavailable)"

section \<open>Reading the file\<close>

definition reservation_keys :: "string list" where
  "reservation_keys = [''bytes'', ''created_at'', ''expires_at'', ''operation'', ''owner_pid'',
     ''owner_host'', ''actor_id'']"

definition record_keys :: "string list" where
  "record_keys = [''incarnation'', ''limit_bytes'', ''used_bytes'', ''reservations'', ''unknown'',
     ''audit'', ''updated_at'', ''reconciled_at'']"

definition validate_reservation :: "env \<Rightarrow> json \<Rightarrow> capacity_error + reservation" where
  "validate_reservation ev item =
     sbind (json_dict no_ledger item) (\<lambda>d.
     sbind (guard (has_keys d reservation_keys) no_ledger) (\<lambda>_.
     sbind (positive_int (get_field d ''bytes'') max_reservation_bytes
              ''PROJECT_CAPACITY_LEDGER_INVALID'') (\<lambda>bytes.
     sbind (parse_iso ev (get_field d ''created_at'')) (\<lambda>_.
     sbind (parse_iso ev (get_field d ''expires_at'')) (\<lambda>_.
     sbind (get_str d ''created_at'') (\<lambda>created.
     sbind (get_str d ''expires_at'') (\<lambda>expires.
     sbind (get_str d ''operation'') (\<lambda>operation.
     sbind (get_str d ''owner_host'') (\<lambda>host.
     sbind (get_str d ''actor_id'') (\<lambda>actor.
     sbind (json_int no_ledger (get_field d ''owner_pid'')) (\<lambda>pid.
     sbind (guard (0 \<le> pid) no_ledger) (\<lambda>_.
     Inr \<lparr>rs_bytes = bytes, rs_created_at = created, rs_expires_at = expires,
          rs_operation = operation, rs_owner_pid = pid, rs_owner_host = host,
          rs_actor_id = actor\<rparr>))))))))))))"

definition validate_reservations :: "env \<Rightarrow> json \<Rightarrow> capacity_error + (string, reservation) dict" where
  "validate_reservations ev v =
     sbind (json_dict no_ledger v) (\<lambda>rs.
     sfold (\<lambda>acc (k, item). sbind (validate_reservation ev item) (\<lambda>r. Inr (dset acc k r))) [] rs)"

definition validate_audit_entry :: "json \<Rightarrow> capacity_error + (string, json) dict" where
  "validate_audit_entry entry =
     sbind (json_dict no_ledger entry) (\<lambda>d. sbind (get_str d ''action'') (\<lambda>_.
     sbind (get_str d ''at'') (\<lambda>_. sbind (get_str d ''actor_id'') (\<lambda>_. Inr d))))"

definition validate_audit :: "json \<Rightarrow> capacity_error + (string, json) dict list" where
  "validate_audit v =
     sbind (json_list no_ledger v) (\<lambda>entries.
     sbind (guard (length entries \<le> max_audit_entries) no_ledger) (\<lambda>_.
     smap validate_audit_entry entries))"

definition validate_unknown :: "json \<Rightarrow> capacity_error + int \<times> bool" where
  "validate_unknown v =
     sbind (json_dict no_ledger v) (\<lambda>d.
     sbind (guard (has_keys d [''objects'', ''blocked'']) no_ledger) (\<lambda>_.
     sbind (json_int no_ledger (get_field d ''objects'')) (\<lambda>n.
     sbind (guard (0 \<le> n) no_ledger) (\<lambda>_.
     sbind (json_bool no_ledger (get_field d ''blocked'')) (\<lambda>b. Inr (n, b))))))"

text \<open>\<open>used_bytes\<close>: a refusal of the range check is turned into \<open>CapacityLedgerUnavailable\<close>.\<close>

definition validate_used :: "json \<Rightarrow> capacity_error + int" where
  "validate_used v = (case nonnegative_int v ''PROJECT_CAPACITY_LEDGER_INVALID'' of
     Inl e \<Rightarrow> unavailable
   | Inr used \<Rightarrow> sbind (guard (used \<le> max_reservation_bytes) no_ledger) (\<lambda>_. Inr used))"

definition validate_reconciled_at :: "env \<Rightarrow> json \<Rightarrow> capacity_error + string option" where
  "validate_reconciled_at ev v =
     (if v = JNull then Inr None
      else sbind (parse_iso ev v) (\<lambda>_. sbind (json_str no_ledger v) (\<lambda>s. Inr (Some s))))"

definition validate_record :: "env \<Rightarrow> string \<Rightarrow> json \<Rightarrow> capacity_error + project_record" where
  "validate_record ev project_id record =
     sbind (guard (project_id \<noteq> [] \<and> length project_id \<le> 240) no_ledger) (\<lambda>_.
     sbind (json_dict no_ledger record) (\<lambda>d.
     sbind (guard (has_keys d record_keys) no_ledger) (\<lambda>_.
     sbind (opt_str (get_field d ''incarnation'')) (\<lambda>incarnation.
     sbind (positive_int (get_field d ''limit_bytes'') max_limit_bytes
              ''PROJECT_CAPACITY_LEDGER_INVALID'') (\<lambda>limit.
     sbind (validate_used (get_field d ''used_bytes'')) (\<lambda>used.
     sbind (validate_reservations ev (get_field d ''reservations'')) (\<lambda>reservations.
     sbind (validate_unknown (get_field d ''unknown'')) (\<lambda>unknown.
     sbind (validate_audit (get_field d ''audit'')) (\<lambda>audit.
     sbind (parse_iso ev (get_field d ''updated_at'')) (\<lambda>_.
     sbind (get_str d ''updated_at'') (\<lambda>updated.
     sbind (validate_reconciled_at ev (get_field d ''reconciled_at'')) (\<lambda>reconciled.
     Inr \<lparr>pr_incarnation = incarnation, pr_limit_bytes = limit, pr_used_bytes = used,
          pr_reservations = reservations, pr_unknown_objects = fst unknown,
          pr_unknown_blocked = snd unknown, pr_audit = audit, pr_updated_at = updated,
          pr_reconciled_at = reconciled\<rparr>))))))))))))"

definition empty_ledger :: ledger where
  "empty_ledger = \<lparr>lg_version = 0, lg_projects = []\<rparr>"

definition schema :: string where "schema = ''project-capacity/1''"

definition load_json :: "env \<Rightarrow> json \<Rightarrow> capacity_error + ledger" where
  "load_json ev v =
     sbind (guard (ev_payload_size ev v \<le> max_file_bytes) no_ledger) (\<lambda>_.
     sbind (json_dict no_ledger v) (\<lambda>d.
     sbind (guard (has_keys d [''schema'', ''version'', ''projects''] \<and>
              dget d ''schema'' = Some (JStr schema)) no_ledger) (\<lambda>_.
     sbind (json_int no_ledger (get_field d ''version'')) (\<lambda>version.
     sbind (guard (0 \<le> version) no_ledger) (\<lambda>_.
     sbind (json_dict no_ledger (get_field d ''projects'')) (\<lambda>ps.
     sbind (sfold (\<lambda>acc (k, r). sbind (validate_record ev k r) (\<lambda>p. Inr (dset acc k p))) [] ps) (\<lambda>projects.
     Inr \<lparr>lg_version = version, lg_projects = projects\<rparr>)))))))"

definition load :: "env \<Rightarrow> ledger_file \<Rightarrow> capacity_error + ledger" where
  "load ev file = (case file of
     Absent \<Rightarrow> Inr empty_ledger
   | Unreadable \<Rightarrow> unavailable
   | Doc v \<Rightarrow> load_json ev v)"

section \<open>Writing the file\<close>

definition sort_entry :: "(string, json) dict \<Rightarrow> (string, json) dict" where
  "sort_entry d = sort_key fst (map (\<lambda>kv. (fst kv, sort_json (snd kv))) d)"

definition canon_record :: "project_record \<Rightarrow> project_record" where
  "canon_record r = r\<lparr>pr_reservations := sort_key fst (pr_reservations r),
                      pr_audit := map sort_entry (pr_audit r)\<rparr>"

definition canon :: "ledger \<Rightarrow> ledger" where
  "canon l = l\<lparr>lg_projects := sort_key fst (map (\<lambda>kr. (fst kr, canon_record (snd kr))) (lg_projects l))\<rparr>"

definition str_or_null :: "string option \<Rightarrow> json" where
  "str_or_null s = (case s of None \<Rightarrow> JNull | Some x \<Rightarrow> JStr x)"

definition reservation_json :: "reservation \<Rightarrow> json" where
  "reservation_json r = JDict
     [(''bytes'', JInt (rs_bytes r)), (''created_at'', JStr (rs_created_at r)),
      (''expires_at'', JStr (rs_expires_at r)), (''operation'', JStr (rs_operation r)),
      (''owner_pid'', JInt (rs_owner_pid r)), (''owner_host'', JStr (rs_owner_host r)),
      (''actor_id'', JStr (rs_actor_id r))]"

definition record_json :: "project_record \<Rightarrow> json" where
  "record_json r = JDict
     [(''incarnation'', str_or_null (pr_incarnation r)), (''limit_bytes'', JInt (pr_limit_bytes r)),
      (''used_bytes'', JInt (pr_used_bytes r)),
      (''reservations'', JDict (map (\<lambda>kr. (fst kr, reservation_json (snd kr))) (pr_reservations r))),
      (''unknown'', JDict [(''objects'', JInt (pr_unknown_objects r)), (''blocked'', JBool (pr_unknown_blocked r))]),
      (''audit'', JList (map JDict (pr_audit r))), (''updated_at'', JStr (pr_updated_at r)),
      (''reconciled_at'', str_or_null (pr_reconciled_at r))]"

definition ledger_json :: "ledger \<Rightarrow> json" where
  "ledger_json l = JDict
     [(''schema'', JStr schema), (''version'', JInt (lg_version l)),
      (''projects'', JDict (map (\<lambda>kr. (fst kr, record_json (snd kr))) (lg_projects l)))]"

text \<open>\<open>_write\<close>: the size check, the atomic write, then the read-back. The file is replaced even when
  the read-back fails.\<close>

definition write_ledger :: "env \<Rightarrow> ledger \<Rightarrow> ledger_file \<Rightarrow> (capacity_error + unit) \<times> ledger_file" where
  "write_ledger ev data file =
     (let doc = ledger_json (canon data)
      in if ev_payload_size ev doc > max_file_bytes then (unavailable, file)
         else (sbind (load ev (Doc doc)) (\<lambda>_. Inr ()), Doc doc))"

section \<open>Records\<close>

definition fresh_record :: "env \<Rightarrow> owner \<Rightarrow> project_record" where
  "fresh_record ev ow = \<lparr>pr_incarnation = None, pr_limit_bytes = ow_default_limit ow, pr_used_bytes = 0,
     pr_reservations = [], pr_unknown_objects = 0, pr_unknown_blocked = False, pr_audit = [],
     pr_updated_at = ev_now_iso ev ''record'', pr_reconciled_at = None\<rparr>"

definition record_of :: "env \<Rightarrow> owner \<Rightarrow> ledger \<Rightarrow> string \<Rightarrow> project_record" where
  "record_of ev ow data project_id =
     (case dget (lg_projects data) project_id of Some r \<Rightarrow> r | None \<Rightarrow> fresh_record ev ow)"

definition audit ::
  "env \<Rightarrow> string \<Rightarrow> string \<Rightarrow> string \<Rightarrow> (string, json) dict \<Rightarrow> project_record \<Rightarrow> project_record" where
  "audit ev tag action actor_id details record =
     (let entry = [(''action'', JStr action), (''at'', JStr (ev_now_iso ev tag)),
                   (''actor_id'', JStr (take 240 actor_id))];
          entry = dmerge entry (filter (\<lambda>kv. snd kv \<noteq> JNull) details);
          entries = pr_audit record @ [entry]
      in record\<lparr>pr_audit := drop (length entries - max_audit_entries) entries\<rparr>)"

definition active_reserved :: "project_record \<Rightarrow> int" where
  "active_reserved record = sum_list (map rs_bytes (dvals (pr_reservations record)))"

text \<open>\<open>_expire_stale\<close>: the loop over a copy of the items.\<close>

definition expire_one :: "env \<Rightarrow> project_record \<Rightarrow> string \<times> reservation \<Rightarrow> capacity_error + project_record" where
  "expire_one ev record = (\<lambda>(rid, item).
     sbind (parse_iso ev (JStr (rs_expires_at item))) (\<lambda>t.
     if t \<le> ev_clock ev then
       let record = audit ev (''expire '' @ rid) ''RESERVATION_EXPIRED'' ''capacity-owner''
             [(''reservation_id'', JStr rid), (''bytes'', JInt (rs_bytes item)),
              (''operation'', JStr (rs_operation item))] record
       in Inr (record\<lparr>pr_reservations := dpop (pr_reservations record) rid\<rparr>)
     else Inr record))"

definition expire_stale :: "env \<Rightarrow> project_record \<Rightarrow> capacity_error + project_record" where
  "expire_stale ev record = sfold (expire_one ev) record (pr_reservations record)"

datatype capacity_state = UNKNOWN_BLOCKED | OVER_LIMIT | OK

record view =
  vw_project_id :: string
  vw_incarnation :: "string option"
  vw_ledger_version :: int
  vw_limit_bytes :: int
  vw_used_bytes :: int
  vw_reserved_bytes :: int
  vw_remaining_bytes :: int
  vw_state :: capacity_state
  vw_reservations :: nat
  vw_unknown_objects :: int
  vw_unknown_blocked :: bool
  vw_reconciled_at :: "string option"
  vw_updated_at :: string

definition view_of :: "string \<Rightarrow> project_record \<Rightarrow> int \<Rightarrow> view" where
  "view_of project_id record version =
     (let reserved = active_reserved record; limit = pr_limit_bytes record
      in \<lparr>vw_project_id = project_id, vw_incarnation = pr_incarnation record,
          vw_ledger_version = version, vw_limit_bytes = limit, vw_used_bytes = pr_used_bytes record,
          vw_reserved_bytes = reserved,
          vw_remaining_bytes = max 0 (limit - pr_used_bytes record - reserved),
          vw_state = (if pr_unknown_blocked record then UNKNOWN_BLOCKED
                      else if pr_used_bytes record + reserved > limit then OVER_LIMIT else OK),
          vw_reservations = length (pr_reservations record),
          vw_unknown_objects = pr_unknown_objects record, vw_unknown_blocked = pr_unknown_blocked record,
          vw_reconciled_at = pr_reconciled_at record, vw_updated_at = pr_updated_at record\<rparr>)"

section \<open>Operations\<close>

text \<open>
  Every operation takes the file under the lock and returns its answer with the file it leaves.
  \<open>finish\<close> is the common end: store the record, count the version, write, view.
\<close>

type_synonym 'a outcome = "(capacity_error + 'a) \<times> ledger_file"

definition put_record :: "ledger \<Rightarrow> string \<Rightarrow> project_record \<Rightarrow> ledger" where
  "put_record data project_id record =
     \<lparr>lg_version = lg_version data + 1, lg_projects = dset (lg_projects data) project_id record\<rparr>"

definition finish :: "env \<Rightarrow> string \<Rightarrow> ledger \<Rightarrow> project_record \<Rightarrow> ledger_file \<Rightarrow> view outcome" where
  "finish ev project_id data record file =
     (let data' = put_record data project_id record; (r, file') = write_ledger ev data' file
      in (sbind r (\<lambda>_. Inr (view_of project_id record (lg_version data'))), file'))"

definition snapshot :: "env \<Rightarrow> string \<Rightarrow> ledger_file \<Rightarrow> capacity_error + view" where
  "snapshot ev project_id file =
     sbind (load ev file) (\<lambda>data.
     case dget (lg_projects data) project_id of
       None \<Rightarrow> Inl (Unavailable ''PROJECT_CAPACITY_NOT_INITIALIZED'')
     | Some record \<Rightarrow> Inr (view_of project_id record (lg_version data)))"

definition peek :: "env \<Rightarrow> string \<Rightarrow> ledger_file \<Rightarrow> capacity_error + view option" where
  "peek ev project_id file =
     sbind (load ev file) (\<lambda>data.
     Inr (map_option (\<lambda>record. view_of project_id record (lg_version data))
            (dget (lg_projects data) project_id)))"

text \<open>The admission decision of \<open>reserve\<close>: the record it would write, or the refusal.\<close>

definition reserve_record ::
  "env \<Rightarrow> owner \<Rightarrow> ledger \<Rightarrow> string \<Rightarrow> int \<Rightarrow> int \<Rightarrow> string \<Rightarrow> string \<Rightarrow> string option
     \<Rightarrow> capacity_error + project_record" where
  "reserve_record ev ow data project_id nbytes ttl operation actor_id incarnation =
     sbind (expire_stale ev (record_of ev ow data project_id)) (\<lambda>record.
     if pr_unknown_blocked record
     then Inl (Refused ''PROJECT_CAPACITY_UNKNOWN_BLOCKED''
                 [(''unknown_objects'', JInt (pr_unknown_objects record))])
     else if incarnation \<noteq> None \<and> pr_incarnation record \<noteq> None \<and> pr_incarnation record \<noteq> incarnation
     then Inl (Refused ''PROJECT_CAPACITY_INCARNATION_CHANGED'' [])
     else
       let record = (if pr_incarnation record = None \<and> incarnation \<noteq> None
                     then record\<lparr>pr_incarnation := incarnation\<rparr> else record);
           reserved = active_reserved record
       in if pr_used_bytes record + reserved + nbytes > pr_limit_bytes record
          then Inl (Refused ''PROJECT_CAPACITY_EXCEEDED''
                 [(''limit_bytes'', JInt (pr_limit_bytes record)), (''used_bytes'', JInt (pr_used_bytes record)),
                  (''reserved_bytes'', JInt reserved), (''requested_bytes'', JInt nbytes)])
          else
            let r = \<lparr>rs_bytes = nbytes, rs_created_at = ev_now_iso ev ''created'',
                     rs_expires_at = ev_iso_of ev (ev_clock ev + of_int ttl), rs_operation = operation,
                     rs_owner_pid = ow_pid ow, rs_owner_host = ow_hostname ow,
                     rs_actor_id = take 240 actor_id\<rparr>;
                record = record\<lparr>pr_reservations := dset (pr_reservations record) (ev_uuid ev) r,
                                pr_updated_at := ev_now_iso ev ''updated''\<rparr>
            in Inr (audit ev ''audit'' ''RESERVE'' actor_id
                      [(''reservation_id'', JStr (ev_uuid ev)), (''bytes'', JInt nbytes),
                       (''operation'', JStr operation)] record))"

record reservation_receipt =
  rc_reservation_id :: string
  rc_expires_at :: string
  rc_bytes :: int
  rc_capacity :: view

definition reserve ::
  "env \<Rightarrow> owner \<Rightarrow> string \<Rightarrow> json \<Rightarrow> string \<Rightarrow> string \<Rightarrow> json \<Rightarrow> string option \<Rightarrow> ledger_file
     \<Rightarrow> reservation_receipt outcome" where
  "reserve ev ow project_id incoming_bytes operation actor_id ttl_seconds incarnation file =
     (case sbind (positive_int incoming_bytes max_reservation_bytes ''PROJECT_CAPACITY_RESERVATION_INVALID'') (\<lambda>nbytes.
           sbind (positive_int ttl_seconds (24 * 3600) ''PROJECT_CAPACITY_RESERVATION_INVALID'') (\<lambda>ttl.
           if operation = [] \<or> length operation > 120
           then Inl (Refused ''PROJECT_CAPACITY_RESERVATION_INVALID'' [])
           else sbind (load ev file) (\<lambda>data.
                sbind (reserve_record ev ow data project_id nbytes ttl operation actor_id incarnation) (\<lambda>record.
                Inr (nbytes, ttl, data, record)))))
      of Inl e \<Rightarrow> (Inl e, file)
       | Inr (nbytes, ttl, data, record) \<Rightarrow>
           let (r, file') = finish ev project_id data record file
           in (sbind r (\<lambda>v. Inr \<lparr>rc_reservation_id = ev_uuid ev,
                 rc_expires_at = ev_iso_of ev (ev_clock ev + of_int ttl), rc_bytes = nbytes, rc_capacity = v\<rparr>),
               file'))"

definition find_reservation :: "ledger \<Rightarrow> string \<Rightarrow> string \<Rightarrow> capacity_error + project_record \<times> reservation" where
  "find_reservation data project_id reservation_id =
     (case dget (lg_projects data) project_id of
        None \<Rightarrow> Inl (Unavailable ''PROJECT_CAPACITY_NOT_INITIALIZED'')
      | Some record \<Rightarrow>
          (case dget (pr_reservations record) reservation_id of
             None \<Rightarrow> Inl (Refused ''PROJECT_CAPACITY_RESERVATION_UNKNOWN'' [])
           | Some r \<Rightarrow> Inr (record, r)))"

definition commit_record ::
  "env \<Rightarrow> ledger \<Rightarrow> string \<Rightarrow> string \<Rightarrow> int \<Rightarrow> string \<Rightarrow> capacity_error + project_record" where
  "commit_record ev data project_id reservation_id actual actor_id =
     sbind (find_reservation data project_id reservation_id) (\<lambda>(record, r).
     if actual > rs_bytes r then Inl (Refused ''PROJECT_CAPACITY_COMMIT_EXCEEDS_RESERVATION'' [])
     else if actual > 2 * 1024 * 1024 * 1024 then Inl (Refused ''PROJECT_CAPACITY_COMMIT_INVALID'' [])
     else Inr (audit ev ''audit'' ''COMMIT'' actor_id
            [(''reservation_id'', JStr reservation_id), (''reserved_bytes'', JInt (rs_bytes r)),
             (''actual_bytes'', JInt actual)]
            (record\<lparr>pr_used_bytes := pr_used_bytes record + actual,
                    pr_reservations := dpop (pr_reservations record) reservation_id,
                    pr_updated_at := ev_now_iso ev ''updated''\<rparr>)))"

definition commit ::
  "env \<Rightarrow> string \<Rightarrow> string \<Rightarrow> json \<Rightarrow> string \<Rightarrow> ledger_file \<Rightarrow> view outcome" where
  "commit ev project_id reservation_id actual_bytes actor_id file =
     (case sbind (nonnegative_int actual_bytes ''PROJECT_CAPACITY_COMMIT_INVALID'') (\<lambda>actual.
           sbind (load ev file) (\<lambda>data.
           sbind (commit_record ev data project_id reservation_id actual actor_id) (\<lambda>record. Inr (data, record))))
      of Inl e \<Rightarrow> (Inl e, file)
       | Inr (data, record) \<Rightarrow> finish ev project_id data record file)"

definition release_record ::
  "env \<Rightarrow> ledger \<Rightarrow> string \<Rightarrow> string \<Rightarrow> string \<Rightarrow> string \<Rightarrow> capacity_error + project_record" where
  "release_record ev data project_id reservation_id actor_id reason =
     sbind (find_reservation data project_id reservation_id) (\<lambda>(record, r).
     Inr (audit ev ''audit'' ''RELEASE'' actor_id
            [(''reservation_id'', JStr reservation_id), (''bytes'', JInt (rs_bytes r)),
             (''operation'', JStr (rs_operation r)), (''reason'', JStr reason)]
            (record\<lparr>pr_reservations := dpop (pr_reservations record) reservation_id,
                    pr_updated_at := ev_now_iso ev ''updated''\<rparr>)))"

definition release ::
  "env \<Rightarrow> string \<Rightarrow> string \<Rightarrow> string \<Rightarrow> string \<Rightarrow> ledger_file \<Rightarrow> view outcome" where
  "release ev project_id reservation_id actor_id reason file =
     (case sbind (guard (reason \<noteq> []) (Refused ''PROJECT_CAPACITY_RELEASE_INVALID'' [])) (\<lambda>_.
           sbind (load ev file) (\<lambda>data.
           sbind (release_record ev data project_id reservation_id actor_id reason) (\<lambda>record. Inr (data, record))))
      of Inl e \<Rightarrow> (Inl e, file)
       | Inr (data, record) \<Rightarrow> finish ev project_id data record file)"

definition reconcile_record ::
  "env \<Rightarrow> owner \<Rightarrow> ledger \<Rightarrow> string \<Rightarrow> int \<Rightarrow> int \<Rightarrow> string option \<Rightarrow> string \<Rightarrow> capacity_error + project_record" where
  "reconcile_record ev ow data project_id measured unknown incarnation actor_id =
     sbind (expire_stale ev (record_of ev ow data project_id)) (\<lambda>record.
     if incarnation \<noteq> None \<and> pr_incarnation record \<noteq> None \<and> pr_incarnation record \<noteq> incarnation
     then Inl (Refused ''PROJECT_CAPACITY_INCARNATION_CHANGED'' [])
     else Inr (audit ev ''audit'' ''RECONCILE'' actor_id
            [(''measured_bytes'', JInt measured), (''unknown_objects'', JInt unknown),
             (''active_reservations'', JInt (int (length (pr_reservations record))))]
            (record\<lparr>pr_incarnation := (if incarnation \<noteq> None then incarnation else pr_incarnation record),
                    pr_used_bytes := measured, pr_unknown_objects := unknown,
                    pr_unknown_blocked := (unknown > 0),
                    pr_reconciled_at := Some (ev_now_iso ev ''reconciled''),
                    pr_updated_at := ev_now_iso ev ''updated''\<rparr>)))"

definition reconcile ::
  "env \<Rightarrow> owner \<Rightarrow> string \<Rightarrow> json \<Rightarrow> json \<Rightarrow> string option \<Rightarrow> string \<Rightarrow> ledger_file \<Rightarrow> view outcome" where
  "reconcile ev ow project_id measured_bytes unknown_objects incarnation actor_id file =
     (case sbind (nonnegative_int measured_bytes ''PROJECT_CAPACITY_RECONCILE_INVALID'') (\<lambda>measured.
           sbind (nonnegative_int unknown_objects ''PROJECT_CAPACITY_RECONCILE_INVALID'') (\<lambda>unknown.
           sbind (load ev file) (\<lambda>data.
           sbind (reconcile_record ev ow data project_id measured unknown incarnation actor_id) (\<lambda>record.
           Inr (data, record)))))
      of Inl e \<Rightarrow> (Inl e, file)
       | Inr (data, record) \<Rightarrow> finish ev project_id data record file)"

definition lease_incarnation :: "string \<Rightarrow> json \<Rightarrow> string option" where
  "lease_incarnation project_id lease = (case lease of
     JDict d \<Rightarrow>
       if dget d ''novel_id'' = Some (JStr project_id)
       then (case dget d ''incarnation'' of Some (JStr i) \<Rightarrow> if i = [] then None else Some i | _ \<Rightarrow> None)
       else None
   | _ \<Rightarrow> None)"

definition adjust_record ::
  "env \<Rightarrow> owner \<Rightarrow> ledger \<Rightarrow> string \<Rightarrow> int \<Rightarrow> json \<Rightarrow> string \<Rightarrow> string \<Rightarrow> capacity_error + project_record" where
  "adjust_record ev ow data project_id limit expected_version incarnation actor_id =
     (let record = record_of ev ow data project_id
      in if pr_incarnation record \<noteq> None \<and> pr_incarnation record \<noteq> Some incarnation
         then Inl (Refused ''PROJECT_CAPACITY_INCARNATION_CHANGED'' [])
         else if expected_version \<noteq> JInt (lg_version data)
         then Inl (Refused ''PROJECT_CAPACITY_VERSION_CONFLICT''
                [(''expected_version'', expected_version), (''current_version'', JInt (lg_version data))])
         else Inr (audit ev ''audit'' ''LIMIT_CHANGE'' actor_id
                [(''previous_limit_bytes'', JInt (pr_limit_bytes record)), (''limit_bytes'', JInt limit),
                 (''incarnation'', JStr incarnation)]
                (record\<lparr>pr_incarnation := Some incarnation, pr_limit_bytes := limit,
                        pr_updated_at := ev_now_iso ev ''updated''\<rparr>)))"

definition adjust_limit ::
  "env \<Rightarrow> owner \<Rightarrow> string \<Rightarrow> json \<Rightarrow> json \<Rightarrow> json \<Rightarrow> string \<Rightarrow> ledger_file \<Rightarrow> view outcome" where
  "adjust_limit ev ow project_id limit_bytes expected_version lease actor_id file =
     (case sbind (positive_int limit_bytes max_limit_bytes ''PROJECT_CAPACITY_LIMIT_INVALID'') (\<lambda>limit.
           case lease_incarnation project_id lease of
             None \<Rightarrow> Inl (Refused ''PROJECT_CAPACITY_ADJUSTMENT_UNSCOPED'' [])
           | Some incarnation \<Rightarrow>
               sbind (load ev file) (\<lambda>data.
               sbind (adjust_record ev ow data project_id limit expected_version incarnation actor_id) (\<lambda>record.
               Inr (data, record))))
      of Inl e \<Rightarrow> (Inl e, file)
       | Inr (data, record) \<Rightarrow> finish ev project_id data record file)"

end
