(* ===== verification/Capacity_Store.thy ===== *)
theory Capacity_Store
  imports Capacity
begin

text \<open>
  What the capacity ledger's loader accepts, in both directions: every ledger that loads is
  well-formed (\<open>load_ok\<close>), and a ledger that was written loads back as itself exactly when it is
  well-formed and every used-bytes counter is within the reservation bound (\<open>load_ledger_json\<close>).
\<close>

section \<open>What the loader accepts\<close>

definition stamp_ok :: "env \<Rightarrow> string \<Rightarrow> bool" where
  "stamp_ok ev s \<longleftrightarrow> s \<noteq> [] \<and> ev_parse_iso ev s \<noteq> None"

definition reservation_ok :: "env \<Rightarrow> reservation \<Rightarrow> bool" where
  "reservation_ok ev r \<longleftrightarrow> 1 \<le> rs_bytes r \<and> rs_bytes r \<le> max_reservation_bytes \<and>
     stamp_ok ev (rs_created_at r) \<and> stamp_ok ev (rs_expires_at r) \<and> 0 \<le> rs_owner_pid r"

definition entry_ok :: "(string, json) dict \<Rightarrow> bool" where
  "entry_ok d \<longleftrightarrow> (\<forall>k \<in> {''action'', ''at'', ''actor_id''}. \<exists>s. dget d k = Some (JStr s))"

definition record_ok :: "env \<Rightarrow> string \<Rightarrow> project_record \<Rightarrow> bool" where
  "record_ok ev project_id r \<longleftrightarrow>
     project_id \<noteq> [] \<and> length project_id \<le> 240 \<and>
     1 \<le> pr_limit_bytes r \<and> pr_limit_bytes r \<le> max_limit_bytes \<and> 0 \<le> pr_used_bytes r \<and>
     distinct (dkeys (pr_reservations r)) \<and> list_all (reservation_ok ev) (dvals (pr_reservations r)) \<and>
     0 \<le> pr_unknown_objects r \<and> length (pr_audit r) \<le> max_audit_entries \<and> list_all entry_ok (pr_audit r) \<and>
     stamp_ok ev (pr_updated_at r) \<and>
     (case pr_reconciled_at r of None \<Rightarrow> True | Some s \<Rightarrow> stamp_ok ev s)"

definition ledger_ok :: "env \<Rightarrow> ledger \<Rightarrow> bool" where
  "ledger_ok ev l \<longleftrightarrow> 0 \<le> lg_version l \<and> distinct (dkeys (lg_projects l)) \<and>
     list_all (\<lambda>(k, r). record_ok ev k r \<and> pr_used_bytes r \<le> max_reservation_bytes) (lg_projects l)"

lemma parse_iso_JStr [simp]: "(\<exists>t. parse_iso ev (JStr s) = Inr t) \<longleftrightarrow> stamp_ok ev s"
  by (auto simp: parse_iso_def stamp_ok_def split: option.splits)

lemma parse_iso_cases: "parse_iso ev (JStr s) = unavailable \<or> (\<exists>t. parse_iso ev (JStr s) = Inr t)"
  by (auto simp: parse_iso_def split: option.splits)

lemma positive_int_JInt [simp]:
  "positive_int (JInt i) m c = (if 1 \<le> i \<and> i \<le> m then Inr i else Inl (Refused c []))"
  by (simp add: positive_int_def)

lemma reservation_eta:
  "\<lparr>rs_bytes = rs_bytes r, rs_created_at = rs_created_at r, rs_expires_at = rs_expires_at r,
    rs_operation = rs_operation r, rs_owner_pid = rs_owner_pid r, rs_owner_host = rs_owner_host r,
    rs_actor_id = rs_actor_id r\<rparr> = r" by simp

lemma validate_reservation_json:
  "validate_reservation ev (reservation_json r) = Inr r' \<longleftrightarrow> r' = r \<and> reservation_ok ev r"
proof -
  have "validate_reservation ev (reservation_json r) = Inr r' \<longleftrightarrow>
      (\<exists>t. parse_iso ev (JStr (rs_created_at r)) = Inr t) \<and> (\<exists>t. parse_iso ev (JStr (rs_expires_at r)) = Inr t) \<and>
      1 \<le> rs_bytes r \<and> rs_bytes r \<le> max_reservation_bytes \<and> 0 \<le> rs_owner_pid r \<and> r' = r"
    by (auto simp: validate_reservation_def reservation_json_def has_keys_def reservation_keys_def
        get_field_def sbind_Inr_iff reservation_eta)
  then show ?thesis by (auto simp: reservation_ok_def)
qed

lemma validate_audit_entry_iff: "validate_audit_entry v = Inr d \<longleftrightarrow> v = JDict d \<and> entry_ok d"
proof -
  have "validate_audit_entry v = Inr d \<longleftrightarrow> v = JDict d \<and> (\<exists>s. dget d ''action'' = Some (JStr s)) \<and>
      (\<exists>s. dget d ''at'' = Some (JStr s)) \<and> (\<exists>s. dget d ''actor_id'' = Some (JStr s))"
    by (simp add: validate_audit_entry_def sbind_Inr_iff get_field_iff)
  then show ?thesis by (simp add: entry_ok_def)
qed

lemma validate_audit_iff:
  "validate_audit v = Inr ds \<longleftrightarrow>
    v = JList (map JDict ds) \<and> length ds \<le> max_audit_entries \<and> list_all entry_ok ds"
proof -
  have "smap validate_audit_entry xs = Inr ds \<longleftrightarrow> xs = map JDict ds \<and> list_all entry_ok ds" for xs ds
  proof (induction xs arbitrary: ds)
    case (Cons x xs)
    show ?case
      by (cases ds) (auto simp: sbind_Inr_iff validate_audit_entry_iff Cons.IH)
  qed auto
  then show ?thesis by (auto simp: validate_audit_def sbind_Inr_iff)
qed

lemma validate_used_iff:
  "validate_used v = Inr u \<longleftrightarrow> v = JInt u \<and> 0 \<le> u \<and> u \<le> max_reservation_bytes"
  by (cases v) (auto simp: validate_used_def nonnegative_int_def sbind_Inr_iff)

lemma positive_int_iff: "positive_int v m c = Inr i \<longleftrightarrow> v = JInt i \<and> 1 \<le> i \<and> i \<le> m"
  by (cases v) (auto simp: positive_int_def)

lemma opt_str_iff: "opt_str v = Inr s \<longleftrightarrow> v = str_or_null s"
  by (cases v; cases s) (auto simp: opt_str_def str_or_null_def)

lemma parse_iso_iff: "(\<exists>t. parse_iso ev v = Inr t) \<longleftrightarrow> (\<exists>s. v = JStr s \<and> stamp_ok ev s)"
  by (cases v) (auto simp: parse_iso_def stamp_ok_def split: option.splits)

lemma parse_iso_stamp: "parse_iso ev (JStr s) = Inr t \<Longrightarrow> stamp_ok ev s"
  using parse_iso_JStr by blast

lemma validate_reconciled_iff:
  "validate_reconciled_at ev v = Inr s \<longleftrightarrow> v = str_or_null s \<and> (case s of None \<Rightarrow> True | Some x \<Rightarrow> stamp_ok ev x)"
proof -
  have "(\<exists>t. parse_iso ev (JStr x) = Inr t) \<longleftrightarrow> stamp_ok ev x" for x by simp
  then show ?thesis
    by (auto simp: parse_iso_stamp validate_reconciled_at_def str_or_null_def sbind_Inr_iff split: option.splits)
qed

lemma validate_unknown_iff:
  "validate_unknown v = Inr p \<longleftrightarrow> (\<exists>d. v = JDict d \<and> has_keys d [''objects'', ''blocked''] \<and>
     get_field d ''objects'' = JInt (fst p) \<and> 0 \<le> fst p \<and> get_field d ''blocked'' = JBool (snd p))"
  by (cases p) (auto simp: validate_unknown_def sbind_Inr_iff)

lemma validate_reservations_json:
  assumes "distinct (dkeys rs)"
  shows "validate_reservations ev (JDict (map (\<lambda>kr. (fst kr, reservation_json (snd kr))) rs)) = Inr res \<longleftrightarrow>
    res = rs \<and> list_all (reservation_ok ev) (dvals rs)"
  using sfold_dset_map [where f = "\<lambda>k. validate_reservation ev" and enc = reservation_json and acc = "[]"
      and P = "\<lambda>k. reservation_ok ev" and d = rs and res = res] assms
  by (auto simp: validate_reservation_json validate_reservations_def list_all_iff split: prod.splits)

lemma record_eta:
  "\<lparr>pr_incarnation = pr_incarnation r, pr_limit_bytes = pr_limit_bytes r, pr_used_bytes = pr_used_bytes r,
    pr_reservations = pr_reservations r, pr_unknown_objects = pr_unknown_objects r,
    pr_unknown_blocked = pr_unknown_blocked r, pr_audit = pr_audit r, pr_updated_at = pr_updated_at r,
    pr_reconciled_at = pr_reconciled_at r\<rparr> = r" by simp

lemma validate_record_json:
  assumes "distinct (dkeys (pr_reservations r))"
  shows "validate_record ev k (record_json r) = Inr r' \<longleftrightarrow>
    r' = r \<and> record_ok ev k r \<and> pr_used_bytes r \<le> max_reservation_bytes"
proof -
  have unk: "validate_unknown (JDict [(''objects'', JInt n), (''blocked'', JBool b)]) = Inr p \<longleftrightarrow> p = (n, b) \<and> 0 \<le> n"
    for n b p by (cases p) (auto simp: validate_unknown_iff has_keys_def get_field_def)
  have upd: "(\<exists>t. parse_iso ev (JStr x) = Inr t) \<longleftrightarrow> stamp_ok ev x" for x by simp
  have opt: "opt_str (str_or_null s) = Inr x \<longleftrightarrow> x = s" for s x
    by (auto simp: opt_str_iff str_or_null_def split: option.splits)
  have rec: "validate_reconciled_at ev (str_or_null s) = Inr x \<longleftrightarrow>
      x = s \<and> (case s of None \<Rightarrow> True | Some x \<Rightarrow> stamp_ok ev x)" for s x
    by (auto simp: validate_reconciled_iff str_or_null_def split: option.splits)
  have audit: "validate_audit (JList (map JDict ds)) = Inr es \<longleftrightarrow>
      es = ds \<and> length ds \<le> max_audit_entries \<and> list_all entry_ok ds" for ds es
    by (auto simp: validate_audit_iff inj_map_eq_map inj_def)
  have "validate_record ev k (record_json r) = Inr r' \<longleftrightarrow>
    (k \<noteq> [] \<and> length k \<le> 240) \<and> (1 \<le> pr_limit_bytes r \<and> pr_limit_bytes r \<le> max_limit_bytes) \<and>
    (0 \<le> pr_used_bytes r \<and> pr_used_bytes r \<le> max_reservation_bytes) \<and>
    list_all (reservation_ok ev) (dvals (pr_reservations r)) \<and> 0 \<le> pr_unknown_objects r \<and>
    (length (pr_audit r) \<le> max_audit_entries \<and> list_all entry_ok (pr_audit r)) \<and>
    (\<exists>t. parse_iso ev (JStr (pr_updated_at r)) = Inr t) \<and>
    (case pr_reconciled_at r of None \<Rightarrow> True | Some s \<Rightarrow> stamp_ok ev s) \<and> r' = r"
    by (auto simp: validate_record_def record_json_def has_keys_def record_keys_def get_field_def
        sbind_Inr_iff validate_used_iff opt rec unk audit record_eta validate_reservations_json [OF assms])
  then show ?thesis unfolding upd record_ok_def using assms by auto
qed

lemma record_ok_distinct: "record_ok ev k r \<Longrightarrow> distinct (dkeys (pr_reservations r))"
  by (simp add: record_ok_def)

lemma load_ledger_json:
  assumes "distinct (dkeys (lg_projects l))"
    and "\<forall>r \<in> set (dvals (lg_projects l)). distinct (dkeys (pr_reservations r))"
  shows "load_json ev (ledger_json l) = Inr l' \<longleftrightarrow>
    l' = l \<and> ledger_ok ev l \<and> ev_payload_size ev (ledger_json l) \<le> max_file_bytes"
proof -
  have ps: "sfold (\<lambda>acc (k, r). sbind (validate_record ev k r) (\<lambda>p. Inr (dset acc k p))) []
      (map (\<lambda>kr. (fst kr, record_json (snd kr))) (lg_projects l)) = Inr res \<longleftrightarrow>
      res = lg_projects l \<and>
      list_all (\<lambda>(k, r). record_ok ev k r \<and> pr_used_bytes r \<le> max_reservation_bytes) (lg_projects l)" for res
    using sfold_dset_map [where f = "validate_record ev" and enc = record_json and acc = "[]"
        and P = "\<lambda>k r. record_ok ev k r \<and> pr_used_bytes r \<le> max_reservation_bytes" and d = "lg_projects l"
        and res = res] assms validate_record_json by (simp add: rev_image_eqI)
  have eta: "\<lparr>lg_version = lg_version l, lg_projects = lg_projects l\<rparr> = l" by simp
  show ?thesis
    using assms(1)
    by (auto simp: load_json_def ledger_json_def has_keys_def get_field_def sbind_Inr_iff ps ledger_ok_def eta)
qed

section \<open>Every ledger that loads is well-formed\<close>

lemma validate_reservation_ok: "validate_reservation ev j = Inr r \<Longrightarrow> reservation_ok ev r"
  unfolding validate_reservation_def sbind_Inr_iff
  by (elim exE conjE, simp only: json_as_iff guard_iff positive_int_iff sum.inject)
    (clarsimp simp: reservation_ok_def parse_iso_stamp)

lemma validate_record_ok:
  assumes "validate_record ev k j = Inr r"
  shows "record_ok ev k r \<and> pr_used_bytes r \<le> max_reservation_bytes"
proof -
  have "\<exists>d v. k \<noteq> [] \<and> length k \<le> 240 \<and> 1 \<le> pr_limit_bytes r \<and> pr_limit_bytes r \<le> max_limit_bytes \<and>
      validate_used (get_field d ''used_bytes'') = Inr (pr_used_bytes r) \<and>
      validate_reservations ev (get_field d ''reservations'') = Inr (pr_reservations r) \<and>
      validate_unknown (get_field d ''unknown'') = Inr (pr_unknown_objects r, v) \<and>
      validate_audit (get_field d ''audit'') = Inr (pr_audit r) \<and>
      stamp_ok ev (pr_updated_at r) \<and>
      validate_reconciled_at ev (get_field d ''reconciled_at'') = Inr (pr_reconciled_at r)"
    using assms unfolding validate_record_def
    by (simp only: sbind_Inr_iff json_as_iff guard_iff positive_int_iff sum.inject)
      (clarsimp simp: parse_iso_stamp, intro exI conjI, assumption+)
  then obtain d v where
    *: "k \<noteq> []" "length k \<le> 240" "1 \<le> pr_limit_bytes r" "pr_limit_bytes r \<le> max_limit_bytes"
      "validate_used (get_field d ''used_bytes'') = Inr (pr_used_bytes r)"
      "validate_reservations ev (get_field d ''reservations'') = Inr (pr_reservations r)"
      "validate_unknown (get_field d ''unknown'') = Inr (pr_unknown_objects r, v)"
      "validate_audit (get_field d ''audit'') = Inr (pr_audit r)"
      "stamp_ok ev (pr_updated_at r)"
      "validate_reconciled_at ev (get_field d ''reconciled_at'') = Inr (pr_reconciled_at r)"
    by blast
  then obtain rs where "sfold (\<lambda>acc (k, item). sbind (validate_reservation ev item) (\<lambda>r. Inr (dset acc k r))) [] rs =
      Inr (pr_reservations r)" by (auto simp: validate_reservations_def sbind_Inr_iff)
  then have "distinct (dkeys (pr_reservations r)) \<and> list_all (\<lambda>(k, y). reservation_ok ev y) (pr_reservations r)"
    by (rule sfold_dset_all) (auto dest: validate_reservation_ok)
  then show ?thesis
    using * unfolding record_ok_def
    by (auto simp: validate_used_iff validate_unknown_iff validate_audit_iff validate_reconciled_iff list_all_iff)
qed

lemma load_ok:
  assumes l: "load ev lf = Inr l"
  shows "ledger_ok ev l"
proof (cases lf)
  case Absent
  then show ?thesis using l by (auto simp: load_def empty_ledger_def ledger_ok_def)
next
  case Unreadable
  then show ?thesis using l by (simp add: load_def)
next
  case (Doc v)
  then obtain ps where v: "0 \<le> lg_version l"
    "sfold (\<lambda>acc (k, r). sbind (validate_record ev k r) (\<lambda>p. Inr (dset acc k p))) [] ps = Inr (lg_projects l)"
    using l by (auto simp: load_def load_json_def sbind_Inr_iff)
  have "distinct (dkeys (lg_projects l)) \<and>
      list_all (\<lambda>(k, r). record_ok ev k r \<and> pr_used_bytes r \<le> max_reservation_bytes) (lg_projects l)"
    by (rule sfold_dset_all [OF v(2)]) (auto dest: validate_record_ok)
  then show ?thesis using v(1) by (simp add: ledger_ok_def)
qed

end
