(* ===== verification/Capacity_Laws.thy ===== *)
theory Capacity_Laws
  imports Capacity_Store
begin

text \<open>
  The accounting laws of the capacity ledger. \<open>run_call\<close> gives the five mutating operations one
  type; \<open>account_call\<close> is the abstract specification: a project is an incarnation, a limit, a used
  counter and the bytes each reservation holds until its stamp lapses, and each operation is one rule. The ledger file refines it
  (\<open>ledger_refines_accounts\<close>), and the safety laws are read off the abstract rules.
\<close>

section \<open>Sums over dictionaries\<close>

lemma sum_dset:
  "(\<Sum>v \<leftarrow> dvals (dset d k v). f v) = (\<Sum>v \<leftarrow> dvals d. f v) - (case dget d k of None \<Rightarrow> 0 | Some w \<Rightarrow> f w) + (f v :: int)"
  by (induction d) auto

lemma sum_dpop:
  "distinct (dkeys d) \<Longrightarrow>
     (\<Sum>v \<leftarrow> dvals (dpop d k). f v) = (\<Sum>v \<leftarrow> dvals d. f v) - (case dget d k of None \<Rightarrow> 0 | Some w \<Rightarrow> (f w :: int))"
  by (induction d) (auto simp: dpop_fresh dget_None_keys [symmetric] split: option.splits)

section \<open>The calls as one operation\<close>

datatype capacity_call =
  Reserve json string string json "string option"
| Commit string json string
| Release string string string
| Reconcile json json "string option" string
| Adjust json json json string

definition run_call :: "env \<Rightarrow> owner \<Rightarrow> string \<Rightarrow> capacity_call \<Rightarrow> ledger_file \<Rightarrow> view outcome" where
  "run_call ev ow pid c f = (case c of
     Reserve n operation actor ttl inc \<Rightarrow>
       (let (r, f') = reserve ev ow pid n operation actor ttl inc f in (sbind r (\<lambda>x. Inr (rc_capacity x)), f'))
   | Commit rid n actor \<Rightarrow> commit ev pid rid n actor f
   | Release rid actor reason \<Rightarrow> release ev pid rid actor reason f
   | Reconcile m u inc actor \<Rightarrow> reconcile ev ow pid m u inc actor f
   | Adjust l v lease actor \<Rightarrow> adjust_limit ev ow pid l v lease actor f)"

text \<open>What a call decides before it writes: the ledger it read and the record it will store.\<close>

definition plan_call ::
  "env \<Rightarrow> owner \<Rightarrow> string \<Rightarrow> capacity_call \<Rightarrow> ledger_file \<Rightarrow> capacity_error + ledger \<times> project_record" where
  "plan_call ev ow pid c f = (case c of
     Reserve n operation actor ttl inc \<Rightarrow>
       sbind (positive_int n max_reservation_bytes ''PROJECT_CAPACITY_RESERVATION_INVALID'') (\<lambda>nbytes.
       sbind (positive_int ttl (24 * 3600) ''PROJECT_CAPACITY_RESERVATION_INVALID'') (\<lambda>t.
       sbind (guard (operation \<noteq> [] \<and> length operation \<le> 120) (Refused ''PROJECT_CAPACITY_RESERVATION_INVALID'' [])) (\<lambda>_.
       sbind (load ev f) (\<lambda>data.
       sbind (reserve_record ev ow data pid nbytes t operation actor inc) (\<lambda>record. Inr (data, record))))))
   | Commit rid n actor \<Rightarrow>
       sbind (nonnegative_int n ''PROJECT_CAPACITY_COMMIT_INVALID'') (\<lambda>actual.
       sbind (load ev f) (\<lambda>data.
       sbind (commit_record ev data pid rid actual actor) (\<lambda>record. Inr (data, record))))
   | Release rid actor reason \<Rightarrow>
       sbind (guard (reason \<noteq> []) (Refused ''PROJECT_CAPACITY_RELEASE_INVALID'' [])) (\<lambda>_.
       sbind (load ev f) (\<lambda>data.
       sbind (release_record ev data pid rid actor reason) (\<lambda>record. Inr (data, record))))
   | Reconcile m u inc actor \<Rightarrow>
       sbind (nonnegative_int m ''PROJECT_CAPACITY_RECONCILE_INVALID'') (\<lambda>measured.
       sbind (nonnegative_int u ''PROJECT_CAPACITY_RECONCILE_INVALID'') (\<lambda>unknown.
       sbind (load ev f) (\<lambda>data.
       sbind (reconcile_record ev ow data pid measured unknown inc actor) (\<lambda>record. Inr (data, record)))))
   | Adjust l v lease actor \<Rightarrow>
       sbind (positive_int l max_limit_bytes ''PROJECT_CAPACITY_LIMIT_INVALID'') (\<lambda>limit.
       sbind (case lease_incarnation pid lease of
                None \<Rightarrow> Inl (Refused ''PROJECT_CAPACITY_ADJUSTMENT_UNSCOPED'' []) | Some i \<Rightarrow> Inr i) (\<lambda>inc.
       sbind (load ev f) (\<lambda>data.
       sbind (adjust_record ev ow data pid limit v inc actor) (\<lambda>record. Inr (data, record))))))"

lemma run_call_plan:
  "run_call ev ow pid c f = (case plan_call ev ow pid c f of
     Inl e \<Rightarrow> (Inl e, f) | Inr (data, record) \<Rightarrow> finish ev pid data record f)"
proof (cases c)
  case (Reserve n operation actor ttl inc)
  then show ?thesis
    by (auto simp: run_call_def plan_call_def reserve_def sbind_def guard_def
        split: sum.splits prod.splits)
next
  case (Adjust l v lease actor)
  then show ?thesis
    by (auto simp: run_call_def plan_call_def adjust_limit_def sbind_def split: sum.splits option.splits)
qed (auto simp: run_call_def plan_call_def commit_def release_def reconcile_def sbind_def split: sum.splits)

lemma plan_loads: "plan_call ev ow pid c f = Inr (data, record) \<Longrightarrow> load ev f = Inr data"
  by (cases c) (auto simp: plan_call_def sbind_Inr_iff)

section \<open>Writing and reading back\<close>

lemma dget_canon [simp]: "dget (lg_projects (canon l)) p = map_option canon_record (dget (lg_projects l) p)"
  by (simp add: canon_def dget_map_snd)

lemma version_canon [simp]: "lg_version (canon l) = lg_version l"
  by (simp add: canon_def)

lemma distinct_sort_key [simp]: "distinct (dkeys (sort_key fst d)) \<longleftrightarrow> distinct (dkeys (d :: ('a :: linorder \<times> 'b) list))"
proof -
  have "mset (dkeys (sort_key fst d)) = mset (dkeys d)" by simp
  then show ?thesis by (metis mset_eq_imp_distinct_iff)
qed

lemma distinct_canon: "distinct (dkeys (lg_projects l)) \<Longrightarrow> distinct (dkeys (lg_projects (canon l)))"
  by (simp add: canon_def comp_def)

lemma canon_records_distinct:
  "\<forall>r \<in> set (dvals (lg_projects l)). distinct (dkeys (pr_reservations r)) \<Longrightarrow>
   \<forall>r \<in> set (dvals (lg_projects (canon l))). distinct (dkeys (pr_reservations r))"
  by (auto simp: canon_def canon_record_def)

lemma ledger_ok_distinct:
  assumes "ledger_ok ev l"
  shows "distinct (dkeys (lg_projects l))" and "\<forall>r \<in> set (dvals (lg_projects l)). distinct (dkeys (pr_reservations r))"
  using assms by (auto simp: ledger_ok_def record_ok_def list_all_iff)

lemma ledger_ok_record: "ledger_ok ev l \<Longrightarrow> dget (lg_projects l) p = Some r \<Longrightarrow> record_ok ev p r"
  by (auto simp: ledger_ok_def list_all_iff dest!: map_of_SomeD)

text \<open>A write that succeeds leaves a file that loads as the canonical form of what was stored.\<close>

lemma put_record_distinct:
  assumes "ledger_ok ev data" "distinct (dkeys (pr_reservations record))"
  shows "distinct (dkeys (lg_projects (put_record data pid record)))"
    and "\<forall>r \<in> set (dvals (lg_projects (put_record data pid record))). distinct (dkeys (pr_reservations r))"
proof -
  show "distinct (dkeys (lg_projects (put_record data pid record)))"
    using ledger_ok_distinct [OF assms(1)] by (simp add: put_record_def)
  have "set (dvals (dset d pid record)) \<subseteq> insert record (set (dvals d))" for d
    by (induction d) auto
  then show "\<forall>r \<in> set (dvals (lg_projects (put_record data pid record))). distinct (dkeys (pr_reservations r))"
    using ledger_ok_distinct [OF assms(1)] assms(2) by (fastforce simp: put_record_def)
qed

lemma load_written:
  assumes "ledger_ok ev data" "distinct (dkeys (pr_reservations record))"
  shows "load ev (Doc (ledger_json (canon (put_record data pid record)))) = Inr l \<longleftrightarrow>
    l = canon (put_record data pid record) \<and> ledger_ok ev l \<and>
    ev_payload_size ev (ledger_json l) \<le> max_file_bytes"
  using load_ledger_json [OF distinct_canon [OF put_record_distinct(1)] canon_records_distinct
      [OF put_record_distinct(2)], OF assms assms]
  by (auto simp: load_def)

lemma finish_ok:
  assumes "finish ev pid data record f = (Inr v, f')" "ledger_ok ev data" "distinct (dkeys (pr_reservations record))"
  shows "load ev f' = Inr (canon (put_record data pid record))"
    and "v = view_of pid record (lg_version data + 1)"
    and "f' = Doc (ledger_json (canon (put_record data pid record)))"
  using assms load_written [OF assms(2,3)]
  by (auto simp: finish_def write_ledger_def Let_def put_record_def sbind_Inr_iff split: if_splits prod.splits)

lemma finish_fails:
  assumes "finish ev pid data record f = (Inl e, f')"
  shows "f' = f \<and> e = no_ledger \<or> load ev f' = Inl e"
  using assms by (auto simp: finish_def write_ledger_def Let_def sbind_Inl_iff split: if_splits prod.splits)

lemma lookup_after:
  assumes "load ev f' = Inr (canon (put_record data pid record))"
  shows "dget (lg_projects (canon (put_record data pid record))) p =
    (if p = pid then Some (canon_record record) else map_option canon_record (dget (lg_projects data) p))"
  by (simp add: put_record_def)

section \<open>The abstract account\<close>

text \<open>
  A project as the abstract specification sees it: whose incarnation it belongs to, its limit, its
  used bytes, and for each reservation the bytes it holds and the stamp at which it lapses.
\<close>

record account =
  ac_incarnation :: "string option"
  ac_limit :: int
  ac_used :: int
  ac_held :: "string \<Rightarrow> (int \<times> string) option"
  ac_blocked :: bool

definition held_total :: "(string \<Rightarrow> (int \<times> string) option) \<Rightarrow> int" where
  "held_total m = (\<Sum>k \<in> dom m. fst (the (m k)))"

definition account_of :: "project_record \<Rightarrow> account" where
  "account_of r = \<lparr>ac_incarnation = pr_incarnation r, ac_limit = pr_limit_bytes r, ac_used = pr_used_bytes r,
     ac_held = (\<lambda>k. map_option (\<lambda>x. (rs_bytes x, rs_expires_at x)) (dget (pr_reservations r) k)),
     ac_blocked = pr_unknown_blocked r\<rparr>"

definition accounts :: "ledger \<Rightarrow> string \<Rightarrow> account option" where
  "accounts l p = map_option account_of (dget (lg_projects l) p)"

definition fresh_account :: "owner \<Rightarrow> account" where
  "fresh_account ow = \<lparr>ac_incarnation = None, ac_limit = ow_default_limit ow, ac_used = 0,
     ac_held = Map.empty, ac_blocked = False\<rparr>"

definition opened :: "owner \<Rightarrow> account option \<Rightarrow> account" where
  "opened ow a = (case a of None \<Rightarrow> fresh_account ow | Some a \<Rightarrow> a)"

text \<open>A reservation has lapsed when its stamp is not after the clock. \<open>live\<close> is what is still held.\<close>

definition lapsed :: "env \<Rightarrow> string \<Rightarrow> bool" where
  "lapsed ev stamp \<longleftrightarrow> (\<exists>t. ev_parse_iso ev stamp = Some t \<and> t \<le> ev_clock ev)"

definition live :: "env \<Rightarrow> (string \<Rightarrow> (int \<times> string) option) \<Rightarrow> string \<Rightarrow> (int \<times> string) option" where
  "live ev h = h |` {k. \<exists>b stamp. h k = Some (b, stamp) \<and> \<not> lapsed ev stamp}"

text \<open>A caller that names no incarnation takes the project as it is; one that names an incarnation
  must name the project's own, or claims a project that has none.\<close>

definition claims :: "string option \<Rightarrow> account \<Rightarrow> bool" where
  "claims inc a \<longleftrightarrow> inc = None \<or> ac_incarnation a = None \<or> ac_incarnation a = inc"

definition claimed :: "string option \<Rightarrow> account \<Rightarrow> string option" where
  "claimed inc a = (if inc = None then ac_incarnation a else inc)"

text \<open>One rule per operation. \<open>version\<close> is the ledger's version before the call; the new reservation
  is filed under the generated id and lapses \<open>t\<close> seconds after the clock.\<close>

inductive account_call :: "env \<Rightarrow> owner \<Rightarrow> string \<Rightarrow> int \<Rightarrow> capacity_call \<Rightarrow> account option \<Rightarrow> account \<Rightarrow> bool"
  for ev ow pid version where
  reserved: "a = opened ow o' \<Longrightarrow> \<not> ac_blocked a \<Longrightarrow> claims inc a \<Longrightarrow>
     1 \<le> n \<Longrightarrow> n \<le> max_reservation_bytes \<Longrightarrow> 1 \<le> t \<Longrightarrow> t \<le> 24 * 3600 \<Longrightarrow>
     operation \<noteq> [] \<Longrightarrow> length operation \<le> 120 \<Longrightarrow>
     ac_used a + held_total (live ev (ac_held a)) + n \<le> ac_limit a \<Longrightarrow>
     account_call ev ow pid version (Reserve (JInt n) operation actor (JInt t) inc) o'
       (a\<lparr>ac_incarnation := claimed inc a,
          ac_held := (live ev (ac_held a))(ev_uuid ev \<mapsto> (n, ev_iso_of ev (ev_clock ev + of_int t)))\<rparr>)"
| committed: "ac_held a rid = Some (b, stamp) \<Longrightarrow> 0 \<le> n \<Longrightarrow> n \<le> b \<Longrightarrow> n \<le> 2 * 1024 * 1024 * 1024 \<Longrightarrow>
     account_call ev ow pid version (Commit rid (JInt n) actor) (Some a)
       (a\<lparr>ac_used := ac_used a + n, ac_held := (ac_held a)(rid := None)\<rparr>)"
| released: "ac_held a rid = Some (b, stamp) \<Longrightarrow> reason \<noteq> [] \<Longrightarrow>
     account_call ev ow pid version (Release rid actor reason) (Some a) (a\<lparr>ac_held := (ac_held a)(rid := None)\<rparr>)"
| reconciled: "a = opened ow o' \<Longrightarrow> claims inc a \<Longrightarrow> 0 \<le> m \<Longrightarrow> 0 \<le> u \<Longrightarrow>
     account_call ev ow pid version (Reconcile (JInt m) (JInt u) inc actor) o'
       (a\<lparr>ac_incarnation := claimed inc a, ac_used := m, ac_held := live ev (ac_held a), ac_blocked := 0 < u\<rparr>)"
| adjusted: "a = opened ow o' \<Longrightarrow> lease = JDict d \<Longrightarrow> dget d ''novel_id'' = Some (JStr pid) \<Longrightarrow>
     dget d ''incarnation'' = Some (JStr i) \<Longrightarrow> i \<noteq> [] \<Longrightarrow> claims (Some i) a \<Longrightarrow>
     1 \<le> l \<Longrightarrow> l \<le> max_limit_bytes \<Longrightarrow>
     account_call ev ow pid version (Adjust (JInt l) (JInt version) lease actor) o'
       (a\<lparr>ac_incarnation := Some i, ac_limit := l\<rparr>)"

inductive_cases account_call_elims:
  "account_call ev ow pid version (Reserve n operation actor ttl inc) a a'"
  "account_call ev ow pid version (Commit rid n actor) a a'"
  "account_call ev ow pid version (Release rid actor reason) a a'"
  "account_call ev ow pid version (Adjust l v lease actor) a a'"

lemma account_of_fields:
  "ac_limit (account_of r) = pr_limit_bytes r" "ac_used (account_of r) = pr_used_bytes r"
  "ac_blocked (account_of r) = pr_unknown_blocked r" "ac_incarnation (account_of r) = pr_incarnation r"
  "ac_held (account_of r) k = map_option (\<lambda>x. (rs_bytes x, rs_expires_at x)) (dget (pr_reservations r) k)"
  by (simp_all add: account_of_def)

lemma account_canon [simp]: "account_of (canon_record r) = account_of r"
  by (simp add: account_of_def canon_record_def)

lemma account_audit [simp]: "account_of (audit ev tag action actor details r) = account_of r"
  by (simp add: account_of_def audit_def Let_def)

lemma audit_fields [simp]:
  "pr_reservations (audit ev tag action actor details r) = pr_reservations r"
  "pr_used_bytes (audit ev tag action actor details r) = pr_used_bytes r"
  "pr_limit_bytes (audit ev tag action actor details r) = pr_limit_bytes r"
  "pr_unknown_blocked (audit ev tag action actor details r) = pr_unknown_blocked r"
  "pr_incarnation (audit ev tag action actor details r) = pr_incarnation r"
  "pr_unknown_objects (audit ev tag action actor details r) = pr_unknown_objects r"
  by (simp_all add: audit_def Let_def)

lemma held_total_reserved:
  "distinct (dkeys d) \<Longrightarrow> held_total (\<lambda>k. map_option f (dget d k)) = (\<Sum>v \<leftarrow> dvals d. fst (f v))"
proof -
  assume d: "distinct (dkeys d)"
  have "held_total (\<lambda>k. map_option f (dget d k)) = (\<Sum>k \<in> set (dkeys d). fst (the (map_option f (dget d k))))"
    by (simp add: held_total_def dom_def dget_None_keys [symmetric] flip: dom_map_of_conv_image_fst)
  also have "\<dots> = (\<Sum>k \<leftarrow> dkeys d. fst (the (map_option f (dget d k))))"
    by (rule sum.distinct_set_conv_list [OF d])
  also have "\<dots> = (\<Sum>v \<leftarrow> dvals d. fst (f v))"
  proof -
    have "dget d (fst x) = Some (snd x)" if "x \<in> set d" for x
      using d that by (simp add: map_of_is_SomeI)
    then have "map (\<lambda>k. fst (the (map_option f (dget d k)))) (dkeys d) = map (\<lambda>v. fst (f v)) (dvals d)" by simp
    then show ?thesis by (rule arg_cong)
  qed
  finally show ?thesis .
qed

lemma active_held: "distinct (dkeys (pr_reservations r)) \<Longrightarrow> held_total (ac_held (account_of r)) = active_reserved r"
  by (simp add: account_of_def held_total_reserved active_reserved_def)

section \<open>The operations refine the account rules\<close>

text \<open>\<open>_expire_stale\<close> drops exactly the lapsed reservations.\<close>

lemma expire_one_cases:
  assumes "expire_one ev s (rid, item) = Inr s'"
  shows "lapsed ev (rs_expires_at item) \<and> (\<exists>details. s' = audit ev (''expire '' @ rid) ''RESERVATION_EXPIRED''
      ''capacity-owner'' details s\<lparr>pr_reservations := dpop (pr_reservations s) rid\<rparr>) \<or>
    \<not> lapsed ev (rs_expires_at item) \<and> s' = s"
proof -
  obtain t where t: "ev_parse_iso ev (rs_expires_at item) = Some t"
    using assms by (auto simp: expire_one_def sbind_Inr_iff parse_iso_def split: if_splits option.splits)
  then have "parse_iso ev (JStr (rs_expires_at item)) = Inr t"
    using assms by (auto simp: expire_one_def sbind_Inr_iff parse_iso_def split: if_splits)
  then show ?thesis using assms t by (auto simp: expire_one_def Let_def lapsed_def split: if_splits)
qed

lemma expire_fold:
  assumes "sfold (expire_one ev) r items = Inr r'" "distinct (dkeys (pr_reservations r))"
  shows "account_of r' = (account_of r)\<lparr>ac_held :=
      ac_held (account_of r) |` (- {k. \<exists>x. (k, x) \<in> set items \<and> lapsed ev (rs_expires_at x)})\<rparr>"
    and "distinct (dkeys (pr_reservations r'))"
proof -
  have "account_of r' = (account_of r)\<lparr>ac_held :=
      ac_held (account_of r) |` (- {k. \<exists>x. (k, x) \<in> set items \<and> lapsed ev (rs_expires_at x)})\<rparr> \<and>
      distinct (dkeys (pr_reservations r'))"
    using assms
  proof (induction items arbitrary: r)
    case Nil
    then show ?case by (simp add: restrict_map_def)
  next
    case (Cons e items)
    obtain rid item where e: "e = (rid, item)" by (cases e)
    from Cons.prems(1) obtain s where s: "expire_one ev r (rid, item) = Inr s" "sfold (expire_one ev) s items = Inr r'"
      by (auto simp: e sbind_Inr_iff)
    have here: "account_of s = (account_of r)\<lparr>ac_held := ac_held (account_of r) |`
          (if lapsed ev (rs_expires_at item) then - {rid} else UNIV)\<rparr>"
      and d: "distinct (dkeys (pr_reservations s))"
      using expire_one_cases [OF s(1)] Cons.prems(2)
      by (auto simp: account_of_def restrict_map_def fun_eq_iff)
    have "(if lapsed ev (rs_expires_at item) then - {rid} else UNIV) \<inter>
        - {k. \<exists>x. (k, x) \<in> set items \<and> lapsed ev (rs_expires_at x)} =
      - {k. \<exists>x. (k, x) \<in> set (e # items) \<and> lapsed ev (rs_expires_at x)}"
      unfolding e by auto
    then show ?case
      using Cons.IH [OF s(2) d] unfolding here by simp
  qed
  then show "account_of r' = (account_of r)\<lparr>ac_held :=
      ac_held (account_of r) |` (- {k. \<exists>x. (k, x) \<in> set items \<and> lapsed ev (rs_expires_at x)})\<rparr>"
    and "distinct (dkeys (pr_reservations r'))" by blast+
qed

lemma expire_stale_account:
  assumes "expire_stale ev r = Inr r'" "distinct (dkeys (pr_reservations r))"
  shows "account_of r' = (account_of r)\<lparr>ac_held := live ev (ac_held (account_of r))\<rparr>"
    and "distinct (dkeys (pr_reservations r'))"
proof -
  note fold = expire_fold [OF assms(1) [unfolded expire_stale_def] assms(2)]
  show "distinct (dkeys (pr_reservations r'))" by (rule fold(2))
  have "(k, x) \<in> set (pr_reservations r) \<longleftrightarrow> dget (pr_reservations r) k = Some x" for k x
    using assms(2) by simp
  then have "ac_held (account_of r) |`
        (- {k. \<exists>x. (k, x) \<in> set (pr_reservations r) \<and> lapsed ev (rs_expires_at x)}) =
      live ev (ac_held (account_of r))"
    unfolding live_def restrict_map_def fun_eq_iff account_of_fields
    by (intro allI, rename_tac k, case_tac "dget (pr_reservations r) k") auto
  then show "account_of r' = (account_of r)\<lparr>ac_held := live ev (ac_held (account_of r))\<rparr>"
    using fold(1) by simp
qed

lemma record_of_account: "account_of (record_of ev ow data pid) = opened ow (accounts data pid)"
  by (auto simp: record_of_def accounts_def opened_def fresh_account_def fresh_record_def account_of_def
      split: option.splits)

lemma record_of_distinct:
  "ledger_ok ev data \<Longrightarrow> distinct (dkeys (pr_reservations (record_of ev' ow data pid)))"
  by (auto simp: record_of_def fresh_record_def record_ok_def dest: ledger_ok_record split: option.splits)

lemma opened_eq: "a = opened ow (accounts data pid) \<Longrightarrow> account_of (record_of ev ow data pid) = a"
  by (simp add: record_of_account)

lemma reserve_refines:
  assumes rec: "reserve_record ev ow data pid n t operation actor inc = Inr record"
    and d: "distinct (dkeys (pr_reservations (record_of ev ow data pid)))"
    and n: "1 \<le> n" "n \<le> max_reservation_bytes" "1 \<le> t" "t \<le> 24 * 3600" "operation \<noteq> []" "length operation \<le> 120"
  shows "account_call ev ow pid ver (Reserve (JInt n) operation actor (JInt t) inc) (accounts data pid) (account_of record)"
    and "distinct (dkeys (pr_reservations record))"
proof -
  define a where "a = opened ow (accounts data pid)"
  from rec obtain r where r: "expire_stale ev (record_of ev ow data pid) = Inr r"
    and nb: "\<not> pr_unknown_blocked r" and lim: "pr_used_bytes r + active_reserved r + n \<le> pr_limit_bytes r"
    and inc: "inc = None \<or> pr_incarnation r = None \<or> pr_incarnation r = inc"
    and rs: "pr_reservations record = dset (pr_reservations r) (ev_uuid ev)
        \<lparr>rs_bytes = n, rs_created_at = ev_now_iso ev ''created'',
         rs_expires_at = ev_iso_of ev (ev_clock ev + of_int t), rs_operation = operation,
         rs_owner_pid = ow_pid ow, rs_owner_host = ow_hostname ow, rs_actor_id = take 240 actor\<rparr>"
    and same: "pr_used_bytes record = pr_used_bytes r" "pr_limit_bytes record = pr_limit_bytes r"
        "pr_unknown_blocked record = pr_unknown_blocked r"
        "pr_incarnation record = (if inc = None then pr_incarnation r else inc)"
    by (auto simp: reserve_record_def sbind_Inr_iff Let_def active_reserved_def split: if_splits)
  note ex = expire_stale_account [OF r d]
  have ar: "account_of r = a\<lparr>ac_held := live ev (ac_held a)\<rparr>" using ex(1) by (simp add: record_of_account a_def)
  have u: "ac_used a = pr_used_bytes r" "ac_limit a = pr_limit_bytes r" "ac_blocked a = pr_unknown_blocked r"
    "ac_incarnation a = pr_incarnation r" "live ev (ac_held a) = ac_held (account_of r)"
    unfolding account_of_fields [symmetric] ar by simp_all
  have "account_of record = a\<lparr>ac_incarnation := claimed inc a,
      ac_held := (live ev (ac_held a))(ev_uuid ev \<mapsto> (n, ev_iso_of ev (ev_clock ev + of_int t)))\<rparr>"
  proof -
    have "account_of record = (account_of r)\<lparr>ac_incarnation := claimed inc a,
        ac_held := (ac_held (account_of r))(ev_uuid ev \<mapsto> (n, ev_iso_of ev (ev_clock ev + of_int t)))\<rparr>"
      using rs same u(4) by (auto simp: account_of_def claimed_def fun_eq_iff)
    then show ?thesis unfolding ar by simp
  qed
  then show "account_call ev ow pid ver (Reserve (JInt n) operation actor (JInt t) inc) (accounts data pid) (account_of record)"
    by (simp only:, intro account_call.reserved [OF a_def])
      (use nb lim inc n u active_held [OF ex(2)] in \<open>simp_all add: claims_def\<close>)
  show "distinct (dkeys (pr_reservations record))" using ex(2) rs by simp
qed

lemma reconcile_refines:
  assumes rec: "reconcile_record ev ow data pid m u inc actor = Inr record"
    and d: "distinct (dkeys (pr_reservations (record_of ev ow data pid)))" and mu: "0 \<le> m" "0 \<le> u"
  shows "account_call ev ow pid ver (Reconcile (JInt m) (JInt u) inc actor) (accounts data pid) (account_of record)"
    and "distinct (dkeys (pr_reservations record))"
proof -
  define a where "a = opened ow (accounts data pid)"
  from rec obtain r where r: "expire_stale ev (record_of ev ow data pid) = Inr r"
    and inc: "inc = None \<or> pr_incarnation r = None \<or> pr_incarnation r = inc"
    and rr: "pr_used_bytes record = m" "pr_limit_bytes record = pr_limit_bytes r"
        "pr_unknown_blocked record = (0 < u)" "pr_reservations record = pr_reservations r"
        "pr_incarnation record = (if inc = None then pr_incarnation r else inc)"
    by (auto simp: reconcile_record_def sbind_Inr_iff split: if_splits)
  note ex = expire_stale_account [OF r d]
  have ar: "account_of r = a\<lparr>ac_held := live ev (ac_held a)\<rparr>" using ex(1) by (simp add: record_of_account a_def)
  have ai: "ac_incarnation a = pr_incarnation r" unfolding account_of_fields [symmetric] ar by simp
  have "account_of record = (account_of r)\<lparr>ac_incarnation := claimed inc a, ac_used := m, ac_blocked := 0 < u\<rparr>"
    using rr ai by (simp add: account_of_def claimed_def)
  then have "account_of record = a\<lparr>ac_incarnation := claimed inc a, ac_used := m,
      ac_held := live ev (ac_held a), ac_blocked := 0 < u\<rparr>" unfolding ar by simp
  then show "account_call ev ow pid ver (Reconcile (JInt m) (JInt u) inc actor) (accounts data pid) (account_of record)"
    using inc ai mu account_call.reconciled [OF a_def] by (simp add: claims_def)
  show "distinct (dkeys (pr_reservations record))" using ex(2) rr by simp
qed

lemma plan_refines:
  assumes "plan_call ev ow pid c f = Inr (data, record)"
  shows "account_call ev ow pid (lg_version data) c (accounts data pid) (account_of record)"
    and "distinct (dkeys (pr_reservations record))"
proof -
  have ok: "ledger_ok ev data" by (rule load_ok [OF plan_loads [OF assms]])
  have stored: "distinct (dkeys (pr_reservations r))" if "dget (lg_projects data) pid = Some r" for r
    using ledger_ok_record [OF ok that] by (simp add: record_ok_def)
  note rd = record_of_distinct [OF ok]
  have "account_call ev ow pid (lg_version data) c (accounts data pid) (account_of record) \<and>
    distinct (dkeys (pr_reservations record))"
  proof (cases c)
    case (Reserve nj operation actor tj inc)
    then obtain n t where "nj = JInt n" "1 \<le> n" "n \<le> max_reservation_bytes" "tj = JInt t" "1 \<le> t" "t \<le> 24 * 3600"
      "operation \<noteq> []" "length operation \<le> 120"
      and "reserve_record ev ow data pid n t operation actor inc = Inr record"
      using assms by (auto simp: plan_call_def sbind_Inr_iff positive_int_iff)
    then show ?thesis unfolding Reserve using reserve_refines [OF _ rd] by blast
  next
    case (Commit rid nj actor)
    then obtain n r x where n: "nj = JInt n" "0 \<le> n" and r: "dget (lg_projects data) pid = Some r"
      "dget (pr_reservations r) rid = Some x" "n \<le> rs_bytes x" "n \<le> 2 * 1024 * 1024 * 1024"
      and rec: "pr_used_bytes record = pr_used_bytes r + n" "pr_limit_bytes record = pr_limit_bytes r"
        "pr_unknown_blocked record = pr_unknown_blocked r" "pr_incarnation record = pr_incarnation r"
        "pr_reservations record = dpop (pr_reservations r) rid"
      using assms by (auto simp: plan_call_def sbind_Inr_iff commit_record_def find_reservation_def
          nonnegative_int_def split: option.splits if_splits json.splits)
    have eq: "account_of record = (account_of r)
        \<lparr>ac_used := ac_used (account_of r) + n, ac_held := (ac_held (account_of r))(rid := None)\<rparr>"
      using rec by (auto simp: account_of_def fun_eq_iff)
    have acc: "accounts data pid = Some (account_of r)" using r(1) by (simp add: accounts_def)
    show ?thesis
      unfolding Commit n(1) eq acc
      by (rule conjI, rule account_call.committed [where b = "rs_bytes x" and stamp = "rs_expires_at x"])
        (use r n stored rec in \<open>auto simp: account_of_def\<close>)
  next
    case (Release rid actor reason)
    then obtain r x where r: "dget (lg_projects data) pid = Some r" "dget (pr_reservations r) rid = Some x"
      and rec: "pr_used_bytes record = pr_used_bytes r" "pr_limit_bytes record = pr_limit_bytes r"
        "pr_unknown_blocked record = pr_unknown_blocked r" "pr_incarnation record = pr_incarnation r"
        "pr_reservations record = dpop (pr_reservations r) rid" and reason: "reason \<noteq> []"
      using assms by (auto simp: plan_call_def sbind_Inr_iff release_record_def find_reservation_def
          split: option.splits)
    have eq: "account_of record = (account_of r)\<lparr>ac_held := (ac_held (account_of r))(rid := None)\<rparr>"
      using rec by (auto simp: account_of_def fun_eq_iff)
    have acc: "accounts data pid = Some (account_of r)" using r(1) by (simp add: accounts_def)
    show ?thesis
      unfolding Release eq acc
      by (rule conjI, rule account_call.released [where b = "rs_bytes x" and stamp = "rs_expires_at x"])
        (use r stored rec reason in \<open>auto simp: account_of_def\<close>)
  next
    case (Reconcile mj uj inc actor)
    then obtain m u where "mj = JInt m" "0 \<le> m" "uj = JInt u" "0 \<le> u"
      and "reconcile_record ev ow data pid m u inc actor = Inr record"
      using assms by (auto simp: plan_call_def sbind_Inr_iff nonnegative_int_def split: json.splits if_splits)
    then show ?thesis unfolding Reconcile using reconcile_refines [OF _ rd] by blast
  next
    case (Adjust lj v lease actor)
    then obtain l i where l: "lj = JInt l" "1 \<le> l" "l \<le> max_limit_bytes" and i: "lease_incarnation pid lease = Some i"
      and v: "v = JInt (lg_version data)" and inc: "claims (Some i) (account_of (record_of ev ow data pid))"
      and rr: "pr_used_bytes record = pr_used_bytes (record_of ev ow data pid)" "pr_limit_bytes record = l"
        "pr_unknown_blocked record = pr_unknown_blocked (record_of ev ow data pid)"
        "pr_reservations record = pr_reservations (record_of ev ow data pid)" "pr_incarnation record = Some i"
      using assms by (auto simp: plan_call_def sbind_Inr_iff positive_int_iff adjust_record_def Let_def claims_def
          account_of_fields split: if_splits option.splits)
    from i obtain d where d: "lease = JDict d" "dget d ''novel_id'' = Some (JStr pid)"
      "dget d ''incarnation'' = Some (JStr i)" "i \<noteq> []"
      by (auto simp: lease_incarnation_def split: json.splits if_splits option.splits)
    have "account_of record = (account_of (record_of ev ow data pid))\<lparr>ac_incarnation := Some i, ac_limit := l\<rparr>"
      using rr by (simp add: account_of_def)
    then show ?thesis
      unfolding Adjust l(1) v
      using rr rd l(2,3) inc account_call.adjusted [OF refl d, of ow "accounts data pid"]
      by (simp add: record_of_account)
  qed
  then show "account_call ev ow pid (lg_version data) c (accounts data pid) (account_of record)"
    and "distinct (dkeys (pr_reservations record))" by blast+
qed

lemma run_ok:
  assumes "run_call ev ow pid c f = (Inr v, f')"
  obtains data rc where "plan_call ev ow pid c f = Inr (data, rc)" "load ev f = Inr data"
    "load ev f' = Inr (canon (put_record data pid rc))" "v = view_of pid rc (lg_version data + 1)"
    "ledger_ok ev data"
proof -
  from assms obtain data rc where p: "plan_call ev ow pid c f = Inr (data, rc)"
    and fin: "finish ev pid data rc f = (Inr v, f')"
    by (auto simp: run_call_plan split: sum.splits)
  have l: "load ev f = Inr data" by (rule plan_loads [OF p])
  show thesis
    using that [OF p l] finish_ok [OF fin load_ok [OF l] plan_refines(2) [OF p]] load_ok [OF l] by blast
qed

lemma run_fails:
  assumes "run_call ev ow pid c f = (Inl e, f')"
  shows "f' = f \<or> load ev f' = Inl e"
  using assms finish_fails by (fastforce simp: run_call_plan split: sum.splits)

section \<open>Refinement\<close>

text \<open>C22: Every call that succeeds does to the account of its project exactly what the abstract rule
  of the operation says: under its guards on incarnation, lease, version, bytes and times, a
  reservation or a reconciliation drops precisely the reservations whose stamp is not after the
  clock, and the new reservation is filed under the generated id with its bytes and its expiry. It
  answers with that account's numbers, leaves the accounts of all other projects alone and counts
  one version; the file it leaves is readable.\<close>
theorem ledger_refines_accounts:
  assumes "run_call ev ow pid c f = (Inr v, f')"
  shows "\<exists>l l' a. load ev f = Inr l \<and> load ev f' = Inr l' \<and> lg_version l' = lg_version l + 1 \<and>
    accounts l' pid = Some a \<and> account_call ev ow pid (lg_version l) c (accounts l pid) a \<and>
    (\<forall>p. p \<noteq> pid \<longrightarrow> accounts l' p = accounts l p) \<and>
    vw_ledger_version v = lg_version l' \<and> vw_incarnation v = ac_incarnation a \<and>
    vw_limit_bytes v = ac_limit a \<and> vw_used_bytes v = ac_used a \<and>
    vw_reserved_bytes v = held_total (ac_held a)"
proof -
  from assms obtain data rc where *: "plan_call ev ow pid c f = Inr (data, rc)"
    "load ev f = Inr data" "load ev f' = Inr (canon (put_record data pid rc))"
    "v = view_of pid rc (lg_version data + 1)"
    by (rule run_ok)
  show ?thesis
    by (rule exI [of _ data], rule exI [of _ "canon (put_record data pid rc)"],
        rule exI [of _ "account_of rc"])
      (use * plan_refines [OF *(1)] active_held [of rc] in
        \<open>simp add: accounts_def put_record_def option.map_comp comp_def view_of_def Let_def account_of_fields\<close>)
qed

definition env0 :: env where
  "env0 = \<lparr>ev_clock = 0, ev_now_iso = (\<lambda>_. ''t''), ev_uuid = ''u'', ev_parse_iso = (\<lambda>_. Some 1),
     ev_iso_of = (\<lambda>_. ''t''), ev_payload_size = (\<lambda>_. 9)\<rparr>"

definition owner0 :: owner where "owner0 = \<lparr>ow_pid = 1, ow_hostname = ''h'', ow_default_limit = 100\<rparr>"

definition record0 :: project_record where
  "record0 = \<lparr>pr_incarnation = None, pr_limit_bytes = 100, pr_used_bytes = 20,
     pr_reservations = [(''r'', \<lparr>rs_bytes = 30, rs_created_at = ''t'', rs_expires_at = ''t'', rs_operation = ''op'',
       rs_owner_pid = 1, rs_owner_host = ''h'', rs_actor_id = ''a''\<rparr>)],
     pr_unknown_objects = 0, pr_unknown_blocked = False, pr_audit = [], pr_updated_at = ''t'', pr_reconciled_at = None\<rparr>"

definition file0 :: ledger_file where
  "file0 = Doc (ledger_json \<lparr>lg_version = 3, lg_projects = [(''p'', record0)]\<rparr>)"

text \<open>A reservation at time 0 with every stamp read as time 1, and one at time 2, when the
  reservation of \<open>file0\<close> has lapsed.\<close>

lemma ledger_refines_accounts_witness:
  "\<exists>v l l' a. run_call (env0\<lparr>ev_clock := 2\<rparr>) owner0 ''p'' (Reserve (JInt 60) ''op'' ''a'' (JInt 900) (Some ''i'')) file0 =
      (Inr v, snd (run_call (env0\<lparr>ev_clock := 2\<rparr>) owner0 ''p'' (Reserve (JInt 60) ''op'' ''a'' (JInt 900) (Some ''i'')) file0)) \<and>
    load (env0\<lparr>ev_clock := 2\<rparr>) file0 = Inr l \<and>
    accounts l' ''p'' = Some a \<and>
    account_call (env0\<lparr>ev_clock := 2\<rparr>) owner0 ''p'' (lg_version l)
      (Reserve (JInt 60) ''op'' ''a'' (JInt 900) (Some ''i'')) (accounts l ''p'') a \<and>
    vw_reserved_bytes v = held_total (ac_held a)"
proof -
  let ?ev = "env0\<lparr>ev_clock := 2\<rparr>" and ?c = "Reserve (JInt 60) ''op'' ''a'' (JInt 900) (Some ''i'')"
  have "\<not> Sum_Type.isl (fst (run_call ?ev owner0 ''p'' ?c file0))" by code_simp
  then obtain v where v: "run_call ?ev owner0 ''p'' ?c file0 = (Inr v, snd (run_call ?ev owner0 ''p'' ?c file0))"
    using succeeded by blast
  show ?thesis using ledger_refines_accounts [OF v] v by blast
qed

section \<open>Admission\<close>

lemma held_total_upd:
  assumes "finite (dom m)" "\<forall>k v. m k = Some v \<longrightarrow> 0 \<le> fst v"
  shows "held_total (m(k \<mapsto> n)) \<le> held_total m + fst n"
proof -
  have "held_total (m(k \<mapsto> n)) = fst n + (\<Sum>j \<in> dom m - {k}. fst (the (m j)))"
    using assms(1) by (simp add: held_total_def sum.insert_remove insert_Diff_if)
  also have "(\<Sum>j \<in> dom m - {k}. fst (the (m j))) \<le> held_total m"
    unfolding held_total_def
    by (intro sum_mono2) (use assms in \<open>auto simp: dom_def simp del: split_paired_All\<close>)
  finally show ?thesis by simp
qed

lemma finite_held: "finite (dom (ac_held (account_of r)))"
proof -
  have "dom (ac_held (account_of r)) \<subseteq> set (dkeys (pr_reservations r))"
    by (auto simp: account_of_fields dest!: dget_in_keys)
  then show ?thesis by (rule finite_subset) simp
qed

definition well_held :: "account \<Rightarrow> bool" where
  "well_held a \<longleftrightarrow> finite (dom (ac_held a)) \<and> (\<forall>k v. ac_held a k = Some v \<longrightarrow> 0 \<le> fst v)"

lemma well_held_stored: "ledger_ok ev l \<Longrightarrow> accounts l p = Some a \<Longrightarrow> well_held a"
proof -
  assume l: "ledger_ok ev l" and "accounts l p = Some a"
  then obtain r where r: "dget (lg_projects l) p = Some r" "a = account_of r" by (auto simp: accounts_def)
  have "0 \<le> fst v" if h: "ac_held a k = Some v" for k v
  proof -
    obtain x where x: "dget (pr_reservations r) k = Some x" "fst v = rs_bytes x"
      using h r(2) by (auto simp: account_of_fields)
    have "x \<in> set (dvals (pr_reservations r))" using x(1) by (force dest: map_of_SomeD)
    then have "1 \<le> rs_bytes x"
      using ledger_ok_record [OF l r(1)] by (auto simp: record_ok_def reservation_ok_def list_all_iff)
    then show ?thesis using x(2) by simp
  qed
  then show ?thesis using r(2) finite_held by (auto simp: well_held_def)
qed

lemma well_held_opened:
  assumes "ledger_ok ev l" shows "well_held (opened ow (accounts l p))"
proof (cases "accounts l p")
  case None
  then show ?thesis by (simp add: opened_def fresh_account_def well_held_def)
next
  case (Some a)
  then show ?thesis using well_held_stored [OF assms Some] by (simp add: opened_def)
qed

definition account_within :: "account \<Rightarrow> bool" where
  "account_within a \<longleftrightarrow> ac_used a + held_total (ac_held a) \<le> ac_limit a"

lemma reserve_within:
  assumes "account_call ev ow pid ver (Reserve n operation actor ttl inc) o' a'" "well_held (opened ow o')"
  shows "account_within a'"
proof -
  let ?h = "live ev (ac_held (opened ow o'))"
  from assms(1) obtain x i where 1: "a' = (opened ow o')\<lparr>ac_incarnation := i, ac_held := ?h(ev_uuid ev \<mapsto> x)\<rparr>"
    "ac_used (opened ow o') + held_total ?h + fst x \<le> ac_limit (opened ow o')"
    by (rule account_call_elims(1)) auto
  have "held_total (?h(ev_uuid ev \<mapsto> x)) \<le> held_total ?h + fst x"
    by (rule held_total_upd) (use assms(2) 1 in \<open>auto simp: well_held_def live_def restrict_map_def dom_def
        intro: finite_subset [rotated] split: if_splits\<close>)
  then show ?thesis using 1 by (simp add: account_within_def)
qed

lemma held_total_remove:
  assumes "finite (dom m)" "m k = Some b"
  shows "held_total (m(k := None)) = held_total m - fst b"
proof -
  have "held_total m = fst (the (m k)) + (\<Sum>j \<in> dom m - {k}. fst (the (m j)))"
    unfolding held_total_def using assms by (intro sum.remove) auto
  then show ?thesis using assms by (simp add: held_total_def)
qed

lemma account_withinI:
  "account_within (account_of r) \<Longrightarrow> distinct (dkeys (pr_reservations r)) \<Longrightarrow>
   pr_used_bytes r + active_reserved r \<le> pr_limit_bytes r"
  using active_held [of r] by (simp add: account_within_def account_of_fields)

text \<open>C23: A reservation that was granted leaves the project within its limit: used bytes plus all
  bytes held by reservations, the new one included, do not exceed the limit in the stored file.\<close>
theorem reserve_within_limit:
  assumes "reserve ev ow pid n operation actor ttl inc f = (Inr receipt, f')"
  shows "\<exists>l r. load ev f' = Inr l \<and> dget (lg_projects l) pid = Some r \<and>
    pr_used_bytes r + active_reserved r \<le> pr_limit_bytes r \<and> \<not> pr_unknown_blocked r"
proof -
  let ?c = "Reserve n operation actor ttl inc"
  have "run_call ev ow pid ?c f = (Inr (rc_capacity receipt), f')" using assms by (simp add: run_call_def)
  then obtain data rc where *: "plan_call ev ow pid ?c f = Inr (data, rc)"
    "load ev f' = Inr (canon (put_record data pid rc))" "ledger_ok ev data"
    by (rule run_ok)
  have call: "account_call ev ow pid (lg_version data) ?c (accounts data pid) (account_of rc)" by (rule plan_refines(1) [OF *(1)])
  have "account_within (account_of rc)" by (rule reserve_within [OF call well_held_opened [OF *(3)]])
  moreover have "\<not> ac_blocked (account_of rc)" by (rule account_call_elims(1) [OF call]) auto
  moreover have "distinct (dkeys (pr_reservations (canon_record rc)))"
    using plan_refines(2) [OF *(1)] by (simp add: canon_record_def)
  then have "pr_used_bytes (canon_record rc) + active_reserved (canon_record rc) \<le> pr_limit_bytes (canon_record rc)"
    by (rule account_withinI [rotated]) (use \<open>account_within (account_of rc)\<close> in simp)
  moreover have "dget (lg_projects (canon (put_record data pid rc))) pid = Some (canon_record rc)"
    by (simp add: put_record_def)
  ultimately show ?thesis using *(2) by (auto simp: account_of_fields canon_record_def)
qed

lemma reserve_within_limit_witness:
  "\<exists>l r. load env0 (snd (reserve env0 owner0 ''p'' (JInt 50) ''op'' ''a'' (JInt 900) None file0)) = Inr l \<and>
    dget (lg_projects l) ''p'' = Some r \<and> pr_used_bytes r + active_reserved r \<le> pr_limit_bytes r \<and>
    \<not> pr_unknown_blocked r"
proof -
  have "\<not> Sum_Type.isl (fst (reserve env0 owner0 ''p'' (JInt 50) ''op'' ''a'' (JInt 900) None file0))" by code_simp
  then obtain v where "reserve env0 owner0 ''p'' (JInt 50) ''op'' ''a'' (JInt 900) None file0 = (Inr v, snd (reserve env0 owner0 ''p'' (JInt 50) ''op'' ''a'' (JInt 900) None file0))"
    using succeeded by blast
  then show ?thesis by (rule reserve_within_limit)
qed

text \<open>Over whole histories: the reservation protocol (reserve, commit, release) never takes a
  project over its limit.\<close>

definition protocol_call :: "capacity_call \<Rightarrow> bool" where
  "protocol_call c = (case c of Reserve _ _ _ _ _ \<Rightarrow> True | Commit _ _ _ \<Rightarrow> True | Release _ _ _ \<Rightarrow> True | _ \<Rightarrow> False)"

definition same_codec :: "env \<Rightarrow> env \<Rightarrow> bool" where
  "same_codec ev ev' \<longleftrightarrow> ev_parse_iso ev' = ev_parse_iso ev \<and> ev_payload_size ev' = ev_payload_size ev"

definition protocol_step :: "env \<Rightarrow> ledger_file \<Rightarrow> ledger_file \<Rightarrow> bool" where
  "protocol_step ev f f' \<longleftrightarrow> (\<exists>ev' ow pid c. same_codec ev ev' \<and> protocol_call c \<and> f' = snd (run_call ev' ow pid c f))"

definition ledger_within :: "env \<Rightarrow> ledger_file \<Rightarrow> bool" where
  "ledger_within ev f \<longleftrightarrow> (\<forall>l p a. load ev f = Inr l \<longrightarrow> accounts l p = Some a \<longrightarrow> account_within a)"

lemma load_same_codec:
  assumes "same_codec ev ev'" shows "load ev' f = load ev f"
proof -
  have "ev_parse_iso ev' = ev_parse_iso ev" using assms by (simp add: same_codec_def)
  then have p: "parse_iso ev' = parse_iso ev" by (intro ext) (simp add: parse_iso_def split: json.splits)
  have r: "validate_reservation ev' = validate_reservation ev"
    by (simp add: fun_eq_iff validate_reservation_def p)
  have "validate_record ev' = validate_record ev"
    by (simp add: fun_eq_iff validate_record_def validate_reservations_def validate_reconciled_at_def p r
        cong: if_cong)
  then show ?thesis using assms by (simp add: load_def load_json_def same_codec_def split: ledger_file.splits)
qed

lemma protocol_within:
  assumes "account_call ev ow pid ver c o' a'" "protocol_call c" "well_held (opened ow o')"
    and "\<And>a. o' = Some a \<Longrightarrow> account_within a"
  shows "account_within a'"
proof (cases c)
  case (Reserve n operation actor ttl inc)
  then show ?thesis using assms(1,3) reserve_within by blast
next
  case (Commit rid n actor)
  from assms(1) obtain a b m where a: "o' = Some a" "ac_held a rid = Some b" "m \<le> fst b"
    "a' = a\<lparr>ac_used := ac_used a + m, ac_held := (ac_held a)(rid := None)\<rparr>"
    unfolding Commit by (rule account_call_elims(2)) auto
  then show ?thesis using assms(3) assms(4) [OF a(1)] held_total_remove [where m = "ac_held a" and k = rid and b = b]
    by (simp add: account_within_def well_held_def opened_def)
next
  case (Release rid actor reason)
  from assms(1) obtain a b where a: "o' = Some a" "ac_held a rid = Some b"
    "a' = a\<lparr>ac_held := (ac_held a)(rid := None)\<rparr>"
    unfolding Release by (rule account_call_elims(3)) auto
  have "held_total ((ac_held a)(rid := None)) = held_total (ac_held a) - fst b" "0 \<le> fst b"
    using a(1,2) assms(3)
    by (auto simp: well_held_def opened_def simp del: split_paired_All intro: held_total_remove)
  then show ?thesis using a(3) assms(4) [OF a(1)] by (simp add: account_within_def)
qed (use assms in \<open>simp_all add: protocol_call_def\<close>)

lemma protocol_step_within:
  assumes "ledger_within ev f" "protocol_step ev f f'" shows "ledger_within ev f'"
proof -
  from assms(2) obtain ev' ow pid c where st: "same_codec ev ev'" "protocol_call c" "f' = snd (run_call ev' ow pid c f)"
    by (auto simp: protocol_step_def)
  have ld: "load ev' = load ev" using load_same_codec [OF st(1)] by (simp add: fun_eq_iff)
  obtain res where run: "run_call ev' ow pid c f = (res, f')" using st(3) by (cases "run_call ev' ow pid c f") simp
  show ?thesis
  proof (cases res)
    case (Inl e)
    then show ?thesis using run_fails [of ev' ow pid c f e f'] run assms(1) by (auto simp: ledger_within_def ld)
  next
    case (Inr v)
    with run have "run_call ev' ow pid c f = (Inr v, f')" by simp
    then obtain data rc where *: "plan_call ev' ow pid c f = Inr (data, rc)" "load ev' f = Inr data"
      "load ev' f' = Inr (canon (put_record data pid rc))" "ledger_ok ev' data"
      by (rule run_ok)
    have "account_within (account_of rc)"
      by (rule protocol_within [OF plan_refines(1) [OF *(1)] st(2) well_held_opened [OF *(4)]])
        (use assms(1) *(2) ld in \<open>auto simp: ledger_within_def\<close>)
    moreover have "account_within a" if "accounts data p = Some a" for p a
      using assms(1) *(2) that by (simp add: ledger_within_def ld)
    moreover have "accounts (canon (put_record data pid rc)) p = (if p = pid then Some (account_of rc) else accounts data p)" for p
      by (simp add: accounts_def put_record_def option.map_comp comp_def)
    ultimately show ?thesis
      using *(3) by (simp add: ledger_within_def ld split: if_splits)
  qed
qed

lemma absent_within: "ledger_within ev Absent"
  by (simp add: ledger_within_def load_def empty_ledger_def accounts_def)

interpretation protocol: transition_system "\<lambda>f. f = Absent" "protocol_step ev" "ledger_within ev" for ev
  by unfold_locales (use absent_within protocol_step_within in blast)+

text \<open>C24: Whatever sequence of reservations, commits and releases is run against a fresh ledger, by
  whatever processes and clocks, no project that the file shows ever exceeds its limit.\<close>
theorem protocol_never_exceeds_limit:
  assumes "(protocol_step ev)\<^sup>*\<^sup>* Absent f" "load ev f = Inr l" "dget (lg_projects l) p = Some r"
  shows "pr_used_bytes r + active_reserved r \<le> pr_limit_bytes r"
proof -
  have "ledger_within ev f" by (rule protocol.inv_reachable [OF refl assms(1)])
  moreover have "accounts l p = Some (account_of r)" using assms(3) by (simp add: accounts_def)
  ultimately have "account_within (account_of r)" using assms(2) by (simp add: ledger_within_def)
  then show ?thesis
    by (rule account_withinI) (use ledger_ok_record [OF load_ok [OF assms(2)] assms(3)] in \<open>simp add: record_ok_def\<close>)
qed

lemma protocol_never_exceeds_limit_witness:
  "case load env0 (snd (run_call env0 owner0 ''p'' (Reserve (JInt 50) ''op'' ''a'' (JInt 900) None) Absent)) of
     Inr l \<Rightarrow> (case dget (lg_projects l) ''p'' of
                 Some r \<Rightarrow> pr_used_bytes r + active_reserved r \<le> pr_limit_bytes r | None \<Rightarrow> False)
   | Inl e \<Rightarrow> False"
proof -
  let ?c = "Reserve (JInt 50) ''op'' ''a'' (JInt 900) None"
  let ?f = "snd (run_call env0 owner0 ''p'' ?c Absent)"
  have "case load env0 ?f of Inr l \<Rightarrow> dget (lg_projects l) ''p'' \<noteq> None | Inl e \<Rightarrow> False" by code_simp
  then obtain l r where l: "load env0 ?f = Inr l" "dget (lg_projects l) ''p'' = Some r"
    by (auto split: sum.splits)
  have "protocol_step env0 Absent ?f"
    unfolding protocol_step_def same_codec_def protocol_call_def
    by (intro exI [of _ env0] exI [of _ owner0] exI [of _ "''p''"] exI [of _ ?c]) simp
  then show ?thesis using protocol_never_exceeds_limit [OF r_into_rtranclp l] l by simp
qed

section \<open>Commit, refusals, round trip\<close>

lemma reserved_canon: "active_reserved (canon_record r) = active_reserved r"
  by (simp add: active_reserved_def canon_record_def)

text \<open>C25: A commit turns a reservation into used bytes once: used grows by the committed bytes, the
  reservation's own bytes leave the reserved total, so used plus reserved never grows, and the same
  reservation cannot be committed again.\<close>
theorem commit_moves_bytes:
  assumes "commit ev pid rid (JInt n) actor f = (Inr v, f')"
  shows "\<exists>l r x l' r'. load ev f = Inr l \<and> dget (lg_projects l) pid = Some r \<and>
    dget (pr_reservations r) rid = Some x \<and> load ev f' = Inr l' \<and> dget (lg_projects l') pid = Some r' \<and>
    0 \<le> n \<and> n \<le> rs_bytes x \<and> pr_used_bytes r' = pr_used_bytes r + n \<and>
    active_reserved r' = active_reserved r - rs_bytes x \<and> pr_limit_bytes r' = pr_limit_bytes r \<and>
    commit ev pid rid (JInt n) actor f' = (Inl (Refused ''PROJECT_CAPACITY_RESERVATION_UNKNOWN'' []), f')"
proof -
  have "run_call ev ow pid (Commit rid (JInt n) actor) f = (Inr v, f')" for ow using assms by (simp add: run_call_def)
  then obtain data rc where *: "plan_call ev undefined pid (Commit rid (JInt n) actor) f = Inr (data, rc)"
    "load ev f = Inr data" "load ev f' = Inr (canon (put_record data pid rc))" "ledger_ok ev data"
    using run_ok by metis
  from *(1) obtain r x where r: "dget (lg_projects data) pid = Some r" "dget (pr_reservations r) rid = Some x"
    "n \<le> rs_bytes x" "0 \<le> n" and rc: "pr_used_bytes rc = pr_used_bytes r + n" "pr_limit_bytes rc = pr_limit_bytes r"
    "pr_reservations rc = dpop (pr_reservations r) rid"
    by (auto simp: plan_call_def sbind_Inr_iff commit_record_def find_reservation_def
        nonnegative_int_def split: option.splits if_splits)
  have "distinct (dkeys (pr_reservations r))" using ledger_ok_record [OF *(4) r(1)] by (simp add: record_ok_def)
  then have "active_reserved (canon_record rc) = active_reserved r - rs_bytes x"
    using sum_dpop [of "pr_reservations r" rs_bytes rid] r(2)
    by (simp add: reserved_canon) (simp add: active_reserved_def rc)
  moreover have "dget (lg_projects (canon (put_record data pid rc))) pid = Some (canon_record rc)"
    by (simp add: put_record_def)
  moreover have "find_reservation (canon (put_record data pid rc)) pid rid =
      Inl (Refused ''PROJECT_CAPACITY_RESERVATION_UNKNOWN'' [])"
    by (simp add: find_reservation_def put_record_def canon_record_def rc)
  then have "commit ev pid rid (JInt n) actor f' = (Inl (Refused ''PROJECT_CAPACITY_RESERVATION_UNKNOWN'' []), f')"
    using *(3) r(4) by (simp add: commit_def nonnegative_int_def commit_record_def)
  ultimately show ?thesis
    using * r rc by (intro exI [of _ data] exI [of _ r] exI [of _ x]
        exI [of _ "canon (put_record data pid rc)"] exI [of _ "canon_record rc"]) (simp add: canon_record_def)
qed

lemma commit_moves_bytes_witness:
  "\<exists>l r x l' r'. load env0 file0 = Inr l \<and> dget (lg_projects l) ''p'' = Some r \<and>
    dget (pr_reservations r) ''r'' = Some x \<and>
    load env0 (snd (commit env0 ''p'' ''r'' (JInt 5) ''a'' file0)) = Inr l' \<and> dget (lg_projects l') ''p'' = Some r' \<and>
    0 \<le> (5 :: int) \<and> 5 \<le> rs_bytes x \<and> pr_used_bytes r' = pr_used_bytes r + 5 \<and>
    active_reserved r' = active_reserved r - rs_bytes x \<and> pr_limit_bytes r' = pr_limit_bytes r \<and>
    commit env0 ''p'' ''r'' (JInt 5) ''a'' (snd (commit env0 ''p'' ''r'' (JInt 5) ''a'' file0)) =
      (Inl (Refused ''PROJECT_CAPACITY_RESERVATION_UNKNOWN'' []), snd (commit env0 ''p'' ''r'' (JInt 5) ''a'' file0))"
proof -
  have "\<not> Sum_Type.isl (fst (commit env0 ''p'' ''r'' (JInt 5) ''a'' file0))" by code_simp
  then obtain v where "commit env0 ''p'' ''r'' (JInt 5) ''a'' file0 = (Inr v, snd (commit env0 ''p'' ''r'' (JInt 5) ''a'' file0))"
    using succeeded by blast
  then show ?thesis by (rule commit_moves_bytes)
qed

lemma load_refused_code:
  assumes "load ev f = Inl (Refused code d)" shows "code = ''PROJECT_CAPACITY_LEDGER_INVALID''"
proof -
  have pos: "code = c" if "positive_int v m c = Inl (Refused code d)" for v m c
    using that by (auto simp: positive_int_def split: json.splits if_splits)
  have json: "json_bool no_ledger v \<noteq> Inl (Refused code d)" "json_int no_ledger v \<noteq> Inl (Refused code d)"
    "json_str no_ledger v \<noteq> Inl (Refused code d)" "json_list no_ledger v \<noteq> Inl (Refused code d)"
    "json_dict no_ledger v \<noteq> Inl (Refused code d)" "parse_iso ev v \<noteq> Inl (Refused code d)"
    "opt_str v \<noteq> Inl (Refused code d)" "validate_used v \<noteq> Inl (Refused code d)" for v
    by (auto simp: json_bool_def json_int_def json_str_def json_list_def json_dict_def parse_iso_def opt_str_def
        validate_used_def sbind_Inl_iff split: json.splits option.splits sum.splits if_splits)
  have rs: "code = ''PROJECT_CAPACITY_LEDGER_INVALID''" if "validate_reservation ev v = Inl (Refused code d)" for v
    using that by (auto simp: validate_reservation_def sbind_Inl_iff json dest: pos)
  have fold: "code = ''PROJECT_CAPACITY_LEDGER_INVALID''"
    if "sfold (\<lambda>acc (k, x). sbind (g k x) (\<lambda>y. Inr (dset acc k y))) acc xs = Inl (Refused code d)"
      "\<And>k x. g k x = Inl (Refused code d) \<Longrightarrow> code = ''PROJECT_CAPACITY_LEDGER_INVALID''"
    for g :: "string \<Rightarrow> json \<Rightarrow> capacity_error + 'b" and acc xs
    using that by (induction xs arbitrary: acc) (auto simp: sbind_Inl_iff)
  have entries: "smap validate_audit_entry xs \<noteq> Inl (Refused code d)" for xs
    by (induction xs) (auto simp: sbind_Inl_iff validate_audit_entry_def json)
  have rec: "code = ''PROJECT_CAPACITY_LEDGER_INVALID''" if "validate_record ev k v = Inl (Refused code d)" for k v
    using that by (auto simp: validate_record_def sbind_Inl_iff json validate_reservations_def validate_unknown_def
        validate_audit_def validate_reconciled_at_def entries dest: pos fold [OF _ rs] split: if_splits)
  show ?thesis using assms
    by (auto simp: load_def load_json_def sbind_Inl_iff json dest: fold [OF _ rec] split: ledger_file.splits)
qed

text \<open>What a failing write leaves: nothing, or the new document, which then does not load.\<close>

lemma finish_fails_doc:
  assumes "finish ev pid data record f = (Inl e, f')"
  shows "f' = f \<or> f' = Doc (ledger_json (canon (put_record data pid record))) \<and> load ev f' = Inl e"
  using assms by (auto simp: finish_def write_ledger_def Let_def sbind_Inl_iff split: if_splits prod.splits)

text \<open>C26: A call that raises leaves the file exactly as it was, with one exception that is the code's
  own: the guards had accepted the call, the new document has replaced the file, and reading that
  document back raised the very error the caller sees. So a refusal with any code but
  PROJECT_CAPACITY_LEDGER_INVALID, which only the reader of the file raises, leaves the file alone;
  and a ledger that cannot be read is never overwritten: every call on it raises and leaves it in
  place.\<close>
theorem refusals_leave_the_file:
  assumes "run_call ev ow pid c f = (res, f')"
  shows "(\<forall>e. res = Inl e \<longrightarrow> f' = f \<or>
      (\<exists>data record. plan_call ev ow pid c f = Inr (data, record) \<and>
        f' = Doc (ledger_json (canon (put_record data pid record))) \<and> load ev f' = Inl e)) \<and>
    (\<forall>code d. res = Inl (Refused code d) \<and> code \<noteq> ''PROJECT_CAPACITY_LEDGER_INVALID'' \<longrightarrow> f' = f) \<and>
    (\<forall>e. load ev f = Inl e \<longrightarrow> f' = f \<and> (\<exists>e'. res = Inl e'))"
proof (intro conjI allI impI)
  show cases: "f' = f \<or> (\<exists>data record. plan_call ev ow pid c f = Inr (data, record) \<and>
      f' = Doc (ledger_json (canon (put_record data pid record))) \<and> load ev f' = Inl e)" if "res = Inl e" for e
    using assms that finish_fails_doc by (fastforce simp: run_call_plan split: sum.splits)
  show "f' = f" if "res = Inl (Refused code d) \<and> code \<noteq> ''PROJECT_CAPACITY_LEDGER_INVALID''" for code d
    using cases [of "Refused code d"] that load_refused_code by blast
next
  fix e assume "load ev f = Inl e"
  then have "\<exists>e'. plan_call ev ow pid c f = Inl e'"
    using plan_loads by (cases "plan_call ev ow pid c f") fastforce+
  then have "f' = f \<and> (\<exists>e'. res = Inl e')" using assms by (auto simp: run_call_plan)
  then show "f' = f" and "\<exists>e'. res = Inl e'" by blast+
qed

text \<open>C27: Round trip of the file: a well-formed ledger that fits the size bound, written and loaded,
  comes back with its dictionaries sorted by key and nothing else changed; and no other written ledger
  loads.\<close>
theorem ledger_roundtrip:
  assumes "distinct (dkeys (lg_projects l))" "\<forall>r \<in> set (dvals (lg_projects l)). distinct (dkeys (pr_reservations r))"
  shows "load ev (Doc (ledger_json (canon l))) = Inr l' \<longleftrightarrow>
    l' = canon l \<and> ledger_ok ev (canon l) \<and> ev_payload_size ev (ledger_json (canon l)) \<le> max_file_bytes"
  using load_ledger_json [OF distinct_canon [OF assms(1)] canon_records_distinct [OF assms(2)]]
  by (simp add: load_def)

definition ledger0 :: ledger where "ledger0 = \<lparr>lg_version = 3, lg_projects = [(''p'', record0)]\<rparr>"

lemma ledger_roundtrip_witness:
  "load env0 (Doc (ledger_json (canon ledger0))) = Inr (canon ledger0)"
proof -
  have l: "ledger_ok env0 (canon ledger0)"
    by (simp add: ledger0_def canon_def canon_record_def ledger_ok_def record_ok_def record0_def reservation_ok_def
        stamp_ok_def env0_def max_limit_bytes_def max_reservation_bytes_def max_audit_entries_def)
  show ?thesis
    by (subst ledger_roundtrip)
      (use l in \<open>simp_all add: ledger0_def record0_def env0_def max_file_bytes_def\<close>)
qed

text \<open>C28: Limit changes are compare-and-swap: a change that succeeds was asked for at the stored version,
  and a second change asked for at that same version is refused.\<close>
theorem limit_change_is_cas:
  assumes "adjust_limit ev ow pid l v lease actor f = (Inr vw, f')"
  shows "\<exists>data data'. load ev f = Inr data \<and> v = JInt (lg_version data) \<and> load ev f' = Inr data' \<and>
    lg_version data' = lg_version data + 1 \<and>
    (\<exists>e. adjust_limit ev ow pid l' v lease' actor' f' = (Inl e, f'))"
proof -
  have "run_call ev ow pid (Adjust l v lease actor) f = (Inr vw, f')" using assms by (simp add: run_call_def)
  then obtain data rc where *: "plan_call ev ow pid (Adjust l v lease actor) f = Inr (data, rc)"
    "load ev f = Inr data" "load ev f' = Inr (canon (put_record data pid rc))"
    by (rule run_ok)
  have v: "v = JInt (lg_version data)"
    using *(1) by (auto simp: plan_call_def sbind_Inr_iff adjust_record_def Let_def split: if_splits)
  have ver: "lg_version (canon (put_record data pid rc)) = lg_version data + 1" by (simp add: put_record_def)
  have "\<exists>e. plan_call ev ow pid (Adjust l' v lease' actor') f' = Inl e"
  proof (cases "plan_call ev ow pid (Adjust l' v lease' actor') f'")
    case (Inr p)
    then have "v = JInt (lg_version (canon (put_record data pid rc)))"
      using *(3) by (auto simp: plan_call_def sbind_Inr_iff adjust_record_def Let_def split: if_splits)
    then show ?thesis using v ver by simp
  qed simp
  then obtain e where "run_call ev ow pid (Adjust l' v lease' actor') f' = (Inl e, f')"
    by (auto simp: run_call_plan)
  then have "adjust_limit ev ow pid l' v lease' actor' f' = (Inl e, f')" by (simp add: run_call_def)
  then show ?thesis using * v ver by blast
qed

definition lease0 :: json where
  "lease0 = JDict [(''novel_id'', JStr ''p''), (''incarnation'', JStr ''i'')]"

lemma limit_change_is_cas_witness:
  "\<exists>data data'. load env0 file0 = Inr data \<and> JInt 3 = JInt (lg_version data) \<and>
    load env0 (snd (adjust_limit env0 owner0 ''p'' (JInt 10) (JInt 3) lease0 ''a'' file0)) = Inr data' \<and>
    lg_version data' = lg_version data + 1 \<and>
    (\<exists>e. adjust_limit env0 owner0 ''p'' (JInt 20) (JInt 3) lease0 ''b''
       (snd (adjust_limit env0 owner0 ''p'' (JInt 10) (JInt 3) lease0 ''a'' file0)) =
       (Inl e, snd (adjust_limit env0 owner0 ''p'' (JInt 10) (JInt 3) lease0 ''a'' file0)))"
proof -
  have "\<not> Sum_Type.isl (fst (adjust_limit env0 owner0 ''p'' (JInt 10) (JInt 3) lease0 ''a'' file0))" by code_simp
  then obtain v where "adjust_limit env0 owner0 ''p'' (JInt 10) (JInt 3) lease0 ''a'' file0 =
      (Inr v, snd (adjust_limit env0 owner0 ''p'' (JInt 10) (JInt 3) lease0 ''a'' file0))"
    using succeeded by blast
  then show ?thesis by (rule limit_change_is_cas)
qed

text \<open>C29: The loader bounds used bytes by 4 GiB, but a commit only bounds the committed bytes by the
  reservation and by 2 GiB: committing past 4 GiB replaces the file by one that no call on any
  project can load any more, and the commit itself raises. The document this commit writes is assumed
  to be within the size bound of 1 MiB; otherwise the write is refused beforehand.\<close>
theorem large_commit_bricks_ledger:
  assumes "load ev f = Inr l" "dget (lg_projects l) pid = Some r" "dget (pr_reservations r) rid = Some x"
    and "0 \<le> n" "n \<le> rs_bytes x" "n \<le> 2 * 1024 * 1024 * 1024" "pr_used_bytes r + n > max_reservation_bytes"
    and "\<forall>rc. commit_record ev l pid rid n actor = Inr rc \<longrightarrow>
      ev_payload_size ev (ledger_json (canon (put_record l pid rc))) \<le> max_file_bytes"
  shows "\<exists>e f'. commit ev pid rid (JInt n) actor f = (Inl e, f') \<and> f' \<noteq> f \<and>
    (\<forall>ow p c. \<exists>e'. run_call ev ow p c f' = (Inl e', f'))"
proof -
  obtain rc where rc: "commit_record ev l pid rid n actor = Inr rc" "pr_used_bytes rc = pr_used_bytes r + n"
      "pr_reservations rc = dpop (pr_reservations r) rid"
    using assms(2-6) by (simp add: commit_record_def find_reservation_def)
  let ?l = "canon (put_record l pid rc)"
  have ok: "ledger_ok ev l" by (rule load_ok [OF assms(1)])
  have d: "distinct (dkeys (pr_reservations rc))"
    using ledger_ok_record [OF ok assms(2)] rc(3) by (simp add: record_ok_def)
  have nok: "\<not> ledger_ok ev ?l"
  proof
    assume "ledger_ok ev ?l"
    moreover have "(pid, canon_record rc) \<in> set (lg_projects ?l)"
      by (rule map_of_SomeD) (simp add: put_record_def)
    ultimately have "pr_used_bytes (canon_record rc) \<le> max_reservation_bytes"
      by (auto simp: ledger_ok_def list_all_iff)
    then show False using rc(2) assms(7) by (simp add: canon_record_def)
  qed
  have bad: "\<nexists>l'. load ev (Doc (ledger_json ?l)) = Inr l'"
    unfolding load_written [OF ok d] using nok by simp
  then obtain e where e: "load ev (Doc (ledger_json ?l)) = Inl e"
    by (cases "load ev (Doc (ledger_json ?l))") auto
  have "commit ev pid rid (JInt n) actor f = (Inl e, Doc (ledger_json ?l))"
    using e assms(4) assms(8) [rule_format, OF rc(1)]
    by (simp add: commit_def nonnegative_int_def assms(1) rc(1) finish_def write_ledger_def Let_def)
  moreover have "\<exists>e'. run_call ev ow p c (Doc (ledger_json ?l)) = (Inl e', Doc (ledger_json ?l))" for ow p c
  proof -
    have "\<exists>e'. plan_call ev ow p c (Doc (ledger_json ?l)) = Inl e'"
    proof (cases "plan_call ev ow p c (Doc (ledger_json ?l))")
      case (Inr d)
      then have "load ev (Doc (ledger_json ?l)) = Inr (fst d)" using plan_loads by (metis prod.collapse)
      then show ?thesis using bad by blast
    qed simp
    then show ?thesis by (auto simp: run_call_plan)
  qed
  moreover have "Doc (ledger_json ?l) \<noteq> f" using bad assms(1) by auto
  ultimately show ?thesis by blast
qed

definition big_record :: project_record where
  "big_record = record0\<lparr>pr_limit_bytes := max_limit_bytes, pr_used_bytes := max_reservation_bytes\<rparr>"

definition big_file :: ledger_file where
  "big_file = Doc (ledger_json \<lparr>lg_version = 3, lg_projects = [(''p'', big_record)]\<rparr>)"

lemma large_commit_bricks_ledger_witness:
  "\<exists>e f'. commit env0 ''p'' ''r'' (JInt 1) ''a'' big_file = (Inl e, f') \<and> f' \<noteq> big_file \<and>
    (\<forall>ow p c. \<exists>e'. run_call env0 ow p c f' = (Inl e', f'))"
proof -
  let ?l = "\<lparr>lg_version = 3, lg_projects = [(''p'', big_record)]\<rparr>"
  let ?x = "\<lparr>rs_bytes = 30, rs_created_at = ''t'', rs_expires_at = ''t'', rs_operation = ''op'',
       rs_owner_pid = 1, rs_owner_host = ''h'', rs_actor_id = ''a''\<rparr>"
  have "load env0 big_file = Inr ?l" by code_simp
  then show ?thesis
    by (rule large_commit_bricks_ledger [where r = big_record and x = ?x])
      (simp_all add: big_record_def record0_def max_reservation_bytes_def env0_def max_file_bytes_def)
qed

text \<open>The three cases of \<open>refusals_leave_the_file\<close>: a reservation over the limit on a readable
  ledger, a call on an unreadable one, and the commit that writes a document it cannot read back.\<close>

lemma refusals_leave_the_file_witness:
  "(let (res, f') = run_call env0 owner0 ''p'' (Reserve (JInt 60) ''op'' ''a'' (JInt 900) None) file0
    in (\<exists>d. res = Inl (Refused ''PROJECT_CAPACITY_EXCEEDED'' d)) \<and> f' = file0) \<and>
   run_call env0 owner0 ''p'' (Reserve (JInt 60) ''op'' ''a'' (JInt 900) None) Unreadable = (unavailable, Unreadable) \<and>
   (let (res, f') = run_call env0 owner0 ''p'' (Commit ''r'' (JInt 1) ''a'') big_file
    in f' \<noteq> big_file \<and> (\<exists>e. res = Inl e \<and> load env0 f' = Inl e))"
proof (intro conjI)
  let ?c = "Reserve (JInt 60) ''op'' ''a'' (JInt 900) None"
  obtain res f' where r: "run_call env0 owner0 ''p'' ?c file0 = (res, f')" by fastforce
  have "case fst (run_call env0 owner0 ''p'' ?c file0) of
      Inl (Refused code d) \<Rightarrow> code = ''PROJECT_CAPACITY_EXCEEDED'' | _ \<Rightarrow> False" by code_simp
  then obtain d where d: "res = Inl (Refused ''PROJECT_CAPACITY_EXCEEDED'' d)"
    using r by (auto split: sum.splits capacity_error.splits)
  then have "f' = file0" using refusals_leave_the_file [OF r] by simp
  then show "let (res, f') = run_call env0 owner0 ''p'' ?c file0
    in (\<exists>d. res = Inl (Refused ''PROJECT_CAPACITY_EXCEEDED'' d)) \<and> f' = file0" using r d by simp
  obtain res f' where u: "run_call env0 owner0 ''p'' ?c Unreadable = (res, f')" by fastforce
  have "load env0 Unreadable = unavailable" by (simp add: load_def)
  then have "f' = Unreadable" using refusals_leave_the_file [OF u] by blast
  moreover have "fst (run_call env0 owner0 ''p'' ?c Unreadable) = unavailable"
    by (simp add: run_call_def reserve_def positive_int_def max_reservation_bytes_def load_def)
  ultimately show "run_call env0 owner0 ''p'' ?c Unreadable = (unavailable, Unreadable)" using u by simp
  let ?b = "Commit ''r'' (JInt 1) ''a''"
  obtain res f' where b: "run_call env0 owner0 ''p'' ?b big_file = (res, f')" by fastforce
  have "Sum_Type.isl (fst (run_call env0 owner0 ''p'' ?b big_file))"
    "Sum_Type.isl (load env0 (snd (run_call env0 owner0 ''p'' ?b big_file)))"
    "\<not> Sum_Type.isl (load env0 big_file)" by code_simp+
  then obtain e where e: "res = Inl e" "f' \<noteq> big_file" using b by (auto simp: isl_def)
  then show "let (res, f') = run_call env0 owner0 ''p'' ?b big_file
    in f' \<noteq> big_file \<and> (\<exists>e. res = Inl e \<and> load env0 f' = Inl e)"
    using refusals_leave_the_file [OF b] b by auto
qed

end
