(* ===== verification/Text_Match.thy ===== *)
theory Text_Match
  imports Json
begin

text \<open>
  The regular expressions of the interop boundary. \<open>rx\<close> has the constructs its two secret
  patterns use; \<open>ends\<close> computes every position at which a match that starts at a position can end,
  so \<open>search\<close> is \<open>re.search\<close> and \<open>rx_full\<close> is \<open>re.fullmatch\<close>. Strings are 8-bit, white space
  and word characters are Python's for that range, and \<open>(?i)\<close> compares lower-cased ASCII letters.
  The patterns of the form class, class repeated are predicates on the list of characters.
\<close>

section \<open>Characters\<close>

definition char_code :: "char \<Rightarrow> int" where "char_code c = of_char c"

definition between :: "int \<Rightarrow> int \<Rightarrow> char \<Rightarrow> bool" where
  "between a b c \<longleftrightarrow> a \<le> char_code c \<and> char_code c \<le> b"

definition upper_char :: "char \<Rightarrow> bool" where "upper_char = between 65 90"
definition lower_char :: "char \<Rightarrow> bool" where "lower_char = between 97 122"
definition digit_char :: "char \<Rightarrow> bool" where "digit_char = between 48 57"
definition alnum :: "char \<Rightarrow> bool" where
  "alnum c \<longleftrightarrow> upper_char c \<or> lower_char c \<or> digit_char c"

definition space_char :: "char \<Rightarrow> bool" where
  "space_char c \<longleftrightarrow> char_code c \<in> {9, 10, 11, 12, 13, 28, 29, 30, 31, 32, 133, 160}"

definition word_char :: "char \<Rightarrow> bool" where
  "word_char c \<longleftrightarrow> alnum c \<or> c = CHR ''_'' \<or> char_code c \<in> {170, 178, 179, 181, 185, 186, 188, 189, 190} \<or>
     (192 \<le> char_code c \<and> char_code c \<noteq> 215 \<and> char_code c \<noteq> 247)"

definition lower_ascii :: "char \<Rightarrow> char" where
  "lower_ascii c = (if upper_char c then char_of (char_code c + 32) else c)"

definition one_of :: "string \<Rightarrow> char \<Rightarrow> bool" where "one_of cs c \<longleftrightarrow> c \<in> set cs"

text \<open>\<open>[first][rest]{0,n}\<close> as a full match.\<close>

definition word_form :: "(char \<Rightarrow> bool) \<Rightarrow> (char \<Rightarrow> bool) \<Rightarrow> nat \<Rightarrow> string \<Rightarrow> bool" where
  "word_form P Q n s = (case s of [] \<Rightarrow> False | c # cs \<Rightarrow> P c \<and> list_all Q cs \<and> length cs \<le> n)"

definition sized :: "nat \<Rightarrow> nat \<Rightarrow> 'a list \<Rightarrow> bool" where
  "sized lo hi s \<longleftrightarrow> lo \<le> length s \<and> length s \<le> hi"

text \<open>\<open>s.split(c)\<close> for separators given by a predicate: the pieces between them.\<close>

fun pieces :: "(char \<Rightarrow> bool) \<Rightarrow> string \<Rightarrow> string list" where
  "pieces P [] = [[]]"
| "pieces P (c # cs) = (if P c then [] # pieces P cs
     else (case pieces P cs of [] \<Rightarrow> [[c]] | p # ps \<Rightarrow> (c # p) # ps))"

section \<open>Expressions\<close>

datatype rx =
  Eps
| Sym "char \<Rightarrow> bool"
| Seq rx rx
| Alt rx rx
| Star rx
| Boundary

type_synonym position = "char option \<times> string"

definition at_boundary :: "position \<Rightarrow> bool" where
  "at_boundary p = (let on_left = (case fst p of None \<Rightarrow> False | Some c \<Rightarrow> word_char c);
                        on_right = (case snd p of [] \<Rightarrow> False | c # cs \<Rightarrow> word_char c)
                    in on_left \<noteq> on_right)"

fun repeat_ends :: "(position \<Rightarrow> position list) \<Rightarrow> nat \<Rightarrow> position \<Rightarrow> position list" where
  "repeat_ends f 0 p = [p]"
| "repeat_ends f (Suc n) p = p # concat (map (repeat_ends f n) (filter (\<lambda>q. length (snd q) < length (snd p)) (f p)))"

fun ends :: "rx \<Rightarrow> position \<Rightarrow> position list" where
  "ends Eps p = [p]"
| "ends (Sym P) p = (case snd p of [] \<Rightarrow> [] | c # cs \<Rightarrow> if P c then [(Some c, cs)] else [])"
| "ends (Seq a b) p = concat (map (ends b) (ends a p))"
| "ends (Alt a b) p = ends a p @ ends b p"
| "ends (Star a) p = repeat_ends (ends a) (length (snd p)) p"
| "ends Boundary p = (if at_boundary p then [p] else [])"

fun search_from :: "rx \<Rightarrow> char option \<Rightarrow> string \<Rightarrow> bool" where
  "search_from r prev [] = (ends r (prev, []) \<noteq> [])"
| "search_from r prev (c # cs) = (ends r (prev, c # cs) \<noteq> [] \<or> search_from r (Some c) cs)"

definition search :: "rx \<Rightarrow> string \<Rightarrow> bool" where
  "search r s = search_from r None s"

definition rx_full :: "rx \<Rightarrow> string \<Rightarrow> bool" where
  "rx_full r s = list_ex (\<lambda>p. snd p = []) (ends r (None, s))"

definition lit_ci :: "string \<Rightarrow> rx" where
  "lit_ci s = foldr (\<lambda>c r. Seq (Sym (\<lambda>x. lower_ascii x = c)) r) s Eps"

definition opt :: "rx \<Rightarrow> rx" where "opt r = Alt r Eps"
definition plus :: "rx \<Rightarrow> rx" where "plus r = Seq r (Star r)"
definition at_least :: "nat \<Rightarrow> rx \<Rightarrow> rx" where "at_least n r = foldr Seq (replicate n r) (Star r)"
definition alts :: "rx list \<Rightarrow> rx" where "alts rs = foldr Alt (butlast rs) (last rs)"
definition seqs :: "rx list \<Rightarrow> rx" where "seqs rs = foldr Seq rs Eps"

section \<open>The secret pattern of the wire models\<close>

definition separator :: rx where "separator = opt (Sym (one_of '' _-''))"

definition secret_word :: rx where
  "secret_word = alts
     [seqs [lit_ci ''api'', separator, lit_ci ''key''],
      seqs [lit_ci ''provider'', separator, lit_ci ''secret''],
      seqs [lit_ci ''access'', separator, lit_ci ''token''],
      seqs [lit_ci ''oauth'', separator, lit_ci ''token''],
      lit_ci ''password'',
      seqs [lit_ci ''vault'', separator, lit_ci ''secret''],
      lit_ci ''authorization'', lit_ci ''cookie'', lit_ci ''dsn'']"

definition assigned_secret :: rx where
  "assigned_secret = seqs [Boundary, secret_word, Star (Sym space_char), Sym (one_of '':=''),
     Star (Sym space_char), plus (Sym (\<lambda>c. \<not> space_char c))]"

definition token_char :: "char \<Rightarrow> bool" where "token_char c \<longleftrightarrow> alnum c \<or> one_of ''_-'' c"

definition wire_secret :: rx where
  "wire_secret = alts
     [assigned_secret,
      seqs [Boundary, lit_ci ''sk-'', at_least 16 (Sym token_char)],
      seqs [Boundary, lit_ci ''bearer'', plus (Sym space_char),
        at_least 12 (Sym (\<lambda>c. alnum c \<or> one_of ''._~+/-'' c))],
      seqs [Sym (\<lambda>c. upper_char c \<or> lower_char c), Star (Sym (\<lambda>c. alnum c \<or> one_of ''+.-'' c)), lit_ci ''://'',
        plus (Sym (\<lambda>c. \<not> space_char c \<and> \<not> one_of ''/@'' c)), lit_ci '':'',
        plus (Sym (\<lambda>c. \<not> space_char c \<and> \<not> one_of ''/@'' c)), lit_ci ''@'']]"

section \<open>The secret pattern of persisted identities\<close>

definition key_part :: rx where "key_part = at_least 8 (Sym token_char)"

definition identity_secret :: rx where
  "identity_secret = alts
     [assigned_secret,
      seqs [Boundary, lit_ci ''sk-'', at_least 16 (Sym token_char)],
      seqs [Boundary, lit_ci ''sk_proj_'', at_least 16 (Sym token_char)],
      seqs [Boundary, lit_ci ''gh'', Sym (\<lambda>c. one_of ''pousr'' (lower_ascii c)), lit_ci ''_'',
        at_least 16 (Sym alnum)],
      seqs [Boundary, lit_ci ''github_pat_'', at_least 16 (Sym (\<lambda>c. alnum c \<or> c = CHR ''_''))],
      seqs [Boundary, lit_ci ''xox'', Sym (\<lambda>c. one_of ''baprs'' (lower_ascii c)), lit_ci ''-'',
        at_least 10 (Sym (\<lambda>c. alnum c \<or> c = CHR ''-''))],
      seqs [Boundary, lit_ci ''eyj'', key_part, lit_ci ''.'', key_part, lit_ci ''.'', key_part],
      seqs [Boundary, lit_ci ''bearer'', Sym (one_of '' ._:-''),
        at_least 12 (Sym (\<lambda>c. alnum c \<or> one_of ''._~-'' c))]]"

text \<open>\<open>_reject_secrets\<close>: no string anywhere in the value holds a secret. Keys are not searched.\<close>

fun secret_free :: "json \<Rightarrow> bool" where
  "secret_free (JStr s) = (\<not> search wire_secret s)"
| "secret_free (JDict d) = list_all (\<lambda>kv. secret_free (snd kv)) d"
| "secret_free (JList xs) = list_all secret_free xs"
| "secret_free v = True"

section \<open>What a match needs\<close>

text \<open>A string whose characters cannot supply some symbol of every alternative holds no match, which
  settles most searches without running them.\<close>

fun feasible :: "string \<Rightarrow> rx \<Rightarrow> bool" where
  "feasible cs Eps = True"
| "feasible cs (Sym P) = list_ex P cs"
| "feasible cs (Seq a b) = (feasible cs a \<and> feasible cs b)"
| "feasible cs (Alt a b) = (feasible cs a \<or> feasible cs b)"
| "feasible cs (Star a) = True"
| "feasible cs Boundary = True"

lemma repeat_ends_subset:
  assumes "\<And>p q. q \<in> set (f p) \<Longrightarrow> set (snd q) \<subseteq> set (snd p)"
  shows "q \<in> set (repeat_ends f n p) \<Longrightarrow> set (snd q) \<subseteq> set (snd p)"
  using assms by (induction n arbitrary: p) fastforce+

lemma ends_subset: "q \<in> set (ends r p) \<Longrightarrow> set (snd q) \<subseteq> set (snd p)"
proof (induction r arbitrary: p q)
  case (Sym P)
  then show ?case by (cases "snd p") (auto split: if_splits)
next
  case (Seq a b)
  then obtain x where "x \<in> set (ends a p)" "q \<in> set (ends b x)" by auto
  then show ?case using Seq.IH by blast
next
  case (Star r)
  then show ?case using repeat_ends_subset [of "ends r"] by auto
next
  case (Alt a b)
  then show ?case by (fastforce simp del: split_paired_All)
qed (auto split: if_splits)

lemma feasible_ends: "ends r p \<noteq> [] \<Longrightarrow> set (snd p) \<subseteq> set cs \<Longrightarrow> feasible cs r"
proof (induction r arbitrary: p)
  case (Sym P)
  then show ?case by (auto simp: list_ex_iff split: list.splits if_splits)
next
  case (Seq a b)
  from Seq.prems(1) obtain q where q: "q \<in> set (ends a p)" "ends b q \<noteq> []" by auto
  then have "ends a p \<noteq> []" by auto
  moreover have "set (snd q) \<subseteq> set cs" using ends_subset [OF q(1)] Seq.prems(2) by blast
  ultimately show ?case using Seq.IH q(2) Seq.prems(2) by simp
qed auto

lemma feasible_search: "search_from r prev s \<Longrightarrow> set s \<subseteq> set cs \<Longrightarrow> feasible cs r"
  by (induction r prev s rule: search_from.induct) (fastforce dest: feasible_ends)+

lemma search_code [code]: "search r s \<longleftrightarrow> feasible (remdups s) r \<and> search_from r None s"
  using feasible_search [of r None s "remdups s"] by (auto simp: search_def)

end
