(* ===== verification/Interop_Models.thy ===== *)
theory Interop_Models
  imports Text_Match
begin

text \<open>
  The wire contract of the local interop boundary, \<open>local_interop_protocol/models.py\<close>: the value
  objects. Every class is a record with its fields (prefix of the class before each), every field
  type of the source is a predicate of the same name, and \<open>valid_<class>\<close> is what constructing the
  class checks: the types of its fields and of nested models, its model validators, and
  \<open>reject_secrets\<close> over its JSON dump \<open>dump_<class>\<close>.

  \<^item> Times are UTC instants in microseconds (the validator normalises every offset to UTC).
  \<^item> \<open>wire\<close> holds what the code takes from libraries: the ISO text of an instant, and SHA-256 of the
    canonical text of a JSON value. \<open>canonical_hash\<close> hands it the value with sorted keys.
  \<^item> The two sealed classes have an \<open>unsealed_\<close> part (all checks but the checksum), the context the
    factory builds them in.
\<close>

section \<open>Field types\<close>

definition id_char :: "char \<Rightarrow> bool" where "id_char c \<longleftrightarrow> alnum c \<or> one_of ''._:-'' c"

definition OpaqueId :: "string \<Rightarrow> bool" where "OpaqueId s \<longleftrightarrow> word_form alnum id_char 127 s"

definition ProductId :: "string \<Rightarrow> bool" where
  "ProductId s \<longleftrightarrow> sized 3 128 s \<and>
     (case pieces (one_of ''.-'') s of
        [] \<Rightarrow> False
      | p # ps \<Rightarrow> word_form lower_char (\<lambda>c. lower_char c \<or> digit_char c) 128 p \<and> ps \<noteq> [] \<and>
          list_all (\<lambda>q. q \<noteq> [] \<and> list_all (\<lambda>c. lower_char c \<or> digit_char c) q) ps)"

definition Version :: "string \<Rightarrow> bool" where
  "Version s \<longleftrightarrow> word_form alnum (\<lambda>c. alnum c \<or> one_of ''._+-'' c) 63 s"

definition Hash :: "string \<Rightarrow> bool" where
  "Hash s \<longleftrightarrow> length s = 64 \<and> list_all (\<lambda>c. digit_char c \<or> between 97 102 c) s"

definition Label :: "string \<Rightarrow> bool" where "Label = sized 1 256"
definition ShortText :: "string \<Rightarrow> bool" where "ShortText = sized 1 2048"
definition LongText :: "string \<Rightarrow> bool" where "LongText = sized 1 8192"

definition locator_kinds :: "string list" where
  "locator_kinds = [''app'', ''project'', ''chapter'', ''task'', ''runtime'', ''model'', ''selection'', ''feature'',
     ''interop'', ''diagnostic'', ''user-observation'']"

definition Locator :: "string \<Rightarrow> bool" where
  "Locator s \<longleftrightarrow> length s \<le> 256 \<and>
     (let kind = takeWhile (\<lambda>c. c \<noteq> CHR '':'') s; tail = drop (length kind) s
      in kind \<in> set locator_kinds \<and> tail \<noteq> [] \<and> word_form alnum id_char 191 (tl tail))"

definition int_in :: "int \<Rightarrow> int \<Rightarrow> int \<Rightarrow> bool" where "int_in lo hi n \<longleftrightarrow> lo \<le> n \<and> n \<le> hi"
definition PositiveVersion :: "int \<Rightarrow> bool" where "PositiveVersion = int_in 0 (2 ^ 53 - 1)"

definition token_text :: "nat \<Rightarrow> nat \<Rightarrow> string \<Rightarrow> bool" where
  "token_text lo hi s \<longleftrightarrow> sized lo hi s \<and> list_all token_char s"

definition AdvertisedCapability :: "string \<Rightarrow> bool" where
  "AdvertisedCapability s \<longleftrightarrow> sized 3 128 s \<and>
     (let ps = pieces (one_of ''.'') s
      in 2 \<le> length ps \<and>
         list_all (word_form lower_char (\<lambda>c. lower_char c \<or> digit_char c \<or> one_of ''_-'' c) 128) ps)"

definition CAPABILITIES :: "string list" where
  "CAPABILITIES = [''project.context.read'', ''project.selection.share'', ''project.metadata.read'',
     ''task.status.read'', ''task.error.read'', ''diagnostics.read'', ''model.registry.read'',
     ''model.runtime.status.read'', ''tutor.guidance.request'', ''tutor.guidance.receive'',
     ''verifier.request'', ''verifier.result.receive'', ''case.candidate.create'',
     ''handoff.open_feature'', ''handoff.open_project'', ''handoff.open_task'']"

definition Capability :: "string \<Rightarrow> bool" where "Capability s \<longleftrightarrow> s \<in> set CAPABILITIES"

definition Privacy :: "string \<Rightarrow> bool" where
  "Privacy s \<longleftrightarrow> s \<in> set [
    ''LOCAL_ONLY'', ''REDACTION_REQUIRED'', ''CONSENTED_CLOUD'']"

definition Authority :: "string \<Rightarrow> bool" where
  "Authority s \<longleftrightarrow> s \<in> set [
    ''AUTHORITATIVE'', ''CONSTRAINING'', ''SUPPORTING'', ''ADVISORY'']"

definition ProductRole :: "string \<Rightarrow> bool" where
  "ProductRole s \<longleftrightarrow> s \<in> set [
    ''AI_TUTOR'', ''CREATIVE_STUDIO'', ''DCC'', ''VIDEO_EDITOR'', ''GAME_ENGINE'',
    ''IMAGE_TOOL'', ''AUDIO_TOOL'']"

definition Transport :: "string \<Rightarrow> bool" where
  "Transport s \<longleftrightarrow> s \<in> set [
    ''NAMED_PIPE'', ''LOOPBACK_HTTP'']"

definition ErrorCode :: "string \<Rightarrow> bool" where
  "ErrorCode s \<longleftrightarrow> s \<in> set [
    ''PROTOCOL_INCOMPATIBLE'', ''PRODUCT_NOT_AVAILABLE'', ''CAPABILITY_NOT_SUPPORTED'',
    ''SESSION_REQUIRED'', ''SESSION_REVOKED'', ''PERMISSION_DENIED'',
    ''CONTEXT_NOT_AUTHORIZED'', ''CONTEXT_STALE'', ''SOURCE_CHANGED'',
    ''HANDOFF_TARGET_NOT_FOUND'', ''TUTOR_UNAVAILABLE'', ''VERIFIER_UNAVAILABLE'',
    ''MODEL_NOT_AVAILABLE'', ''TRANSPORT_ERROR'', ''TIMEOUT'', ''CANCELLED'',
    ''INVALID_MESSAGE'']"

definition TaskStatus :: "string \<Rightarrow> bool" where
  "TaskStatus s \<longleftrightarrow> s \<in> set [
    ''PENDING'', ''QUEUED'', ''RUNNING'', ''WAITING'', ''FAILED'', ''COMPLETED'',
    ''CANCELLED'', ''BLOCKED'', ''UNKNOWN'']"

definition RuntimeStatus :: "string \<Rightarrow> bool" where
  "RuntimeStatus s \<longleftrightarrow> s \<in> set [
    ''READY'', ''LOADING'', ''UNAVAILABLE'', ''ERROR'', ''UNKNOWN'']"

definition Modality :: "string \<Rightarrow> bool" where
  "Modality s \<longleftrightarrow> s \<in> set [
    ''TEXT'', ''IMAGE'', ''AUDIO'', ''VIDEO'', ''EMBEDDING'', ''MULTIMODAL'']"

definition ContentLevel :: "string \<Rightarrow> bool" where
  "ContentLevel s \<longleftrightarrow> s \<in> set [
    ''NONE'', ''SELECTED_TEXT'', ''CURRENT_CHAPTER'', ''PROJECT_CONTEXT'']"

definition EventType :: "string \<Rightarrow> bool" where
  "EventType s \<longleftrightarrow> s \<in> set [
    ''PROJECT_OPENED'', ''PROJECT_CLOSED'', ''CHAPTER_OPENED'', ''TASK_STARTED'',
    ''TASK_UPDATED'', ''TASK_FAILED'', ''TASK_COMPLETED'', ''TASK_CANCELLED'',
    ''MODEL_CHANGED'', ''RUNTIME_AVAILABLE'', ''RUNTIME_UNAVAILABLE'', ''VALIDATION_REQUIRED'',
    ''EXPORT_FAILED'', ''WORKFLOW_BLOCKED'']"

definition opt_ok :: "('a \<Rightarrow> bool) \<Rightarrow> 'a option \<Rightarrow> bool" where
  "opt_ok P v = (case v of None \<Rightarrow> True | Some x \<Rightarrow> P x)"

section \<open>Dumps and hashes\<close>

record wire =
  w_utc :: "int \<Rightarrow> string"
  w_sha :: "json \<Rightarrow> string"

definition opt_dump :: "('a \<Rightarrow> json) \<Rightarrow> 'a option \<Rightarrow> json" where
  "opt_dump f v = (case v of None \<Rightarrow> JNull | Some x \<Rightarrow> f x)"

definition time_json :: "wire \<Rightarrow> int \<Rightarrow> json" where "time_json w t = JStr (w_utc w t)"

definition PROTOCOL_NAME :: string where "PROTOCOL_NAME = ''PoemSeed Local Interop''"
definition PROTOCOL_VERSION :: string where "PROTOCOL_VERSION = ''1.0''"

definition protocol_fields :: "(string, json) dict" where
  "protocol_fields = [(''protocol_name'', JStr PROTOCOL_NAME), (''protocol_version'', JStr PROTOCOL_VERSION)]"

definition canonical_hash :: "wire \<Rightarrow> json \<Rightarrow> string list \<Rightarrow> string" where
  "canonical_hash w v excluded = (case v of
     JDict d \<Rightarrow> w_sha w (sort_json (JDict (filter (\<lambda>kv. fst kv \<notin> set excluded) d)))
   | _ \<Rightarrow> w_sha w (sort_json v))"

text \<open>\<open>0 < (expires_at - created_at).total_seconds() <= bound\<close>.\<close>

definition lifetime :: "int \<Rightarrow> int \<Rightarrow> int \<Rightarrow> bool" where
  "lifetime seconds created expires \<longleftrightarrow> 0 < expires - created \<and> expires - created \<le> seconds * 1000000"

definition privacy_rank :: "string \<Rightarrow> nat" where
  "privacy_rank p = (if p = ''CONSENTED_CLOUD'' then 0 else if p = ''REDACTION_REQUIRED'' then 1 else 2)"

definition rank_le :: "string \<Rightarrow> string \<Rightarrow> bool" where "rank_le p q \<longleftrightarrow> privacy_rank p \<le> privacy_rank q"

section \<open>Products, sessions, contexts, models\<close>

record product_descriptor =
  pd_product_id :: string
  pd_display_name :: string
  pd_product_version :: string
  pd_instance_id :: string
  pd_product_role :: string
  pd_protocol_versions :: "string list"
  pd_capabilities :: "string list"

definition dump_product_descriptor :: "wire \<Rightarrow> product_descriptor \<Rightarrow> json" where
  "dump_product_descriptor w x = JDict (protocol_fields @ [
     (''product_id'', JStr (pd_product_id x)),
     (''display_name'', JStr (pd_display_name x)),
     (''product_version'', JStr (pd_product_version x)),
     (''instance_id'', JStr (pd_instance_id x)),
     (''product_role'', JStr (pd_product_role x)),
     (''protocol_versions'', JList (map JStr (pd_protocol_versions x))),
     (''capabilities'', JList (map JStr (pd_capabilities x)))])"

definition valid_product_descriptor :: "wire \<Rightarrow> product_descriptor \<Rightarrow> bool" where
  "valid_product_descriptor w x \<longleftrightarrow>
     ProductId (pd_product_id x) \<and>
     Label (pd_display_name x) \<and>
     Version (pd_product_version x) \<and>
     OpaqueId (pd_instance_id x) \<and>
     ProductRole (pd_product_role x) \<and>
     sized 1 16 (pd_protocol_versions x) \<and> list_all Version (pd_protocol_versions x) \<and>
     sized 0 64 (pd_capabilities x) \<and> list_all AdvertisedCapability (pd_capabilities x) \<and>
     distinct (pd_capabilities x) \<and>
     distinct (pd_protocol_versions x) \<and>
     secret_free (dump_product_descriptor w x)"

record handshake_hello =
  hh_product :: "product_descriptor"
  hh_transport :: string
  hh_session_nonce :: string
  hh_privacy_mode :: string

definition dump_handshake_hello :: "wire \<Rightarrow> handshake_hello \<Rightarrow> json" where
  "dump_handshake_hello w x = JDict (protocol_fields @ [
     (''product'', dump_product_descriptor w (hh_product x)),
     (''transport'', JStr (hh_transport x)),
     (''session_nonce'', JStr (hh_session_nonce x)),
     (''privacy_mode'', JStr (hh_privacy_mode x))])"

definition valid_handshake_hello :: "wire \<Rightarrow> handshake_hello \<Rightarrow> bool" where
  "valid_handshake_hello w x \<longleftrightarrow>
     valid_product_descriptor w (hh_product x) \<and>
     Transport (hh_transport x) \<and>
     token_text 24 128 (hh_session_nonce x) \<and>
     Privacy (hh_privacy_mode x) \<and>
     secret_free (dump_handshake_hello w x)"

record capability_negotiation =
  cn_hello_id :: string
  cn_requested_capabilities :: "string list"
  cn_granted_capabilities :: "string list"

definition dump_capability_negotiation :: "wire \<Rightarrow> capability_negotiation \<Rightarrow> json" where
  "dump_capability_negotiation w x = JDict (protocol_fields @ [
     (''hello_id'', JStr (cn_hello_id x)),
     (''requested_capabilities'', JList (map JStr (cn_requested_capabilities x))),
     (''granted_capabilities'', JList (map JStr (cn_granted_capabilities x)))])"

definition valid_capability_negotiation :: "wire \<Rightarrow> capability_negotiation \<Rightarrow> bool" where
  "valid_capability_negotiation w x \<longleftrightarrow>
     OpaqueId (cn_hello_id x) \<and>
     sized 0 64 (cn_requested_capabilities x) \<and> list_all AdvertisedCapability (cn_requested_capabilities x) \<and>
     sized 0 64 (cn_granted_capabilities x) \<and> list_all Capability (cn_granted_capabilities x) \<and>
     set (cn_granted_capabilities x) \<subseteq> set (cn_requested_capabilities x) \<and>
     distinct (cn_requested_capabilities x) \<and>
     distinct (cn_granted_capabilities x) \<and>
     secret_free (dump_capability_negotiation w x)"

record session_descriptor =
  sd_session_id :: string
  sd_product_id :: string
  sd_instance_id :: string
  sd_peer_product_id :: string
  sd_peer_instance_id :: string
  sd_user_identity :: string
  sd_capabilities :: "string list"
  sd_nonce :: string
  sd_created_at :: int
  sd_expires_at :: int
  sd_transport :: string

definition dump_session_descriptor :: "wire \<Rightarrow> session_descriptor \<Rightarrow> json" where
  "dump_session_descriptor w x = JDict (protocol_fields @ [
     (''session_id'', JStr (sd_session_id x)),
     (''product_id'', JStr (sd_product_id x)),
     (''instance_id'', JStr (sd_instance_id x)),
     (''peer_product_id'', JStr (sd_peer_product_id x)),
     (''peer_instance_id'', JStr (sd_peer_instance_id x)),
     (''user_identity'', JStr (sd_user_identity x)),
     (''capabilities'', JList (map JStr (sd_capabilities x))),
     (''nonce'', JStr (sd_nonce x)),
     (''created_at'', time_json w (sd_created_at x)),
     (''expires_at'', time_json w (sd_expires_at x)),
     (''transport'', JStr (sd_transport x))])"

definition valid_session_descriptor :: "wire \<Rightarrow> session_descriptor \<Rightarrow> bool" where
  "valid_session_descriptor w x \<longleftrightarrow>
     OpaqueId (sd_session_id x) \<and>
     ProductId (sd_product_id x) \<and>
     OpaqueId (sd_instance_id x) \<and>
     ProductId (sd_peer_product_id x) \<and>
     OpaqueId (sd_peer_instance_id x) \<and>
     OpaqueId (sd_user_identity x) \<and>
     sized 0 64 (sd_capabilities x) \<and> list_all Capability (sd_capabilities x) \<and>
     token_text 24 128 (sd_nonce x) \<and>
     Transport (sd_transport x) \<and>
     lifetime 86400 (sd_created_at x) (sd_expires_at x) \<and>
     distinct (sd_capabilities x) \<and>
     secret_free (dump_session_descriptor w x)"

record context_evidence =
  ev_source_id :: string
  ev_source_version :: string
  ev_locator :: string
  ev_content_hash :: string
  ev_timestamp :: int
  ev_authority :: string
  ev_privacy :: string

definition dump_context_evidence :: "wire \<Rightarrow> context_evidence \<Rightarrow> json" where
  "dump_context_evidence w x = JDict ([
     (''source_id'', JStr (ev_source_id x)),
     (''source_version'', JStr (ev_source_version x)),
     (''locator'', JStr (ev_locator x)),
     (''content_hash'', JStr (ev_content_hash x)),
     (''timestamp'', time_json w (ev_timestamp x)),
     (''authority'', JStr (ev_authority x)),
     (''privacy'', JStr (ev_privacy x))])"

definition valid_context_evidence :: "wire \<Rightarrow> context_evidence \<Rightarrow> bool" where
  "valid_context_evidence w x \<longleftrightarrow>
     OpaqueId (ev_source_id x) \<and>
     Version (ev_source_version x) \<and>
     Locator (ev_locator x) \<and>
     Hash (ev_content_hash x) \<and>
     Authority (ev_authority x) \<and>
     Privacy (ev_privacy x) \<and>
     secret_free (dump_context_evidence w x)"

definition privacy_covers :: "string \<Rightarrow> context_evidence list \<Rightarrow> bool" where
  "privacy_covers derived evidence \<longleftrightarrow> list_all (\<lambda>e. rank_le (ev_privacy e) derived) evidence"

record context_content =
  cc_level :: string
  cc_text :: "string option"
  cc_consent_id :: "string option"

definition dump_context_content :: "wire \<Rightarrow> context_content \<Rightarrow> json" where
  "dump_context_content w x = JDict ([
     (''level'', JStr (cc_level x)),
     (''text'', opt_dump JStr (cc_text x)),
     (''consent_id'', opt_dump JStr (cc_consent_id x))])"

definition valid_context_content :: "wire \<Rightarrow> context_content \<Rightarrow> bool" where
  "valid_context_content w x \<longleftrightarrow>
     ContentLevel (cc_level x) \<and>
     opt_ok (sized 1 65536) (cc_text x) \<and>
     opt_ok OpaqueId (cc_consent_id x) \<and>
     (if cc_level x = ''NONE'' then cc_text x = None \<and> cc_consent_id x = None
      else cc_text x \<noteq> None \<and> cc_consent_id x \<noteq> None) \<and>
     (cc_level x = ''SELECTED_TEXT'' \<longrightarrow> opt_ok (\<lambda>t. length t \<le> 16384) (cc_text x)) \<and>
     secret_free (dump_context_content w x)"

record app_context_capsule =
  cx_capsule_id :: string
  cx_source_version :: string
  cx_capsule_hash :: string
  cx_product_id :: string
  cx_product_version :: string
  cx_instance_id :: string
  cx_project_id :: "string option"
  cx_project_version :: "string option"
  cx_workspace_id :: "string option"
  cx_storyline_id :: "string option"
  cx_branch_id :: "string option"
  cx_module :: string
  cx_surface :: string
  cx_chapter_id :: "string option"
  cx_chapter_version :: "int option"
  cx_selection_id :: "string option"
  cx_selection_hash :: "string option"
  cx_task_id :: "string option"
  cx_task_type :: "string option"
  cx_task_status :: "string option"
  cx_runtime_id :: "string option"
  cx_runtime_status :: "string option"
  cx_model_id :: "string option"
  cx_error_code :: "string option"
  cx_privacy_scope :: string
  cx_created_at :: int
  cx_expires_at :: int
  cx_evidence :: "context_evidence list"
  cx_content :: "context_content"

definition dump_app_context_capsule :: "wire \<Rightarrow> app_context_capsule \<Rightarrow> json" where
  "dump_app_context_capsule w x = JDict (protocol_fields @ [
     (''capsule_id'', JStr (cx_capsule_id x)),
     (''source_version'', JStr (cx_source_version x)),
     (''capsule_hash'', JStr (cx_capsule_hash x)),
     (''product_id'', JStr (cx_product_id x)),
     (''product_version'', JStr (cx_product_version x)),
     (''instance_id'', JStr (cx_instance_id x)),
     (''project_id'', opt_dump JStr (cx_project_id x)),
     (''project_version'', opt_dump JStr (cx_project_version x)),
     (''workspace_id'', opt_dump JStr (cx_workspace_id x)),
     (''storyline_id'', opt_dump JStr (cx_storyline_id x)),
     (''branch_id'', opt_dump JStr (cx_branch_id x)),
     (''module'', JStr (cx_module x)),
     (''surface'', JStr (cx_surface x)),
     (''chapter_id'', opt_dump JStr (cx_chapter_id x)),
     (''chapter_version'', opt_dump JInt (cx_chapter_version x)),
     (''selection_id'', opt_dump JStr (cx_selection_id x)),
     (''selection_hash'', opt_dump JStr (cx_selection_hash x)),
     (''task_id'', opt_dump JStr (cx_task_id x)),
     (''task_type'', opt_dump JStr (cx_task_type x)),
     (''task_status'', opt_dump JStr (cx_task_status x)),
     (''runtime_id'', opt_dump JStr (cx_runtime_id x)),
     (''runtime_status'', opt_dump JStr (cx_runtime_status x)),
     (''model_id'', opt_dump JStr (cx_model_id x)),
     (''error_code'', opt_dump JStr (cx_error_code x)),
     (''privacy_scope'', JStr (cx_privacy_scope x)),
     (''created_at'', time_json w (cx_created_at x)),
     (''expires_at'', time_json w (cx_expires_at x)),
     (''evidence'', JList (map (dump_context_evidence w) (cx_evidence x))),
     (''content'', dump_context_content w (cx_content x))])"

definition unsealed_app_context_capsule :: "wire \<Rightarrow> app_context_capsule \<Rightarrow> bool" where
  "unsealed_app_context_capsule w x \<longleftrightarrow>
     OpaqueId (cx_capsule_id x) \<and>
     Version (cx_source_version x) \<and>
     Hash (cx_capsule_hash x) \<and>
     ProductId (cx_product_id x) \<and>
     Version (cx_product_version x) \<and>
     OpaqueId (cx_instance_id x) \<and>
     opt_ok OpaqueId (cx_project_id x) \<and>
     opt_ok Version (cx_project_version x) \<and>
     opt_ok OpaqueId (cx_workspace_id x) \<and>
     opt_ok OpaqueId (cx_storyline_id x) \<and>
     opt_ok OpaqueId (cx_branch_id x) \<and>
     OpaqueId (cx_module x) \<and>
     OpaqueId (cx_surface x) \<and>
     opt_ok OpaqueId (cx_chapter_id x) \<and>
     opt_ok (PositiveVersion) (cx_chapter_version x) \<and>
     opt_ok OpaqueId (cx_selection_id x) \<and>
     opt_ok (Hash) (cx_selection_hash x) \<and>
     opt_ok OpaqueId (cx_task_id x) \<and>
     opt_ok OpaqueId (cx_task_type x) \<and>
     opt_ok (TaskStatus) (cx_task_status x) \<and>
     opt_ok OpaqueId (cx_runtime_id x) \<and>
     opt_ok (RuntimeStatus) (cx_runtime_status x) \<and>
     opt_ok OpaqueId (cx_model_id x) \<and>
     opt_ok OpaqueId (cx_error_code x) \<and>
     Privacy (cx_privacy_scope x) \<and>
     sized 0 64 (cx_evidence x) \<and> list_all (valid_context_evidence w) (cx_evidence x) \<and>
     valid_context_content w (cx_content x) \<and>
     lifetime 3600 (cx_created_at x) (cx_expires_at x) \<and>
     privacy_covers (cx_privacy_scope x) (cx_evidence x) \<and>
     list_all (\<lambda>e. ev_timestamp e \<le> cx_created_at x) (cx_evidence x) \<and>
     distinct (map ev_source_id (cx_evidence x)) \<and>
     (cx_chapter_id x \<noteq> None \<longrightarrow> cx_project_id x \<noteq> None \<and> cx_chapter_version x \<noteq> None) \<and>
     (cx_project_id x \<noteq> None \<longrightarrow> cx_project_version x \<noteq> None) \<and>
     (cc_level (cx_content x) = ''SELECTED_TEXT'' \<longrightarrow> cx_selection_id x \<noteq> None \<and>
        (case (cc_text (cx_content x), cx_selection_hash x) of
           (Some text, Some h) \<Rightarrow> canonical_hash w (JStr text) [] = h | _ \<Rightarrow> False)) \<and>
     (cc_level (cx_content x) = ''CURRENT_CHAPTER'' \<longrightarrow> cx_chapter_id x \<noteq> None) \<and>
     (cc_level (cx_content x) = ''PROJECT_CONTEXT'' \<longrightarrow> cx_project_id x \<noteq> None) \<and>
     secret_free (dump_app_context_capsule w x)"

definition valid_app_context_capsule :: "wire \<Rightarrow> app_context_capsule \<Rightarrow> bool" where
  "valid_app_context_capsule w x \<longleftrightarrow> unsealed_app_context_capsule w x \<and>
     canonical_hash w (dump_app_context_capsule w x) [''capsule_hash''] = cx_capsule_hash x"

record interop_event =
  ie_event_id :: string
  ie_session_id :: string
  ie_sequence :: int
  ie_event_type :: string
  ie_created_at :: int
  ie_context :: "app_context_capsule"

definition dump_interop_event :: "wire \<Rightarrow> interop_event \<Rightarrow> json" where
  "dump_interop_event w x = JDict (protocol_fields @ [
     (''event_id'', JStr (ie_event_id x)),
     (''session_id'', JStr (ie_session_id x)),
     (''sequence'', JInt (ie_sequence x)),
     (''event_type'', JStr (ie_event_type x)),
     (''created_at'', time_json w (ie_created_at x)),
     (''context'', dump_app_context_capsule w (ie_context x))])"

definition valid_interop_event :: "wire \<Rightarrow> interop_event \<Rightarrow> bool" where
  "valid_interop_event w x \<longleftrightarrow>
     OpaqueId (ie_event_id x) \<and>
     OpaqueId (ie_session_id x) \<and>
     int_in 1 (2 ^ 53 - 1) (ie_sequence x) \<and>
     EventType (ie_event_type x) \<and>
     valid_app_context_capsule w (ie_context x) \<and>
     cc_level (cx_content (ie_context x)) = ''NONE'' \<and>
     secret_free (dump_interop_event w x)"

record capability_state =
  cst_capability :: string
  cst_available :: bool

definition dump_capability_state :: "wire \<Rightarrow> capability_state \<Rightarrow> json" where
  "dump_capability_state w x = JDict ([
     (''capability'', JStr (cst_capability x)),
     (''available'', JBool (cst_available x))])"

definition valid_capability_state :: "wire \<Rightarrow> capability_state \<Rightarrow> bool" where
  "valid_capability_state w x \<longleftrightarrow>
     Capability (cst_capability x) \<and>
     secret_free (dump_capability_state w x)"

record diagnostic_capsule =
  dg_diagnostic_id :: string
  dg_source_version :: string
  dg_content_hash :: string
  dg_software_id :: "string option"
  dg_software_version :: "string option"
  dg_feature :: "string option"
  dg_error_code :: "string option"
  dg_task_state :: "string option"
  dg_runtime :: "string option"
  dg_model :: "string option"
  dg_capability_state :: "capability_state list"
  dg_privacy_scope :: string
  dg_created_at :: int
  dg_expires_at :: int
  dg_evidence :: "context_evidence list"
  dg_sanitized :: bool

definition dump_diagnostic_capsule :: "wire \<Rightarrow> diagnostic_capsule \<Rightarrow> json" where
  "dump_diagnostic_capsule w x = JDict (protocol_fields @ [
     (''diagnostic_id'', JStr (dg_diagnostic_id x)),
     (''source_version'', JStr (dg_source_version x)),
     (''content_hash'', JStr (dg_content_hash x)),
     (''software_id'', opt_dump JStr (dg_software_id x)),
     (''software_version'', opt_dump JStr (dg_software_version x)),
     (''feature'', opt_dump JStr (dg_feature x)),
     (''error_code'', opt_dump JStr (dg_error_code x)),
     (''task_state'', opt_dump JStr (dg_task_state x)),
     (''runtime'', opt_dump JStr (dg_runtime x)),
     (''model'', opt_dump JStr (dg_model x)),
     (''capability_state'', JList (map (dump_capability_state w) (dg_capability_state x))),
     (''privacy_scope'', JStr (dg_privacy_scope x)),
     (''created_at'', time_json w (dg_created_at x)),
     (''expires_at'', time_json w (dg_expires_at x)),
     (''evidence'', JList (map (dump_context_evidence w) (dg_evidence x))),
     (''sanitized'', JBool (dg_sanitized x))])"

definition unsealed_diagnostic_capsule :: "wire \<Rightarrow> diagnostic_capsule \<Rightarrow> bool" where
  "unsealed_diagnostic_capsule w x \<longleftrightarrow>
     OpaqueId (dg_diagnostic_id x) \<and>
     Version (dg_source_version x) \<and>
     Hash (dg_content_hash x) \<and>
     opt_ok (ProductId) (dg_software_id x) \<and>
     opt_ok Version (dg_software_version x) \<and>
     opt_ok OpaqueId (dg_feature x) \<and>
     opt_ok OpaqueId (dg_error_code x) \<and>
     opt_ok (TaskStatus) (dg_task_state x) \<and>
     opt_ok OpaqueId (dg_runtime x) \<and>
     opt_ok OpaqueId (dg_model x) \<and>
     sized 0 64 (dg_capability_state x) \<and> list_all (valid_capability_state w) (dg_capability_state x) \<and>
     Privacy (dg_privacy_scope x) \<and>
     sized 0 64 (dg_evidence x) \<and> list_all (valid_context_evidence w) (dg_evidence x) \<and>
     (dg_sanitized x) \<and>
     lifetime 3600 (dg_created_at x) (dg_expires_at x) \<and>
     privacy_covers (dg_privacy_scope x) (dg_evidence x) \<and>
     list_all (\<lambda>e. ev_timestamp e \<le> dg_created_at x) (dg_evidence x) \<and>
     secret_free (dump_diagnostic_capsule w x)"

definition valid_diagnostic_capsule :: "wire \<Rightarrow> diagnostic_capsule \<Rightarrow> bool" where
  "valid_diagnostic_capsule w x \<longleftrightarrow> unsealed_diagnostic_capsule w x \<and>
     canonical_hash w (dump_diagnostic_capsule w x) [''content_hash''] = dg_content_hash x"

record shared_model_descriptor =
  sm_runtime_id :: string
  sm_model_id :: string
  sm_family :: string
  sm_modality :: "string list"
  sm_runtime_type :: string
  sm_local :: bool
  sm_declared_capabilities :: "string list"
  sm_verified_capabilities :: "string list"
  sm_model_version :: "string option"
  sm_model_hash_if_available :: "string option"
  sm_context_window :: "int option"
  sm_compatibility :: "string list"
  sm_availability :: string
  sm_last_validated :: "int option"

definition dump_shared_model_descriptor :: "wire \<Rightarrow> shared_model_descriptor \<Rightarrow> json" where
  "dump_shared_model_descriptor w x = JDict ([
     (''runtime_id'', JStr (sm_runtime_id x)),
     (''model_id'', JStr (sm_model_id x)),
     (''family'', JStr (sm_family x)),
     (''modality'', JList (map JStr (sm_modality x))),
     (''runtime_type'', JStr (sm_runtime_type x)),
     (''local'', JBool (sm_local x)),
     (''declared_capabilities'', JList (map JStr (sm_declared_capabilities x))),
     (''verified_capabilities'', JList (map JStr (sm_verified_capabilities x))),
     (''model_version'', opt_dump JStr (sm_model_version x)),
     (''model_hash_if_available'', opt_dump JStr (sm_model_hash_if_available x)),
     (''context_window'', opt_dump JInt (sm_context_window x)),
     (''compatibility'', JList (map JStr (sm_compatibility x))),
     (''availability'', JStr (sm_availability x)),
     (''last_validated'', opt_dump (time_json w) (sm_last_validated x))])"

definition valid_shared_model_descriptor :: "wire \<Rightarrow> shared_model_descriptor \<Rightarrow> bool" where
  "valid_shared_model_descriptor w x \<longleftrightarrow>
     OpaqueId (sm_runtime_id x) \<and>
     OpaqueId (sm_model_id x) \<and>
     Label (sm_family x) \<and>
     sized 1 6 (sm_modality x) \<and> list_all Modality (sm_modality x) \<and>
     OpaqueId (sm_runtime_type x) \<and>
     sized 0 32 (sm_declared_capabilities x) \<and> list_all OpaqueId (sm_declared_capabilities x) \<and>
     sized 0 32 (sm_verified_capabilities x) \<and> list_all OpaqueId (sm_verified_capabilities x) \<and>
     opt_ok Version (sm_model_version x) \<and>
     opt_ok (Hash) (sm_model_hash_if_available x) \<and>
     opt_ok (int_in 1 (100000000)) (sm_context_window x) \<and>
     sized 0 32 (sm_compatibility x) \<and> list_all OpaqueId (sm_compatibility x) \<and>
     (sm_availability x) \<in> set [''AVAILABLE'', ''UNAVAILABLE'', ''UNKNOWN''] \<and>
     set (sm_verified_capabilities x) \<subseteq> set (sm_declared_capabilities x) \<and>
     secret_free (dump_shared_model_descriptor w x)"

record model_registry =
  mr_models :: "shared_model_descriptor list"
  mr_created_at :: int

definition dump_model_registry :: "wire \<Rightarrow> model_registry \<Rightarrow> json" where
  "dump_model_registry w x = JDict (protocol_fields @ [
     (''models'', JList (map (dump_shared_model_descriptor w) (mr_models x))),
     (''created_at'', time_json w (mr_created_at x))])"

definition valid_model_registry :: "wire \<Rightarrow> model_registry \<Rightarrow> bool" where
  "valid_model_registry w x \<longleftrightarrow>
     sized 0 256 (mr_models x) \<and> list_all (valid_shared_model_descriptor w) (mr_models x) \<and>
     secret_free (dump_model_registry w x)"

end
