(* ===== verification/Interop_Messages.thy ===== *)
theory Interop_Messages
  imports Interop_Models
begin

text \<open>
  The wire contract of the local interop boundary, \<open>local_interop_protocol/models.py\<close>: requests,
  guidance, verification, cases, and the transport envelopes that tie an operation to the type of
  its payload.
\<close>

section \<open>Requests, guidance, verification\<close>

record task_requirement =
  tr_task_type :: string
  tr_required_modality :: "string list"
  tr_estimated_context :: int
  tr_privacy :: string
  tr_quality_priority :: int
  tr_latency_priority :: int
  tr_cost_priority :: int

definition dump_task_requirement :: "wire \<Rightarrow> task_requirement \<Rightarrow> json" where
  "dump_task_requirement w x = JDict ([
     (''task_type'', JStr (tr_task_type x)),
     (''required_modality'', JList (map JStr (tr_required_modality x))),
     (''estimated_context'', JInt (tr_estimated_context x)),
     (''privacy'', JStr (tr_privacy x)),
     (''quality_priority'', JInt (tr_quality_priority x)),
     (''latency_priority'', JInt (tr_latency_priority x)),
     (''cost_priority'', JInt (tr_cost_priority x))])"

definition valid_task_requirement :: "wire \<Rightarrow> task_requirement \<Rightarrow> bool" where
  "valid_task_requirement w x \<longleftrightarrow>
     OpaqueId (tr_task_type x) \<and>
     sized 1 6 (tr_required_modality x) \<and> list_all Modality (tr_required_modality x) \<and>
     int_in 0 (100000000) (tr_estimated_context x) \<and>
     Privacy (tr_privacy x) \<and>
     int_in 0 (100) (tr_quality_priority x) \<and>
     int_in 0 (100) (tr_latency_priority x) \<and>
     int_in 0 (100) (tr_cost_priority x) \<and>
     secret_free (dump_task_requirement w x)"

record handoff_target =
  ht_action :: string
  ht_target_product_id :: string
  ht_feature :: "string option"
  ht_project_id :: "string option"
  ht_chapter_id :: "string option"
  ht_task_id :: "string option"
  ht_session_id :: "string option"
  ht_source_version :: "string option"

text \<open>\<open>action_shape\<close>: the fields a handoff carries are those its action means.\<close>

definition handoff_field :: "string \<Rightarrow> string" where
  "handoff_field action = (if action = ''OPEN_FEATURE'' then ''feature'' else if action = ''OPEN_PROJECT'' then ''project_id''
     else if action = ''OPEN_TASK'' then ''task_id'' else if action = ''OPEN_CHAPTER'' then ''chapter_id'' else ''session_id'')"

definition handoff_targets :: "handoff_target \<Rightarrow> string list" where
  "handoff_targets x = map fst (filter (\<lambda>kv. snd kv \<noteq> None)
     [(''feature'', ht_feature x), (''project_id'', ht_project_id x), (''chapter_id'', ht_chapter_id x),
      (''task_id'', ht_task_id x), (''session_id'', ht_session_id x)])"

definition action_shape :: "handoff_target \<Rightarrow> bool" where
  "action_shape x \<longleftrightarrow>
     (let required = handoff_field (ht_action x); targets = handoff_targets x;
          allowed = required # (if ht_action x \<in> {''OPEN_TASK'', ''OPEN_CHAPTER''} then [''project_id''] else [])
      in required \<in> set targets \<and> set targets \<subseteq> set allowed \<and>
         (ht_action x \<in> {''OPEN_PROJECT'', ''OPEN_TASK'', ''OPEN_CHAPTER''} \<longrightarrow> ht_source_version x \<noteq> None))"

definition dump_handoff_target :: "wire \<Rightarrow> handoff_target \<Rightarrow> json" where
  "dump_handoff_target w x = JDict ([
     (''action'', JStr (ht_action x)),
     (''target_product_id'', JStr (ht_target_product_id x)),
     (''feature'', opt_dump JStr (ht_feature x)),
     (''project_id'', opt_dump JStr (ht_project_id x)),
     (''chapter_id'', opt_dump JStr (ht_chapter_id x)),
     (''task_id'', opt_dump JStr (ht_task_id x)),
     (''session_id'', opt_dump JStr (ht_session_id x)),
     (''source_version'', opt_dump JStr (ht_source_version x))])"

definition valid_handoff_target :: "wire \<Rightarrow> handoff_target \<Rightarrow> bool" where
  "valid_handoff_target w x \<longleftrightarrow>
     (ht_action x) \<in> set [''OPEN_FEATURE'', ''OPEN_PROJECT'', ''OPEN_TASK'', ''OPEN_CHAPTER'', ''OPEN_SESSION''] \<and>
     ProductId (ht_target_product_id x) \<and>
     opt_ok OpaqueId (ht_feature x) \<and>
     opt_ok OpaqueId (ht_project_id x) \<and>
     opt_ok OpaqueId (ht_chapter_id x) \<and>
     opt_ok OpaqueId (ht_task_id x) \<and>
     opt_ok OpaqueId (ht_session_id x) \<and>
     opt_ok Version (ht_source_version x) \<and>
     action_shape x \<and>
     secret_free (dump_handoff_target w x)"

record handoff_request =
  hr_request_id :: string
  hr_session_id :: string
  hr_target :: "handoff_target"
  hr_user_gesture_id :: string

definition dump_handoff_request :: "wire \<Rightarrow> handoff_request \<Rightarrow> json" where
  "dump_handoff_request w x = JDict (protocol_fields @ [
     (''request_id'', JStr (hr_request_id x)),
     (''session_id'', JStr (hr_session_id x)),
     (''target'', dump_handoff_target w (hr_target x)),
     (''user_gesture_id'', JStr (hr_user_gesture_id x))])"

definition valid_handoff_request :: "wire \<Rightarrow> handoff_request \<Rightarrow> bool" where
  "valid_handoff_request w x \<longleftrightarrow>
     OpaqueId (hr_request_id x) \<and>
     OpaqueId (hr_session_id x) \<and>
     valid_handoff_target w (hr_target x) \<and>
     OpaqueId (hr_user_gesture_id x) \<and>
     secret_free (dump_handoff_request w x)"

record handoff_result =
  hres_request_id :: string
  hres_session_id :: string
  hres_status :: string
  hres_error_code :: "string option"

definition dump_handoff_result :: "wire \<Rightarrow> handoff_result \<Rightarrow> json" where
  "dump_handoff_result w x = JDict (protocol_fields @ [
     (''request_id'', JStr (hres_request_id x)),
     (''session_id'', JStr (hres_session_id x)),
     (''status'', JStr (hres_status x)),
     (''error_code'', opt_dump JStr (hres_error_code x))])"

definition valid_handoff_result :: "wire \<Rightarrow> handoff_result \<Rightarrow> bool" where
  "valid_handoff_result w x \<longleftrightarrow>
     OpaqueId (hres_request_id x) \<and>
     OpaqueId (hres_session_id x) \<and>
     (hres_status x) \<in> set [''OPENED'', ''REJECTED''] \<and>
     opt_ok (ErrorCode) (hres_error_code x) \<and>
     ((hres_status x = ''REJECTED'') = (hres_error_code x \<noteq> None)) \<and>
     secret_free (dump_handoff_result w x)"

record verification_condition =
  vc_field :: string
  vc_operator :: string
  vc_expected_value :: "(string + int)"
  vc_source_id :: string

definition value_shape :: "verification_condition \<Rightarrow> bool" where
  "value_shape x \<longleftrightarrow>
     (let numeric = (vc_field x = ''chapter_version'')
      in numeric = (case vc_expected_value x of Inl s \<Rightarrow> False | Inr n \<Rightarrow> True) \<and>
         (\<not> numeric \<longrightarrow> vc_operator x \<noteq> ''GTE'') \<and>
         (vc_field x = ''runtime_status'' \<longrightarrow> (case vc_expected_value x of Inl s \<Rightarrow> RuntimeStatus s | Inr n \<Rightarrow> False)) \<and>
         (vc_field x = ''task_status'' \<longrightarrow> (case vc_expected_value x of Inl s \<Rightarrow> TaskStatus s | Inr n \<Rightarrow> False)))"

definition dump_verification_condition :: "wire \<Rightarrow> verification_condition \<Rightarrow> json" where
  "dump_verification_condition w x = JDict ([
     (''field'', JStr (vc_field x)),
     (''operator'', JStr (vc_operator x)),
     (''expected_value'', (case (vc_expected_value x) of Inl s \<Rightarrow> JStr s | Inr n \<Rightarrow> JInt n)),
     (''source_id'', JStr (vc_source_id x))])"

definition valid_verification_condition :: "wire \<Rightarrow> verification_condition \<Rightarrow> bool" where
  "valid_verification_condition w x \<longleftrightarrow>
     (vc_field x) \<in> set [''runtime_status'', ''task_status'', ''project_version'', ''chapter_version''] \<and>
     (vc_operator x) \<in> set [''EQ'', ''NE'', ''GTE''] \<and>
     (case (vc_expected_value x) of Inl s \<Rightarrow> Version s | Inr n \<Rightarrow> PositiveVersion n) \<and>
     OpaqueId (vc_source_id x) \<and>
     value_shape x \<and>
     secret_free (dump_verification_condition w x)"

record guidance_step =
  gs_step_id :: string
  gs_instruction :: string
  gs_handoff :: "handoff_target option"

definition dump_guidance_step :: "wire \<Rightarrow> guidance_step \<Rightarrow> json" where
  "dump_guidance_step w x = JDict ([
     (''step_id'', JStr (gs_step_id x)),
     (''instruction'', JStr (gs_instruction x)),
     (''handoff'', opt_dump (dump_handoff_target w) (gs_handoff x))])"

definition valid_guidance_step :: "wire \<Rightarrow> guidance_step \<Rightarrow> bool" where
  "valid_guidance_step w x \<longleftrightarrow>
     OpaqueId (gs_step_id x) \<and>
     ShortText (gs_instruction x) \<and>
     opt_ok (valid_handoff_target w) (gs_handoff x) \<and>
     secret_free (dump_guidance_step w x)"

record guidance_reference =
  gr_source_id :: string
  gr_label :: string
  gr_locator :: string

definition dump_guidance_reference :: "wire \<Rightarrow> guidance_reference \<Rightarrow> json" where
  "dump_guidance_reference w x = JDict ([
     (''source_id'', JStr (gr_source_id x)),
     (''label'', JStr (gr_label x)),
     (''locator'', JStr (gr_locator x))])"

definition valid_guidance_reference :: "wire \<Rightarrow> guidance_reference \<Rightarrow> bool" where
  "valid_guidance_reference w x \<longleftrightarrow>
     OpaqueId (gr_source_id x) \<and>
     Label (gr_label x) \<and>
     Locator (gr_locator x) \<and>
     secret_free (dump_guidance_reference w x)"

record model_recommendation =
  rec_runtime_id :: string
  rec_model_id :: string
  rec_reason :: string
  rec_authority :: string

definition dump_model_recommendation :: "wire \<Rightarrow> model_recommendation \<Rightarrow> json" where
  "dump_model_recommendation w x = JDict ([
     (''runtime_id'', JStr (rec_runtime_id x)),
     (''model_id'', JStr (rec_model_id x)),
     (''reason'', JStr (rec_reason x)),
     (''authority'', JStr (rec_authority x))])"

definition valid_model_recommendation :: "wire \<Rightarrow> model_recommendation \<Rightarrow> bool" where
  "valid_model_recommendation w x \<longleftrightarrow>
     OpaqueId (rec_runtime_id x) \<and>
     OpaqueId (rec_model_id x) \<and>
     ShortText (rec_reason x) \<and>
     (rec_authority x) \<in> set [''ADVISORY''] \<and>
     secret_free (dump_model_recommendation w x)"

record tutor_request =
  tq_request_id :: string
  tq_session_id :: string
  tq_context :: "app_context_capsule"
  tq_question :: "string option"
  tq_diagnostic :: "diagnostic_capsule option"
  tq_task_requirement :: "task_requirement option"

definition dump_tutor_request :: "wire \<Rightarrow> tutor_request \<Rightarrow> json" where
  "dump_tutor_request w x = JDict (protocol_fields @ [
     (''request_id'', JStr (tq_request_id x)),
     (''session_id'', JStr (tq_session_id x)),
     (''context'', dump_app_context_capsule w (tq_context x)),
     (''question'', opt_dump JStr (tq_question x)),
     (''diagnostic'', opt_dump (dump_diagnostic_capsule w) (tq_diagnostic x)),
     (''task_requirement'', opt_dump (dump_task_requirement w) (tq_task_requirement x))])"

definition valid_tutor_request :: "wire \<Rightarrow> tutor_request \<Rightarrow> bool" where
  "valid_tutor_request w x \<longleftrightarrow>
     OpaqueId (tq_request_id x) \<and>
     OpaqueId (tq_session_id x) \<and>
     valid_app_context_capsule w (tq_context x) \<and>
     opt_ok ShortText (tq_question x) \<and>
     opt_ok (valid_diagnostic_capsule w) (tq_diagnostic x) \<and>
     opt_ok (valid_task_requirement w) (tq_task_requirement x) \<and>
     opt_ok (\<lambda>r. rank_le (cx_privacy_scope (tq_context x)) (tr_privacy r)) (tq_task_requirement x) \<and>
     secret_free (dump_tutor_request w x)"

record tutor_guidance =
  tg_request_id :: string
  tg_session_id :: string
  tg_guidance_id :: string
  tg_summary :: string
  tg_diagnosis :: string
  tg_steps :: "guidance_step list"
  tg_warnings :: "string list"
  tg_references :: "guidance_reference list"
  tg_verification_condition :: "verification_condition option"
  tg_recommended_model :: "model_recommendation option"
  tg_privacy_scope :: string
  tg_created_at :: int
  tg_authority :: string

definition dump_tutor_guidance :: "wire \<Rightarrow> tutor_guidance \<Rightarrow> json" where
  "dump_tutor_guidance w x = JDict (protocol_fields @ [
     (''request_id'', JStr (tg_request_id x)),
     (''session_id'', JStr (tg_session_id x)),
     (''guidance_id'', JStr (tg_guidance_id x)),
     (''summary'', JStr (tg_summary x)),
     (''diagnosis'', JStr (tg_diagnosis x)),
     (''steps'', JList (map (dump_guidance_step w) (tg_steps x))),
     (''warnings'', JList (map JStr (tg_warnings x))),
     (''references'', JList (map (dump_guidance_reference w) (tg_references x))),
     (''verification_condition'', opt_dump (dump_verification_condition w) (tg_verification_condition x)),
     (''recommended_model'', opt_dump (dump_model_recommendation w) (tg_recommended_model x)),
     (''privacy_scope'', JStr (tg_privacy_scope x)),
     (''created_at'', time_json w (tg_created_at x)),
     (''authority'', JStr (tg_authority x))])"

definition valid_tutor_guidance :: "wire \<Rightarrow> tutor_guidance \<Rightarrow> bool" where
  "valid_tutor_guidance w x \<longleftrightarrow>
     OpaqueId (tg_request_id x) \<and>
     OpaqueId (tg_session_id x) \<and>
     OpaqueId (tg_guidance_id x) \<and>
     ShortText (tg_summary x) \<and>
     LongText (tg_diagnosis x) \<and>
     sized 0 32 (tg_steps x) \<and> list_all (valid_guidance_step w) (tg_steps x) \<and>
     sized 0 16 (tg_warnings x) \<and> list_all ShortText (tg_warnings x) \<and>
     sized 0 32 (tg_references x) \<and> list_all (valid_guidance_reference w) (tg_references x) \<and>
     opt_ok (valid_verification_condition w) (tg_verification_condition x) \<and>
     opt_ok (valid_model_recommendation w) (tg_recommended_model x) \<and>
     Privacy (tg_privacy_scope x) \<and>
     (tg_authority x) \<in> set [''ADVISORY''] \<and>
     secret_free (dump_tutor_guidance w x)"

record verifier_request =
  vq_request_id :: string
  vq_session_id :: string
  vq_guidance_id :: string
  vq_condition :: "verification_condition"
  vq_context :: "app_context_capsule"

definition dump_verifier_request :: "wire \<Rightarrow> verifier_request \<Rightarrow> json" where
  "dump_verifier_request w x = JDict (protocol_fields @ [
     (''request_id'', JStr (vq_request_id x)),
     (''session_id'', JStr (vq_session_id x)),
     (''guidance_id'', JStr (vq_guidance_id x)),
     (''condition'', dump_verification_condition w (vq_condition x)),
     (''context'', dump_app_context_capsule w (vq_context x))])"

definition valid_verifier_request :: "wire \<Rightarrow> verifier_request \<Rightarrow> bool" where
  "valid_verifier_request w x \<longleftrightarrow>
     OpaqueId (vq_request_id x) \<and>
     OpaqueId (vq_session_id x) \<and>
     OpaqueId (vq_guidance_id x) \<and>
     valid_verification_condition w (vq_condition x) \<and>
     valid_app_context_capsule w (vq_context x) \<and>
     secret_free (dump_verifier_request w x)"

record verifier_result =
  vr_request_id :: string
  vr_session_id :: string
  vr_result_id :: string
  vr_status :: string
  vr_reason :: string
  vr_evidence :: "context_evidence list"
  vr_privacy_scope :: string
  vr_created_at :: int

definition dump_verifier_result :: "wire \<Rightarrow> verifier_result \<Rightarrow> json" where
  "dump_verifier_result w x = JDict (protocol_fields @ [
     (''request_id'', JStr (vr_request_id x)),
     (''session_id'', JStr (vr_session_id x)),
     (''result_id'', JStr (vr_result_id x)),
     (''status'', JStr (vr_status x)),
     (''reason'', JStr (vr_reason x)),
     (''evidence'', JList (map (dump_context_evidence w) (vr_evidence x))),
     (''privacy_scope'', JStr (vr_privacy_scope x)),
     (''created_at'', time_json w (vr_created_at x))])"

definition valid_verifier_result :: "wire \<Rightarrow> verifier_result \<Rightarrow> bool" where
  "valid_verifier_result w x \<longleftrightarrow>
     OpaqueId (vr_request_id x) \<and>
     OpaqueId (vr_session_id x) \<and>
     OpaqueId (vr_result_id x) \<and>
     (vr_status x) \<in> set [''VERIFIED'', ''PARTIAL'', ''FAILED'', ''UNKNOWN''] \<and>
     ShortText (vr_reason x) \<and>
     sized 0 64 (vr_evidence x) \<and> list_all (valid_context_evidence w) (vr_evidence x) \<and>
     Privacy (vr_privacy_scope x) \<and>
     privacy_covers (vr_privacy_scope x) (vr_evidence x) \<and>
     (vr_status x = ''VERIFIED'' \<longrightarrow> list_ex (\<lambda>e. ev_authority e = ''AUTHORITATIVE'') (vr_evidence x)) \<and>
     secret_free (dump_verifier_result w x)"

record case_environment =
  ce_product_id :: string
  ce_product_version :: string
  ce_module :: string
  ce_runtime_id :: "string option"
  ce_model_id :: "string option"
  ce_task_type :: "string option"

definition dump_case_environment :: "wire \<Rightarrow> case_environment \<Rightarrow> json" where
  "dump_case_environment w x = JDict ([
     (''product_id'', JStr (ce_product_id x)),
     (''product_version'', JStr (ce_product_version x)),
     (''module'', JStr (ce_module x)),
     (''runtime_id'', opt_dump JStr (ce_runtime_id x)),
     (''model_id'', opt_dump JStr (ce_model_id x)),
     (''task_type'', opt_dump JStr (ce_task_type x))])"

definition valid_case_environment :: "wire \<Rightarrow> case_environment \<Rightarrow> bool" where
  "valid_case_environment w x \<longleftrightarrow>
     ProductId (ce_product_id x) \<and>
     Version (ce_product_version x) \<and>
     OpaqueId (ce_module x) \<and>
     opt_ok OpaqueId (ce_runtime_id x) \<and>
     opt_ok OpaqueId (ce_model_id x) \<and>
     opt_ok OpaqueId (ce_task_type x) \<and>
     secret_free (dump_case_environment w x)"

record case_candidate =
  cd_candidate_id :: string
  cd_problem :: string
  cd_environment :: "case_environment"
  cd_diagnosis :: string
  cd_guidance :: "tutor_guidance"
  cd_result :: string
  cd_verification :: "verifier_result"
  cd_software_id :: string
  cd_software_version :: string
  cd_evidence :: "context_evidence list"
  cd_privacy_scope :: string
  cd_created_at :: int

definition dump_case_candidate :: "wire \<Rightarrow> case_candidate \<Rightarrow> json" where
  "dump_case_candidate w x = JDict (protocol_fields @ [
     (''candidate_id'', JStr (cd_candidate_id x)),
     (''problem'', JStr (cd_problem x)),
     (''environment'', dump_case_environment w (cd_environment x)),
     (''diagnosis'', JStr (cd_diagnosis x)),
     (''guidance'', dump_tutor_guidance w (cd_guidance x)),
     (''result'', JStr (cd_result x)),
     (''verification'', dump_verifier_result w (cd_verification x)),
     (''software_id'', JStr (cd_software_id x)),
     (''software_version'', JStr (cd_software_version x)),
     (''evidence'', JList (map (dump_context_evidence w) (cd_evidence x))),
     (''privacy_scope'', JStr (cd_privacy_scope x)),
     (''created_at'', time_json w (cd_created_at x))])"

definition valid_case_candidate :: "wire \<Rightarrow> case_candidate \<Rightarrow> bool" where
  "valid_case_candidate w x \<longleftrightarrow>
     OpaqueId (cd_candidate_id x) \<and>
     ShortText (cd_problem x) \<and>
     valid_case_environment w (cd_environment x) \<and>
     LongText (cd_diagnosis x) \<and>
     valid_tutor_guidance w (cd_guidance x) \<and>
     ShortText (cd_result x) \<and>
     valid_verifier_result w (cd_verification x) \<and>
     ProductId (cd_software_id x) \<and>
     Version (cd_software_version x) \<and>
     sized 0 64 (cd_evidence x) \<and> list_all (valid_context_evidence w) (cd_evidence x) \<and>
     Privacy (cd_privacy_scope x) \<and>
     privacy_covers (cd_privacy_scope x) (cd_evidence x) \<and>
     list_all (\<lambda>v. rank_le v (cd_privacy_scope x)) [tg_privacy_scope (cd_guidance x), vr_privacy_scope (cd_verification x)] \<and>
     vr_status (cd_verification x) = ''VERIFIED'' \<and>
     secret_free (dump_case_candidate w x)"

record interop_error =
  er_request_id :: "string option"
  er_code :: string
  er_message :: string
  er_retryable :: bool

definition dump_interop_error :: "wire \<Rightarrow> interop_error \<Rightarrow> json" where
  "dump_interop_error w x = JDict (protocol_fields @ [
     (''request_id'', opt_dump JStr (er_request_id x)),
     (''code'', JStr (er_code x)),
     (''message'', JStr (er_message x)),
     (''retryable'', JBool (er_retryable x))])"

definition valid_interop_error :: "wire \<Rightarrow> interop_error \<Rightarrow> bool" where
  "valid_interop_error w x \<longleftrightarrow>
     opt_ok OpaqueId (er_request_id x) \<and>
     ErrorCode (er_code x) \<and>
     ShortText (er_message x) \<and>
     secret_free (dump_interop_error w x)"

record cancel_request =
  cq_request_id :: string
  cq_session_id :: "string option"

definition dump_cancel_request :: "wire \<Rightarrow> cancel_request \<Rightarrow> json" where
  "dump_cancel_request w x = JDict (protocol_fields @ [
     (''request_id'', JStr (cq_request_id x)),
     (''session_id'', opt_dump JStr (cq_session_id x))])"

definition valid_cancel_request :: "wire \<Rightarrow> cancel_request \<Rightarrow> bool" where
  "valid_cancel_request w x \<longleftrightarrow>
     OpaqueId (cq_request_id x) \<and>
     opt_ok OpaqueId (cq_session_id x) \<and>
     secret_free (dump_cancel_request w x)"

record heartbeat =
  hb_session_id :: string
  hb_sequence :: int
  hb_created_at :: int

definition dump_heartbeat :: "wire \<Rightarrow> heartbeat \<Rightarrow> json" where
  "dump_heartbeat w x = JDict (protocol_fields @ [
     (''session_id'', JStr (hb_session_id x)),
     (''sequence'', JInt (hb_sequence x)),
     (''created_at'', time_json w (hb_created_at x))])"

definition valid_heartbeat :: "wire \<Rightarrow> heartbeat \<Rightarrow> bool" where
  "valid_heartbeat w x \<longleftrightarrow>
     OpaqueId (hb_session_id x) \<and>
     int_in 1 (2 ^ 53 - 1) (hb_sequence x) \<and>
     secret_free (dump_heartbeat w x)"

record discovery_record =
  dr_product_id :: string
  dr_instance_id :: string
  dr_product_version :: string
  dr_protocol_versions :: "string list"
  dr_capabilities :: "string list"

definition dump_discovery_record :: "wire \<Rightarrow> discovery_record \<Rightarrow> json" where
  "dump_discovery_record w x = JDict (protocol_fields @ [
     (''product_id'', JStr (dr_product_id x)),
     (''instance_id'', JStr (dr_instance_id x)),
     (''product_version'', JStr (dr_product_version x)),
     (''protocol_versions'', JList (map JStr (dr_protocol_versions x))),
     (''capabilities'', JList (map JStr (dr_capabilities x)))])"

definition valid_discovery_record :: "wire \<Rightarrow> discovery_record \<Rightarrow> bool" where
  "valid_discovery_record w x \<longleftrightarrow>
     ProductId (dr_product_id x) \<and>
     OpaqueId (dr_instance_id x) \<and>
     Version (dr_product_version x) \<and>
     sized 1 16 (dr_protocol_versions x) \<and> list_all Version (dr_protocol_versions x) \<and>
     sized 0 64 (dr_capabilities x) \<and> list_all AdvertisedCapability (dr_capabilities x) \<and>
     secret_free (dump_discovery_record w x)"

record hello_result =
  hl_hello_id :: string
  hl_product :: "product_descriptor"
  hl_session_nonce :: string

definition dump_hello_result :: "wire \<Rightarrow> hello_result \<Rightarrow> json" where
  "dump_hello_result w x = JDict (protocol_fields @ [
     (''hello_id'', JStr (hl_hello_id x)),
     (''product'', dump_product_descriptor w (hl_product x)),
     (''session_nonce'', JStr (hl_session_nonce x))])"

definition valid_hello_result :: "wire \<Rightarrow> hello_result \<Rightarrow> bool" where
  "valid_hello_result w x \<longleftrightarrow>
     OpaqueId (hl_hello_id x) \<and>
     valid_product_descriptor w (hl_product x) \<and>
     token_text 24 128 (hl_session_nonce x) \<and>
     secret_free (dump_hello_result w x)"

record session_open_request =
  so_hello_id :: string
  so_session_nonce :: string
  so_user_identity :: string

definition dump_session_open_request :: "wire \<Rightarrow> session_open_request \<Rightarrow> json" where
  "dump_session_open_request w x = JDict (protocol_fields @ [
     (''hello_id'', JStr (so_hello_id x)),
     (''session_nonce'', JStr (so_session_nonce x)),
     (''user_identity'', JStr (so_user_identity x))])"

definition valid_session_open_request :: "wire \<Rightarrow> session_open_request \<Rightarrow> bool" where
  "valid_session_open_request w x \<longleftrightarrow>
     OpaqueId (so_hello_id x) \<and>
     token_text 24 128 (so_session_nonce x) \<and>
     OpaqueId (so_user_identity x) \<and>
     secret_free (dump_session_open_request w x)"

record session_open_result =
  sr_session :: "session_descriptor"
  sr_session_token :: string

definition dump_session_open_result :: "wire \<Rightarrow> session_open_result \<Rightarrow> json" where
  "dump_session_open_result w x = JDict (protocol_fields @ [
     (''session'', dump_session_descriptor w (sr_session x)),
     (''session_token'', JStr (sr_session_token x))])"

definition valid_session_open_result :: "wire \<Rightarrow> session_open_result \<Rightarrow> bool" where
  "valid_session_open_result w x \<longleftrightarrow>
     valid_session_descriptor w (sr_session x) \<and>
     token_text 32 128 (sr_session_token x) \<and>
     secret_free (dump_session_open_result w x)"

record cancel_result =
  cl_request_id :: string
  cl_session_id :: "string option"
  cl_status :: string

definition dump_cancel_result :: "wire \<Rightarrow> cancel_result \<Rightarrow> json" where
  "dump_cancel_result w x = JDict (protocol_fields @ [
     (''request_id'', JStr (cl_request_id x)),
     (''session_id'', opt_dump JStr (cl_session_id x)),
     (''status'', JStr (cl_status x))])"

definition valid_cancel_result :: "wire \<Rightarrow> cancel_result \<Rightarrow> bool" where
  "valid_cancel_result w x \<longleftrightarrow>
     OpaqueId (cl_request_id x) \<and>
     opt_ok OpaqueId (cl_session_id x) \<and>
     (cl_status x) \<in> set [''CANCELLED''] \<and>
     secret_free (dump_cancel_result w x)"

record capability_descriptor =
  cap_capability :: string
  cap_supported :: bool

definition dump_capability_descriptor :: "wire \<Rightarrow> capability_descriptor \<Rightarrow> json" where
  "dump_capability_descriptor w x = JDict ([
     (''capability'', JStr (cap_capability x)),
     (''supported'', JBool (cap_supported x))])"

definition valid_capability_descriptor :: "wire \<Rightarrow> capability_descriptor \<Rightarrow> bool" where
  "valid_capability_descriptor w x \<longleftrightarrow>
     Capability (cap_capability x) \<and>
     secret_free (dump_capability_descriptor w x)"

section \<open>Transport envelopes\<close>

definition Operation :: "string \<Rightarrow> bool" where
  "Operation s \<longleftrightarrow> s \<in> set [
    ''HELLO'', ''CAPABILITY_NEGOTIATION'', ''SESSION'', ''TUTOR'', ''DIAGNOSTICS'', ''VERIFY'',
    ''HANDOFF'', ''HEARTBEAT'', ''CANCEL'']"

datatype request_payload =
  HandshakeHello handshake_hello
| NegotiationRequest capability_negotiation
| SessionOpenRequest session_open_request
| TutorRequest tutor_request
| VerifierRequest verifier_request
| HandoffRequest handoff_request
| HeartbeatRequest heartbeat
| CancelRequest cancel_request

record transport_request =
  rq_operation :: string
  rq_payload :: request_payload

fun dump_request_payload :: "wire \<Rightarrow> request_payload \<Rightarrow> json" where
  "dump_request_payload w (HandshakeHello x) = dump_handshake_hello w x"
| "dump_request_payload w (NegotiationRequest x) = dump_capability_negotiation w x"
| "dump_request_payload w (SessionOpenRequest x) = dump_session_open_request w x"
| "dump_request_payload w (TutorRequest x) = dump_tutor_request w x"
| "dump_request_payload w (VerifierRequest x) = dump_verifier_request w x"
| "dump_request_payload w (HandoffRequest x) = dump_handoff_request w x"
| "dump_request_payload w (HeartbeatRequest x) = dump_heartbeat w x"
| "dump_request_payload w (CancelRequest x) = dump_cancel_request w x"

definition dump_transport_request :: "wire \<Rightarrow> transport_request \<Rightarrow> json" where
  "dump_transport_request w x = JDict (protocol_fields @
     [(''operation'', JStr (rq_operation x)), (''payload'', dump_request_payload w (rq_payload x))])"

fun valid_request_payload :: "wire \<Rightarrow> request_payload \<Rightarrow> bool" where
  "valid_request_payload w (HandshakeHello x) = valid_handshake_hello w x"
| "valid_request_payload w (NegotiationRequest x) = valid_capability_negotiation w x"
| "valid_request_payload w (SessionOpenRequest x) = valid_session_open_request w x"
| "valid_request_payload w (TutorRequest x) = valid_tutor_request w x"
| "valid_request_payload w (VerifierRequest x) = valid_verifier_request w x"
| "valid_request_payload w (HandoffRequest x) = valid_handoff_request w x"
| "valid_request_payload w (HeartbeatRequest x) = valid_heartbeat w x"
| "valid_request_payload w (CancelRequest x) = valid_cancel_request w x"

text \<open>\<open>TransportRequest.operation_payload\<close>.\<close>

definition request_matches :: "string \<Rightarrow> request_payload \<Rightarrow> bool" where
  "request_matches operation payload = (case payload of
     HandshakeHello _ \<Rightarrow> operation = ''HELLO''
   | NegotiationRequest _ \<Rightarrow> operation = ''CAPABILITY_NEGOTIATION''
   | SessionOpenRequest _ \<Rightarrow> operation = ''SESSION''
   | TutorRequest x \<Rightarrow> operation = ''TUTOR'' \<or>
       operation = ''DIAGNOSTICS'' \<and> tq_diagnostic x \<noteq> None \<and> cc_level (cx_content (tq_context x)) = ''NONE''
   | VerifierRequest _ \<Rightarrow> operation = ''VERIFY''
   | HandoffRequest _ \<Rightarrow> operation = ''HANDOFF''
   | HeartbeatRequest _ \<Rightarrow> operation = ''HEARTBEAT''
   | CancelRequest _ \<Rightarrow> operation = ''CANCEL'')"

definition valid_transport_request :: "wire \<Rightarrow> transport_request \<Rightarrow> bool" where
  "valid_transport_request w x \<longleftrightarrow> Operation (rq_operation x) \<and> valid_request_payload w (rq_payload x) \<and>
     request_matches (rq_operation x) (rq_payload x) \<and> secret_free (dump_transport_request w x)"

datatype response_payload =
  HelloResult hello_result
| NegotiationResult capability_negotiation
| SessionOpenResult session_open_result
| TutorGuidance tutor_guidance
| VerifierResult verifier_result
| HandoffResult handoff_result
| HeartbeatResult heartbeat
| CancelResult cancel_result
| InteropError interop_error

record transport_response =
  rp_operation :: string
  rp_payload :: response_payload

fun dump_response_payload :: "wire \<Rightarrow> response_payload \<Rightarrow> json" where
  "dump_response_payload w (HelloResult x) = dump_hello_result w x"
| "dump_response_payload w (NegotiationResult x) = dump_capability_negotiation w x"
| "dump_response_payload w (SessionOpenResult x) = dump_session_open_result w x"
| "dump_response_payload w (TutorGuidance x) = dump_tutor_guidance w x"
| "dump_response_payload w (VerifierResult x) = dump_verifier_result w x"
| "dump_response_payload w (HandoffResult x) = dump_handoff_result w x"
| "dump_response_payload w (HeartbeatResult x) = dump_heartbeat w x"
| "dump_response_payload w (CancelResult x) = dump_cancel_result w x"
| "dump_response_payload w (InteropError x) = dump_interop_error w x"

definition dump_transport_response :: "wire \<Rightarrow> transport_response \<Rightarrow> json" where
  "dump_transport_response w x = JDict (protocol_fields @
     [(''operation'', JStr (rp_operation x)), (''payload'', dump_response_payload w (rp_payload x))])"

fun valid_response_payload :: "wire \<Rightarrow> response_payload \<Rightarrow> bool" where
  "valid_response_payload w (HelloResult x) = valid_hello_result w x"
| "valid_response_payload w (NegotiationResult x) = valid_capability_negotiation w x"
| "valid_response_payload w (SessionOpenResult x) = valid_session_open_result w x"
| "valid_response_payload w (TutorGuidance x) = valid_tutor_guidance w x"
| "valid_response_payload w (VerifierResult x) = valid_verifier_result w x"
| "valid_response_payload w (HandoffResult x) = valid_handoff_result w x"
| "valid_response_payload w (HeartbeatResult x) = valid_heartbeat w x"
| "valid_response_payload w (CancelResult x) = valid_cancel_result w x"
| "valid_response_payload w (InteropError x) = valid_interop_error w x"

text \<open>\<open>TransportResponse.operation_payload\<close>: an error answers any operation.\<close>

definition response_matches :: "string \<Rightarrow> response_payload \<Rightarrow> bool" where
  "response_matches operation payload = (case payload of
     HelloResult _ \<Rightarrow> operation = ''HELLO''
   | NegotiationResult _ \<Rightarrow> operation = ''CAPABILITY_NEGOTIATION''
   | SessionOpenResult _ \<Rightarrow> operation = ''SESSION''
   | TutorGuidance _ \<Rightarrow> operation = ''TUTOR'' \<or> operation = ''DIAGNOSTICS''
   | VerifierResult _ \<Rightarrow> operation = ''VERIFY''
   | HandoffResult _ \<Rightarrow> operation = ''HANDOFF''
   | HeartbeatResult _ \<Rightarrow> operation = ''HEARTBEAT''
   | CancelResult _ \<Rightarrow> operation = ''CANCEL''
   | InteropError _ \<Rightarrow> True)"

definition valid_transport_response :: "wire \<Rightarrow> transport_response \<Rightarrow> bool" where
  "valid_transport_response w x \<longleftrightarrow> Operation (rp_operation x) \<and> valid_response_payload w (rp_payload x) \<and>
     response_matches (rp_operation x) (rp_payload x) \<and> secret_free (dump_transport_response w x)"

end
