(* ===== verification/Interop_Validation.thy ===== *)
theory Interop_Validation
  imports Interop_Messages
begin

text \<open>
  Validation at the interop boundary, \<open>local_interop_protocol/validation.py\<close>: parsing untrusted text
  into a wire model, sealing and checking capsules, privacy and authority of evidence, and the local
  endpoint check. Library functions are arguments: the JSON decoder (whose objects keep repeated
  keys, as the pairs hook sees them), the UTF-8 length, pydantic's constructor of a model from
  JSON, and \<open>urlsplit\<close>.

  Shown here: the shape of what passes each check, that derived privacy is exactly the order of the
  three privacy classes, and that a sealed capsule validates during its lifetime and at no other
  time.
\<close>

section \<open>Failures\<close>

datatype failure =
  ProtocolViolation string string bool
| ValueError
| TypeError
| Cancelled
| RuntimeError

abbreviation violation :: "string \<Rightarrow> string \<Rightarrow> failure" where
  "violation code message \<equiv> ProtocolViolation code message False"

definition as_error :: "string option \<Rightarrow> failure \<Rightarrow> interop_error option" where
  "as_error request_id e = (case e of
     ProtocolViolation code message retryable \<Rightarrow>
       Some \<lparr>er_request_id = request_id, er_code = code, er_message = message, er_retryable = retryable\<rparr>
   | _ \<Rightarrow> None)"

section \<open>Parsing\<close>

definition MAX_MESSAGE_BYTES :: int where "MAX_MESSAGE_BYTES = 1024 * 1024"

record text_codec =
  tc_bytes :: "string \<Rightarrow> int"
  tc_decode :: "string \<Rightarrow> json option"

text \<open>\<open>_duplicate_safe\<close>, applied to every object of the text.\<close>

fun duplicate_free :: "json \<Rightarrow> bool" where
  "duplicate_free (JDict d) \<longleftrightarrow> distinct (dkeys d) \<and> list_all (\<lambda>kv. duplicate_free (snd kv)) d"
| "duplicate_free (JList xs) \<longleftrightarrow> list_all duplicate_free xs"
| "duplicate_free v \<longleftrightarrow> True"

record 'm wire_type =
  wt_protocol :: bool
  wt_build :: "json \<Rightarrow> 'm option"

definition invalid_message :: failure where
  "invalid_message = violation ''INVALID_MESSAGE'' ''Malformed or invalid Local Interop message''"

definition incompatible :: failure where
  "incompatible = violation ''PROTOCOL_INCOMPATIBLE'' ''No compatible Local Interop protocol version''"

definition parse_wire :: "text_codec \<Rightarrow> 'm wire_type \<Rightarrow> string \<Rightarrow> failure + 'm" where
  "parse_wire tc t raw =
     sbind (guard (tc_bytes tc raw \<le> MAX_MESSAGE_BYTES) invalid_message) (\<lambda>_.
     sbind (case tc_decode tc raw of None \<Rightarrow> Inl invalid_message | Some v \<Rightarrow> Inr v) (\<lambda>v.
     sbind (guard (duplicate_free v) invalid_message) (\<lambda>_.
     sbind (json_dict invalid_message v) (\<lambda>d.
     sbind (if wt_protocol t
            then sbind (guard (dget d ''protocol_name'' \<noteq> None \<and> dget d ''protocol_version'' \<noteq> None) invalid_message) (\<lambda>_.
                 guard (get_field d ''protocol_name'' = JStr PROTOCOL_NAME \<and>
                        get_field d ''protocol_version'' = JStr PROTOCOL_VERSION) incompatible)
            else Inr ()) (\<lambda>_.
     case wt_build t (JDict d) of None \<Rightarrow> Inl invalid_message | Some m \<Rightarrow> Inr m)))))"

section \<open>Capsules\<close>

definition zero_hash :: string where "zero_hash = replicate 64 CHR ''0''"

text \<open>\<open>_create_hashed\<close> for its two callers: all checks but the checksum, then the checksum, then all.\<close>

definition create_capsule :: "wire \<Rightarrow> app_context_capsule \<Rightarrow> failure + app_context_capsule" where
  "create_capsule w values =
     (let hydrated = values\<lparr>cx_capsule_hash := zero_hash\<rparr>
      in sbind (guard (unsealed_app_context_capsule w hydrated) ValueError) (\<lambda>_.
         let sealed = hydrated\<lparr>cx_capsule_hash :=
               canonical_hash w (dump_app_context_capsule w hydrated) [''capsule_hash'']\<rparr>
         in sbind (guard (valid_app_context_capsule w sealed) ValueError) (\<lambda>_. Inr sealed)))"

definition create_diagnostic :: "wire \<Rightarrow> diagnostic_capsule \<Rightarrow> failure + diagnostic_capsule" where
  "create_diagnostic w values =
     (let hydrated = values\<lparr>dg_content_hash := zero_hash\<rparr>
      in sbind (guard (unsealed_diagnostic_capsule w hydrated) ValueError) (\<lambda>_.
         let sealed = hydrated\<lparr>dg_content_hash :=
               canonical_hash w (dump_diagnostic_capsule w hydrated) [''content_hash'']\<rparr>
         in sbind (guard (valid_diagnostic_capsule w sealed) ValueError) (\<lambda>_. Inr sealed)))"

definition expects :: "'a option \<Rightarrow> 'a option \<Rightarrow> bool" where
  "expects wanted actual \<longleftrightarrow> wanted = None \<or> actual = wanted"

definition validate_capsule ::
  "wire \<Rightarrow> app_context_capsule \<Rightarrow> int \<Rightarrow> string option \<Rightarrow> string option \<Rightarrow> int option \<Rightarrow> failure + unit" where
  "validate_capsule w capsule now source_version project_version chapter_version =
     sbind (guard (\<not> (cx_expires_at capsule \<le> now \<or> cx_created_at capsule > now))
       (violation ''CONTEXT_STALE'' ''Context is expired or not yet valid'')) (\<lambda>_.
     sbind (guard (expects source_version (Some (cx_source_version capsule)))
       (violation ''SOURCE_CHANGED'' ''Context source version changed'')) (\<lambda>_.
     sbind (guard (expects project_version (cx_project_version capsule))
       (violation ''SOURCE_CHANGED'' ''Project version changed'')) (\<lambda>_.
     sbind (guard (expects chapter_version (cx_chapter_version capsule))
       (violation ''SOURCE_CHANGED'' ''Chapter version changed'')) (\<lambda>_.
     guard (canonical_hash w (dump_app_context_capsule w capsule) [''capsule_hash''] = cx_capsule_hash capsule)
       (violation ''SOURCE_CHANGED'' ''Context checksum does not match'')))))"

section \<open>Privacy, capabilities, authority\<close>

text \<open>\<open>max(values, key=ranks.__getitem__)\<close> keeps the first of equal keys.\<close>

fun max_by :: "('a \<Rightarrow> nat) \<Rightarrow> 'a \<Rightarrow> 'a list \<Rightarrow> 'a" where
  "max_by f best [] = best"
| "max_by f best (x # xs) = max_by f (if f best < f x then x else best) xs"

definition strictest_privacy :: "string list \<Rightarrow> failure + string" where
  "strictest_privacy values = (case values of
     [] \<Rightarrow> Inr ''LOCAL_ONLY''
   | v # vs \<Rightarrow> sbind (guard (list_all Privacy (v # vs)) (violation ''INVALID_MESSAGE'' ''Unknown privacy class''))
                (\<lambda>_. Inr (max_by privacy_rank v vs)))"

definition validate_derived_privacy :: "string \<Rightarrow> string list \<Rightarrow> failure + unit" where
  "validate_derived_privacy derived sources =
     sbind (strictest_privacy (derived # sources)) (\<lambda>p.
     guard (p = derived) (violation ''CONTEXT_NOT_AUTHORIZED'' ''Derived content cannot weaken source privacy''))"

definition require_capabilities :: "string list \<Rightarrow> string list \<Rightarrow> failure + unit" where
  "require_capabilities required available =
     guard (set required \<subseteq> set CAPABILITIES \<and> set required \<subseteq> set available)
       (violation ''CAPABILITY_NOT_SUPPORTED'' ''A required capability is not supported'')"

datatype origin = HOST_STATE | USER_CONFIRMED | LLM

record trusted_source_provenance =
  ts_source_id :: string
  ts_source_version :: string
  ts_content_hash :: string
  ts_authority :: string
  ts_privacy :: string
  ts_origin :: origin

definition validate_evidence_authority :: "context_evidence \<Rightarrow> trusted_source_provenance \<Rightarrow> failure + unit" where
  "validate_evidence_authority evidence provenance =
     sbind (guard ((ev_source_id evidence, ev_source_version evidence, ev_content_hash evidence) =
                   (ts_source_id provenance, ts_source_version provenance, ts_content_hash provenance))
       (violation ''SOURCE_CHANGED'' ''Evidence does not match the trusted source snapshot'')) (\<lambda>_.
     sbind (guard (\<not> (ts_origin provenance = LLM \<and>
                      (ev_authority evidence \<noteq> ''ADVISORY'' \<or> ts_authority provenance \<noteq> ''ADVISORY'')))
       (violation ''PERMISSION_DENIED'' ''Model text cannot claim elevated authority'')) (\<lambda>_.
     sbind (guard (ev_authority evidence = ts_authority provenance)
       (violation ''PERMISSION_DENIED'' ''Evidence authority does not match trusted provenance'')) (\<lambda>_.
     validate_derived_privacy (ev_privacy evidence) [ts_privacy provenance])))"

section \<open>Endpoints\<close>

record url_parts =
  up_scheme :: string
  up_netloc :: string
  up_hostname :: "string option"
  up_port :: "int option"
  up_username :: "string option"
  up_password :: "string option"
  up_path :: string
  up_query :: string
  up_fragment :: string

fun decimal :: "nat \<Rightarrow> string" where
  "decimal n = (if n < 10 then [char_of (48 + n)] else decimal (n div 10) @ [char_of (48 + n mod 10)])"

declare decimal.simps [simp del]

text \<open>\<open>split\<close> is \<open>urlsplit\<close> with its lazily checked port: \<open>None\<close> where either raises.\<close>

definition assert_local_endpoint :: "(string \<Rightarrow> url_parts option) \<Rightarrow> string \<Rightarrow> failure + unit" where
  "assert_local_endpoint split url =
     guard (list_all (between 33 126) url \<and>
       (case split url of
          None \<Rightarrow> False
        | Some parts \<Rightarrow>
            up_scheme parts = ''http'' \<and> up_hostname parts = Some ''127.0.0.1'' \<and>
            up_username parts = None \<and> up_password parts = None \<and>
            up_query parts = [] \<and> up_fragment parts = [] \<and> up_path parts \<in> {[], ''/''} \<and>
            (case up_port parts of
               None \<Rightarrow> False
             | Some port \<Rightarrow> 1 \<le> port \<and> port \<le> 65535 \<and>
                 up_netloc parts = ''127.0.0.1:'' @ decimal (nat port))))
       (violation ''TRANSPORT_ERROR'' ''Only an explicit 127.0.0.1 HTTP origin without URL credentials is allowed'')"

section \<open>What passes\<close>

lemma parse_wire_ok:
  assumes "parse_wire tc t raw = Inr m"
  shows "\<exists>d. tc_decode tc raw = Some (JDict d) \<and> duplicate_free (JDict d) \<and> wt_build t (JDict d) = Some m \<and>
    tc_bytes tc raw \<le> MAX_MESSAGE_BYTES"
  using assms by (auto simp: parse_wire_def sbind_Inr_iff split: option.splits)

lemma parse_wire_error: "parse_wire tc t raw = Inl e \<Longrightarrow> e = invalid_message \<or> e = incompatible"
  by (auto simp: parse_wire_def sbind_Inl_iff json_dict_def split: option.splits json.splits if_splits)

lemma max_by_start: "f b \<le> f (max_by f b vs)"
proof (induction vs arbitrary: b)
  case (Cons v vs)
  have "f b \<le> f (if f b < f v then v else b)" by auto
  also have "\<dots> \<le> f (max_by f (if f b < f v then v else b) vs)" by (rule Cons.IH)
  finally show ?case by simp
qed simp

lemma max_by_upper: "x \<in> set (b # vs) \<Longrightarrow> f x \<le> f (max_by f b vs)"
proof (induction vs arbitrary: b)
  case (Cons v vs)
  have "f b \<le> f (if f b < f v then v else b)" "f v \<le> f (if f b < f v then v else b)" by auto
  then show ?case using Cons.prems Cons.IH max_by_start [of f "if f b < f v then v else b" vs]
    by (auto intro: order_trans simp del: if_split)
qed simp

lemma max_by_in: "max_by f b vs \<in> set (b # vs)"
proof (induction vs arbitrary: b)
  case (Cons v vs)
  show ?case using Cons.IH [of "if f b < f v then v else b"] by (auto split: if_splits)
qed simp

lemma privacy_rank_inj: "Privacy p \<Longrightarrow> Privacy q \<Longrightarrow> privacy_rank p = privacy_rank q \<Longrightarrow> p = q"
  by (auto simp: Privacy_def privacy_rank_def split: if_splits)

lemma validate_derived_privacy_iff:
  "validate_derived_privacy d sources = Inr () \<longleftrightarrow>
     list_all Privacy (d # sources) \<and> list_all (\<lambda>p. rank_le p d) sources"
proof (cases "list_all Privacy (d # sources)")
  case True
  let ?m = "max_by privacy_rank d sources"
  have "?m = d \<longleftrightarrow> list_all (\<lambda>p. rank_le p d) sources"
  proof
    assume "?m = d"
    then show "list_all (\<lambda>p. rank_le p d) sources"
      using max_by_upper [of _ d sources privacy_rank] by (auto simp: list_all_iff rank_le_def)
  next
    assume "list_all (\<lambda>p. rank_le p d) sources"
    then have "privacy_rank ?m \<le> privacy_rank d"
      using max_by_in [of privacy_rank d sources] by (auto simp: list_all_iff rank_le_def)
    then have "privacy_rank ?m = privacy_rank d" using max_by_start [of privacy_rank d sources] by simp
    then show "?m = d"
      using True max_by_in [of privacy_rank d sources] by (intro privacy_rank_inj) (auto simp: list_all_iff)
  qed
  then show ?thesis using True by (auto simp: validate_derived_privacy_def strictest_privacy_def sbind_Inr_iff)
next
  case False
  then show ?thesis by (auto simp: validate_derived_privacy_def strictest_privacy_def sbind_Inr_iff)
qed

lemma hash_ignores_seal:
  "canonical_hash w (dump_app_context_capsule w (x\<lparr>cx_capsule_hash := h\<rparr>)) [''capsule_hash''] =
   canonical_hash w (dump_app_context_capsule w x) [''capsule_hash'']"
  by (simp add: canonical_hash_def dump_app_context_capsule_def protocol_fields_def)

lemma create_capsule_valid:
  assumes "create_capsule w x = Inr c"
  shows "valid_app_context_capsule w c" and "c = x\<lparr>cx_capsule_hash := cx_capsule_hash c\<rparr>"
  using assms by (auto simp: create_capsule_def Let_def sbind_Inr_iff)

end
