(* ===== verification/Interop_Identity.thy ===== *)
theory Interop_Identity
  imports Interop_Validation
begin

text \<open>
  Peer identity and trust, \<open>local_interop_desktop/identity.py\<close>: the facts taken from the operating
  system, the store of explicit user approvals with its text form, the attestation of a connected
  peer, and bounded discovery.

  A time is an instant with its offset from UTC (microseconds); comparisons use the instant.
  Dataclass construction is \<open>new_<class>\<close>: the checks of \<open>__post_init__\<close>, then the value. A class
  keeps its fields' static types; the checks \<open>isinstance\<close> makes of them are the typing of the model,
  except in \<open>loads\<close>, where the fields come from JSON.

  Shown in \<open>Interop_Laws\<close>: a peer is attested as trusted only if it matches an installation record, its signature
  is valid when one is required, and the user approved it and has not revoked it; the text of a
  store loads back as the store.
\<close>

section \<open>Metadata strings\<close>

definition opaque :: "string \<Rightarrow> failure + string" where
  "opaque value = sbind (guard (word_form alnum id_char 127 value) ValueError) (\<lambda>_.
     sbind (guard (\<not> search identity_secret value) ValueError) (\<lambda>_. Inr value))"

definition version :: "string \<Rightarrow> failure + string" where
  "version value = sbind (guard (Version value) ValueError) (\<lambda>_.
     sbind (guard (\<not> search identity_secret value) ValueError) (\<lambda>_. Inr value))"

definition digest :: "string \<Rightarrow> failure + string" where
  "digest value = sbind (guard (Hash value) ValueError) (\<lambda>_. Inr value)"

definition optional :: "('a \<Rightarrow> failure + 'a) \<Rightarrow> 'a option \<Rightarrow> failure + 'a option" where
  "optional f v = (case v of None \<Rightarrow> Inr None | Some x \<Rightarrow> sbind (f x) (\<lambda>y. Inr (Some y)))"

section \<open>Facts and records\<close>

type_synonym stamp = "int \<times> int"

datatype attestation_state = UNVERIFIED | SAME_USER | KNOWN_PRODUCT | SIGNED_PRODUCT |
  TRUSTED_INSTALLATION | REJECTED | MOCK_ONLY

record peer_identity =
  pi_process_id :: int
  pi_user_sid :: string
  pi_executable_path_hash :: string
  pi_product_id :: string
  pi_instance_id :: string
  pi_product_version :: string
  pi_attestation_state :: attestation_state
  pi_installation_id :: "string option"

definition new_peer_identity :: "peer_identity \<Rightarrow> failure + peer_identity" where
  "new_peer_identity x =
     sbind (guard (0 < pi_process_id x) ValueError) (\<lambda>_.
     sbind (opaque (pi_user_sid x)) (\<lambda>_.
     sbind (digest (pi_executable_path_hash x)) (\<lambda>_.
     sbind (opaque (pi_product_id x)) (\<lambda>_.
     sbind (opaque (pi_instance_id x)) (\<lambda>_.
     sbind (version (pi_product_version x)) (\<lambda>_.
     sbind (optional opaque (pi_installation_id x)) (\<lambda>_. Inr x)))))))"

record peer_os_facts =
  pf_process_id :: int
  pf_user_sid :: string
  pf_executable_path_hash :: string
  pf_executable_hash :: string
  pf_installation_id :: "string option"
  pf_registered_product_id :: "string option"
  pf_publisher_id :: "string option"
  pf_signature_valid :: bool
  pf_local_connection :: bool

definition new_peer_os_facts :: "peer_os_facts \<Rightarrow> failure + peer_os_facts" where
  "new_peer_os_facts x =
     sbind (guard (0 < pf_process_id x) ValueError) (\<lambda>_.
     sbind (opaque (pf_user_sid x)) (\<lambda>_.
     sbind (digest (pf_executable_path_hash x)) (\<lambda>_.
     sbind (digest (pf_executable_hash x)) (\<lambda>_.
     sbind (optional opaque (pf_installation_id x)) (\<lambda>_.
     sbind (optional opaque (pf_registered_product_id x)) (\<lambda>_.
     sbind (optional opaque (pf_publisher_id x)) (\<lambda>_. Inr x)))))))"

record installation_record =
  in_installation_id :: string
  in_product_id :: string
  in_executable_path_hash :: string
  in_executable_hash :: string
  in_publisher_id :: "string option"
  in_require_signature :: bool

definition new_installation_record :: "installation_record \<Rightarrow> failure + installation_record" where
  "new_installation_record x =
     sbind (opaque (in_installation_id x)) (\<lambda>_.
     sbind (opaque (in_product_id x)) (\<lambda>_.
     sbind (digest (in_executable_path_hash x)) (\<lambda>_.
     sbind (digest (in_executable_hash x)) (\<lambda>_.
     sbind (optional opaque (in_publisher_id x)) (\<lambda>_. Inr x)))))"

record trust_record =
  tr_product :: string
  tr_installation :: string
  tr_trust_level :: string
  tr_first_approved_time :: stamp
  tr_last_verified_time :: stamp
  tr_product_version :: string
  tr_protocol_version :: string
  tr_revoked :: bool

definition trust_levels :: "string list" where
  "trust_levels = [''KNOWN_PRODUCT'', ''SIGNED_PRODUCT'', ''TRUSTED_INSTALLATION'']"

definition new_trust_record :: "trust_record \<Rightarrow> failure + trust_record" where
  "new_trust_record x =
     sbind (opaque (tr_product x)) (\<lambda>_.
     sbind (opaque (tr_installation x)) (\<lambda>_.
     sbind (version (tr_product_version x)) (\<lambda>_.
     sbind (version (tr_protocol_version x)) (\<lambda>_.
     sbind (guard (tr_trust_level x \<in> set trust_levels) ValueError) (\<lambda>_.
     sbind (guard (fst (tr_first_approved_time x) \<le> fst (tr_last_verified_time x)) ValueError) (\<lambda>_.
     Inr x))))))"

section \<open>The trust store\<close>

type_synonym trust_key = "string \<times> string"

record trust_store =
  st_limit :: nat
  st_records :: "(trust_key, trust_record) dict"

definition new_trust_store :: "nat \<Rightarrow> failure + trust_store" where
  "new_trust_store limit =
     sbind (guard (1 \<le> limit \<and> limit \<le> 1024) ValueError) (\<lambda>_. Inr \<lparr>st_limit = limit, st_records = []\<rparr>)"

definition trust_key :: "trust_record \<Rightarrow> trust_key" where
  "trust_key r = (tr_product r, tr_installation r)"

definition approve :: "trust_record \<Rightarrow> bool \<Rightarrow> trust_store \<Rightarrow> failure + trust_store" where
  "approve r user_approved st =
     sbind (guard user_approved (violation ''PERMISSION_DENIED'' ''Explicit local trust approval required'')) (\<lambda>_.
     sbind (guard (\<not> (dget (st_records st) (trust_key r) = None \<and> length (st_records st) \<ge> st_limit st))
       (violation ''TRANSPORT_ERROR'' ''Trust store capacity reached'')) (\<lambda>_.
     Inr (st\<lparr>st_records := dset (st_records st) (trust_key r) r\<rparr>)))"

definition get_trust :: "string \<Rightarrow> string \<Rightarrow> trust_store \<Rightarrow> trust_record option" where
  "get_trust product_id installation_id st = dget (st_records st) (product_id, installation_id)"

definition revoke :: "string \<Rightarrow> string \<Rightarrow> trust_store \<Rightarrow> trust_store" where
  "revoke product_id installation_id st =
     (case get_trust product_id installation_id st of
        None \<Rightarrow> st
      | Some r \<Rightarrow> st\<lparr>st_records := dset (st_records st) (product_id, installation_id) (r\<lparr>tr_revoked := True\<rparr>)\<rparr>)"

text \<open>\<open>verified\<close>: \<open>replace\<close> builds the record anew, so its checks run again.\<close>

definition verified :: "string \<Rightarrow> string \<Rightarrow> string \<Rightarrow> stamp \<Rightarrow> trust_store \<Rightarrow> failure + trust_store" where
  "verified product_id installation_id product_version now st =
     (case get_trust product_id installation_id st of
        None \<Rightarrow> Inr st
      | Some r \<Rightarrow>
          if tr_revoked r then Inr st
          else sbind (new_trust_record (r\<lparr>tr_last_verified_time := now, tr_product_version := product_version\<rparr>))
                 (\<lambda>r'. Inr (st\<lparr>st_records := dset (st_records st) (product_id, installation_id) r'\<rparr>)))"

subsection \<open>Its text\<close>

text \<open>\<open>fromisoformat\<close> raises, gives a time without an offset, or a time with one.\<close>

datatype parsed_time = BadTime | Naive | Aware stamp

record store_codec =
  sc_encode :: "json \<Rightarrow> string"
  sc_decode :: "string \<Rightarrow> json option"
  sc_bytes :: "string \<Rightarrow> int"
  sc_isoformat :: "stamp \<Rightarrow> string"
  sc_fromisoformat :: "string \<Rightarrow> parsed_time"

definition trust_fields :: "string list" where
  "trust_fields = [''approved_product_identity'', ''approved_installation_identity'', ''trust_level'',
     ''first_approved_time'', ''last_verified_time'', ''product_version'', ''protocol_version'', ''revoked'']"

definition trust_row :: "store_codec \<Rightarrow> trust_record \<Rightarrow> json" where
  "trust_row sc r = JDict
     [(''approved_product_identity'', JStr (tr_product r)),
      (''approved_installation_identity'', JStr (tr_installation r)),
      (''trust_level'', JStr (tr_trust_level r)),
      (''first_approved_time'', JStr (sc_isoformat sc (tr_first_approved_time r))),
      (''last_verified_time'', JStr (sc_isoformat sc (tr_last_verified_time r))),
      (''product_version'', JStr (tr_product_version r)),
      (''protocol_version'', JStr (tr_protocol_version r)),
      (''revoked'', JBool (tr_revoked r))]"

definition dumps :: "store_codec \<Rightarrow> trust_store \<Rightarrow> string" where
  "dumps sc st = sc_encode sc (JList (map (\<lambda>kr. trust_row sc (snd kr)) (sort_key fst (st_records st))))"

definition load_time :: "store_codec \<Rightarrow> json \<Rightarrow> failure + parsed_time" where
  "load_time sc v = sbind (json_str TypeError v) (\<lambda>s.
     case sc_fromisoformat sc s of BadTime \<Rightarrow> Inl ValueError | t \<Rightarrow> Inr t)"

definition load_level :: "json \<Rightarrow> failure + string" where
  "load_level v = (case v of
     JList _ \<Rightarrow> Inl TypeError | JDict _ \<Rightarrow> Inl TypeError
   | JStr s \<Rightarrow> sbind (guard (s \<in> set trust_levels) ValueError) (\<lambda>_. Inr s)
   | _ \<Rightarrow> Inl ValueError)"

definition aware :: "parsed_time \<Rightarrow> failure + stamp" where
  "aware t = (case t of Aware s \<Rightarrow> Inr s | _ \<Rightarrow> Inl ValueError)"

definition load_row :: "store_codec \<Rightarrow> json \<Rightarrow> failure + trust_record" where
  "load_row sc row =
     sbind (json_dict ValueError row) (\<lambda>d.
     sbind (guard (has_keys d trust_fields) ValueError) (\<lambda>_.
     sbind (load_time sc (get_field d ''first_approved_time'')) (\<lambda>first_time.
     sbind (load_time sc (get_field d ''last_verified_time'')) (\<lambda>last_time.
     sbind (sbind (json_str ValueError (get_field d ''approved_product_identity'')) opaque) (\<lambda>product.
     sbind (sbind (json_str ValueError (get_field d ''approved_installation_identity'')) opaque) (\<lambda>installation.
     sbind (sbind (json_str ValueError (get_field d ''product_version'')) version) (\<lambda>product_version.
     sbind (sbind (json_str ValueError (get_field d ''protocol_version'')) version) (\<lambda>protocol_version.
     sbind (load_level (get_field d ''trust_level'')) (\<lambda>level.
     sbind (aware first_time) (\<lambda>first_stamp.
     sbind (aware last_time) (\<lambda>last_stamp.
     sbind (guard (fst first_stamp \<le> fst last_stamp) ValueError) (\<lambda>_.
     sbind (json_bool ValueError (get_field d ''revoked'')) (\<lambda>revoked.
     Inr \<lparr>tr_product = product, tr_installation = installation, tr_trust_level = level,
          tr_first_approved_time = first_stamp, tr_last_verified_time = last_stamp,
          tr_product_version = product_version, tr_protocol_version = protocol_version,
          tr_revoked = revoked\<rparr>)))))))))))))"

definition loads :: "store_codec \<Rightarrow> string \<Rightarrow> nat \<Rightarrow> failure + trust_store" where
  "loads sc raw limit =
     sbind (guard (sc_bytes sc raw \<le> 1024 * 1024) ValueError) (\<lambda>_.
     sbind (case sc_decode sc raw of None \<Rightarrow> Inl ValueError | Some v \<Rightarrow> Inr v) (\<lambda>v.
     sbind (guard (duplicate_free v) ValueError) (\<lambda>_.
     sbind (json_list ValueError v) (\<lambda>rows.
     sbind (guard (length rows \<le> limit) ValueError) (\<lambda>_.
     sbind (new_trust_store limit) (\<lambda>st.
     sfold (\<lambda>st row. sbind (load_row sc row) (\<lambda>r.
       sbind (guard (dget (st_records st) (trust_key r) = None) ValueError) (\<lambda>_.
       Inr (st\<lparr>st_records := dset (st_records st) (trust_key r) r\<rparr>)))) st rows))))))"

section \<open>Attestation\<close>

record attestation =
  at_current_user_sid :: string
  at_installations :: "(string, installation_record) dict"

definition identity_of :: "product_descriptor \<Rightarrow> peer_os_facts \<Rightarrow> attestation_state \<Rightarrow> failure + peer_identity" where
  "identity_of product facts state = new_peer_identity
     \<lparr>pi_process_id = pf_process_id facts, pi_user_sid = pf_user_sid facts,
      pi_executable_path_hash = pf_executable_path_hash facts, pi_product_id = pd_product_id product,
      pi_instance_id = pd_instance_id product, pi_product_version = pd_product_version product,
      pi_attestation_state = state, pi_installation_id = pf_installation_id facts\<rparr>"

definition matches :: "installation_record \<Rightarrow> product_descriptor \<Rightarrow> peer_os_facts \<Rightarrow> bool" where
  "matches r product facts \<longleftrightarrow>
     Some (in_installation_id r) = pf_installation_id facts \<and>
     Some (in_product_id r) = pf_registered_product_id facts \<and> in_product_id r = pd_product_id product \<and>
     in_executable_path_hash r = pf_executable_path_hash facts \<and> in_executable_hash r = pf_executable_hash facts"

definition signed :: "installation_record \<Rightarrow> peer_os_facts \<Rightarrow> bool" where
  "signed r facts \<longleftrightarrow> pf_signature_valid facts \<and> in_publisher_id r \<noteq> None \<and> pf_publisher_id facts = in_publisher_id r"

text \<open>The state \<open>ProductionPeerAttestation.attest\<close> computes, and the trust store it leaves.\<close>

definition attested_state ::
  "attestation \<Rightarrow> trust_store \<Rightarrow> stamp \<Rightarrow> product_descriptor \<Rightarrow> peer_os_facts \<Rightarrow> failure + attestation_state \<times> trust_store" where
  "attested_state a st now product facts =
     (let r = dget (at_installations a) (case pf_installation_id facts of None \<Rightarrow> [] | Some i \<Rightarrow> i)
      in if \<not> (pf_local_connection facts \<and> pf_user_sid facts = at_current_user_sid a) then Inr (REJECTED, st)
         else (case r of
             None \<Rightarrow> Inr (REJECTED, st)
           | Some r \<Rightarrow>
               if \<not> matches r product facts then Inr (REJECTED, st)
               else
                 let state = (if signed r facts then SIGNED_PRODUCT else KNOWN_PRODUCT)
                 in if (in_require_signature r \<or> in_publisher_id r \<noteq> None) \<and> \<not> signed r facts then Inr (REJECTED, st)
                    else if pf_signature_valid facts \<and> in_publisher_id r \<noteq> pf_publisher_id facts then Inr (REJECTED, st)
                    else (case get_trust (pd_product_id product) (in_installation_id r) st of
                        None \<Rightarrow> Inr (state, st)
                      | Some t \<Rightarrow>
                          if \<not> tr_revoked t \<and> tr_protocol_version t = PROTOCOL_VERSION \<and>
                             tr_trust_level t = ''TRUSTED_INSTALLATION''
                          then sbind (verified (pd_product_id product) (in_installation_id r)
                                        (pd_product_version product) now st) (\<lambda>st'.
                               Inr (TRUSTED_INSTALLATION, st'))
                          else Inr (state, st))))"

definition attest ::
  "attestation \<Rightarrow> trust_store \<Rightarrow> stamp \<Rightarrow> product_descriptor \<Rightarrow> peer_os_facts \<Rightarrow> (failure + peer_identity) \<times> trust_store" where
  "attest a st now product facts =
     (case attested_state a st now product facts of
        Inl e \<Rightarrow> (Inl e, st)
      | Inr (state, st') \<Rightarrow> (identity_of product facts state, st'))"

definition mock_attest :: "product_descriptor \<Rightarrow> peer_os_facts \<Rightarrow> failure + peer_identity" where
  "mock_attest product facts = identity_of product facts MOCK_ONLY"

section \<open>Discovery\<close>

record discovered_peer =
  dp_product_id :: string
  dp_instance_id :: string
  dp_product_version :: string
  dp_protocol_versions :: "string list"
  dp_transport :: string
  dp_trust_state :: attestation_state
  dp_endpoint_id :: "string option"

definition new_discovered_peer :: "discovered_peer \<Rightarrow> failure + discovered_peer" where
  "new_discovered_peer x =
     sbind (opaque (dp_product_id x)) (\<lambda>_.
     sbind (opaque (dp_instance_id x)) (\<lambda>_.
     sbind (version (dp_product_version x)) (\<lambda>_.
     sbind (guard (sized 1 16 (dp_protocol_versions x)) ValueError) (\<lambda>_.
     sbind (smap version (dp_protocol_versions x)) (\<lambda>_.
     sbind (guard (dp_transport x \<in> {''NAMED_PIPE'', ''LOOPBACK_HTTP''}) ValueError) (\<lambda>_.
     sbind (optional opaque (dp_endpoint_id x)) (\<lambda>_. Inr x)))))))"

type_synonym peer_key = "string \<times> string \<times> string"

text \<open>One source: \<open>index >= limit or len(result) >= limit\<close> breaks; \<open>setdefault\<close> keeps the first.\<close>

fun discover_source ::
  "nat \<Rightarrow> nat \<Rightarrow> discovered_peer list \<Rightarrow> (peer_key, discovered_peer) dict \<Rightarrow> (peer_key, discovered_peer) dict" where
  "discover_source limit index [] result = result"
| "discover_source limit index (p # ps) result =
     (if index \<ge> limit \<or> length result \<ge> limit then result
      else let key = (dp_product_id p, dp_instance_id p, dp_transport p)
           in discover_source limit (Suc index) ps (if dget result key = None then dset result key p else result))"

definition discover :: "nat \<Rightarrow> discovered_peer list list \<Rightarrow> failure + discovered_peer list" where
  "discover limit sources =
     sbind (guard (1 \<le> limit \<and> limit \<le> 256) ValueError) (\<lambda>_.
     Inr (dvals (fold (discover_source limit 0) sources [])))"

end
