(* ===== verification/Interop_Events.thy ===== *)
theory Interop_Events
  imports Interop_Identity
begin

text \<open>
  The bounded event projection, \<open>local_interop_desktop/events.py\<close>: sources publish metadata capsules,
  each subscription holds a bounded queue keyed by what the event is about, and draining checks the
  grant again before it numbers and delivers.

  \<^item> Each call is one step of the registry and reads its clocks once (\<open>now\<close>, \<open>monotonic\<close>).
  \<^item> The \<open>authorize\<close> callback of a subscription reads live state, so what it answers is no part of
    the subscription: every call that asks takes the answers of that moment, by subscription and
    capsule (\<open>grants\<close>; an exception or anything but \<open>True\<close> is a no). Publishing and draining are given
    theirs independently.
  \<^item> A delivery callback's effect on the registry is one of three: it returns, raises, or revokes its
    own subscription. What a poll yields is an argument.
  \<^item> \<open>fresh\<close> names the identity \<open>uuid4\<close> gives to the next event or subscription.

  Shown in \<open>Interop_Events_Laws\<close>: queues and subscriptions stay within their bounds and hold only valid
  capsules without content; what is delivered was authorised when it was published and again when
  it is delivered, and its numbers are consecutive.
\<close>

section \<open>State\<close>

datatype event_provenance = DIRECT_EVENT | POLLING | SYNTHETIC

record event_delivery =
  dl_event :: interop_event
  dl_provenance :: event_provenance
  dl_module :: string

datatype callback_effect = Returns | Raises | Revokes

record registration =
  rg_provenance :: event_provenance
  rg_polls :: bool
  rg_next_poll :: rat
  rg_interval :: rat
  rg_failures :: nat

type_synonym event_key = "string \<times> string \<times> string option \<times> string option \<times> string option"

type_synonym grants = "string \<Rightarrow> app_context_capsule \<Rightarrow> bool"

record queued =
  qe_type :: string
  qe_capsule :: app_context_capsule
  qe_provenance :: event_provenance
  qe_module :: string

record subscription =
  sb_session_id :: string
  sb_peer_id :: string
  sb_expires_at :: int
  sb_callback :: "(event_delivery \<Rightarrow> callback_effect) option"
  sb_modules :: "string list"
  sb_paused :: bool
  sb_sequence :: int
  sb_dropped :: nat
  sb_queue :: "(event_key, queued) dict"

record registry =
  re_queue_limit :: nat
  re_subscriber_limit :: nat
  re_poll_interval :: rat
  re_max_idle_interval :: rat
  re_poll_batch_limit :: nat
  re_mock_only :: bool
  re_sources :: "(string, registration) dict"
  re_subscribers :: "(string, subscription) dict"

definition MODULES :: "string list" where
  "MODULES = [''PROJECT'', ''CHAPTER'', ''TASK'', ''MODEL'', ''RUNTIME'', ''EXPORT'', ''WORKFLOW'']"

definition new_registry :: "nat \<Rightarrow> nat \<Rightarrow> rat \<Rightarrow> rat \<Rightarrow> nat \<Rightarrow> bool \<Rightarrow> failure + registry" where
  "new_registry queue_limit subscriber_limit poll_interval max_idle_interval poll_batch_limit mock_only =
     sbind (guard (1 \<le> queue_limit \<and> queue_limit \<le> 256 \<and> 1 \<le> subscriber_limit \<and> subscriber_limit \<le> 256 \<and>
        1 \<le> poll_batch_limit \<and> poll_batch_limit \<le> 256) ValueError) (\<lambda>_.
     sbind (guard (1 / 20 \<le> poll_interval \<and> poll_interval \<le> max_idle_interval \<and> max_idle_interval \<le> 300) ValueError) (\<lambda>_.
     Inr \<lparr>re_queue_limit = queue_limit, re_subscriber_limit = subscriber_limit, re_poll_interval = poll_interval,
          re_max_idle_interval = max_idle_interval, re_poll_batch_limit = poll_batch_limit,
          re_mock_only = mock_only, re_sources = [], re_subscribers = []\<rparr>))"

section \<open>Sources\<close>

datatype source_kind = Direct | Poll | Neither

text \<open>\<open>register\<close>: a direct source whose \<open>subscribe\<close> raises is withdrawn (\<open>connects = False\<close>); the
  closure it is given is \<open>accept\<close> below.\<close>

definition register ::
  "string \<Rightarrow> source_kind \<Rightarrow> event_provenance option \<Rightarrow> bool \<Rightarrow> registry \<Rightarrow> failure + registry" where
  "register mdl kind provenance connects re =
     sbind (guard (mdl \<in> set MODULES \<and> dget (re_sources re) mdl = None) ValueError) (\<lambda>_.
     let provenance = (case provenance of Some p \<Rightarrow> p | None \<Rightarrow> if kind = Poll then POLLING else DIRECT_EVENT)
     in sbind (guard (\<not> (provenance = SYNTHETIC \<and> \<not> re_mock_only re)) ValueError) (\<lambda>_.
        sbind (guard (\<not> (kind = Poll \<and> provenance \<noteq> POLLING)) ValueError) (\<lambda>_.
        sbind (guard (kind \<noteq> Direct \<or> connects) ValueError) (\<lambda>_.
        Inr (re\<lparr>re_sources := dset (re_sources re) mdl
          \<lparr>rg_provenance = provenance, rg_polls = (kind = Poll), rg_next_poll = 0,
           rg_interval = re_poll_interval re, rg_failures = 0\<rparr>\<rparr>)))))"

record description =
  ds_module :: string
  ds_provenance :: event_provenance
  ds_poll_interval :: "rat option"
  ds_ready :: bool

definition describe :: "registry \<Rightarrow> description list" where
  "describe re = map (\<lambda>(mdl, s). \<lparr>ds_module = mdl, ds_provenance = rg_provenance s,
       ds_poll_interval = (if rg_polls s then Some (rg_interval s) else None), ds_ready = (rg_failures s = 0)\<rparr>)
     (sort_key fst (re_sources re))"

section \<open>Subscriptions\<close>

definition revoke_subscription :: "string \<Rightarrow> registry \<Rightarrow> registry" where
  "revoke_subscription sid re = re\<lparr>re_subscribers := dpop (re_subscribers re) sid\<rparr>"

definition expire :: "int \<Rightarrow> registry \<Rightarrow> registry" where
  "expire now re = fold (\<lambda>(sid, s) re. if sb_expires_at s \<le> now then revoke_subscription sid re else re)
     (re_subscribers re) re"

definition subscribe ::
  "int \<Rightarrow> string \<Rightarrow> string \<Rightarrow> string \<Rightarrow> int \<Rightarrow>
     (event_delivery \<Rightarrow> callback_effect) option \<Rightarrow> string list option \<Rightarrow> registry \<Rightarrow> (failure + string) \<times> registry" where
  "subscribe now fresh session_id peer_id expires_at callback modules re =
     (let re = expire now re;
          selected = (case modules of None \<Rightarrow> MODULES | Some ms \<Rightarrow> ms)
      in case sbind (opaque session_id) (\<lambda>_. sbind (opaque peer_id) (\<lambda>_.
              sbind (guard (expires_at > now)
                (violation ''PERMISSION_DENIED'' ''A live explicit event authorization is required'')) (\<lambda>_.
              sbind (guard (set selected \<subseteq> set MODULES) ValueError) (\<lambda>_.
              guard (length (re_subscribers re) < re_subscriber_limit re)
                (violation ''TRANSPORT_ERROR'' ''Subscription capacity reached'')))))
         of Inl e \<Rightarrow> (Inl e, re)
          | Inr _ \<Rightarrow> (Inr fresh, re\<lparr>re_subscribers := dset (re_subscribers re) fresh
              \<lparr>sb_session_id = session_id, sb_peer_id = peer_id, sb_expires_at = expires_at,
               sb_callback = callback, sb_modules = selected, sb_paused = False,
               sb_sequence = 0, sb_dropped = 0, sb_queue = []\<rparr>\<rparr>))"

text \<open>\<open>_authorized\<close>; \<open>ask\<close> is what the subscription's callback answers now.\<close>

definition authorized :: "wire \<Rightarrow> int \<Rightarrow> (app_context_capsule \<Rightarrow> bool) \<Rightarrow> subscription \<Rightarrow> app_context_capsule \<Rightarrow> bool" where
  "authorized w now ask s capsule \<longleftrightarrow> \<not> (sb_expires_at s \<le> now \<or> sb_paused s) \<and>
     validate_capsule w capsule now None None None = Inr () \<and> ask capsule"

definition is_active :: "int \<Rightarrow> string \<Rightarrow> registry \<Rightarrow> bool \<times> registry" where
  "is_active now sid re = (let re = expire now re in (dget (re_subscribers re) sid \<noteq> None, re))"

definition update_subscription :: "string \<Rightarrow> (subscription \<Rightarrow> subscription) \<Rightarrow> registry \<Rightarrow> registry" where
  "update_subscription sid f re = (case dget (re_subscribers re) sid of
     None \<Rightarrow> re | Some s \<Rightarrow> re\<lparr>re_subscribers := dset (re_subscribers re) sid (f s)\<rparr>)"

definition pause :: "string \<Rightarrow> registry \<Rightarrow> registry" where
  "pause sid = update_subscription sid (\<lambda>s. s\<lparr>sb_paused := True, sb_queue := []\<rparr>)"

definition resume :: "int \<Rightarrow> string \<Rightarrow> registry \<Rightarrow> registry" where
  "resume now sid re = update_subscription sid (\<lambda>s. s\<lparr>sb_paused := False\<rparr>) (expire now re)"

definition disconnect_peer :: "string \<Rightarrow> registry \<Rightarrow> registry" where
  "disconnect_peer peer_id re = fold (\<lambda>(sid, s) re. if sb_peer_id s = peer_id then revoke_subscription sid re else re)
     (re_subscribers re) re"

definition clear_subscriptions :: "registry \<Rightarrow> registry" where
  "clear_subscriptions re = fold (\<lambda>sid. revoke_subscription sid) (dkeys (re_subscribers re)) re"

definition shutdown_registry :: "registry \<Rightarrow> registry" where
  "shutdown_registry re = (clear_subscriptions re)\<lparr>re_sources := []\<rparr>"

section \<open>Publishing\<close>

definition event_key :: "string \<Rightarrow> string \<Rightarrow> app_context_capsule \<Rightarrow> event_key" where
  "event_key mdl event_type capsule =
     (mdl, event_type, cx_project_id capsule, cx_chapter_id capsule, cx_task_id capsule)"

definition enqueue :: "nat \<Rightarrow> event_key \<Rightarrow> queued \<Rightarrow> subscription \<Rightarrow> subscription" where
  "enqueue limit key entry s =
     (let s = (if dget (sb_queue s) key \<noteq> None then s\<lparr>sb_queue := dpop (sb_queue s) key\<rparr>
               else if length (sb_queue s) \<ge> limit
               then s\<lparr>sb_queue := tl (sb_queue s), sb_dropped := sb_dropped s + 1\<rparr> else s)
      in s\<lparr>sb_queue := dset (sb_queue s) key entry\<rparr>)"

text \<open>The body of the loop over the subscriptions.\<close>

definition publish_to ::
  "wire \<Rightarrow> int \<Rightarrow> grants \<Rightarrow> queued \<Rightarrow> string option \<Rightarrow> string \<times> subscription \<Rightarrow> nat \<times> registry \<Rightarrow> nat \<times> registry" where
  "publish_to w now ask entry subscription_id = (\<lambda>(sid, s) (count, re).
     if (subscription_id \<noteq> None \<and> Some sid \<noteq> subscription_id) \<or>
        qe_module entry \<notin> set (sb_modules s) \<or> \<not> authorized w now (ask sid) s (qe_capsule entry) then (count, re)
     else (Suc count,
       re\<lparr>re_subscribers := dset (re_subscribers re) sid
         (enqueue (re_queue_limit re) (event_key (qe_module entry) (qe_type entry) (qe_capsule entry)) entry s)\<rparr>))"

definition publish ::
  "wire \<Rightarrow> int \<Rightarrow> grants \<Rightarrow> string \<Rightarrow> string \<Rightarrow> app_context_capsule \<Rightarrow> string option \<Rightarrow> registry \<Rightarrow> (failure + nat) \<times> registry" where
  "publish w now ask mdl event_type capsule subscription_id re =
     (case dget (re_sources re) mdl of
        None \<Rightarrow> (Inl (violation ''INVALID_MESSAGE'' ''An enrolled source and existing V1 event type are required''), re)
      | Some source \<Rightarrow>
          if \<not> EventType event_type
          then (Inl (violation ''INVALID_MESSAGE'' ''An enrolled source and existing V1 event type are required''), re)
          else if \<not> valid_app_context_capsule w capsule then (Inl invalid_message, re)
          else if cc_level (cx_content capsule) \<noteq> ''NONE''
          then (Inl (violation ''CONTEXT_NOT_AUTHORIZED'' ''Events may contain metadata only''), re)
          else
            let re = expire now re;
                entry = \<lparr>qe_type = event_type, qe_capsule = capsule, qe_provenance = rg_provenance source,
                         qe_module = mdl\<rparr>;
                (count, re) = fold (publish_to w now ask entry subscription_id) (re_subscribers re) (0, re)
            in (Inr count, re))"

text \<open>\<open>accept\<close>, the closure a direct source calls with its events: a failed projection is counted on the
  registration and never reaches the source. \<open>current\<close> says whether the registration the closure
  belongs to is still the enrolled one; otherwise nobody sees its counter.\<close>

definition accept ::
  "wire \<Rightarrow> int \<Rightarrow> grants \<Rightarrow> string \<Rightarrow> bool \<Rightarrow> string \<Rightarrow> app_context_capsule \<Rightarrow> registry \<Rightarrow> registry" where
  "accept w now ask mdl current kind capsule re =
     (case publish w now ask mdl kind capsule None re of (r, re) \<Rightarrow>
        (case dget (re_sources re) mdl of
           None \<Rightarrow> re
         | Some source \<Rightarrow>
             if \<not> current then re
             else re\<lparr>re_sources := dset (re_sources re) mdl (source\<lparr>rg_failures :=
                    (case r of Inl _ \<Rightarrow> rg_failures source + 1 | Inr _ \<Rightarrow> 0)\<rparr>)\<rparr>))"

section \<open>Delivery\<close>

text \<open>The loop of \<open>drain\<close>. It stops when the subscription is gone.\<close>

fun drain_loop ::
  "wire \<Rightarrow> int \<Rightarrow> grants \<Rightarrow> (int \<Rightarrow> string) \<Rightarrow> string \<Rightarrow> nat \<Rightarrow> registry \<Rightarrow> event_delivery list
     \<Rightarrow> (failure + event_delivery list) \<times> registry" where
  "drain_loop w now ask fresh sid 0 re result = (Inr result, re)"
| "drain_loop w now ask fresh sid (Suc n) re result =
     (case dget (re_subscribers re) sid of
        None \<Rightarrow> (Inr result, re)
      | Some s \<Rightarrow>
          (case sb_queue s of
             [] \<Rightarrow> (Inr result, re)
           | (_, entry) # rest \<Rightarrow>
               let s = s\<lparr>sb_queue := rest\<rparr>
               in if \<not> authorized w now (ask sid) s (qe_capsule entry)
                  then drain_loop w now ask fresh sid n (re\<lparr>re_subscribers := dset (re_subscribers re) sid s\<rparr>) result
                  else
                    let s = s\<lparr>sb_sequence := sb_sequence s + 1\<rparr>;
                        event = \<lparr>ie_event_id = fresh (sb_sequence s), ie_session_id = sb_session_id s,
                          ie_sequence = sb_sequence s, ie_event_type = qe_type entry, ie_created_at = now,
                          ie_context = qe_capsule entry\<rparr>;
                        re = re\<lparr>re_subscribers := dset (re_subscribers re) sid s\<rparr>;
                        delivery = \<lparr>dl_event = event, dl_provenance = qe_provenance entry, dl_module = qe_module entry\<rparr>
                    in if \<not> valid_interop_event w event then (Inl ValueError, re)
                       else (case sb_callback s of
                           None \<Rightarrow> drain_loop w now ask fresh sid n re (result @ [delivery])
                         | Some callback \<Rightarrow>
                             (case callback delivery of
                                Returns \<Rightarrow> drain_loop w now ask fresh sid n re (result @ [delivery])
                              | Raises \<Rightarrow> (Inr result, revoke_subscription sid re)
                              | Revokes \<Rightarrow> drain_loop w now ask fresh sid n (revoke_subscription sid re) (result @ [delivery])))))"

definition drain ::
  "wire \<Rightarrow> int \<Rightarrow> grants \<Rightarrow> (int \<Rightarrow> string) \<Rightarrow> string \<Rightarrow> nat option \<Rightarrow> registry \<Rightarrow> (failure + event_delivery list) \<times> registry" where
  "drain w now ask fresh sid limit re =
     (let re = expire now re
      in case dget (re_subscribers re) sid of
           None \<Rightarrow> (Inr [], re)
         | Some s \<Rightarrow>
             if sb_paused s then (Inr [], re)
             else let limit = (case limit of None \<Rightarrow> re_queue_limit re | Some n \<Rightarrow> n)
                  in if \<not> (1 \<le> limit \<and> limit \<le> re_queue_limit re) then (Inl ValueError, re)
                     else drain_loop w now ask fresh sid (min limit (length (sb_queue s))) re [])"

section \<open>Polling\<close>

text \<open>What a poll yields before it ends, and whether it ends by raising.\<close>

record poll_outcome =
  po_items :: "(string \<times> app_context_capsule) list"
  po_raises :: bool

text \<open>The \<open>for\<close> loop over one poll: how many deliveries were queued, and whether it raised.\<close>

fun publish_polled ::
  "wire \<Rightarrow> int \<Rightarrow> grants \<Rightarrow> string \<Rightarrow> (string \<times> app_context_capsule) list \<Rightarrow> nat \<Rightarrow> registry \<Rightarrow> bool \<times> nat \<times> registry" where
  "publish_polled w now ask mdl [] changed re = (False, changed, re)"
| "publish_polled w now ask mdl ((kind, capsule) # rest) changed re =
     (case publish w now ask mdl kind capsule None re of
        (Inl e, re) \<Rightarrow> (True, changed, re)
      | (Inr n, re) \<Rightarrow> publish_polled w now ask mdl rest (changed + n) re)"

definition poll_source ::
  "wire \<Rightarrow> int \<Rightarrow> grants \<Rightarrow> rat \<Rightarrow> (string \<Rightarrow> poll_outcome) \<Rightarrow> string \<Rightarrow> nat \<times> registry \<Rightarrow> nat \<times> registry" where
  "poll_source w now ask monotonic polls mdl acc =
     (let (count, re) = acc
      in case dget (re_sources re) mdl of
           None \<Rightarrow> (count, re)
         | Some source \<Rightarrow>
             if \<not> rg_polls source \<or> monotonic < rg_next_poll source then (count, re)
             else
               let outcome = polls mdl;
                   (raised, changed, re) = publish_polled w now ask mdl
                     (take (re_poll_batch_limit re) (po_items outcome)) 0 re;
                   raised = (raised \<or> po_raises outcome \<and> length (po_items outcome) \<le> re_poll_batch_limit re);
                   interval = (if 0 < changed then re_poll_interval re
                               else min (re_max_idle_interval re) (rg_interval source * 2));
                   source = source\<lparr>rg_failures := (if raised then rg_failures source + 1 else 0),
                                   rg_interval := interval, rg_next_poll := monotonic + interval\<rparr>
               in (count + changed, re\<lparr>re_sources := dset (re_sources re) mdl source\<rparr>))"

definition poll_due :: "wire \<Rightarrow> int \<Rightarrow> grants \<Rightarrow> rat \<Rightarrow> (string \<Rightarrow> poll_outcome) \<Rightarrow> registry \<Rightarrow> nat \<times> registry" where
  "poll_due w now ask monotonic polls re =
     (let re = expire now re
      in if \<not> list_ex (\<lambda>s. \<not> sb_paused s) (dvals (re_subscribers re)) then (0, re)
         else fold (poll_source w now ask monotonic polls) (dkeys (re_sources re)) (0, re))"

end
