(* ===== verification/Interop_Host.thy ===== *)
theory Interop_Host
  imports Interop_Events
begin

text \<open>
  What the product lends to the bridge: bounded health and audit records
  (\<open>local_interop_desktop/diagnostics.py\<close>), the read-only cache of the model registry, the gate of
  user gestures and the handoff handler (\<open>local_interop_desktop/providers.py\<close>). The clock reading
  and the token or registry a call obtains are arguments; durations are whole microseconds.

  Shown in \<open>Interop_Laws\<close>: a gesture opens its target at most once, within its lifetime, and only the action and
  target it was issued for.
\<close>

section \<open>Diagnostics\<close>

datatype health_status = HS_READY | HS_DEGRADED | HS_UNAVAILABLE | HS_UNKNOWN

record interop_health =
  ih_transport :: health_status
  ih_peer :: health_status
  ih_session :: health_status
  ih_capabilities :: health_status
  ih_events :: health_status
  ih_tutor :: health_status
  ih_verifier :: health_status

record audit_record =
  ar_timestamp :: int
  ar_operation :: string
  ar_peer_product_id :: "string option"
  ar_capability :: "string option"
  ar_decision :: string
  ar_result :: string
  ar_error_code :: "string option"

definition audit_operations :: "string list" where
  "audit_operations = [''START'', ''STOP'', ''CONNECT'', ''DISCONNECT'', ''HELLO'', ''CAPABILITY_NEGOTIATION'', ''SESSION'',
     ''TUTOR'', ''DIAGNOSTICS'', ''VERIFY'', ''HANDOFF'', ''HEARTBEAT'', ''CANCEL'', ''SUBSCRIBE'', ''UNSUBSCRIBE'',
     ''REVOKE'', ''SHUTDOWN'', ''ATTEST'']"

definition new_audit_record :: "audit_record \<Rightarrow> failure + audit_record" where
  "new_audit_record x =
     sbind (guard (ar_operation x \<in> set audit_operations) ValueError) (\<lambda>_.
     sbind (optional opaque (ar_peer_product_id x)) (\<lambda>_.
     sbind (guard (opt_ok Capability (ar_capability x)) ValueError) (\<lambda>_.
     sbind (guard (ar_decision x \<in> {''ALLOW'', ''DENY'', ''NONE''}) ValueError) (\<lambda>_.
     sbind (guard (ar_result x \<in> {''SUCCESS'', ''FAILED'', ''CANCELLED'', ''TIMEOUT'', ''PENDING''}) ValueError) (\<lambda>_.
     sbind (guard (opt_ok ErrorCode (ar_error_code x)) ValueError) (\<lambda>_. Inr x))))))"

record audit_log =
  al_limit :: nat
  al_records :: "audit_record list"

definition new_audit :: "nat \<Rightarrow> failure + audit_log" where
  "new_audit limit = sbind (guard (1 \<le> limit \<and> limit \<le> 4096) ValueError) (\<lambda>_.
     Inr \<lparr>al_limit = limit, al_records = []\<rparr>)"

text \<open>\<open>deque(maxlen=n).append(x)\<close>.\<close>

definition bounded_append :: "nat \<Rightarrow> 'a list \<Rightarrow> 'a \<Rightarrow> 'a list" where
  "bounded_append n xs x = drop (length xs + 1 - n) (xs @ [x])"

definition record_audit ::
  "int \<Rightarrow> string \<Rightarrow> string option \<Rightarrow> string option \<Rightarrow> string \<Rightarrow> string \<Rightarrow> string option \<Rightarrow> audit_log \<Rightarrow> failure + audit_log" where
  "record_audit now operation peer capability decision result error_code al =
     sbind (new_audit_record \<lparr>ar_timestamp = now, ar_operation = operation, ar_peer_product_id = peer,
       ar_capability = capability, ar_decision = decision, ar_result = result, ar_error_code = error_code\<rparr>) (\<lambda>r.
     Inr (al\<lparr>al_records := bounded_append (al_limit al) (al_records al) r\<rparr>))"

text \<open>\<open>flush\<close>: the records go to the sink; they are kept when the sink raises.\<close>

definition flush_audit :: "(audit_record list \<Rightarrow> bool) \<Rightarrow> audit_log \<Rightarrow> (failure + unit) \<times> audit_log" where
  "flush_audit sink_ok al =
     (if sink_ok (al_records al) then (Inr (), al\<lparr>al_records := []\<rparr>) else (Inl RuntimeError, al))"

record diagnostic_snapshot =
  di_state_machine :: string
  di_capability_state :: "string list"
  di_error_codes :: "string list"
  di_timings_ms :: "rat list"
  di_trust_state :: string
  di_protocol_version :: string

definition transport_states :: "string list" where
  "transport_states = [''STOPPED'', ''STARTING'', ''LISTENING'', ''DISCOVERING'', ''CONNECTING'', ''HANDSHAKING'',
     ''AUTHENTICATING'', ''NEGOTIATING'', ''READY'', ''DEGRADED'', ''REVOKING'', ''DISCONNECTING'', ''FAILED'']"

definition trust_states :: "string list" where
  "trust_states = [''UNVERIFIED'', ''SAME_USER'', ''KNOWN_PRODUCT'', ''SIGNED_PRODUCT'', ''TRUSTED_INSTALLATION'',
     ''REJECTED'', ''MOCK_ONLY'']"

definition new_diagnostic_snapshot :: "diagnostic_snapshot \<Rightarrow> failure + diagnostic_snapshot" where
  "new_diagnostic_snapshot x =
     sbind (guard (di_state_machine x \<in> set transport_states) ValueError) (\<lambda>_.
     sbind (guard (length (di_capability_state x) \<le> 64 \<and> set (di_capability_state x) \<subseteq> set CAPABILITIES) ValueError) (\<lambda>_.
     sbind (guard (length (di_error_codes x) \<le> 32 \<and> list_all ErrorCode (di_error_codes x)) ValueError) (\<lambda>_.
     sbind (guard (length (di_timings_ms x) \<le> 32 \<and> list_all (\<lambda>t. 0 \<le> t \<and> t \<le> 86400000) (di_timings_ms x)) ValueError) (\<lambda>_.
     sbind (guard (di_trust_state x \<in> set trust_states) ValueError) (\<lambda>_.
     sbind (guard (di_protocol_version x = PROTOCOL_VERSION) ValueError) (\<lambda>_. Inr x))))))"

section \<open>The model registry cache\<close>

record registry_cache =
  mc_ttl :: int
  mc_registry :: "model_registry option"
  mc_fetched_at :: "int option"
  mc_failed :: bool

definition new_registry_cache :: "int \<Rightarrow> failure + registry_cache" where
  "new_registry_cache ttl = sbind (guard (0 < ttl \<and> ttl \<le> 3600 * 1000000) ValueError) (\<lambda>_.
     Inr \<lparr>mc_ttl = ttl, mc_registry = None, mc_fetched_at = None, mc_failed = False\<rparr>)"

text \<open>\<open>refresh\<close>: \<open>provided\<close> is what the provider answers, \<open>None\<close> when it raises.\<close>

definition refresh :: "wire \<Rightarrow> int \<Rightarrow> model_registry option \<Rightarrow> registry_cache \<Rightarrow> (failure + model_registry) \<times> registry_cache" where
  "refresh w now provided mc =
     (case sbind (case provided of None \<Rightarrow> Inl RuntimeError | Some r \<Rightarrow> Inr r) (\<lambda>r.
           sbind (guard (valid_model_registry w r) invalid_message) (\<lambda>_.
           sbind (guard (\<not> (mr_created_at r > now \<or> now - mr_created_at r \<ge> mc_ttl mc))
             (violation ''CONTEXT_STALE'' ''Model metadata is stale'')) (\<lambda>_. Inr r)))
      of Inl e \<Rightarrow> (Inl e, mc\<lparr>mc_failed := True\<rparr>)
       | Inr r \<Rightarrow> (Inr r, mc\<lparr>mc_registry := Some r, mc_fetched_at := Some now, mc_failed := False\<rparr>))"

definition cache_state :: "int \<Rightarrow> registry_cache \<Rightarrow> string" where
  "cache_state now mc = (case mc_registry mc of
     None \<Rightarrow> ''UNAVAILABLE''
   | Some r \<Rightarrow> if mc_failed mc \<or> now < mr_created_at r \<or> now - mr_created_at r \<ge> mc_ttl mc then ''STALE'' else ''READY'')"

definition cache_snapshot :: "int \<Rightarrow> registry_cache \<Rightarrow> model_registry option \<times> string \<times> int option" where
  "cache_snapshot now mc = (mc_registry mc, cache_state now mc, mc_fetched_at mc)"

definition clear_cache :: "registry_cache \<Rightarrow> registry_cache" where
  "clear_cache mc = mc\<lparr>mc_registry := None, mc_fetched_at := None, mc_failed := False\<rparr>"

section \<open>User presence\<close>

record presence =
  ps_action :: string
  ps_target_id :: string
  ps_source :: string
  ps_expires_at :: int

record presence_gate =
  pg_limit :: nat
  pg_tokens :: "(string, presence) dict"

definition new_presence_gate :: "nat \<Rightarrow> failure + presence_gate" where
  "new_presence_gate limit = sbind (guard (1 \<le> limit \<and> limit \<le> 256) ValueError) (\<lambda>_.
     Inr \<lparr>pg_limit = limit, pg_tokens = []\<rparr>)"

definition presence_required :: failure where
  "presence_required = violation ''PERMISSION_DENIED'' ''Fresh matching user presence required''"

definition issue ::
  "int \<Rightarrow> string \<Rightarrow> string \<Rightarrow> string \<Rightarrow> string \<Rightarrow> int \<Rightarrow> presence_gate \<Rightarrow> (failure + string) \<times> presence_gate" where
  "issue now token action target_id source ttl pg =
     (case sbind (guard (action \<in> {''OPEN_FEATURE'', ''OPEN_PROJECT'', ''OPEN_TASK'', ''OPEN_CHAPTER'', ''OPEN_SESSION''})
             (violation ''PERMISSION_DENIED'' ''Unsupported handoff action'')) (\<lambda>_.
           sbind (guard (source \<in> {''USER_CLICK'', ''CONFIRMED_DIALOG''} \<and> 0 < ttl \<and> ttl \<le> 60 * 1000000)
             (violation ''PERMISSION_DENIED'' ''Fresh local user presence required'')) (\<lambda>_.
           opaque target_id))
      of Inl e \<Rightarrow> (Inl e, pg)
       | Inr _ \<Rightarrow>
           let pg = pg\<lparr>pg_tokens := filter (\<lambda>kv. ps_expires_at (snd kv) > now) (pg_tokens pg)\<rparr>
           in if length (pg_tokens pg) \<ge> pg_limit pg
              then (Inl (violation ''PERMISSION_DENIED'' ''User presence capacity reached''), pg)
              else (Inr token, pg\<lparr>pg_tokens := dset (pg_tokens pg) token
                \<lparr>ps_action = action, ps_target_id = target_id, ps_source = source,
                 ps_expires_at = now + ttl\<rparr>\<rparr>))"

definition consume :: "int \<Rightarrow> string \<Rightarrow> string \<Rightarrow> string \<Rightarrow> presence_gate \<Rightarrow> (failure + unit) \<times> presence_gate" where
  "consume now token action target_id pg =
     (case dget (pg_tokens pg) token of
        None \<Rightarrow> (Inl presence_required, pg)
      | Some p \<Rightarrow>
          (guard (\<not> (ps_expires_at p \<le> now \<or> (ps_action p, ps_target_id p) \<noteq> (action, target_id))) presence_required,
           pg\<lparr>pg_tokens := dpop (pg_tokens pg) token\<rparr>))"

definition target_binding :: "wire \<Rightarrow> handoff_target \<Rightarrow> string option \<Rightarrow> string" where
  "target_binding w target session_id = canonical_hash w
     (JDict [(''target'', dump_handoff_target w target), (''session_id'', opt_dump JStr session_id)]) []"

definition issue_target ::
  "wire \<Rightarrow> int \<Rightarrow> string \<Rightarrow> handoff_target \<Rightarrow> string option \<Rightarrow> string \<Rightarrow> int \<Rightarrow> presence_gate \<Rightarrow> (failure + string) \<times> presence_gate" where
  "issue_target w now token target session_id source ttl pg =
     (case sbind (guard (valid_handoff_target w target) ValueError) (\<lambda>_. optional opaque session_id) of
        Inl e \<Rightarrow> (Inl e, pg)
      | Inr _ \<Rightarrow> issue now token (ht_action target) (target_binding w target session_id) source ttl pg)"

definition consume_target ::
  "wire \<Rightarrow> int \<Rightarrow> string \<Rightarrow> handoff_target \<Rightarrow> string option \<Rightarrow> presence_gate \<Rightarrow> (failure + unit) \<times> presence_gate" where
  "consume_target w now token target session_id pg =
     (if \<not> valid_handoff_target w target then (Inl ValueError, pg)
      else consume now token (ht_action target) (target_binding w target session_id) pg)"

definition clear_presence :: "presence_gate \<Rightarrow> presence_gate" where
  "clear_presence pg = pg\<lparr>pg_tokens := []\<rparr>"

text \<open>\<open>InteropHandoffHandler.open\<close>: \<open>Inr\<close> is the target given to the host's \<open>open_target\<close>.\<close>

definition open_handoff ::
  "wire \<Rightarrow> int \<Rightarrow> (handoff_target \<Rightarrow> bool) \<Rightarrow> handoff_target \<Rightarrow> string \<Rightarrow> string option \<Rightarrow> presence_gate
     \<Rightarrow> (failure + handoff_target) \<times> presence_gate" where
  "open_handoff w now resolve target token session_id pg =
     (let (r, pg) = consume_target w now token target session_id pg
      in (sbind r (\<lambda>_. sbind (guard (resolve target)
            (violation ''HANDOFF_TARGET_NOT_FOUND'' ''Handoff target is not current'')) (\<lambda>_. Inr target)), pg))"

end
