(* ===== verification/Interop_Transport.thy ===== *)
theory Interop_Transport
  imports Interop_Host
begin

text \<open>
  The desktop transport, \<open>local_interop_desktop/transport.py\<close>: a state machine driven by coroutines
  that overlap. A coroutine is modelled by its segments between awaits. \<open>begin_<call>\<close> runs up to the
  first await and leaves a \<open>task\<close>; \<open>resume\<close> takes what the await gave (a failure stands for a
  timeout, back-pressure, an adapter's exception or a cancellation) and runs to the next.

  \<^item> An action threads the transport and may raise; what it changed before raising stays changed.
  \<^item> \<open>world\<close> is read anew by each segment: the clock, the acceptance-mode environment variable, the
    injected attestation, and the random nonce and identities.
  \<^item> The host's \<open>authorize\<close> and \<open>fresh\<close> callbacks answer at each segment that calls them; \<open>wo_consents\<close> is
    what the \<open>authorize\<close> callbacks given to \<open>subscribe\<close> answer, by subscription and capsule.
  \<^item> The event registry is shared with the host, which enrols sources and publishes into it between
    segments (\<open>host_event\<close>).
  \<^item> Observers are host hooks whose exceptions are dropped; only the history they would see is kept.
\<close>

section \<open>State\<close>

datatype transport_state = STOPPED | STARTING | LISTENING | DISCOVERING | CONNECTING | HANDSHAKING |
  AUTHENTICATING | NEGOTIATING | READY | DEGRADED | REVOKING | DISCONNECTING | FAILED

fun TRANSITIONS :: "transport_state \<Rightarrow> transport_state list" where
  "TRANSITIONS STOPPED = [STARTING]"
| "TRANSITIONS STARTING = [LISTENING, FAILED, REVOKING]"
| "TRANSITIONS LISTENING = [DISCOVERING, CONNECTING, REVOKING, FAILED]"
| "TRANSITIONS DISCOVERING = [LISTENING, CONNECTING, FAILED, REVOKING]"
| "TRANSITIONS CONNECTING = [HANDSHAKING, FAILED, REVOKING]"
| "TRANSITIONS HANDSHAKING = [AUTHENTICATING, FAILED, REVOKING]"
| "TRANSITIONS AUTHENTICATING = [NEGOTIATING, FAILED, REVOKING]"
| "TRANSITIONS NEGOTIATING = [READY, FAILED, REVOKING]"
| "TRANSITIONS READY = [DEGRADED, REVOKING, FAILED]"
| "TRANSITIONS DEGRADED = [REVOKING, FAILED]"
| "TRANSITIONS REVOKING = [DISCONNECTING, STOPPED, FAILED]"
| "TRANSITIONS DISCONNECTING = [LISTENING, STOPPED, FAILED]"
| "TRANSITIONS FAILED = [REVOKING, STARTING, STOPPED]"

record transport_snapshot =
  sn_state :: transport_state
  sn_revision :: nat
  sn_physically_connected :: bool
  sn_handshake_complete :: bool
  sn_peer_authenticated :: bool
  sn_session_established :: bool
  sn_capabilities_negotiated :: bool
  sn_epoch :: nat
  sn_instance_id :: string
  sn_error_code :: "string option"

text \<open>\<open>pe_task\<close> names the coroutine that waits.\<close>

record pending =
  pe_epoch :: nat
  pe_task :: nat

record transport =
  tp_product :: product_descriptor
  tp_enabled :: bool
  tp_acceptance_mode :: bool
  tp_mock_only :: bool
  tp_max_pending :: nat
  tp_events :: registry
  tp_audit :: audit_log
  tp_state :: transport_state
  tp_revision :: nat
  tp_epoch :: nat
  tp_physical :: bool
  tp_handshake :: bool
  tp_authenticated :: bool
  tp_negotiated :: bool
  tp_identity :: "peer_identity option"
  tp_peer :: "product_descriptor option"
  tp_facts :: "peer_os_facts option"
  tp_session :: "session_descriptor option"
  tp_session_token :: "string option"
  tp_pending :: "(string, pending) dict"
  tp_used_requests :: "string list"
  tp_subscriptions :: "string list"
  tp_error :: "string option"
  tp_history :: "transport_snapshot list"
  tp_cancelled :: "nat list"

record world =
  wo_wire :: wire
  wo_now :: int
  wo_acceptance :: bool
  wo_attest :: "product_descriptor \<Rightarrow> peer_os_facts \<Rightarrow> failure + peer_identity"
  wo_nonce :: string
  wo_fresh :: string
  wo_authorize :: bool
  wo_unchanged :: bool
  wo_consents :: grants

section \<open>Actions\<close>

type_synonym 'a act = "transport \<Rightarrow> (failure + 'a) \<times> transport"

definition ret :: "'a \<Rightarrow> 'a act" where "ret x = (\<lambda>st. (Inr x, st))"
definition raise :: "failure \<Rightarrow> 'a act" where "raise e = (\<lambda>st. (Inl e, st))"

definition bind :: "'a act \<Rightarrow> ('a \<Rightarrow> 'b act) \<Rightarrow> 'b act" where
  "bind m f = (\<lambda>st. case m st of (Inl e, st') \<Rightarrow> (Inl e, st') | (Inr x, st') \<Rightarrow> f x st')"

definition handle :: "'a act \<Rightarrow> (failure \<Rightarrow> 'a act) \<Rightarrow> 'a act" where
  "handle m h = (\<lambda>st. case m st of (Inl e, st') \<Rightarrow> h e st' | (Inr x, st') \<Rightarrow> (Inr x, st'))"

definition lift :: "failure + 'a \<Rightarrow> 'a act" where "lift r = (\<lambda>st. (r, st))"
definition gets :: "(transport \<Rightarrow> 'a) \<Rightarrow> 'a act" where "gets f = (\<lambda>st. (Inr (f st), st))"
definition modify :: "(transport \<Rightarrow> transport) \<Rightarrow> unit act" where "modify f = (\<lambda>st. (Inr (), f st))"
definition require :: "bool \<Rightarrow> failure \<Rightarrow> unit act" where "require b e = lift (guard b e)"

text \<open>\<open>except Exception\<close> lets a cancellation pass.\<close>

definition handle_exception :: "'a act \<Rightarrow> (failure \<Rightarrow> 'a act) \<Rightarrow> 'a act" where
  "handle_exception m h = handle m (\<lambda>e. if e = Cancelled then raise e else h e)"

section \<open>Basic steps\<close>

definition snapshot_of :: "transport \<Rightarrow> transport_snapshot" where
  "snapshot_of st = \<lparr>sn_state = tp_state st, sn_revision = tp_revision st, sn_physically_connected = tp_physical st,
     sn_handshake_complete = tp_handshake st, sn_peer_authenticated = tp_authenticated st,
     sn_session_established = (tp_session st \<noteq> None), sn_capabilities_negotiated = tp_negotiated st,
     sn_epoch = tp_epoch st, sn_instance_id = pd_instance_id (tp_product st), sn_error_code = tp_error st\<rparr>"

definition observe :: "unit act" where
  "observe = modify (\<lambda>st. let st = st\<lparr>tp_revision := tp_revision st + 1\<rparr>
     in st\<lparr>tp_history := bounded_append 128 (tp_history st) (snapshot_of st)\<rparr>)"

definition transition :: "transport_state \<Rightarrow> string option \<Rightarrow> unit act" where
  "transition target error =
     bind (gets tp_state) (\<lambda>s.
     bind (require (target = s \<or> target \<in> set (TRANSITIONS s)) RuntimeError) (\<lambda>_.
     bind (modify (\<lambda>st. st\<lparr>tp_state := target, tp_error := error\<rparr>)) (\<lambda>_. observe)))"

definition feature_allowed :: "world \<Rightarrow> transport \<Rightarrow> bool" where
  "feature_allowed wo st \<longleftrightarrow> tp_enabled st \<and> \<not> tp_acceptance_mode st \<and> \<not> wo_acceptance wo"

definition clear_bridge_subscriptions :: "transport \<Rightarrow> transport" where
  "clear_bridge_subscriptions st = st\<lparr>tp_events := fold revoke_subscription (tp_subscriptions st) (tp_events st),
     tp_subscriptions := []\<rparr>"

text \<open>\<open>_cancel_all\<close>: \<open>self\<close> is the current task, which is never cancelled by its own doing.\<close>

definition cancel_all :: "nat option \<Rightarrow> transport \<Rightarrow> transport" where
  "cancel_all self st = st\<lparr>tp_cancelled := filter (\<lambda>t. Some t \<noteq> self) (map pe_task (dvals (tp_pending st))) @ tp_cancelled st,
     tp_pending := []\<rparr>"

definition invalidate :: "nat option \<Rightarrow> string \<Rightarrow> bool \<Rightarrow> unit act" where
  "invalidate self code failed =
     bind (modify (\<lambda>st.
       let st = st\<lparr>tp_epoch := tp_epoch st + 1\<rparr>;
           st = clear_bridge_subscriptions (cancel_all self st)
       in st\<lparr>tp_session := None, tp_session_token := None, tp_authenticated := False, tp_negotiated := False\<rparr>)) (\<lambda>_.
     if failed
     then bind (modify (\<lambda>st. st\<lparr>tp_physical := False, tp_handshake := False\<rparr>)) (\<lambda>_. transition FAILED (Some code))
     else bind (gets tp_state) (\<lambda>s.
       if s = READY then transition DEGRADED (Some code)
       else bind (modify (\<lambda>st. st\<lparr>tp_error := Some code\<rparr>)) (\<lambda>_. observe)))"

text \<open>The \<open>session\<close> property: reading it ends an expired or disabled session.\<close>

definition session_property :: "world \<Rightarrow> nat option \<Rightarrow> session_descriptor option act" where
  "session_property wo self =
     bind (gets (\<lambda>st. case tp_session st of
        None \<Rightarrow> False | Some s \<Rightarrow> sd_expires_at s \<le> wo_now wo \<or> \<not> feature_allowed wo st)) (\<lambda>ended.
     bind (if ended then invalidate self ''SESSION_REVOKED'' False else ret ()) (\<lambda>_. gets tp_session))"

definition inactive :: failure where
  "inactive = violation ''CANCELLED'' ''Transport generation is no longer active''"

definition guard_epoch :: "world \<Rightarrow> nat \<Rightarrow> unit act" where
  "guard_epoch wo epoch = bind (gets (\<lambda>st. epoch = tp_epoch st \<and> feature_allowed wo st)) (\<lambda>ok. require ok inactive)"

definition denied :: "string \<Rightarrow> failure" where "denied = violation ''PERMISSION_DENIED''"

definition expected_state :: "transport \<Rightarrow> attestation_state" where
  "expected_state st = (if tp_mock_only st then MOCK_ONLY else TRUSTED_INSTALLATION)"

definition require_trusted :: "peer_identity \<Rightarrow> unit act" where
  "require_trusted i = bind (gets expected_state) (\<lambda>s.
     require (pi_attestation_state i = s) (denied ''Peer installation is not authenticated''))"

text \<open>Attesting the current peer; without one the attestation refuses.\<close>

definition attest_peer :: "world \<Rightarrow> peer_os_facts \<Rightarrow> peer_identity act" where
  "attest_peer wo facts = bind (gets tp_peer) (\<lambda>p. lift (case p of
     None \<Rightarrow> Inl (denied ''Trusted OS facts are required'') | Some p \<Rightarrow> wo_attest wo p facts))"

definition same_installation :: "peer_identity \<Rightarrow> peer_identity \<Rightarrow> bool" where
  "same_installation i j \<longleftrightarrow>
     (pi_process_id i, pi_user_sid i, pi_executable_path_hash i, pi_installation_id i) =
     (pi_process_id j, pi_user_sid j, pi_executable_path_hash j, pi_installation_id j)"

text \<open>\<open>_refresh_trust\<close> after its await gave the facts.\<close>

definition refresh_trust :: "world \<Rightarrow> peer_os_facts \<Rightarrow> unit act" where
  "refresh_trust wo facts =
     bind (attest_peer wo facts) (\<lambda>i.
     bind (require_trusted i) (\<lambda>_.
     bind (gets tp_identity) (\<lambda>old.
     bind (require (case old of None \<Rightarrow> False | Some j \<Rightarrow> same_installation i j)
             (denied ''Peer installation identity changed'')) (\<lambda>_.
     modify (\<lambda>st. st\<lparr>tp_facts := Some facts, tp_identity := Some i\<rparr>)))))"

definition audit_event :: "world \<Rightarrow> string \<Rightarrow> string option \<Rightarrow> string \<Rightarrow> string \<Rightarrow> string option \<Rightarrow> unit act" where
  "audit_event wo operation peer decision result error =
     bind (gets tp_audit) (\<lambda>al.
     bind (lift (record_audit (wo_now wo) operation peer None decision result error al)) (\<lambda>al.
     modify (\<lambda>st. st\<lparr>tp_audit := al\<rparr>)))"

section \<open>Exchanging messages\<close>

fun request_id_of :: "request_payload \<Rightarrow> string option" where
  "request_id_of (TutorRequest x) = Some (tq_request_id x)"
| "request_id_of (VerifierRequest x) = Some (vq_request_id x)"
| "request_id_of (HandoffRequest x) = Some (hr_request_id x)"
| "request_id_of (CancelRequest x) = Some (cq_request_id x)"
| "request_id_of _ = None"

fun session_id_of :: "request_payload \<Rightarrow> string option" where
  "session_id_of (TutorRequest x) = Some (tq_session_id x)"
| "session_id_of (VerifierRequest x) = Some (vq_session_id x)"
| "session_id_of (HandoffRequest x) = Some (hr_session_id x)"
| "session_id_of (HeartbeatRequest x) = Some (hb_session_id x)"
| "session_id_of (CancelRequest x) = cq_session_id x"
| "session_id_of _ = None"

fun response_request_id :: "response_payload \<Rightarrow> string option" where
  "response_request_id (TutorGuidance x) = Some (tg_request_id x)"
| "response_request_id (VerifierResult x) = Some (vr_request_id x)"
| "response_request_id (HandoffResult x) = Some (hres_request_id x)"
| "response_request_id (CancelResult x) = Some (cl_request_id x)"
| "response_request_id (InteropError x) = er_request_id x"
| "response_request_id _ = None"

fun response_session_id :: "response_payload \<Rightarrow> string option" where
  "response_session_id (TutorGuidance x) = Some (tg_session_id x)"
| "response_session_id (VerifierResult x) = Some (vr_session_id x)"
| "response_session_id (HandoffResult x) = Some (hres_session_id x)"
| "response_session_id (HeartbeatResult x) = Some (hb_session_id x)"
| "response_session_id (CancelResult x) = cl_session_id x"
| "response_session_id _ = None"

fun context_of :: "request_payload \<Rightarrow> app_context_capsule option" where
  "context_of (TutorRequest x) = Some (tq_context x)"
| "context_of (VerifierRequest x) = Some (vq_context x)"
| "context_of _ = None"

definition exchange_send :: "world \<Rightarrow> nat \<Rightarrow> transport_request \<Rightarrow> unit act" where
  "exchange_send wo epoch request =
     bind (require (valid_transport_request (wo_wire wo) request) invalid_message) (\<lambda>_. guard_epoch wo epoch)"

definition exchange_receive ::
  "world \<Rightarrow> nat \<Rightarrow> transport_request \<Rightarrow> bool \<Rightarrow> failure + transport_response \<Rightarrow> transport_response act" where
  "exchange_receive wo epoch request cancelled outcome =
     bind (lift outcome) (\<lambda>response.
     bind (guard_epoch wo epoch) (\<lambda>_.
     bind (require (\<not> cancelled) (violation ''CANCELLED'' ''Request was cancelled'')) (\<lambda>_.
     bind (require (valid_transport_response (wo_wire wo) response) invalid_message) (\<lambda>_.
     bind (require (rp_operation response = rq_operation request)
             (violation ''INVALID_MESSAGE'' ''Response operation mismatch'')) (\<lambda>_.
     bind (case rp_payload response of
             InteropError e \<Rightarrow> raise (ProtocolViolation (er_code e) ''Peer rejected the local request'' (er_retryable e))
           | _ \<Rightarrow> ret ()) (\<lambda>_.
     bind (require (expects (request_id_of (rq_payload request)) (response_request_id (rp_payload response)) \<and>
                    expects (session_id_of (rq_payload request)) (response_session_id (rp_payload response)))
             (violation ''INVALID_MESSAGE'' ''Response request or session mismatch'')) (\<lambda>_.
     ret response)))))))"

section \<open>Tasks\<close>

record connect_data =
  ct_peer :: discovered_peer
  ct_requested :: "string list"
  ct_user :: string
  ct_epoch :: nat
  ct_nonce :: string

record request_data =
  rt_request :: transport_request
  rt_id :: string
  rt_epoch :: nat
  rt_session :: session_descriptor

text \<open>What a coroutine waits for, with the local variables it needs afterwards.\<close>

datatype task =
  Starting
| ConnectPeer connect_data
| ConnectHello connect_data peer_os_facts
| ConnectNegotiate connect_data hello_result
| ConnectSession connect_data hello_result capability_negotiation
| ConnectAbort failure
| RequestRefresh request_data
| RequestExchange request_data
| RequestConfirm request_data transport_response
| RefreshingAuthority nat
| DrainingEvents nat string
| Disconnecting
| ShutdownDisconnect
| ShutdownStop

datatype outcome = Fails failure | Completes | Facts peer_os_facts | Responds transport_response

definition done_of :: "outcome \<Rightarrow> failure + unit" where
  "done_of r = (case r of Fails e \<Rightarrow> Inl e | _ \<Rightarrow> Inr ())"

definition facts_of :: "outcome \<Rightarrow> failure + peer_os_facts" where
  "facts_of r = (case r of Fails e \<Rightarrow> Inl e | Facts f \<Rightarrow> Inr f | _ \<Rightarrow> Inl (denied ''Local OS peer evidence required''))"

definition response_of :: "outcome \<Rightarrow> failure + transport_response" where
  "response_of r = (case r of Fails e \<Rightarrow> Inl e | Responds x \<Rightarrow> Inr x | _ \<Rightarrow> Inl invalid_message)"

datatype answer = NoAnswer | Flag bool | Opened session_descriptor | Delivered transport_response |
  Authority "peer_identity option" | Deliveries "event_delivery list" | Peers "discovered_peer list" | Named string

datatype progress = Waits task | Finished answer

section \<open>Starting and discovering\<close>

definition begin_start :: "world \<Rightarrow> progress act" where
  "begin_start wo = bind (gets (\<lambda>st. (feature_allowed wo st, tp_state st))) (\<lambda>(allowed, s).
     if \<not> allowed then ret (Finished (Flag False))
     else if s = LISTENING then ret (Finished (Flag True))
     else bind (require (s \<in> {STOPPED, FAILED}) (violation ''TRANSPORT_ERROR'' ''Transport is already active'')) (\<lambda>_.
          bind (transition STARTING None) (\<lambda>_. ret (Waits Starting))))"

definition resume_start :: "world \<Rightarrow> outcome \<Rightarrow> progress act" where
  "resume_start wo r = handle_exception
     (bind (lift (done_of r)) (\<lambda>_.
      bind (transition LISTENING None) (\<lambda>_.
      bind (audit_event wo ''START'' None ''NONE'' ''SUCCESS'' None) (\<lambda>_. ret (Finished (Flag True))))))
     (\<lambda>e. bind (transition FAILED (Some ''TRANSPORT_ERROR'')) (\<lambda>_. ret (Finished (Flag False))))"

definition call_discover :: "world \<Rightarrow> failure + discovered_peer list \<Rightarrow> progress act" where
  "call_discover wo found = bind (gets (\<lambda>st. tp_state st = LISTENING \<and> feature_allowed wo st)) (\<lambda>ok.
     bind (require ok (denied ''Bridge is not enabled'')) (\<lambda>_.
     bind (transition DISCOVERING None) (\<lambda>_.
     bind (transition LISTENING None) (\<lambda>_.
     bind (lift found) (\<lambda>peers. ret (Finished (Peers peers)))))))"

section \<open>Connecting\<close>

definition failure_code :: "failure \<Rightarrow> string" where
  "failure_code e = (case e of ProtocolViolation code _ _ \<Rightarrow> code | _ \<Rightarrow> ''TRANSPORT_ERROR'')"

definition connect_failed :: "nat \<Rightarrow> failure \<Rightarrow> progress act" where
  "connect_failed epoch e = bind (gets tp_epoch) (\<lambda>current.
     if epoch = current then bind (invalidate None (failure_code e) True) (\<lambda>_. ret (Waits (ConnectAbort e)))
     else raise e)"

definition begin_connect :: "world \<Rightarrow> discovered_peer \<Rightarrow> string list \<Rightarrow> string \<Rightarrow> progress act" where
  "begin_connect wo peer requested user =
     bind (gets (\<lambda>st. tp_state st = LISTENING \<and> feature_allowed wo st)) (\<lambda>ok.
     bind (require ok (denied ''Bridge is not enabled and listening'')) (\<lambda>_.
     bind (require (PROTOCOL_VERSION \<in> set (dp_protocol_versions peer))
             (violation ''PROTOCOL_INCOMPATIBLE'' ''No compatible protocol version'')) (\<lambda>_.
     bind (gets (\<lambda>st. pd_capabilities (tp_product st))) (\<lambda>own.
     bind (require (distinct requested \<and> set requested \<subseteq> set CAPABILITIES \<and> set requested \<subseteq> set own)
             (violation ''CAPABILITY_NOT_SUPPORTED'' ''Unsupported requested capability'')) (\<lambda>_.
     bind (modify (\<lambda>st. st\<lparr>tp_epoch := tp_epoch st + 1\<rparr>)) (\<lambda>_.
     bind (gets tp_epoch) (\<lambda>epoch.
     bind (transition CONNECTING None) (\<lambda>_.
     ret (Waits (ConnectPeer \<lparr>ct_peer = peer, ct_requested = requested, ct_user = user, ct_epoch = epoch,
       ct_nonce = []\<rparr>))))))))))"

definition hello_request :: "transport \<Rightarrow> connect_data \<Rightarrow> transport_request" where
  "hello_request st d = \<lparr>rq_operation = ''HELLO'', rq_payload = HandshakeHello
     \<lparr>hh_product = tp_product st, hh_transport = dp_transport (ct_peer d), hh_session_nonce = ct_nonce d,
      hh_privacy_mode = ''LOCAL_ONLY''\<rparr>\<rparr>"

definition resume_connect_peer :: "world \<Rightarrow> connect_data \<Rightarrow> outcome \<Rightarrow> progress act" where
  "resume_connect_peer wo d r = handle
     (bind (lift (facts_of r)) (\<lambda>facts.
      bind (guard_epoch wo (ct_epoch d)) (\<lambda>_.
      bind (require (pf_local_connection facts) (denied ''Local OS peer evidence required'')) (\<lambda>_.
      bind (modify (\<lambda>st. st\<lparr>tp_facts := Some facts, tp_physical := True\<rparr>)) (\<lambda>_.
      bind (transition HANDSHAKING None) (\<lambda>_.
      let d = d\<lparr>ct_nonce := wo_nonce wo\<rparr>
      in bind (gets (\<lambda>st. hello_request st d)) (\<lambda>request.
         bind (exchange_send wo (ct_epoch d) request) (\<lambda>_. ret (Waits (ConnectHello d facts))))))))))
     (connect_failed (ct_epoch d))"

definition hello_ok :: "connect_data \<Rightarrow> hello_result \<Rightarrow> bool" where
  "hello_ok d hello \<longleftrightarrow> hl_session_nonce hello = ct_nonce d \<and>
     PROTOCOL_VERSION \<in> set (pd_protocol_versions (hl_product hello)) \<and>
     (pd_product_id (hl_product hello), pd_instance_id (hl_product hello), pd_product_version (hl_product hello)) =
     (dp_product_id (ct_peer d), dp_instance_id (ct_peer d), dp_product_version (ct_peer d))"

definition negotiation_request :: "connect_data \<Rightarrow> hello_result \<Rightarrow> transport_request" where
  "negotiation_request d hello = \<lparr>rq_operation = ''CAPABILITY_NEGOTIATION'', rq_payload = NegotiationRequest
     \<lparr>cn_hello_id = hl_hello_id hello, cn_requested_capabilities = ct_requested d, cn_granted_capabilities = []\<rparr>\<rparr>"

definition resume_connect_hello :: "world \<Rightarrow> connect_data \<Rightarrow> peer_os_facts \<Rightarrow> outcome \<Rightarrow> progress act" where
  "resume_connect_hello wo d facts r = handle
     (bind (gets (\<lambda>st. hello_request st d)) (\<lambda>request.
      bind (exchange_receive wo (ct_epoch d) request False (response_of r)) (\<lambda>response.
      bind (case rp_payload response of HelloResult h \<Rightarrow> ret h | _ \<Rightarrow> raise RuntimeError) (\<lambda>hello.
      bind (require (hello_ok d hello) (violation ''PROTOCOL_INCOMPATIBLE'' ''Handshake identity mismatch'')) (\<lambda>_.
      bind (modify (\<lambda>st. st\<lparr>tp_handshake := True, tp_peer := Some (hl_product hello)\<rparr>)) (\<lambda>_.
      bind (transition AUTHENTICATING None) (\<lambda>_.
      bind (lift (wo_attest wo (hl_product hello) facts)) (\<lambda>i.
      bind (modify (\<lambda>st. st\<lparr>tp_identity := Some i\<rparr>)) (\<lambda>_.
      bind (require_trusted i) (\<lambda>_.
      bind (modify (\<lambda>st. st\<lparr>tp_authenticated := True\<rparr>)) (\<lambda>_.
      bind (transition NEGOTIATING None) (\<lambda>_.
      bind (require (set (ct_requested d) \<subseteq> set (pd_capabilities (hl_product hello)))
              (violation ''CAPABILITY_NOT_SUPPORTED'' ''Peer lacks requested capability'')) (\<lambda>_.
      bind (exchange_send wo (ct_epoch d) (negotiation_request d hello)) (\<lambda>_.
      ret (Waits (ConnectNegotiate d hello))))))))))))))))
     (connect_failed (ct_epoch d))"

definition session_request :: "connect_data \<Rightarrow> hello_result \<Rightarrow> transport_request" where
  "session_request d hello = \<lparr>rq_operation = ''SESSION'', rq_payload = SessionOpenRequest
     \<lparr>so_hello_id = hl_hello_id hello, so_session_nonce = ct_nonce d, so_user_identity = ct_user d\<rparr>\<rparr>"

definition resume_connect_negotiate :: "world \<Rightarrow> connect_data \<Rightarrow> hello_result \<Rightarrow> outcome \<Rightarrow> progress act" where
  "resume_connect_negotiate wo d hello r = handle
     (bind (exchange_receive wo (ct_epoch d) (negotiation_request d hello) False (response_of r)) (\<lambda>response.
      bind (case rp_payload response of NegotiationResult n \<Rightarrow> ret n | _ \<Rightarrow> raise RuntimeError) (\<lambda>n.
      bind (require (cn_hello_id n = hl_hello_id hello \<and> cn_requested_capabilities n = ct_requested d \<and>
                     set (cn_granted_capabilities n) \<subseteq> set (pd_capabilities (hl_product hello)))
              (violation ''CAPABILITY_NOT_SUPPORTED'' ''Capability negotiation mismatch'')) (\<lambda>_.
      bind (modify (\<lambda>st. st\<lparr>tp_negotiated := True\<rparr>)) (\<lambda>_.
      bind observe (\<lambda>_.
      bind (exchange_send wo (ct_epoch d) (session_request d hello)) (\<lambda>_.
      ret (Waits (ConnectSession d hello n)))))))))
     (connect_failed (ct_epoch d))"

definition session_bound :: "world \<Rightarrow> product_descriptor \<Rightarrow> connect_data \<Rightarrow> hello_result \<Rightarrow> capability_negotiation \<Rightarrow> session_descriptor \<Rightarrow> bool" where
  "session_bound wo product d hello n s \<longleftrightarrow>
     sd_product_id s = pd_product_id (hl_product hello) \<and> sd_instance_id s = pd_instance_id (hl_product hello) \<and>
     sd_peer_product_id s = pd_product_id product \<and> sd_peer_instance_id s = pd_instance_id product \<and>
     sd_user_identity s = ct_user d \<and> sd_nonce s = ct_nonce d \<and> sd_transport s = dp_transport (ct_peer d) \<and>
     sd_capabilities s = cn_granted_capabilities n \<and>
     \<not> sd_created_at s > wo_now wo + 5 * 1000000 \<and> \<not> sd_expires_at s \<le> wo_now wo"

definition resume_connect_session ::
  "world \<Rightarrow> connect_data \<Rightarrow> hello_result \<Rightarrow> capability_negotiation \<Rightarrow> outcome \<Rightarrow> progress act" where
  "resume_connect_session wo d hello n r = handle
     (bind (exchange_receive wo (ct_epoch d) (session_request d hello) False (response_of r)) (\<lambda>response.
      bind (case rp_payload response of SessionOpenResult x \<Rightarrow> ret x | _ \<Rightarrow> raise RuntimeError) (\<lambda>opened.
      bind (gets tp_product) (\<lambda>product.
      bind (require (session_bound wo product d hello n (sr_session opened))
              (violation ''SESSION_REQUIRED'' ''Session binding mismatch'')) (\<lambda>_.
      bind (guard_epoch wo (ct_epoch d)) (\<lambda>_.
      bind (modify (\<lambda>st. st\<lparr>tp_session := Some (sr_session opened), tp_session_token := Some (sr_session_token opened),
                             tp_used_requests := []\<rparr>)) (\<lambda>_.
      bind (transition READY None) (\<lambda>_.
      bind (audit_event wo ''CONNECT'' (Some (pd_product_id (hl_product hello))) ''ALLOW'' ''SUCCESS'' None) (\<lambda>_.
      ret (Finished (Opened (sr_session opened))))))))))))
     (connect_failed (ct_epoch d))"

section \<open>Requests\<close>

definition required_capabilities :: "transport_request \<Rightarrow> string list" where
  "required_capabilities request =
     (if rq_operation request = ''TUTOR''
      then [''tutor.guidance.request'', ''tutor.guidance.receive'', ''project.context.read'']
      else if rq_operation request = ''DIAGNOSTICS''
      then [''diagnostics.read'', ''tutor.guidance.request'', ''tutor.guidance.receive'']
      else if rq_operation request = ''VERIFY'' then [''verifier.request'', ''verifier.result.receive'']
      else case rq_payload request of
        HandoffRequest x \<Rightarrow>
          let action = ht_action (hr_target x)
          in [if action = ''OPEN_FEATURE'' \<or> action = ''OPEN_SESSION'' then ''handoff.open_feature''
              else if action = ''OPEN_TASK'' then ''handoff.open_task'' else ''handoff.open_project'']
      | _ \<Rightarrow> [])"

definition sensitive :: "transport_request \<Rightarrow> bool" where
  "sensitive request \<longleftrightarrow> rq_operation request \<notin> {''HEARTBEAT'', ''CANCEL''}"

definition check_context :: "world \<Rightarrow> transport_request \<Rightarrow> unit act" where
  "check_context wo request = (case context_of (rq_payload request) of
     None \<Rightarrow> ret () | Some c \<Rightarrow> lift (validate_capsule (wo_wire wo) c (wo_now wo) None None None))"

text \<open>\<open>self\<close> is the number of the calling task.\<close>

text \<open>\<open>timeout\<close> is checked here; how long the awaits then last is in what they give.\<close>

definition begin_request :: "world \<Rightarrow> nat \<Rightarrow> transport_request \<Rightarrow> rat option \<Rightarrow> progress act" where
  "begin_request wo self request timeout =
     bind (require (case timeout of None \<Rightarrow> True | Some t \<Rightarrow> 1 / 100 \<le> t \<and> t \<le> 30) ValueError) (\<lambda>_.
     bind (require (rq_operation request \<notin> {''HELLO'', ''CAPABILITY_NEGOTIATION'', ''SESSION''})
             (denied ''Use connect for protocol establishment'')) (\<lambda>_.
     bind (session_property wo (Some self)) (\<lambda>session.
     bind (gets tp_state) (\<lambda>s.
     bind (case session of
             None \<Rightarrow> raise (violation ''SESSION_REQUIRED'' ''A live matching session is required'')
           | Some x \<Rightarrow> bind (require (s = READY \<and> session_id_of (rq_payload request) = Some (sd_session_id x))
               (violation ''SESSION_REQUIRED'' ''A live matching session is required'')) (\<lambda>_. ret x)) (\<lambda>session.
     bind (require (set (required_capabilities request) \<subseteq> set (sd_capabilities session))
             (violation ''CAPABILITY_NOT_SUPPORTED'' ''Required capability was not negotiated'')) (\<lambda>_.
     bind (check_context wo request) (\<lambda>_.
     bind (require (sensitive request \<longrightarrow> wo_authorize wo)
             (violation ''CONTEXT_NOT_AUTHORIZED'' ''Explicit host authorization required'')) (\<lambda>_.
     bind (require (wo_unchanged wo) (violation ''SOURCE_CHANGED'' ''Host source changed'')) (\<lambda>_.
     let rid = (case request_id_of (rq_payload request) of Some i \<Rightarrow> i | None \<Rightarrow> ''heartbeat-'' @ wo_fresh wo)
     in bind (gets (\<lambda>st. rid \<notin> set (tp_used_requests st))) (\<lambda>new.
        bind (require new (violation ''INVALID_MESSAGE'' ''Request identity cannot be reused'')) (\<lambda>_.
        bind (gets (\<lambda>st. length (tp_pending st) < tp_max_pending st \<and> length (tp_used_requests st) < 4096)) (\<lambda>room.
        bind (require room (violation ''TRANSPORT_ERROR'' ''Request capacity reached'')) (\<lambda>_.
        bind (gets tp_epoch) (\<lambda>epoch.
        bind (modify (\<lambda>st. st\<lparr>tp_pending := dset (tp_pending st) rid \<lparr>pe_epoch = epoch, pe_task = self\<rparr>,
                               tp_used_requests := rid # tp_used_requests st\<rparr>)) (\<lambda>_.
        ret (Waits (RequestRefresh \<lparr>rt_request = request, rt_id = rid, rt_epoch = epoch, rt_session = session\<rparr>)))))))))))))))))"

definition drop_pending :: "request_data \<Rightarrow> transport \<Rightarrow> transport" where
  "drop_pending d st = (case dget (tp_pending st) (rt_id d) of
     None \<Rightarrow> st
   | Some p \<Rightarrow> if pe_epoch p = rt_epoch d then st\<lparr>tp_pending := dpop (tp_pending st) (rt_id d)\<rparr> else st)"

text \<open>The \<open>except CancelledError\<close> and \<open>finally\<close> of \<open>request\<close>.\<close>

definition request_scope :: "request_data \<Rightarrow> progress act \<Rightarrow> progress act" where
  "request_scope d m = (\<lambda>st. case m st of
     (Inr (Waits t), st') \<Rightarrow> (Inr (Waits t), st')
   | (Inr x, st') \<Rightarrow> (Inr x, drop_pending d st')
   | (Inl e, st') \<Rightarrow>
       (Inl (if e = Cancelled then violation ''CANCELLED'' ''Request was cancelled'' else e), drop_pending d st'))"

definition refresh_or_invalidate :: "world \<Rightarrow> nat \<Rightarrow> outcome \<Rightarrow> unit act" where
  "refresh_or_invalidate wo self r = handle_exception (bind (lift (facts_of r)) (refresh_trust wo))
     (\<lambda>e. bind (invalidate (Some self) ''PERMISSION_DENIED'' False) (\<lambda>_. raise e))"

definition resume_request_refresh :: "world \<Rightarrow> nat \<Rightarrow> request_data \<Rightarrow> outcome \<Rightarrow> progress act" where
  "resume_request_refresh wo self d r = request_scope d
     (bind (refresh_or_invalidate wo self r) (\<lambda>_.
      bind (guard_epoch wo (rt_epoch d)) (\<lambda>_.
      bind (exchange_send wo (rt_epoch d) (rt_request d)) (\<lambda>_. ret (Waits (RequestExchange d))))))"

definition resume_request_exchange :: "world \<Rightarrow> nat \<Rightarrow> request_data \<Rightarrow> outcome \<Rightarrow> progress act" where
  "resume_request_exchange wo self d r = request_scope d
     (bind (gets (\<lambda>st. self \<in> set (tp_cancelled st))) (\<lambda>cancelled.
      bind (exchange_receive wo (rt_epoch d) (rt_request d) cancelled (response_of r)) (\<lambda>response.
      ret (Waits (RequestConfirm d response)))))"

definition resume_request_confirm :: "world \<Rightarrow> nat \<Rightarrow> request_data \<Rightarrow> transport_response \<Rightarrow> outcome \<Rightarrow> progress act" where
  "resume_request_confirm wo self d response r = request_scope d
     (bind (refresh_or_invalidate wo self r) (\<lambda>_.
      bind (guard_epoch wo (rt_epoch d)) (\<lambda>_.
      bind (check_context wo (rt_request d)) (\<lambda>_.
      bind (require (\<not> sd_expires_at (rt_session d) \<le> wo_now wo \<and> (sensitive (rt_request d) \<longrightarrow> wo_authorize wo))
              (violation ''CONTEXT_NOT_AUTHORIZED'' ''Authorization expired during request'')) (\<lambda>_.
      bind (require (wo_unchanged wo) (violation ''SOURCE_CHANGED'' ''Host source changed during request'')) (\<lambda>_.
      bind (audit_event wo (rq_operation (rt_request d)) (Some (sd_product_id (rt_session d))) ''ALLOW'' ''SUCCESS'' None) (\<lambda>_.
      ret (Finished (Delivered response)))))))))"

definition call_cancel :: "world \<Rightarrow> string \<Rightarrow> progress act" where
  "call_cancel wo rid = bind (gets (\<lambda>st. dget (tp_pending st) rid)) (\<lambda>p. case p of
     None \<Rightarrow> ret (Finished (Flag False))
   | Some p \<Rightarrow>
       bind (modify (\<lambda>st. st\<lparr>tp_pending := dpop (tp_pending st) rid, tp_cancelled := pe_task p # tp_cancelled st\<rparr>)) (\<lambda>_.
       bind (audit_event wo ''CANCEL'' None ''NONE'' ''CANCELLED'' None) (\<lambda>_. ret (Finished (Flag True)))))"

section \<open>Authority\<close>

definition call_authorized :: "world \<Rightarrow> string \<Rightarrow> progress act" where
  "call_authorized wo capability = handle_exception
     (bind (session_property wo None) (\<lambda>session.
      bind (gets (\<lambda>st. feature_allowed wo st \<and> tp_state st = READY)) (\<lambda>live.
      if \<not> live \<or> (case session of None \<Rightarrow> True | Some s \<Rightarrow> capability \<notin> set (sd_capabilities s))
      then ret (Finished (Flag False))
      else bind (gets tp_facts) (\<lambda>facts.
           bind (case facts of None \<Rightarrow> raise (denied ''Trusted OS facts are required'') | Some f \<Rightarrow> attest_peer wo f) (\<lambda>i.
           bind (require_trusted i) (\<lambda>_. ret (Finished (Flag True))))))))
     (\<lambda>e. bind (invalidate None ''PERMISSION_DENIED'' False) (\<lambda>_. ret (Finished (Flag False))))"

definition begin_refresh_authority :: "world \<Rightarrow> nat \<Rightarrow> progress act" where
  "begin_refresh_authority wo self =
     bind (session_property wo (Some self)) (\<lambda>session.
     bind (gets tp_state) (\<lambda>s.
     bind (require (session \<noteq> None \<and> s = READY)
             (violation ''SESSION_REQUIRED'' ''A live matching session is required'')) (\<lambda>_.
     bind (gets tp_epoch) (\<lambda>epoch. ret (Waits (RefreshingAuthority epoch))))))"

definition resume_refresh_authority :: "world \<Rightarrow> nat \<Rightarrow> nat \<Rightarrow> outcome \<Rightarrow> progress act" where
  "resume_refresh_authority wo self epoch r = handle_exception
     (bind (lift (facts_of r)) (\<lambda>facts.
      bind (refresh_trust wo facts) (\<lambda>_.
      bind (guard_epoch wo epoch) (\<lambda>_.
      bind (gets tp_identity) (\<lambda>i. ret (Finished (Authority i)))))))
     (\<lambda>e. bind (invalidate (Some self) ''PERMISSION_DENIED'' False) (\<lambda>_. raise e))"

section \<open>Events\<close>

definition event_capabilities :: "app_context_capsule \<Rightarrow> session_descriptor \<Rightarrow> bool" where
  "event_capabilities c s \<longleftrightarrow>
     ''project.context.read'' \<in> set (sd_capabilities s) \<and>
     (cx_project_id c \<noteq> None \<longrightarrow> ''project.metadata.read'' \<in> set (sd_capabilities s)) \<and>
     (cx_task_id c \<noteq> None \<or> cx_task_status c \<noteq> None \<longrightarrow> ''task.status.read'' \<in> set (sd_capabilities s)) \<and>
     (cx_error_code c \<noteq> None \<longrightarrow> ''task.error.read'' \<in> set (sd_capabilities s)) \<and>
     (cx_model_id c \<noteq> None \<longrightarrow> ''model.registry.read'' \<in> set (sd_capabilities s)) \<and>
     (cx_runtime_id c \<noteq> None \<or> cx_runtime_status c \<noteq> None \<longrightarrow> ''model.runtime.status.read'' \<in> set (sd_capabilities s))"

definition subscription_trusted :: "world \<Rightarrow> transport \<Rightarrow> bool" where
  "subscription_trusted wo st \<longleftrightarrow> feature_allowed wo st \<and>
     (case (tp_peer st, tp_facts st) of
        (Some p, Some f) \<Rightarrow>
          (case wo_attest wo p f of Inl e \<Rightarrow> False | Inr i \<Rightarrow> pi_attestation_state i = expected_state st)
      | _ \<Rightarrow> False)"

definition call_subscribe ::
  "world \<Rightarrow> (event_delivery \<Rightarrow> callback_effect) option \<Rightarrow> string list option
     \<Rightarrow> int option \<Rightarrow> progress act" where
  "call_subscribe wo callback modules expires_at =
     bind (session_property wo None) (\<lambda>session.
     bind (gets tp_state) (\<lambda>s.
     case session of
       None \<Rightarrow> raise (violation ''SESSION_REQUIRED'' ''A live session is required'')
     | Some x \<Rightarrow>
         bind (require (s = READY) (violation ''SESSION_REQUIRED'' ''A live session is required'')) (\<lambda>_.
         bind (require (''project.context.read'' \<in> set (sd_capabilities x))
                 (violation ''CAPABILITY_NOT_SUPPORTED'' ''Metadata context capability required'')) (\<lambda>_.
         let until = (case expires_at of None \<Rightarrow> sd_expires_at x | Some t \<Rightarrow> min t (sd_expires_at x))
         in bind (modify (\<lambda>st. st\<lparr>tp_events := expire (wo_now wo) (tp_events st),
              tp_subscriptions := filter (\<lambda>sid. dget (re_subscribers (expire (wo_now wo) (tp_events st))) sid \<noteq> None)
                (tp_subscriptions st)\<rparr>)) (\<lambda>_.
            bind (\<lambda>st. let (r, re) = subscribe (wo_now wo) (''subscription-'' @ wo_fresh wo) (sd_session_id x)
                    (sd_instance_id x) until callback modules (tp_events st)
                  in (r, st\<lparr>tp_events := re\<rparr>)) (\<lambda>sid.
            bind (modify (\<lambda>st. st\<lparr>tp_subscriptions := sid # tp_subscriptions st\<rparr>)) (\<lambda>_.
            ret (Finished (Named sid)))))))))"

text \<open>The closure given to \<open>events.subscribe\<close> reads the live transport whenever it is asked: the session it
  was given for is still in force, the state is ready, the peer still attests, the session holds what
  the capsule needs, and the caller's own callback agrees. The source compares session objects; here
  sessions are told apart by their identity. That the question itself ends an expired session is
  left to the next call that reads the session.\<close>

definition live_grants :: "world \<Rightarrow> transport \<Rightarrow> grants" where
  "live_grants wo st sid c \<longleftrightarrow>
     (case (dget (re_subscribers (tp_events st)) sid, tp_session st) of
        (Some s, Some x) \<Rightarrow> sd_session_id x = sb_session_id s \<and> wo_now wo < sd_expires_at x \<and>
          tp_state st = READY \<and> subscription_trusted wo st \<and> event_capabilities c x \<and> wo_consents wo sid c
      | _ \<Rightarrow> False)"

definition drain_live :: "world \<Rightarrow> string \<Rightarrow> (failure + event_delivery list) act" where
  "drain_live wo sid = (\<lambda>st.
     let (r, re) = drain (wo_wire wo) (wo_now wo) (live_grants wo st)
           (\<lambda>n. ''event-'' @ wo_fresh wo @ decimal (nat n)) sid None (tp_events st)
     in (Inr r, st\<lparr>tp_events := re\<rparr>))"

text \<open>What the host does to the registry on its own: it enrols sources, their closures publish, and the
  product's lifecycle polls. The grants it asks for are those of the live transport.\<close>

datatype host_event =
  Enrols string source_kind "event_provenance option" bool
| Publishes string string app_context_capsule "string option"
| Accepts string bool string app_context_capsule
| Polls rat "string \<Rightarrow> poll_outcome"

definition host_events :: "world \<Rightarrow> host_event \<Rightarrow> transport \<Rightarrow> transport" where
  "host_events wo e st = st\<lparr>tp_events := (case e of
     Enrols mdl kind provenance connects \<Rightarrow>
       (case register mdl kind provenance connects (tp_events st) of Inl _ \<Rightarrow> tp_events st | Inr re \<Rightarrow> re)
   | Publishes mdl kind c sid \<Rightarrow> snd (publish (wo_wire wo) (wo_now wo) (live_grants wo st) mdl kind c sid (tp_events st))
   | Accepts mdl current kind c \<Rightarrow> accept (wo_wire wo) (wo_now wo) (live_grants wo st) mdl current kind c (tp_events st)
   | Polls tick ps \<Rightarrow> snd (poll_due (wo_wire wo) (wo_now wo) (live_grants wo st) tick ps (tp_events st)))\<rparr>"

definition begin_drain :: "world \<Rightarrow> nat \<Rightarrow> string \<Rightarrow> progress act" where
  "begin_drain wo self sid =
     bind (gets (\<lambda>st. sid \<in> set (tp_subscriptions st))) (\<lambda>mine.
     if \<not> mine then ret (Finished (Deliveries []))
     else bind (session_property wo (Some self)) (\<lambda>session.
          bind (gets tp_state) (\<lambda>s.
          if session = None \<or> s \<noteq> READY then ret (Finished (Deliveries []))
          else bind (gets tp_epoch) (\<lambda>epoch. ret (Waits (DrainingEvents epoch sid))))))"

definition resume_drain :: "world \<Rightarrow> nat \<Rightarrow> nat \<Rightarrow> string \<Rightarrow> outcome \<Rightarrow> progress act" where
  "resume_drain wo self epoch sid r =
     bind (handle_exception
        (bind (lift (facts_of r)) (\<lambda>facts. bind (refresh_trust wo facts) (\<lambda>_.
         bind (guard_epoch wo epoch) (\<lambda>_. ret True))))
        (\<lambda>e. bind (invalidate (Some self) ''PERMISSION_DENIED'' False) (\<lambda>_. ret False))) (\<lambda>ok.
     if \<not> ok then ret (Finished (Deliveries []))
     else bind (drain_live wo sid) (\<lambda>r. bind (lift r) (\<lambda>ds. ret (Finished (Deliveries ds)))))"

definition call_unsubscribe :: "string \<Rightarrow> progress act" where
  "call_unsubscribe sid = bind (modify (\<lambda>st.
     if sid \<in> set (tp_subscriptions st)
     then st\<lparr>tp_events := revoke_subscription sid (tp_events st),
             tp_subscriptions := removeAll sid (tp_subscriptions st)\<rparr> else st)) (\<lambda>_. ret (Finished NoAnswer))"

section \<open>Disconnecting and shutting down\<close>

definition begin_disconnect :: "nat \<Rightarrow> string option \<Rightarrow> progress act" where
  "begin_disconnect self peer =
     bind (gets (\<lambda>st. (case peer of None \<Rightarrow> False
        | Some p \<Rightarrow> (case tp_peer st of None \<Rightarrow> True
            | Some x \<Rightarrow> p \<noteq> pd_product_id x \<and> p \<noteq> pd_instance_id x)) \<or> tp_state st = STOPPED)) (\<lambda>nothing.
     if nothing then ret (Finished NoAnswer)
     else bind (transition REVOKING None) (\<lambda>_.
          bind (invalidate (Some self) ''SESSION_REVOKED'' False) (\<lambda>_.
          bind (transition DISCONNECTING None) (\<lambda>_. ret (Waits Disconnecting)))))"

definition resume_disconnect :: "world \<Rightarrow> outcome \<Rightarrow> progress act" where
  "resume_disconnect wo r =
     (let error = (case done_of r of Inl e \<Rightarrow> if e = Cancelled then None else Some (failure_code e) | Inr _ \<Rightarrow> None)
      in bind (modify (\<lambda>st. st\<lparr>tp_physical := False, tp_handshake := False, tp_identity := None, tp_peer := None,
                               tp_facts := None\<rparr>)) (\<lambda>_.
         bind (transition (if error \<noteq> None then FAILED else LISTENING) error) (\<lambda>_.
         bind (audit_event wo ''DISCONNECT'' None ''NONE'' (if error \<noteq> None then ''FAILED'' else ''SUCCESS'') error) (\<lambda>_.
         if done_of r = Inl Cancelled then raise Cancelled else ret (Finished NoAnswer)))))"

text \<open>The \<open>finally\<close> of \<open>shutdown\<close>.\<close>

definition finish_shutdown :: "world \<Rightarrow> nat \<Rightarrow> unit act" where
  "finish_shutdown wo self =
     bind (modify (\<lambda>st.
       let st = clear_bridge_subscriptions (cancel_all (Some self) (st\<lparr>tp_epoch := tp_epoch st + 1\<rparr>))
       in st\<lparr>tp_session := None, tp_session_token := None, tp_identity := None, tp_peer := None, tp_facts := None,
             tp_physical := False, tp_handshake := False, tp_authenticated := False, tp_negotiated := False\<rparr>)) (\<lambda>_.
     bind (gets tp_state) (\<lambda>s.
     bind (if s \<in> {STOPPED, FAILED} then ret () else transition REVOKING None) (\<lambda>_.
     bind (transition STOPPED None) (\<lambda>_.
     audit_event wo ''SHUTDOWN'' None ''NONE'' ''SUCCESS'' None))))"

definition shutdown_scope :: "world \<Rightarrow> nat \<Rightarrow> progress act \<Rightarrow> progress act" where
  "shutdown_scope wo self m = (\<lambda>st. case m st of
     (Inr (Waits t), st') \<Rightarrow> (Inr (Waits t), st')
   | (Inr x, st') \<Rightarrow> bind (finish_shutdown wo self) (\<lambda>_. ret x) st'
   | (Inl e, st') \<Rightarrow> bind (finish_shutdown wo self) (\<lambda>_. raise e) st')"

definition begin_shutdown :: "world \<Rightarrow> nat \<Rightarrow> rat \<Rightarrow> progress act" where
  "begin_shutdown wo self timeout =
     bind (require (0 \<le> timeout \<and> timeout \<le> 30) ValueError) (\<lambda>_.
     shutdown_scope wo self
       (bind (gets tp_state) (\<lambda>s.
        if s = STOPPED then ret (Waits ShutdownStop)
        else bind (begin_disconnect self None) (\<lambda>_. ret (Waits ShutdownDisconnect)))))"

definition resume_shutdown_disconnect :: "world \<Rightarrow> nat \<Rightarrow> outcome \<Rightarrow> progress act" where
  "resume_shutdown_disconnect wo self r = shutdown_scope wo self
     (bind (resume_disconnect wo r) (\<lambda>_. ret (Waits ShutdownStop)))"

definition resume_shutdown_stop :: "world \<Rightarrow> nat \<Rightarrow> outcome \<Rightarrow> progress act" where
  "resume_shutdown_stop wo self r = shutdown_scope wo self
     (if done_of r = Inl Cancelled then raise Cancelled else ret (Finished NoAnswer))"

section \<open>Health\<close>

definition call_health :: "world \<Rightarrow> interop_health act" where
  "call_health wo = bind (session_property wo None) (\<lambda>session. gets (\<lambda>st.
     let ready = (tp_state st = READY);
         has = (\<lambda>c. ready \<and> (case session of None \<Rightarrow> False | Some s \<Rightarrow> c \<in> set (sd_capabilities s)))
     in \<lparr>ih_transport = (if tp_physical st then HS_READY else HS_UNAVAILABLE),
         ih_peer = (if tp_authenticated st then HS_READY else HS_UNKNOWN),
         ih_session = (if session \<noteq> None then HS_READY else HS_UNAVAILABLE),
         ih_capabilities = (if tp_negotiated st then HS_READY else HS_UNKNOWN),
         ih_events = (if ready then HS_READY else HS_UNAVAILABLE),
         ih_tutor = (if has ''tutor.guidance.request'' then HS_READY else HS_UNAVAILABLE),
         ih_verifier = (if has ''verifier.request'' then HS_READY else HS_UNAVAILABLE)\<rparr>))"

section \<open>The running system\<close>

datatype call =
  CallStart
| CallDiscover "failure + discovered_peer list"
| CallConnect discovered_peer "string list" string
| CallRequest transport_request "rat option"
| CallCancel string
| CallAuthorized string
| CallRefreshAuthority
| CallSubscribe "(event_delivery \<Rightarrow> callback_effect) option" "string list option" "int option"
| CallUnsubscribe string
| CallDrain string
| CallDisconnect "string option"
| CallShutdown rat
| CallInvalidate

fun begin_call :: "world \<Rightarrow> nat \<Rightarrow> call \<Rightarrow> progress act" where
  "begin_call wo self CallStart = begin_start wo"
| "begin_call wo self (CallDiscover found) = call_discover wo found"
| "begin_call wo self (CallConnect peer requested user) = begin_connect wo peer requested user"
| "begin_call wo self (CallRequest request timeout) = begin_request wo self request timeout"
| "begin_call wo self (CallCancel rid) = call_cancel wo rid"
| "begin_call wo self (CallAuthorized capability) = call_authorized wo capability"
| "begin_call wo self CallRefreshAuthority = begin_refresh_authority wo self"
| "begin_call wo self (CallSubscribe cb ms e) = call_subscribe wo cb ms e"
| "begin_call wo self (CallUnsubscribe sid) = call_unsubscribe sid"
| "begin_call wo self (CallDrain sid) = begin_drain wo self sid"
| "begin_call wo self (CallDisconnect peer) = begin_disconnect self peer"
| "begin_call wo self (CallShutdown timeout) = begin_shutdown wo self timeout"
| "begin_call wo self CallInvalidate = bind (invalidate None ''SESSION_REVOKED'' False) (\<lambda>_. ret (Finished NoAnswer))"

fun resume_task :: "world \<Rightarrow> nat \<Rightarrow> task \<Rightarrow> outcome \<Rightarrow> progress act" where
  "resume_task wo self Starting r = resume_start wo r"
| "resume_task wo self (ConnectPeer d) r = resume_connect_peer wo d r"
| "resume_task wo self (ConnectHello d facts) r = resume_connect_hello wo d facts r"
| "resume_task wo self (ConnectNegotiate d hello) r = resume_connect_negotiate wo d hello r"
| "resume_task wo self (ConnectSession d hello n) r = resume_connect_session wo d hello n r"
| "resume_task wo self (ConnectAbort e) r = raise e"
| "resume_task wo self (RequestRefresh d) r = resume_request_refresh wo self d r"
| "resume_task wo self (RequestExchange d) r = resume_request_exchange wo self d r"
| "resume_task wo self (RequestConfirm d response) r = resume_request_confirm wo self d response r"
| "resume_task wo self (RefreshingAuthority epoch) r = resume_refresh_authority wo self epoch r"
| "resume_task wo self (DrainingEvents epoch sid) r = resume_drain wo self epoch sid r"
| "resume_task wo self Disconnecting r = resume_disconnect wo r"
| "resume_task wo self ShutdownDisconnect r = resume_shutdown_disconnect wo self r"
| "resume_task wo self ShutdownStop r = resume_shutdown_stop wo self r"

text \<open>A cancelled task is woken by its cancellation, whatever it was waiting for.\<close>

definition woken :: "nat \<Rightarrow> transport \<Rightarrow> outcome \<Rightarrow> outcome" where
  "woken self st r = (if self \<in> set (tp_cancelled st) then Fails Cancelled else r)"

record system =
  sy_transport :: transport
  sy_tasks :: "(nat, task) dict"
  sy_next :: nat

definition run_call :: "world \<Rightarrow> call \<Rightarrow> system \<Rightarrow> (failure + progress) \<times> system" where
  "run_call wo c s = (case begin_call wo (sy_next s) c (sy_transport s) of
     (r, st) \<Rightarrow> (r, s\<lparr>sy_transport := st, sy_next := sy_next s + 1,
       sy_tasks := (case r of Inr (Waits t) \<Rightarrow> dset (sy_tasks s) (sy_next s) t | _ \<Rightarrow> sy_tasks s)\<rparr>))"

definition run_resume :: "world \<Rightarrow> nat \<Rightarrow> task \<Rightarrow> outcome \<Rightarrow> system \<Rightarrow> (failure + progress) \<times> system" where
  "run_resume wo n t o' s = (case resume_task wo n t (woken n (sy_transport s) o') (sy_transport s) of
     (r, st) \<Rightarrow> (r, s\<lparr>sy_transport := st,
       sy_tasks := (case r of Inr (Waits t') \<Rightarrow> dset (sy_tasks s) n t' | _ \<Rightarrow> dpop (sy_tasks s) n)\<rparr>))"

inductive system_step :: "system \<Rightarrow> system \<Rightarrow> bool" where
  called: "run_call wo c s = (r, s') \<Longrightarrow> system_step s s'"
| resumed: "dget (sy_tasks s) n = Some t \<Longrightarrow> run_resume wo n t o' s = (r, s') \<Longrightarrow> system_step s s'"
| hosted: "s' = s\<lparr>sy_transport := host_events wo e (sy_transport s)\<rparr> \<Longrightarrow> system_step s s'"

definition new_transport ::
  "product_descriptor \<Rightarrow> bool \<Rightarrow> bool \<Rightarrow> bool \<Rightarrow> nat \<Rightarrow> rat \<Rightarrow> bool \<Rightarrow> bool \<Rightarrow> registry \<Rightarrow> audit_log \<Rightarrow> failure + transport" where
  "new_transport product enabled acceptance_mode mock_only max_pending timeout attestation_mock adapter_mock events trail =
     sbind (guard (1 / 100 \<le> timeout \<and> timeout \<le> 30 \<and> 1 \<le> max_pending \<and> max_pending \<le> 256) ValueError) (\<lambda>_.
     sbind (guard (attestation_mock = mock_only \<and> (adapter_mock \<longrightarrow> mock_only)) ValueError) (\<lambda>_.
     Inr (snd (observe \<lparr>tp_product = product, tp_enabled = enabled, tp_acceptance_mode = acceptance_mode,
       tp_mock_only = mock_only, tp_max_pending = max_pending, tp_events = events, tp_audit = trail,
       tp_state = STOPPED, tp_revision = 0, tp_epoch = 0, tp_physical = False, tp_handshake = False,
       tp_authenticated = False, tp_negotiated = False, tp_identity = None, tp_peer = None, tp_facts = None,
       tp_session = None, tp_session_token = None, tp_pending = [], tp_used_requests = [],
       tp_subscriptions = [], tp_error = None, tp_history = [], tp_cancelled = []\<rparr>))))"

end
