(* ===== verification/Interop_Transport_Laws.thy ===== *)
theory Interop_Transport_Laws
  imports Interop_Transport
begin

text \<open>
  Safety of the desktop transport over every interleaving of its coroutines. \<open>good\<close> relates the
  transport before and after a segment: generations only grow, within a generation nothing that was
  established is lost, and the core invariant is kept. Every action is \<open>safe\<close> (all its runs are
  good); the collection \<open>safe_intros\<close> proves it by the shape of the action. Only the segment that
  installs a session needs more than that.
\<close>

named_theorems safe_intros \<open>actions whose every run is good\<close>

section \<open>The core invariant\<close>

definition core :: "transport \<Rightarrow> bool" where
  "core st \<longleftrightarrow>
     (tp_state st = READY \<longrightarrow> tp_session st \<noteq> None) \<and>
     (\<forall>s. tp_session st = Some s \<longrightarrow>
        tp_authenticated st \<and> tp_negotiated st \<and>
        set (sd_capabilities s) \<subseteq> set CAPABILITIES \<and>
        set (sd_capabilities s) \<subseteq> set (pd_capabilities (tp_product st)) \<and>
        sd_peer_product_id s = pd_product_id (tp_product st) \<and>
        sd_peer_instance_id s = pd_instance_id (tp_product st))"

definition good :: "transport \<Rightarrow> transport \<Rightarrow> bool" where
  "good st st' \<longleftrightarrow> tp_product st' = tp_product st \<and> tp_epoch st \<le> tp_epoch st' \<and>
     (tp_epoch st' = tp_epoch st \<longrightarrow> (tp_authenticated st \<longrightarrow> tp_authenticated st') \<and> (tp_negotiated st \<longrightarrow> tp_negotiated st')) \<and>
     (core st \<longrightarrow> core st')"

lemma good_refl [simp]: "good st st" by (simp add: good_def)

lemma good_trans: "good a b \<Longrightarrow> good b c \<Longrightarrow> good a c"
  by (auto simp: good_def)

definition safe :: "'a act \<Rightarrow> bool" where "safe m \<longleftrightarrow> (\<forall>st. good st (snd (m st)))"

lemma safe_ret [safe_intros]: "safe (ret x)" by (simp add: safe_def ret_def)
lemma safe_raise [safe_intros]: "safe (raise e)" by (simp add: safe_def raise_def)
lemma safe_lift [safe_intros]: "safe (lift r)" by (simp add: safe_def lift_def)
lemma safe_gets [safe_intros]: "safe (gets f)" by (simp add: safe_def gets_def)
lemma safe_require [safe_intros]: "safe (require b e)" by (simp add: require_def safe_lift)

lemma safe_bind [safe_intros]: "safe m \<Longrightarrow> (\<And>x. safe (f x)) \<Longrightarrow> safe (bind m f)"
  by (auto simp: safe_def bind_def split: prod.splits sum.splits) (metis good_trans snd_conv)+

lemma safe_handle [safe_intros]: "safe m \<Longrightarrow> (\<And>e. safe (h e)) \<Longrightarrow> safe (handle m h)"
  by (auto simp: safe_def handle_def split: prod.splits sum.splits) (metis good_trans snd_conv)+

lemma safe_handle_exception [safe_intros]: "safe m \<Longrightarrow> (\<And>e. safe (h e)) \<Longrightarrow> safe (handle_exception m h)"
  unfolding handle_exception_def by (intro safe_handle) (auto intro: safe_raise)

lemma safe_modify: "(\<And>st. good st (f st)) \<Longrightarrow> safe (modify f)"
  by (simp add: safe_def modify_def)

lemma safe_if [safe_intros]: "safe m \<Longrightarrow> safe n \<Longrightarrow> safe (if b then m else n)" by simp

lemma safe_case_prod [safe_intros]: "(\<And>a b. safe (f a b)) \<Longrightarrow> safe (case p of (a, b) \<Rightarrow> f a b)"
  by (cases p) simp

lemma safe_case_option: "safe m \<Longrightarrow> (\<And>a. safe (f a)) \<Longrightarrow> safe (case x of None \<Rightarrow> m | Some a \<Rightarrow> f a)"
  by (cases x) simp_all

lemma snd_bind: "snd (bind m f st) = (case fst (m st) of Inl e \<Rightarrow> snd (m st) | Inr x \<Rightarrow> snd (f x (snd (m st))))"
  by (simp add: bind_def split: prod.splits sum.splits)

lemma bind_modify: "bind (modify f) g st = g () (f st)" by (simp add: bind_def modify_def)
lemma bind_gets: "bind (gets f) g st = g (f st) st" by (simp add: bind_def gets_def)

lemma core_frame:
  assumes "core st" "tp_state st' = tp_state st" "tp_session st' = tp_session st" "tp_product st' = tp_product st"
    "tp_authenticated st \<longrightarrow> tp_authenticated st'" "tp_negotiated st \<longrightarrow> tp_negotiated st'"
  shows "core st'"
  using assms by (auto simp: core_def)

lemma safe_frame:
  assumes "\<And>st. tp_state (f st) = tp_state st \<and> tp_session (f st) = tp_session st \<and> tp_product (f st) = tp_product st \<and>
      tp_epoch st \<le> tp_epoch (f st) \<and> (tp_authenticated st \<longrightarrow> tp_authenticated (f st)) \<and> (tp_negotiated st \<longrightarrow> tp_negotiated (f st))"
  shows "safe (modify f)"
  by (intro safe_modify) (use assms core_frame in \<open>auto simp: good_def\<close>)

lemma safe_observe [safe_intros]: "safe observe"
  unfolding observe_def by (rule safe_frame) (simp add: Let_def)

lemma observe_fields [simp]:
  "tp_state (snd (observe st)) = tp_state st" "tp_session (snd (observe st)) = tp_session st"
  "tp_product (snd (observe st)) = tp_product st" "tp_epoch (snd (observe st)) = tp_epoch st"
  "tp_authenticated (snd (observe st)) = tp_authenticated st" "tp_negotiated (snd (observe st)) = tp_negotiated st"
  "fst (observe st) = Inr ()"
  by (simp_all add: observe_def modify_def Let_def)

lemma transition_run:
  "transition target error st =
     (if target = tp_state st \<or> target \<in> set (TRANSITIONS (tp_state st))
      then observe (st\<lparr>tp_state := target, tp_error := error\<rparr>) else (Inl RuntimeError, st))"
  by (simp add: transition_def bind_def gets_def require_def lift_def modify_def guard_def)

lemma safe_transition [safe_intros]: "target \<noteq> READY \<Longrightarrow> safe (transition target error)"
  by (auto simp: safe_def transition_run good_def core_def)

section \<open>Ending a generation\<close>

lemma ended_core: "tp_session st = None \<Longrightarrow> tp_state st \<noteq> READY \<Longrightarrow> core st"
  by (simp add: core_def)

lemma clear_cancel_fields [simp]:
  "tp_state (clear_bridge_subscriptions st) = tp_state st" "tp_product (clear_bridge_subscriptions st) = tp_product st"
  "tp_epoch (clear_bridge_subscriptions st) = tp_epoch st"
  "tp_state (cancel_all self st) = tp_state st" "tp_product (cancel_all self st) = tp_product st"
  "tp_epoch (cancel_all self st) = tp_epoch st"
  by (simp_all add: clear_bridge_subscriptions_def cancel_all_def)

lemma invalidate_run:
  "tp_session (snd (invalidate self code failed st)) = None \<and>
   tp_state (snd (invalidate self code failed st)) \<noteq> READY \<and>
   tp_product (snd (invalidate self code failed st)) = tp_product st \<and>
   tp_epoch (snd (invalidate self code failed st)) = tp_epoch st + 1"
  by (cases "tp_state st")
    (auto simp: invalidate_def bind_def modify_def gets_def transition_run Let_def split: prod.splits sum.splits
      dest: arg_cong [where f = snd] simp flip: prod.collapse)

lemma safe_invalidate [safe_intros]: "safe (invalidate self code failed)"
  using invalidate_run [of self code failed] by (auto simp: safe_def good_def ended_core)

lemma safe_audit_event [safe_intros]: "safe (audit_event wo op peer dec res err)"
  unfolding audit_event_def by (intro safe_intros safe_frame) simp

lemma audit_event_fields [simp]:
  "tp_state (snd (audit_event wo op peer dec res err st)) = tp_state st"
  "tp_session (snd (audit_event wo op peer dec res err st)) = tp_session st"
  "tp_product (snd (audit_event wo op peer dec res err st)) = tp_product st"
  "tp_epoch (snd (audit_event wo op peer dec res err st)) = tp_epoch st"
  by (simp_all add: audit_event_def snd_bind gets_def lift_def modify_def split: sum.splits)

lemma stop_run:
  assumes "tp_session st = None"
  shows "tp_session (snd (bind (if tp_state st \<in> {STOPPED, FAILED} then ret () else transition REVOKING None) (\<lambda>_.
      bind (transition STOPPED None) (\<lambda>_. audit_event wo op peer dec res err)) st)) = None \<and>
    tp_state (snd (bind (if tp_state st \<in> {STOPPED, FAILED} then ret () else transition REVOKING None) (\<lambda>_.
      bind (transition STOPPED None) (\<lambda>_. audit_event wo op peer dec res err)) st)) \<noteq> READY \<and>
    tp_product (snd (bind (if tp_state st \<in> {STOPPED, FAILED} then ret () else transition REVOKING None) (\<lambda>_.
      bind (transition STOPPED None) (\<lambda>_. audit_event wo op peer dec res err)) st)) = tp_product st \<and>
    tp_epoch (snd (bind (if tp_state st \<in> {STOPPED, FAILED} then ret () else transition REVOKING None) (\<lambda>_.
      bind (transition STOPPED None) (\<lambda>_. audit_event wo op peer dec res err)) st)) = tp_epoch st"
  using assms by (cases "tp_state st") (simp_all add: snd_bind ret_def transition_run)

lemma safe_finish_shutdown [safe_intros]: "safe (finish_shutdown wo self)"
proof -
  let ?f = "\<lambda>st. let st = clear_bridge_subscriptions (cancel_all (Some self) (st\<lparr>tp_epoch := tp_epoch st + 1\<rparr>))
       in st\<lparr>tp_session := None, tp_session_token := None, tp_identity := None, tp_peer := None, tp_facts := None,
             tp_physical := False, tp_handshake := False, tp_authenticated := False, tp_negotiated := False\<rparr>"
  have "good st (snd (finish_shutdown wo self st))" for st
  proof -
    have "snd (finish_shutdown wo self st) = snd (bind (if tp_state (?f st) \<in> {STOPPED, FAILED} then ret ()
        else transition REVOKING None) (\<lambda>_. bind (transition STOPPED None) (\<lambda>_.
        audit_event wo ''SHUTDOWN'' None ''NONE'' ''SUCCESS'' None)) (?f st))"
      by (simp only: finish_shutdown_def bind_modify bind_gets)
    moreover have "tp_session (?f st) = None" "tp_product (?f st) = tp_product st" "tp_epoch (?f st) = tp_epoch st + 1"
      by (simp_all add: Let_def)
    ultimately show ?thesis
      using stop_run [of "?f st" wo "''SHUTDOWN''" None "''NONE''" "''SUCCESS''" None]
      by (simp only: good_def) (simp add: ended_core)
  qed
  then show ?thesis by (simp add: safe_def)
qed

lemma safe_session_property [safe_intros]: "safe (session_property wo self)"
  unfolding session_property_def by (intro safe_intros)

lemma safe_guard_epoch [safe_intros]: "safe (guard_epoch wo epoch)"
  unfolding guard_epoch_def by (intro safe_intros)

lemma safe_require_trusted [safe_intros]: "safe (require_trusted i)"
  unfolding require_trusted_def by (intro safe_intros)

lemma safe_refresh_trust [safe_intros]: "safe (refresh_trust wo facts)"
  unfolding refresh_trust_def attest_peer_def by (intro safe_intros safe_frame) simp

lemma safe_exchange_send [safe_intros]: "safe (exchange_send wo epoch request)"
  unfolding exchange_send_def by (intro safe_intros)

lemma safe_exchange_receive [safe_intros]: "safe (exchange_receive wo epoch request cancelled outcome)"
  unfolding exchange_receive_def by (intro safe_intros) (auto intro: safe_intros split: response_payload.splits)

lemma safe_connect_failed [safe_intros]: "safe (connect_failed epoch e)"
  unfolding connect_failed_def by (intro safe_intros)

lemma safe_check_context [safe_intros]: "safe (check_context wo request)"
  unfolding check_context_def by (auto intro: safe_intros split: option.splits)

section \<open>Every segment is safe\<close>

lemma safe_request_scope:
  assumes "safe m" shows "safe (request_scope d m)"
proof -
  have drop: "good st (drop_pending d st)" for st
    by (auto simp: drop_pending_def good_def intro: core_frame split: option.splits)
  have "good st (snd (request_scope d m st))" for st
  proof -
    obtain r st' where m: "m st = (r, st')" by fastforce
    have "good st st'" using assms m by (metis safe_def snd_conv)
    then show ?thesis using m drop good_trans by (auto simp: request_scope_def split: sum.splits progress.splits)
  qed
  then show ?thesis by (simp add: safe_def)
qed

lemma safe_shutdown_scope:
  assumes "safe m" shows "safe (shutdown_scope wo self m)"
proof -
  have "good st (snd (shutdown_scope wo self m st))" for st
  proof -
    obtain r st' where m: "m st = (r, st')" by fastforce
    have g: "good st st'" using assms m by (metis safe_def snd_conv)
    have "safe (bind (finish_shutdown wo self) (\<lambda>_. ret x))"
      "safe (bind (finish_shutdown wo self) (\<lambda>_. raise e :: progress act))" for x :: progress and e
      by (intro safe_intros)+
    then have "good st' (snd (bind (finish_shutdown wo self) (\<lambda>_. ret x) st'))"
      "good st' (snd (bind (finish_shutdown wo self) (\<lambda>_. raise e :: progress act) st'))" for x :: progress and e
      by (simp_all add: safe_def)
    then show ?thesis using m g good_trans by (auto simp: shutdown_scope_def split: sum.splits progress.splits)
  qed
  then show ?thesis by (simp add: safe_def)
qed

lemma safe_begin_disconnect [safe_intros]: "safe (begin_disconnect self peer)"
  unfolding begin_disconnect_def by (intro safe_intros) simp_all

lemma safe_resume_disconnect [safe_intros]: "safe (resume_disconnect wo r)"
  unfolding resume_disconnect_def Let_def by (intro safe_intros safe_frame) simp_all

lemma safe_refresh_or_invalidate [safe_intros]: "safe (refresh_or_invalidate wo self r)"
  unfolding refresh_or_invalidate_def by (intro safe_intros)

lemma safe_begin_connect [safe_intros]: "safe (begin_connect wo peer requested user)"
  unfolding begin_connect_def by (intro safe_intros safe_frame) simp_all

lemma safe_begin_request [safe_intros]: "safe (begin_request wo self request timeout)"
  unfolding begin_request_def Let_def
  by (intro safe_intros safe_frame) (auto intro: safe_intros split: option.splits)

lemma safe_drain_live [safe_intros]: "safe (drain_live wo sid)"
  by (auto simp: safe_def drain_live_def good_def Let_def intro: core_frame split: prod.splits)

lemma safe_call_subscribe [safe_intros]: "safe (call_subscribe wo cb ms e)"
proof -
  have sub: "safe (\<lambda>st. let (r, re) = f st in (r, st\<lparr>tp_events := re\<rparr>))" for f
    by (auto simp: safe_def good_def intro: core_frame split: prod.splits)
  show ?thesis
    unfolding call_subscribe_def Let_def
    by (intro safe_intros) (auto intro!: safe_intros safe_frame sub [unfolded Let_def] split: option.splits)
qed

lemma safe_begin_start [safe_intros]: "safe (begin_start wo)"
  unfolding begin_start_def by (intro safe_intros) simp_all

lemma safe_call_discover [safe_intros]: "safe (call_discover wo found)"
  unfolding call_discover_def by (intro safe_intros) simp_all

lemma safe_call_cancel [safe_intros]: "safe (call_cancel wo rid)"
  unfolding call_cancel_def by (intro safe_intros safe_case_option safe_frame) simp_all

lemma safe_call_authorized [safe_intros]: "safe (call_authorized wo capability)"
  unfolding call_authorized_def attest_peer_def by (intro safe_intros safe_case_option)

lemma safe_case_hello: "(\<And>h. safe (f h)) \<Longrightarrow> safe (case p of HelloResult h \<Rightarrow> f h | _ \<Rightarrow> raise e)"
  and safe_case_negotiation: "(\<And>n. safe (g n)) \<Longrightarrow> safe (case p of NegotiationResult n \<Rightarrow> g n | _ \<Rightarrow> raise e)"
  by (cases p; simp add: safe_raise)+

lemma safe_segments:
  "safe (resume_start wo r)" "safe (resume_connect_peer wo d r)" "safe (resume_connect_hello wo d facts r)"
  "safe (resume_connect_negotiate wo d hello r)" "safe (raise e :: progress act)"
  "safe (resume_request_refresh wo self q r)" "safe (resume_request_exchange wo self q r)"
  "safe (resume_request_confirm wo self q response r)" "safe (resume_refresh_authority wo self epoch r)"
  "safe (resume_drain wo self epoch sid r)" "safe (resume_disconnect wo r)"
  "safe (resume_shutdown_disconnect wo self r)" "safe (resume_shutdown_stop wo self r)"
  unfolding resume_start_def resume_connect_peer_def resume_connect_hello_def resume_connect_negotiate_def
    resume_request_refresh_def resume_request_exchange_def resume_request_confirm_def resume_refresh_authority_def
    resume_drain_def resume_shutdown_disconnect_def resume_shutdown_stop_def Let_def
  by (intro safe_intros safe_request_scope safe_shutdown_scope safe_case_hello safe_case_negotiation safe_frame; simp)+

lemma safe_begin_refresh_authority [safe_intros]: "safe (begin_refresh_authority wo self)"
  unfolding begin_refresh_authority_def by (intro safe_intros)

lemma safe_call_unsubscribe [safe_intros]: "safe (call_unsubscribe sid)"
  unfolding call_unsubscribe_def by (intro safe_intros safe_frame) simp

lemma safe_begin_drain [safe_intros]: "safe (begin_drain wo self sid)"
  unfolding begin_drain_def by (intro safe_intros)

lemma safe_begin_shutdown [safe_intros]: "safe (begin_shutdown wo self timeout)"
  unfolding begin_shutdown_def by (intro safe_intros safe_shutdown_scope)

lemma safe_begin: "safe (begin_call wo self c)"
  by (cases c) (auto intro: safe_intros)

section \<open>What a waiting task knows\<close>

definition requested_ok :: "transport \<Rightarrow> connect_data \<Rightarrow> bool" where
  "requested_ok st d \<longleftrightarrow> ct_epoch d \<le> tp_epoch st \<and> set (ct_requested d) \<subseteq> set CAPABILITIES \<and>
     set (ct_requested d) \<subseteq> set (pd_capabilities (tp_product st))"

definition request_granted :: "request_data \<Rightarrow> bool" where
  "request_granted d \<longleftrightarrow> set (required_capabilities (rt_request d)) \<subseteq> set (sd_capabilities (rt_session d)) \<and>
     session_id_of (rq_payload (rt_request d)) = Some (sd_session_id (rt_session d))"

definition response_fits :: "transport_request \<Rightarrow> transport_response \<Rightarrow> bool" where
  "response_fits request response \<longleftrightarrow> rp_operation response = rq_operation request \<and>
     (\<forall>e. rp_payload response \<noteq> InteropError e) \<and>
     expects (request_id_of (rq_payload request)) (response_request_id (rp_payload response)) \<and>
     expects (session_id_of (rq_payload request)) (response_session_id (rp_payload response))"

fun task_ok :: "transport \<Rightarrow> task \<Rightarrow> bool" where
  "task_ok st (ConnectPeer d) \<longleftrightarrow> requested_ok st d"
| "task_ok st (ConnectHello d facts) \<longleftrightarrow> requested_ok st d"
| "task_ok st (ConnectNegotiate d hello) \<longleftrightarrow> requested_ok st d \<and> (ct_epoch d = tp_epoch st \<longrightarrow> tp_authenticated st)"
| "task_ok st (ConnectSession d hello n) \<longleftrightarrow> requested_ok st d \<and>
     (ct_epoch d = tp_epoch st \<longrightarrow> tp_authenticated st \<and> tp_negotiated st) \<and>
     set (cn_granted_capabilities n) \<subseteq> set (ct_requested d)"
| "task_ok st (RequestRefresh d) \<longleftrightarrow> request_granted d"
| "task_ok st (RequestExchange d) \<longleftrightarrow> request_granted d"
| "task_ok st (RequestConfirm d response) \<longleftrightarrow> request_granted d \<and> response_fits (rt_request d) response"
| "task_ok st _ \<longleftrightarrow> True"

lemma task_ok_good: "good st st' \<Longrightarrow> task_ok st t \<Longrightarrow> task_ok st' t"
  by (cases t) (auto simp: good_def requested_ok_def)

text \<open>Results of actions, by their runs.\<close>

lemma bind_result:
  assumes "bind m f st = (Inr x, st')"
  obtains y st1 where "m st = (Inr y, st1)" "f y st1 = (Inr x, st')"
  using assms by (auto simp: bind_def split: prod.splits sum.splits)

lemma require_result: "require b e st = (Inr u, st') \<longleftrightarrow> b \<and> st' = st"
  by (auto simp: require_def lift_def guard_def)

lemma gets_result: "gets f st = (Inr x, st') \<longleftrightarrow> x = f st \<and> st' = st"
  by (auto simp: gets_def)

lemma lift_result: "lift r st = (Inr x, st') \<longleftrightarrow> r = Inr x \<and> st' = st"
  by (auto simp: lift_def)

lemma ret_result: "ret x st = (Inr y, st') \<longleftrightarrow> y = x \<and> st' = st"
  by (auto simp: ret_def)

lemma raise_result: "raise e st = (Inr x, st') \<longleftrightarrow> False"
  by (simp add: raise_def)

lemma modify_result: "modify f st = (Inr u, st') \<longleftrightarrow> st' = f st"
  by (auto simp: modify_def)

lemma handle_result: "handle m h st = (Inr x, st') \<longleftrightarrow> m st = (Inr x, st') \<or> (\<exists>e st1. m st = (Inl e, st1) \<and> h e st1 = (Inr x, st'))"
  by (auto simp: handle_def split: prod.splits sum.splits)

lemma guard_epoch_result:
  "guard_epoch wo epoch st = (Inr u, st') \<longleftrightarrow> epoch = tp_epoch st \<and> feature_allowed wo st \<and> st' = st"
  by (auto simp: guard_epoch_def bind_gets require_result)

lemma bind_result_iff: "bind m f st = (Inr x, st') \<longleftrightarrow> (\<exists>y st1. m st = (Inr y, st1) \<and> f y st1 = (Inr x, st'))"
  by (auto simp: bind_def split: prod.splits sum.splits)

lemmas results = bind_result_iff require_result gets_result lift_result ret_result raise_result modify_result
  handle_result guard_epoch_result

lemma exchange_send_result: "exchange_send wo epoch request st = (Inr u, st') \<Longrightarrow> st' = st \<and> epoch = tp_epoch st"
  by (auto simp: exchange_send_def results)

lemma exchange_receive_result:
  "exchange_receive wo epoch request cancelled outcome st = (Inr response, st') \<longleftrightarrow>
     st' = st \<and> epoch = tp_epoch st \<and> feature_allowed wo st \<and> \<not> cancelled \<and> outcome = Inr response \<and>
     valid_transport_response (wo_wire wo) response \<and> response_fits request response"
  by (auto simp: exchange_receive_def results response_fits_def split: response_payload.splits)

lemma connect_failed_result: "connect_failed epoch e st = (Inr x, st') \<Longrightarrow> \<exists>e. x = Waits (ConnectAbort e)"
  by (auto simp: connect_failed_def results split: if_splits)

lemma transition_epoch [simp]: "tp_epoch (snd (transition target error st)) = tp_epoch st"
  "tp_product (snd (transition target error st)) = tp_product st"
  by (simp_all add: transition_run)

lemma transition_result: "transition target error st = (Inr u, st') \<Longrightarrow>
    tp_epoch st' = tp_epoch st \<and> tp_product st' = tp_product st \<and> tp_authenticated st' = tp_authenticated st \<and>
    tp_negotiated st' = tp_negotiated st \<and> tp_session st' = tp_session st \<and> tp_state st' = target"
  by (auto simp: transition_run observe_def modify_def Let_def split: if_splits)

lemma observe_result: "observe st = (Inr u, st') \<Longrightarrow> tp_epoch st' = tp_epoch st \<and> tp_authenticated st' = tp_authenticated st \<and>
    tp_negotiated st' = tp_negotiated st \<and> tp_product st' = tp_product st"
  by (auto simp: observe_def modify_def Let_def)

lemma payload_result:
  "(case p of HelloResult h \<Rightarrow> ret h | _ \<Rightarrow> raise e) st = (Inr x, st') \<longleftrightarrow> p = HelloResult x \<and> st' = st"
  "(case p of NegotiationResult n \<Rightarrow> ret n | _ \<Rightarrow> raise e) st = (Inr y, st') \<longleftrightarrow> p = NegotiationResult y \<and> st' = st"
  "(case p of SessionOpenResult o' \<Rightarrow> ret o' | _ \<Rightarrow> raise e) st = (Inr z, st') \<longleftrightarrow> p = SessionOpenResult z \<and> st' = st"
  by (cases p; auto simp: ret_result raise_result)+

lemma begin_connect_waits:
  assumes "begin_connect wo peer requested user st = (Inr (Waits t), st')"
  shows "task_ok st' t"
  using assms by (auto simp: begin_connect_def results requested_ok_def dest!: transition_result)

lemma connect_peer_waits:
  assumes "resume_connect_peer wo d r st = (Inr (Waits t), st')" "requested_ok st d"
  shows "task_ok st' t"
  using assms
  by (auto simp: resume_connect_peer_def results requested_ok_def Let_def
      dest!: transition_result exchange_send_result connect_failed_result)

lemma connect_hello_waits:
  assumes "resume_connect_hello wo d facts r st = (Inr (Waits t), st')" "requested_ok st d"
  shows "task_ok st' t"
  using assms
  by (auto simp: resume_connect_hello_def results requested_ok_def require_trusted_def exchange_receive_result
      payload_result dest!: transition_result exchange_send_result connect_failed_result)

lemma connect_negotiate_waits:
  assumes "resume_connect_negotiate wo d hello r st = (Inr (Waits t), st')" "task_ok st (ConnectNegotiate d hello)"
  shows "task_ok st' t"
  using assms
  by (auto simp: resume_connect_negotiate_def results requested_ok_def exchange_receive_result payload_result
      valid_transport_response_def valid_capability_negotiation_def
      dest!: observe_result exchange_send_result connect_failed_result)

lemma connect_session_waits:
  assumes "resume_connect_session wo d hello n r st = (Inr (Waits t), st')"
  shows "task_ok st' t"
  using assms by (auto simp: resume_connect_session_def results dest!: connect_failed_result)

lemma begin_request_waits:
  assumes "begin_request wo self request timeout st = (Inr (Waits t), st')"
  shows "task_ok st' t"
  using assms
  by (auto simp: begin_request_def results request_granted_def Let_def subset_iff split: option.splits)

lemma request_scope_waits: "request_scope d m st = (Inr (Waits t), st') \<longleftrightarrow> m st = (Inr (Waits t), st')"
  by (auto simp: request_scope_def split: prod.splits sum.splits progress.splits)

lemma request_refresh_waits:
  assumes "resume_request_refresh wo self d r st = (Inr (Waits t), st')" "request_granted d"
  shows "task_ok st' t"
  using assms by (auto simp: resume_request_refresh_def request_scope_waits results)

lemma request_exchange_waits:
  assumes "resume_request_exchange wo self d r st = (Inr (Waits t), st')" "request_granted d"
  shows "task_ok st' t"
  using assms by (auto simp: resume_request_exchange_def request_scope_waits results exchange_receive_result)

lemma request_confirm_waits: "resume_request_confirm wo self d response r st \<noteq> (Inr (Waits t), st')"
  by (auto simp: resume_request_confirm_def request_scope_waits results)

section \<open>Installing a session\<close>

definition still :: "'a act \<Rightarrow> bool" where "still m \<longleftrightarrow> (\<forall>st. snd (m st) = st)"

lemma good_bind_still:
  assumes "still m" "\<And>x. m st = (Inr x, st) \<Longrightarrow> good st (snd (f x st))"
  shows "good st (snd (bind m f st))"
proof (cases "m st")
  case (Pair r st')
  then have "st' = st" using assms(1) by (metis still_def snd_conv)
  then show ?thesis using Pair assms(2) by (cases r) (auto simp: bind_def)
qed

lemma good_handle:
  assumes "good st (snd (m st))" "\<And>e. safe (h e)"
  shows "good st (snd (handle m h st))"
proof (cases "m st")
  case (Pair r st')
  then show ?thesis using assms good_trans by (cases r) (fastforce simp: handle_def safe_def)+
qed

lemma still_actions: "still (require b e)" "still (gets f)" "still (guard_epoch wo epoch)" "still (ret x)" "still (raise e)"
  by (simp_all add: still_def require_def lift_def gets_def guard_epoch_def bind_def ret_def raise_def)

lemma still_bind: "still m \<Longrightarrow> (\<And>x. still (f x)) \<Longrightarrow> still (bind m f)"
  by (auto simp: still_def snd_bind split: sum.splits)

lemma still_receive: "still (exchange_receive wo epoch request cancelled outcome)"
  unfolding exchange_receive_def
  by (intro still_bind still_actions) (auto simp: still_def lift_def ret_def raise_def split: response_payload.splits)

lemma good_to_ready:
  assumes "good st st'" "core st'" "tp_session st' \<noteq> None" and safe_f: "\<And>x. safe (f x)"
  shows "good st (snd (bind (transition READY None) f st'))"
proof -
  have "good st' (snd (transition READY None st'))"
    using \<open>core st'\<close> \<open>tp_session st' \<noteq> None\<close> by (simp add: transition_run good_def) (auto simp: core_def)
  then have to: "good st (snd (transition READY None st'))"
    by (rule good_trans [OF \<open>good st st'\<close>])
  have "good (snd (transition READY None st')) (snd (f x (snd (transition READY None st'))))" for x
    using safe_f by (simp add: safe_def)
  then show ?thesis using to by (auto simp: snd_bind split: sum.splits intro: good_trans)
qed

lemma install_good:
  assumes ok: "task_ok st (ConnectSession d hello n)" and epoch: "ct_epoch d = tp_epoch st"
    and bound: "session_bound wo (tp_product st) d hello n (sr_session opened)"
  shows "good st (snd (bind (modify (\<lambda>st. st\<lparr>tp_session := Some (sr_session opened),
      tp_session_token := Some (sr_session_token opened), tp_used_requests := []\<rparr>)) (\<lambda>_.
      bind (transition READY None) (\<lambda>_.
      bind (audit_event wo ''CONNECT'' peer ''ALLOW'' ''SUCCESS'' None) (\<lambda>_.
      ret (Finished (Opened (sr_session opened)))))) st))"
proof -
  let ?st = "st\<lparr>tp_session := Some (sr_session opened), tp_session_token := Some (sr_session_token opened), tp_used_requests := []\<rparr>"
  have "core ?st"
    using ok epoch bound by (auto simp: core_def session_bound_def requested_ok_def)
  moreover from this have "good st ?st" by (auto simp: good_def)
  ultimately show ?thesis
    unfolding bind_modify by (intro good_to_ready safe_intros) simp_all
qed

lemma still_opened: "still (case p of SessionOpenResult x \<Rightarrow> ret x | _ \<Rightarrow> raise e)"
  by (cases p) (simp_all add: still_actions)

lemma connect_session_good:
  assumes ok: "task_ok st (ConnectSession d hello n)"
  shows "good st (snd (resume_connect_session wo d hello n r st))"
  unfolding resume_connect_session_def
  apply (rule good_handle [OF _ safe_connect_failed])
  apply (rule good_bind_still [OF still_receive])
  apply (rule good_bind_still [OF still_opened])
  apply (rule good_bind_still [OF still_actions(2)])
  apply (rule good_bind_still [OF still_actions(1)])
  apply (rule good_bind_still [OF still_actions(3)])
  apply (rule install_good [OF ok])
   apply (simp_all add: results)
  done

section \<open>The whole system\<close>

lemma safe_resume:
  assumes "task_ok st t"
  shows "good st (snd (resume_task wo self t r st))"
proof -
  have simple: "safe (resume_start wo r)" "safe (resume_connect_peer wo d r)" "safe (resume_connect_hello wo d facts r)"
    "safe (resume_connect_negotiate wo d hello r)" "safe (raise e :: progress act)"
    "safe (resume_request_refresh wo self q r)" "safe (resume_request_exchange wo self q r)"
    "safe (resume_request_confirm wo self q response r)" "safe (resume_refresh_authority wo self epoch r)"
    "safe (resume_drain wo self epoch sid r)" "safe (resume_disconnect wo r)"
    "safe (resume_shutdown_disconnect wo self r)" "safe (resume_shutdown_stop wo self r)"
    for d facts hello q response epoch sid and e :: failure
    by (simp_all add: safe_segments)
  show ?thesis
    using assms simple connect_session_good by (cases t) (auto simp: safe_def)
qed

lemma free_begin: "begin_start wo st = (Inr (Waits t), st') \<Longrightarrow> task_ok st' t"
  "call_discover wo found st \<noteq> (Inr (Waits t), st')"
  "call_cancel wo rid st \<noteq> (Inr (Waits t), st')"
  "call_authorized wo capability st \<noteq> (Inr (Waits t), st')"
  "begin_refresh_authority wo self st = (Inr (Waits t), st') \<Longrightarrow> task_ok st' t"
  "call_subscribe wo cb ms e st \<noteq> (Inr (Waits t), st')"
  "call_unsubscribe sid st \<noteq> (Inr (Waits t), st')"
  "begin_drain wo self sid st = (Inr (Waits t), st') \<Longrightarrow> task_ok st' t"
  "begin_disconnect self peer st = (Inr (Waits t), st') \<Longrightarrow> task_ok st' t"
          apply (auto simp: begin_start_def results split: if_splits)[1]
         apply (auto simp: call_discover_def results)[1]
        apply (auto simp: call_cancel_def results split: option.splits)[1]
       apply (auto simp: call_authorized_def handle_exception_def results split: if_splits)[1]
      apply (auto simp: begin_refresh_authority_def results)[1]
     apply (auto simp: call_subscribe_def results Let_def split: option.splits prod.splits)[1]
    apply (auto simp: call_unsubscribe_def results)[1]
   apply (auto simp: begin_drain_def results split: if_splits)[1]
  apply (auto simp: begin_disconnect_def results split: if_splits)[1]
  done

lemma shutdown_scope_waits: "shutdown_scope wo self m st = (Inr (Waits t), st') \<longleftrightarrow> m st = (Inr (Waits t), st')"
  by (auto simp: shutdown_scope_def results split: prod.splits sum.splits progress.splits)

lemma begin_waits:
  assumes "begin_call wo self c st = (Inr (Waits t), st')"
  shows "task_ok st' t"
proof (cases c)
  case (CallShutdown timeout)
  then show ?thesis using assms
    by (auto simp: begin_shutdown_def shutdown_scope_waits results split: if_splits)
next
  case CallInvalidate
  then show ?thesis using assms by (auto simp: results)
qed (use assms in \<open>auto dest: free_begin(1,5,8,9) begin_connect_waits begin_request_waits simp: free_begin(2-4,6,7)\<close>)

lemma resume_waits:
  assumes "resume_task wo self t r st = (Inr (Waits t'), st')" "task_ok st t"
  shows "task_ok st' t'"
proof (cases t)
  case Starting
  then show ?thesis using assms by (auto simp: resume_start_def handle_exception_def results split: if_splits)
next
  case (RefreshingAuthority epoch)
  then show ?thesis using assms by (auto simp: resume_refresh_authority_def handle_exception_def results split: if_splits)
next
  case (DrainingEvents epoch sid)
  then show ?thesis using assms by (auto simp: resume_drain_def handle_exception_def results split: if_splits)
next
  case Disconnecting
  then show ?thesis using assms by (auto simp: resume_disconnect_def Let_def results split: if_splits)
next
  case ShutdownDisconnect
  then show ?thesis using assms by (auto simp: resume_shutdown_disconnect_def shutdown_scope_waits results)
next
  case ShutdownStop
  then show ?thesis using assms by (auto simp: resume_shutdown_stop_def shutdown_scope_waits results split: if_splits)
next
  case (ConnectAbort e)
  then show ?thesis using assms by (simp add: raise_result)
next
  case (ConnectNegotiate d hello)
  then show ?thesis using assms connect_negotiate_waits by simp
qed (use assms in \<open>auto dest: connect_peer_waits connect_hello_waits connect_session_waits
      request_refresh_waits request_exchange_waits simp: request_confirm_waits\<close>)

definition sys_ok :: "system \<Rightarrow> bool" where
  "sys_ok s \<longleftrightarrow> core (sy_transport s) \<and> (\<forall>n t. dget (sy_tasks s) n = Some t \<longrightarrow> task_ok (sy_transport s) t)"

lemma sys_ok_move:
  assumes "sys_ok s" "good (sy_transport s) (sy_transport s')"
    and "\<And>n t. dget (sy_tasks s') n = Some t \<Longrightarrow> dget (sy_tasks s) n = Some t \<or> task_ok (sy_transport s') t"
  shows "sys_ok s'"
  using assms task_ok_good unfolding sys_ok_def good_def by blast

lemma sys_ok_step:
  assumes step: "system_step s s'" and ok: "sys_ok s"
  shows "sys_ok s'"
  using step
proof cases
  case (called wo c r)
  obtain x st where b: "begin_call wo (sy_next s) c (sy_transport s) = (x, st)" by fastforce
  then have "good (sy_transport s) st" using safe_begin by (metis safe_def snd_conv)
  moreover have "task_ok st t" if "x = Inr (Waits t)" for t using b that begin_waits by simp
  ultimately show ?thesis
    using called b by (intro sys_ok_move [OF ok]) (auto simp: run_call_def split: sum.splits progress.splits if_splits)
next
  case (resumed n t wo o' r)
  let ?w = "woken n (sy_transport s) o'"
  have t: "task_ok (sy_transport s) t" using ok resumed(1) by (auto simp: sys_ok_def)
  obtain x st where b: "resume_task wo n t ?w (sy_transport s) = (x, st)" by fastforce
  then have "good (sy_transport s) st" using safe_resume [OF t] by (metis snd_conv)
  moreover have "task_ok st t'" if "x = Inr (Waits t')" for t' using b that resume_waits t by simp
  ultimately show ?thesis
    using resumed b by (intro sys_ok_move [OF ok]) (auto simp: run_resume_def split: sum.splits progress.splits if_splits)
next
  case (hosted wo e)
  have "good (sy_transport s) (host_events wo e (sy_transport s))"
    by (simp add: good_def host_events_def core_def)
  then show ?thesis using hosted by (intro sys_ok_move [OF ok]) auto
qed

text \<open>A transport as \<open>__init__\<close> leaves it, with no coroutine under way.\<close>

definition fresh_system :: "system \<Rightarrow> bool" where
  "fresh_system s \<longleftrightarrow> sy_tasks s = [] \<and> (\<exists>product enabled acceptance mock pending timeout amock admock events trail.
     new_transport product enabled acceptance mock pending timeout amock admock events trail = Inr (sy_transport s))"

lemma new_transport_frame:
  assumes "new_transport product enabled acceptance mock pending timeout amock admock events trail = Inr st"
  shows "tp_session st = None \<and> tp_state st \<noteq> READY"
proof -
  obtain x where "st = snd (observe x)" "tp_session x = None" "tp_state x = STOPPED"
    using assms by (auto simp: new_transport_def res_simps)
  then show ?thesis by simp
qed

lemma fresh_ok: "fresh_system s \<Longrightarrow> sys_ok s"
  by (auto simp: fresh_system_def sys_ok_def dest!: new_transport_frame intro: ended_core)

interpretation local_transport: transition_system fresh_system system_step sys_ok
  by unfold_locales (blast intro: fresh_ok sys_ok_step)+

end
