(* ===== verification/Interop_Transport_Run.thy ===== *)
theory Interop_Transport_Run
  imports Interop_Transport_Laws
begin

text \<open>
  The normal course of a connection: what each segment does when nothing fails, as an update of the
  transport. \<open>moved\<close> and \<open>audited\<close> name the two updates every segment ends with, so a state stays a
  short expression whose fields are computed by rewriting. At the end a concrete connection is run
  from start to a delivered response.
\<close>

named_theorems course \<open>what a segment does when nothing fails\<close>

section \<open>Running actions\<close>

text \<open>\<open>run_on\<close> and \<open>handle_on\<close> continue from a result; their congruence rules keep the simplifier
  out of the continuation until the result is known.\<close>

definition run_on :: "(failure + 'a) \<times> transport \<Rightarrow> ('a \<Rightarrow> 'b act) \<Rightarrow> (failure + 'b) \<times> transport" where
  "run_on p f = (case p of (Inl e, st) \<Rightarrow> (Inl e, st) | (Inr x, st) \<Rightarrow> f x st)"

definition handle_on :: "(failure + 'a) \<times> transport \<Rightarrow> (failure \<Rightarrow> 'a act) \<Rightarrow> (failure + 'a) \<times> transport" where
  "handle_on p h = (case p of (Inl e, st) \<Rightarrow> h e st | (Inr x, st) \<Rightarrow> (Inr x, st))"

lemma run_on_cong: "p = p' \<Longrightarrow> run_on p f = run_on p' f" by simp
lemma handle_on_cong: "p = p' \<Longrightarrow> handle_on p f = handle_on p' f" by simp
lemma bind_run_cong: "st = st' \<Longrightarrow> bind m f st = bind m f st'" by simp
lemma handle_run_cong: "st = st' \<Longrightarrow> handle m f st = handle m f st'" by simp

lemmas run_congs = run_on_cong handle_on_cong bind_run_cong handle_run_cong

lemma runs:
  "bind m f st = run_on (m st) f" "run_on (Inl e, st) f = (Inl e, st)" "run_on (Inr x, st) f = f x st"
  "handle m h st = handle_on (m st) h" "handle_on (Inl e, st) h = h e st" "handle_on (Inr x, st) h = (Inr x, st)"
  "ret x st = (Inr x, st)" "raise e st = (Inl e, st)" "lift r st = (r, st)" "gets g st = (Inr (g st), st)"
  "modify k st = (Inr (), k st)" "require b e st = ((if b then Inr () else Inl e), st)"
  by (simp_all add: run_on_def handle_on_def bind_def handle_def ret_def raise_def lift_def gets_def modify_def
      require_def guard_def split: prod.splits sum.splits)

definition observed :: "transport \<Rightarrow> transport" where "observed st = snd (observe st)"

definition moved :: "transport_state \<Rightarrow> string option \<Rightarrow> transport \<Rightarrow> transport" where
  "moved target error st = observed (st\<lparr>tp_state := target, tp_error := error\<rparr>)"

definition audited :: "world \<Rightarrow> string \<Rightarrow> string option \<Rightarrow> string \<Rightarrow> string \<Rightarrow> string option \<Rightarrow> transport \<Rightarrow> transport" where
  "audited wo operation peer decision result error st = snd (audit_event wo operation peer decision result error st)"

lemma observe_ok [course]: "observe st = (Inr (), observed st)"
  by (simp add: observed_def observe_def modify_def)

lemma transition_ok [course]:
  "target = tp_state st \<or> target \<in> set (TRANSITIONS (tp_state st)) \<Longrightarrow> transition target error st = (Inr (), moved target error st)"
  by (simp add: transition_run moved_def observe_ok)

lemma audit_event_ok [course]:
  "operation \<in> set audit_operations \<Longrightarrow> optional opaque peer = Inr peer \<Longrightarrow> decision \<in> {''ALLOW'', ''DENY'', ''NONE''} \<Longrightarrow>
   result \<in> {''SUCCESS'', ''FAILED'', ''CANCELLED'', ''TIMEOUT'', ''PENDING''} \<Longrightarrow>
   audit_event wo operation peer decision result None st = (Inr (), audited wo operation peer decision result None st)"
  by (simp add: audited_def audit_event_def record_audit_def new_audit_record_def opt_ok_def runs guard_def)

lemma moved_fields [simp]:
  "tp_state (moved t e st) = t" "tp_error (moved t e st) = e"
  "tp_product (moved t e st) = tp_product st" "tp_enabled (moved t e st) = tp_enabled st"
  "tp_acceptance_mode (moved t e st) = tp_acceptance_mode st" "tp_mock_only (moved t e st) = tp_mock_only st"
  "tp_max_pending (moved t e st) = tp_max_pending st" "tp_epoch (moved t e st) = tp_epoch st"
  "tp_authenticated (moved t e st) = tp_authenticated st" "tp_negotiated (moved t e st) = tp_negotiated st"
  "tp_identity (moved t e st) = tp_identity st" "tp_peer (moved t e st) = tp_peer st" "tp_facts (moved t e st) = tp_facts st"
  "tp_session (moved t e st) = tp_session st" "tp_pending (moved t e st) = tp_pending st"
  "tp_used_requests (moved t e st) = tp_used_requests st" "tp_cancelled (moved t e st) = tp_cancelled st"
  "tp_events (moved t e st) = tp_events st" "tp_subscriptions (moved t e st) = tp_subscriptions st"
  by (simp_all add: moved_def observed_def observe_def modify_def Let_def)

lemma observed_fields [simp]:
  "tp_state (observed st) = tp_state st" "tp_error (observed st) = tp_error st"
  "tp_product (observed st) = tp_product st" "tp_enabled (observed st) = tp_enabled st"
  "tp_acceptance_mode (observed st) = tp_acceptance_mode st" "tp_mock_only (observed st) = tp_mock_only st"
  "tp_max_pending (observed st) = tp_max_pending st" "tp_epoch (observed st) = tp_epoch st"
  "tp_authenticated (observed st) = tp_authenticated st" "tp_negotiated (observed st) = tp_negotiated st"
  "tp_identity (observed st) = tp_identity st" "tp_peer (observed st) = tp_peer st" "tp_facts (observed st) = tp_facts st"
  "tp_session (observed st) = tp_session st" "tp_pending (observed st) = tp_pending st"
  "tp_used_requests (observed st) = tp_used_requests st" "tp_cancelled (observed st) = tp_cancelled st"
  "tp_events (observed st) = tp_events st" "tp_subscriptions (observed st) = tp_subscriptions st"
  by (simp_all add: observed_def observe_def modify_def Let_def)

lemma audited_fields [simp]:
  "tp_state (audited wo a b c d e st) = tp_state st"
  "tp_product (audited wo a b c d e st) = tp_product st" "tp_enabled (audited wo a b c d e st) = tp_enabled st"
  "tp_acceptance_mode (audited wo a b c d e st) = tp_acceptance_mode st" "tp_mock_only (audited wo a b c d e st) = tp_mock_only st"
  "tp_max_pending (audited wo a b c d e st) = tp_max_pending st" "tp_epoch (audited wo a b c d e st) = tp_epoch st"
  "tp_authenticated (audited wo a b c d e st) = tp_authenticated st" "tp_negotiated (audited wo a b c d e st) = tp_negotiated st"
  "tp_identity (audited wo a b c d e st) = tp_identity st" "tp_peer (audited wo a b c d e st) = tp_peer st"
  "tp_facts (audited wo a b c d e st) = tp_facts st" "tp_session (audited wo a b c d e st) = tp_session st"
  "tp_pending (audited wo a b c d e st) = tp_pending st" "tp_used_requests (audited wo a b c d e st) = tp_used_requests st"
  "tp_cancelled (audited wo a b c d e st) = tp_cancelled st" "tp_events (audited wo a b c d e st) = tp_events st"
  "tp_subscriptions (audited wo a b c d e st) = tp_subscriptions st"
  by (simp_all add: audited_def audit_event_def snd_bind gets_def lift_def modify_def split: sum.splits)

lemma feature_allowed_fields [simp]:
  "feature_allowed wo (moved t e st) = feature_allowed wo st" "feature_allowed wo (observed st) = feature_allowed wo st"
  "feature_allowed wo (audited wo' a b c d e' st) = feature_allowed wo st"
  by (simp_all add: feature_allowed_def)

section \<open>Segments that succeed\<close>

lemma begin_start_ok [course]:
  "feature_allowed wo st \<Longrightarrow> tp_state st = STOPPED \<Longrightarrow> begin_start wo st = (Inr (Waits Starting), moved STARTING None st)"
  by (simp add: begin_start_def runs course)

lemma resume_start_ok [course]:
  "tp_state st = STARTING \<Longrightarrow> resume_start wo Completes st =
     (Inr (Finished (Flag True)), audited wo ''START'' None ''NONE'' ''SUCCESS'' None (moved LISTENING None st))"
  by (simp add: resume_start_def done_of_def handle_exception_def runs course audit_operations_def optional_def)

lemma begin_connect_ok [course]:
  assumes "tp_state st = LISTENING" "feature_allowed wo st" "PROTOCOL_VERSION \<in> set (dp_protocol_versions peer)"
    "distinct requested" "set requested \<subseteq> set CAPABILITIES" "set requested \<subseteq> set (pd_capabilities (tp_product st))"
  shows "begin_connect wo peer requested user st =
     (Inr (Waits (ConnectPeer \<lparr>ct_peer = peer, ct_requested = requested, ct_user = user, ct_epoch = tp_epoch st + 1, ct_nonce = []\<rparr>)),
      moved CONNECTING None (st\<lparr>tp_epoch := tp_epoch st + 1\<rparr>))"
  using assms by (simp add: begin_connect_def runs course)

lemma guard_epoch_ok [course]:
  "epoch = tp_epoch st \<Longrightarrow> feature_allowed wo st \<Longrightarrow> guard_epoch wo epoch st = (Inr (), st)"
  by (simp add: guard_epoch_def runs)

lemma exchange_send_ok [course]:
  "valid_transport_request (wo_wire wo) request \<Longrightarrow> epoch = tp_epoch st \<Longrightarrow> feature_allowed wo st \<Longrightarrow>
   exchange_send wo epoch request st = (Inr (), st)"
  by (simp add: exchange_send_def runs course)

lemma exchange_receive_ok [course]:
  "valid_transport_response (wo_wire wo) response \<Longrightarrow> epoch = tp_epoch st \<Longrightarrow> feature_allowed wo st \<Longrightarrow>
   response_fits request response \<Longrightarrow> exchange_receive wo epoch request False (Inr response) st = (Inr response, st)"
  by (simp add: exchange_receive_result)

definition facts_taken :: "peer_os_facts \<Rightarrow> transport \<Rightarrow> transport" where
  "facts_taken facts st = moved HANDSHAKING None (st\<lparr>tp_facts := Some facts, tp_physical := True\<rparr>)"

lemma resume_connect_peer_ok [course]:
  assumes "tp_state st = CONNECTING" "feature_allowed wo st" "ct_epoch d = tp_epoch st" "pf_local_connection facts"
    "valid_transport_request (wo_wire wo) (hello_request st (d\<lparr>ct_nonce := wo_nonce wo\<rparr>))"
  shows "resume_connect_peer wo d (Facts facts) st =
     (Inr (Waits (ConnectHello (d\<lparr>ct_nonce := wo_nonce wo\<rparr>) facts)), facts_taken facts st)"
proof -
  have "hello_request (facts_taken facts st) (d\<lparr>ct_nonce := wo_nonce wo\<rparr>) = hello_request st (d\<lparr>ct_nonce := wo_nonce wo\<rparr>)"
    by (simp add: hello_request_def facts_taken_def)
  then show ?thesis
    using assms by (simp add: resume_connect_peer_def facts_of_def runs course Let_def facts_taken_def feature_allowed_def)
qed

definition peer_attested :: "hello_result \<Rightarrow> peer_identity \<Rightarrow> transport \<Rightarrow> transport" where
  "peer_attested hello i st = moved NEGOTIATING None
     ((moved AUTHENTICATING None (st\<lparr>tp_handshake := True, tp_peer := Some (hl_product hello)\<rparr>))
        \<lparr>tp_identity := Some i, tp_authenticated := True\<rparr>)"

lemma resume_connect_hello_ok [course]:
  assumes "tp_state st = HANDSHAKING" "feature_allowed wo st" "ct_epoch d = tp_epoch st"
    "valid_transport_response (wo_wire wo) response" "response_fits (hello_request st d) response"
    "rp_payload response = HelloResult hello" "hello_ok d hello" "wo_attest wo (hl_product hello) facts = Inr i"
    "pi_attestation_state i = expected_state st" "set (ct_requested d) \<subseteq> set (pd_capabilities (hl_product hello))"
    "valid_transport_request (wo_wire wo) (negotiation_request d hello)"
  shows "resume_connect_hello wo d facts (Responds response) st =
     (Inr (Waits (ConnectNegotiate d hello)), peer_attested hello i st)"
  using assms
  by (simp add: resume_connect_hello_def response_of_def runs course require_trusted_def expected_state_def
      peer_attested_def feature_allowed_def)

lemma resume_connect_negotiate_ok [course]:
  assumes "feature_allowed wo st" "ct_epoch d = tp_epoch st"
    "valid_transport_response (wo_wire wo) response" "response_fits (negotiation_request d hello) response"
    "rp_payload response = NegotiationResult n" "cn_hello_id n = hl_hello_id hello"
    "cn_requested_capabilities n = ct_requested d" "set (cn_granted_capabilities n) \<subseteq> set (pd_capabilities (hl_product hello))"
    "valid_transport_request (wo_wire wo) (session_request d hello)"
  shows "resume_connect_negotiate wo d hello (Responds response) st =
     (Inr (Waits (ConnectSession d hello n)), observed (st\<lparr>tp_negotiated := True\<rparr>))"
  using assms
  by (simp add: resume_connect_negotiate_def response_of_def runs course feature_allowed_def)

definition session_opened :: "world \<Rightarrow> string \<Rightarrow> session_open_result \<Rightarrow> transport \<Rightarrow> transport" where
  "session_opened wo peer opened st = audited wo ''CONNECT'' (Some peer) ''ALLOW'' ''SUCCESS'' None
     (moved READY None (st\<lparr>tp_session := Some (sr_session opened), tp_session_token := Some (sr_session_token opened),
        tp_used_requests := []\<rparr>))"

lemma resume_connect_session_ok [course]:
  assumes "tp_state st = NEGOTIATING" "feature_allowed wo st" "ct_epoch d = tp_epoch st"
    "valid_transport_response (wo_wire wo) response" "response_fits (session_request d hello) response"
    "rp_payload response = SessionOpenResult opened" "session_bound wo (tp_product st) d hello n (sr_session opened)"
    "opaque (pd_product_id (hl_product hello)) = Inr (pd_product_id (hl_product hello))"
  shows "resume_connect_session wo d hello n (Responds response) st =
     (Inr (Finished (Opened (sr_session opened))), session_opened wo (pd_product_id (hl_product hello)) opened st)"
  using assms
  by (simp add: resume_connect_session_def response_of_def runs course audit_operations_def optional_def session_opened_def)

lemma session_property_ok [course]:
  assumes "tp_session st = Some x" "wo_now wo < sd_expires_at x" "feature_allowed wo st"
  shows "session_property wo self st = (Inr (Some x), st)"
  using assms by (simp add: session_property_def runs)

lemma refresh_trust_ok [course]:
  assumes "tp_peer st = Some p" "wo_attest wo p facts = Inr i" "pi_attestation_state i = expected_state st"
    "tp_identity st = Some j" "same_installation i j"
  shows "refresh_trust wo facts st = (Inr (), st\<lparr>tp_facts := Some facts, tp_identity := Some i\<rparr>)"
  using assms by (simp add: refresh_trust_def attest_peer_def require_trusted_def runs)

text \<open>A request that carries no context, as a heartbeat or a handoff.\<close>

definition request_of :: "nat \<Rightarrow> string \<Rightarrow> transport_request \<Rightarrow> transport \<Rightarrow> session_descriptor \<Rightarrow> request_data" where
  "request_of self rid request st x = \<lparr>rt_request = request, rt_id = rid, rt_epoch = tp_epoch st, rt_session = x\<rparr>"

definition request_booked :: "nat \<Rightarrow> string \<Rightarrow> transport \<Rightarrow> transport" where
  "request_booked self rid st = st\<lparr>tp_pending := dset (tp_pending st) rid \<lparr>pe_epoch = tp_epoch st, pe_task = self\<rparr>,
     tp_used_requests := rid # tp_used_requests st\<rparr>"

lemma begin_heartbeat_ok [course]:
  assumes "rq_operation request = ''HEARTBEAT''" "rq_payload request = HeartbeatRequest h"
    "tp_session st = Some x" "wo_now wo < sd_expires_at x" "feature_allowed wo st" "tp_state st = READY"
    "hb_session_id h = sd_session_id x" "wo_unchanged wo" "''heartbeat-'' @ wo_fresh wo \<notin> set (tp_used_requests st)"
    "length (tp_pending st) < tp_max_pending st" "length (tp_used_requests st) < 4096"
  shows "begin_request wo self request None st =
     (Inr (Waits (RequestRefresh (request_of self (''heartbeat-'' @ wo_fresh wo) request st x))),
      request_booked self (''heartbeat-'' @ wo_fresh wo) st)"
  using assms session_property_ok [OF assms(3-5), of "Some self"]
  by (simp add: begin_request_def runs required_capabilities_def check_context_def sensitive_def Let_def
      request_of_def request_booked_def cong: run_congs)

lemma refresh_or_invalidate_ok [course]:
  assumes "refresh_trust wo facts st = (Inr (), st')"
  shows "refresh_or_invalidate wo self (Facts facts) st = (Inr (), st')"
  using assms by (simp add: refresh_or_invalidate_def handle_exception_def facts_of_def runs)

lemma resume_request_refresh_ok [course]:
  assumes "refresh_trust wo facts st = (Inr (), st')" "rt_epoch d = tp_epoch st'" "feature_allowed wo st'"
    "valid_transport_request (wo_wire wo) (rt_request d)"
  shows "resume_request_refresh wo self d (Facts facts) st = (Inr (Waits (RequestExchange d)), st')"
  using assms refresh_or_invalidate_ok [OF assms(1)]
  by (simp add: resume_request_refresh_def request_scope_def runs course cong: run_congs)

lemma resume_request_exchange_ok [course]:
  assumes "self \<notin> set (tp_cancelled st)" "rt_epoch d = tp_epoch st" "feature_allowed wo st"
    "valid_transport_response (wo_wire wo) response" "response_fits (rt_request d) response"
  shows "resume_request_exchange wo self d (Responds response) st = (Inr (Waits (RequestConfirm d response)), st)"
  using assms by (simp add: resume_request_exchange_def request_scope_def response_of_def runs course cong: run_congs)

lemma resume_request_confirm_ok [course]:
  assumes "refresh_trust wo facts st = (Inr (), st')" "rt_epoch d = tp_epoch st'" "feature_allowed wo st'"
    "context_of (rq_payload (rt_request d)) = None" "wo_now wo < sd_expires_at (rt_session d)"
    "sensitive (rt_request d) \<longrightarrow> wo_authorize wo" "wo_unchanged wo" "rq_operation (rt_request d) \<in> set audit_operations"
    "opaque (sd_product_id (rt_session d)) = Inr (sd_product_id (rt_session d))"
  shows "resume_request_confirm wo self d response (Facts facts) st =
     (Inr (Finished (Delivered response)), drop_pending d (audited wo (rq_operation (rt_request d))
        (Some (sd_product_id (rt_session d))) ''ALLOW'' ''SUCCESS'' None st'))"
  using assms refresh_or_invalidate_ok [OF assms(1)]
  by (simp add: resume_request_confirm_def request_scope_def check_context_def runs course optional_def cong: run_congs)

end
