(* ===== verification/Interop_Sample.thy ===== *)
theory Interop_Sample
  imports Interop_Messages Interop_Validation
begin

text \<open>
  One concrete conversation between two products: the messages of a connection and a heartbeat, with
  the proof that each is a valid wire message. The witnesses of the transport's properties replay it.
\<close>

section \<open>Products and messages\<close>

definition studio :: product_descriptor where
  "studio = \<lparr>pd_product_id = ''ai.studio'', pd_display_name = ''Studio'', pd_product_version = ''1.0'',
     pd_instance_id = ''a-1'', pd_product_role = ''CREATIVE_STUDIO'', pd_protocol_versions = [''1.0''],
     pd_capabilities = [''project.context.read'', ''handoff.open_task'']\<rparr>"

definition tutor :: product_descriptor where
  "tutor = \<lparr>pd_product_id = ''ai.tutor'', pd_display_name = ''Tutor'', pd_product_version = ''2.0'',
     pd_instance_id = ''t-1'', pd_product_role = ''AI_TUTOR'', pd_protocol_versions = [''1.0''],
     pd_capabilities = [''project.context.read'']\<rparr>"

definition fixed_nonce :: string where "fixed_nonce = replicate 24 CHR ''7''"

definition plain_wire :: wire where
  "plain_wire = \<lparr>w_utc = (\<lambda>_. ''12:00''), w_sha = (\<lambda>_. replicate 64 CHR ''0'')\<rparr>"

definition session_1 :: session_descriptor where
  "session_1 = \<lparr>sd_session_id = ''s-1'', sd_product_id = ''ai.tutor'', sd_instance_id = ''t-1'',
     sd_peer_product_id = ''ai.studio'', sd_peer_instance_id = ''a-1'', sd_user_identity = ''u-1'',
     sd_capabilities = [''project.context.read''], sd_nonce = fixed_nonce, sd_created_at = 900, sd_expires_at = 100000,
     sd_transport = ''NAMED_PIPE''\<rparr>"

definition hello_1 :: hello_result where
  "hello_1 = \<lparr>hl_hello_id = ''h-1'', hl_product = tutor, hl_session_nonce = fixed_nonce\<rparr>"

definition granted_1 :: capability_negotiation where
  "granted_1 = \<lparr>cn_hello_id = ''h-1'', cn_requested_capabilities = [''project.context.read''],
        cn_granted_capabilities = [''project.context.read'']\<rparr>"

definition opened_1 :: session_open_result where
  "opened_1 = \<lparr>sr_session = session_1, sr_session_token = replicate 32 CHR ''8''\<rparr>"

definition heartbeat_1 :: heartbeat where
  "heartbeat_1 = \<lparr>hb_session_id = ''s-1'', hb_sequence = 1, hb_created_at = 1000\<rparr>"

definition answer_of :: "string \<Rightarrow> response_payload \<Rightarrow> transport_response" where
  "answer_of operation p = \<lparr>rp_operation = operation, rp_payload = p\<rparr>"

text \<open>The requests the studio sends.\<close>

definition question_of :: "string \<Rightarrow> request_payload \<Rightarrow> transport_request" where
  "question_of operation p = \<lparr>rq_operation = operation, rq_payload = p\<rparr>"

definition studio_hello :: handshake_hello where
  "studio_hello = \<lparr>hh_product = studio, hh_transport = ''NAMED_PIPE'', hh_session_nonce = fixed_nonce, hh_privacy_mode = ''LOCAL_ONLY''\<rparr>"

definition asked_1 :: capability_negotiation where
  "asked_1 = \<lparr>cn_hello_id = ''h-1'', cn_requested_capabilities = [''project.context.read''], cn_granted_capabilities = []\<rparr>"

definition open_1 :: session_open_request where
  "open_1 = \<lparr>so_hello_id = ''h-1'', so_session_nonce = fixed_nonce, so_user_identity = ''u-1''\<rparr>"

section \<open>They are valid\<close>

lemma parts_valid:
  "valid_product_descriptor plain_wire studio" "valid_product_descriptor plain_wire tutor"
  "valid_session_descriptor plain_wire session_1"
  by code_simp+

lemma payloads_valid:
  "valid_hello_result plain_wire hello_1" "valid_capability_negotiation plain_wire granted_1"
  "valid_session_open_result plain_wire opened_1" "valid_heartbeat plain_wire heartbeat_1"
proof -
  have "OpaqueId (hl_hello_id hello_1)" "token_text 24 128 (hl_session_nonce hello_1)"
    "secret_free (dump_hello_result plain_wire hello_1)" by code_simp+
  then show "valid_hello_result plain_wire hello_1"
    using parts_valid by (simp add: valid_hello_result_def hello_1_def)
  have "token_text 32 128 (sr_session_token opened_1)" "secret_free (dump_session_open_result plain_wire opened_1)"
    by code_simp+
  then show "valid_session_open_result plain_wire opened_1"
    using parts_valid by (simp add: valid_session_open_result_def opened_1_def)
qed code_simp+

lemma answer_valid:
  assumes "Operation operation" "valid_response_payload plain_wire p" "response_matches operation p"
    "secret_free (dump_transport_response plain_wire (answer_of operation p))"
  shows "valid_transport_response plain_wire (answer_of operation p)"
  using assms by (simp add: valid_transport_response_def answer_of_def)

lemma answers_valid [simp]:
  "valid_transport_response plain_wire (answer_of ''HELLO'' (HelloResult hello_1))"
  "valid_transport_response plain_wire (answer_of ''CAPABILITY_NEGOTIATION'' (NegotiationResult granted_1))"
  "valid_transport_response plain_wire (answer_of ''SESSION'' (SessionOpenResult opened_1))"
  "valid_transport_response plain_wire (answer_of ''HEARTBEAT'' (HeartbeatResult heartbeat_1))"
  by (rule answer_valid, code_simp, simp add: payloads_valid, code_simp, code_simp)+

lemma question_payloads_valid:
  "valid_handshake_hello plain_wire studio_hello" "valid_capability_negotiation plain_wire asked_1"
  "valid_session_open_request plain_wire open_1"
proof -
  have "Transport (hh_transport studio_hello)" "token_text 24 128 (hh_session_nonce studio_hello)"
    "Privacy (hh_privacy_mode studio_hello)" "secret_free (dump_handshake_hello plain_wire studio_hello)" by code_simp+
  then show "valid_handshake_hello plain_wire studio_hello"
    using parts_valid by (simp add: valid_handshake_hello_def studio_hello_def)
qed code_simp+

lemma question_valid:
  assumes "Operation operation" "valid_request_payload plain_wire p" "request_matches operation p"
    "secret_free (dump_transport_request plain_wire (question_of operation p))"
  shows "valid_transport_request plain_wire (question_of operation p)"
  using assms by (simp add: valid_transport_request_def question_of_def)

lemma questions_valid [simp]:
  "valid_transport_request plain_wire (question_of ''HELLO'' (HandshakeHello studio_hello))"
  "valid_transport_request plain_wire (question_of ''CAPABILITY_NEGOTIATION'' (NegotiationRequest asked_1))"
  "valid_transport_request plain_wire (question_of ''SESSION'' (SessionOpenRequest open_1))"
  "valid_transport_request plain_wire (question_of ''HEARTBEAT'' (HeartbeatRequest heartbeat_1))"
  by (rule question_valid, code_simp, simp add: question_payloads_valid payloads_valid, code_simp, code_simp)+

section \<open>A capsule and its event\<close>

definition memo :: app_context_capsule where
  "memo = \<lparr>cx_capsule_id = ''c-1'', cx_source_version = ''1'', cx_capsule_hash = zero_hash, cx_product_id = ''ai.studio'',
     cx_product_version = ''1.0'', cx_instance_id = ''a-1'', cx_project_id = Some ''p-1'', cx_project_version = Some ''1'',
     cx_workspace_id = None, cx_storyline_id = None, cx_branch_id = None, cx_module = ''studio'', cx_surface = ''tasks'',
     cx_chapter_id = None, cx_chapter_version = None, cx_selection_id = None, cx_selection_hash = None,
     cx_task_id = None, cx_task_type = None, cx_task_status = None, cx_runtime_id = None, cx_runtime_status = None,
     cx_model_id = None, cx_error_code = None, cx_privacy_scope = ''LOCAL_ONLY'', cx_created_at = 900,
     cx_expires_at = 5000, cx_evidence = [],
     cx_content = \<lparr>cc_level = ''NONE'', cc_text = None, cc_consent_id = None\<rparr>\<rparr>"

definition memo_event :: "string \<Rightarrow> int \<Rightarrow> interop_event" where
  "memo_event eid i = \<lparr>ie_event_id = eid, ie_session_id = ''s-1'', ie_sequence = i, ie_event_type = ''PROJECT_OPENED'',
     ie_created_at = 1000, ie_context = memo\<rparr>"

lemma memo_texts:
  "s \<in> {''c-1'', ''1'', zero_hash, ''ai.studio'', ''1.0'', ''a-1'', ''p-1'', ''studio'', ''tasks'', ''LOCAL_ONLY'', ''12:00'', ''NONE'',
     PROTOCOL_NAME, ''e-1'', ''s-1'', ''PROJECT_OPENED''} \<Longrightarrow> \<not> search wire_secret s"
  by (elim insertE emptyE; simp only:; code_simp)

lemma memo_fields: "OpaqueId ''c-1''" "Hash zero_hash" "Version ''1''" "Version ''1.0''" "ProductId ''ai.studio''"
  "OpaqueId ''a-1''" "OpaqueId ''p-1''" "OpaqueId ''studio''" "OpaqueId ''tasks''" "Privacy ''LOCAL_ONLY''"
  "lifetime 3600 900 5000" "privacy_covers ''LOCAL_ONLY'' []" "OpaqueId ''e-1''" "OpaqueId ''s-1''" "EventType ''PROJECT_OPENED''"
  "ContentLevel ''NONE''"
  by code_simp+

lemmas memo_dumps = dump_interop_event_def dump_app_context_capsule_def memo_def memo_event_def opt_dump_def time_json_def
  plain_wire_def protocol_fields_def PROTOCOL_VERSION_def dump_context_content_def

lemma memo_valid: "valid_app_context_capsule plain_wire memo"
proof -
  have "secret_free (dump_app_context_capsule plain_wire memo)" by (simp add: memo_dumps memo_texts)
  moreover have "canonical_hash plain_wire (dump_app_context_capsule plain_wire memo) [''capsule_hash''] = cx_capsule_hash memo"
    by (simp add: memo_dumps canonical_hash_def zero_hash_def)
  moreover have "valid_context_content plain_wire (cx_content memo)"
    by (simp add: memo_dumps valid_context_content_def opt_ok_def memo_fields memo_texts)
  ultimately show ?thesis
    by (simp add: valid_app_context_capsule_def unsealed_app_context_capsule_def memo_fields memo_def opt_ok_def sized_def)
qed

lemma memo_event_valid: "i \<in> {1, 2} \<Longrightarrow> valid_interop_event plain_wire (memo_event ''e-1'' i)"
  using memo_valid
  by (auto simp: valid_interop_event_def memo_event_def memo_fields int_in_def memo_dumps memo_texts)

end
