(* ===== verification/Interop_Transport_Safety.thy ===== *)
theory Interop_Transport_Safety
  imports Interop_Transport_Run Interop_Sample
begin

text \<open>
  What the desktop transport guarantees in every reachable state, and where it does not hold up: a
  session needs an authenticated peer, a delivered answer needs everything to be rechecked, and a
  shutdown that arrives during a disconnect fails. A concrete connection from start to a delivered
  heartbeat shows that the hypotheses can hold.
\<close>

section \<open>A connection\<close>

datatype happening = Calls world call | Wakes world nat outcome

fun happens :: "happening \<Rightarrow> system \<Rightarrow> system" where
  "happens (Calls wo c) s = snd (run_call wo c s)"
| "happens (Wakes wo n r) s = (case dget (sy_tasks s) n of None \<Rightarrow> s | Some t \<Rightarrow> snd (run_resume wo n t r s))"

definition play_out :: "happening list \<Rightarrow> system \<Rightarrow> system" where "play_out hs s = fold happens hs s"

lemma happens_step: "system_step\<^sup>*\<^sup>* s (happens h s)"
proof (cases h)
  case (Calls wo c)
  then show ?thesis using called [of wo c s "fst (run_call wo c s)" "snd (run_call wo c s)"] by auto
next
  case (Wakes wo n r)
  then show ?thesis
  proof (cases "dget (sy_tasks s) n")
    case (Some t)
    then show ?thesis
      using Wakes resumed [of s n t wo r "fst (run_resume wo n t r s)" "snd (run_resume wo n t r s)"] by auto
  qed simp
qed

lemma play_out_steps: "system_step\<^sup>*\<^sup>* s (play_out hs s)"
  unfolding play_out_def by (induction hs arbitrary: s) (auto intro: rtranclp_trans happens_step)

definition tutor_peer :: discovered_peer where
  "tutor_peer = \<lparr>dp_product_id = ''ai.tutor'', dp_instance_id = ''t-1'', dp_product_version = ''2.0'',
     dp_protocol_versions = [''1.0''], dp_transport = ''NAMED_PIPE'', dp_trust_state = UNVERIFIED, dp_endpoint_id = None\<rparr>"

definition tutor_facts :: peer_os_facts where
  "tutor_facts = \<lparr>pf_process_id = 7, pf_user_sid = ''S-1-5'', pf_executable_path_hash = zero_hash,
     pf_executable_hash = zero_hash, pf_installation_id = Some ''inst-1'', pf_registered_product_id = Some ''ai.tutor'',
     pf_publisher_id = None, pf_signature_valid = False, pf_local_connection = True\<rparr>"

definition tutor_identity :: peer_identity where
  "tutor_identity = \<lparr>pi_process_id = 7, pi_user_sid = ''S-1-5'', pi_executable_path_hash = zero_hash,
     pi_product_id = ''ai.tutor'', pi_instance_id = ''t-1'', pi_product_version = ''2.0'',
     pi_attestation_state = TRUSTED_INSTALLATION, pi_installation_id = Some ''inst-1''\<rparr>"

definition noon :: world where
  "noon = \<lparr>wo_wire = plain_wire, wo_now = 1000, wo_acceptance = False,
     wo_attest = (\<lambda>p f. Inr tutor_identity), wo_nonce = fixed_nonce, wo_fresh = ''1'',
     wo_authorize = True, wo_unchanged = True, wo_consents = (\<lambda>_ _. True)\<rparr>"

definition heartbeat_request :: transport_request where
  "heartbeat_request = \<lparr>rq_operation = ''HEARTBEAT'', rq_payload = HeartbeatRequest heartbeat_1\<rparr>"

definition registry_0 :: registry where
  "registry_0 = \<lparr>re_queue_limit = 16, re_subscriber_limit = 4, re_poll_interval = 1, re_max_idle_interval = 30,
     re_poll_batch_limit = 8, re_mock_only = False, re_sources = [], re_subscribers = []\<rparr>"

definition raw_0 :: transport where
  "raw_0 = \<lparr>tp_product = studio, tp_enabled = True, tp_acceptance_mode = False, tp_mock_only = False,
     tp_max_pending = 4, tp_events = registry_0, tp_audit = \<lparr>al_limit = 8, al_records = []\<rparr>,
     tp_state = STOPPED, tp_revision = 0, tp_epoch = 0, tp_physical = False, tp_handshake = False,
     tp_authenticated = False, tp_negotiated = False, tp_identity = None, tp_peer = None, tp_facts = None,
     tp_session = None, tp_session_token = None, tp_pending = [], tp_used_requests = [],
     tp_subscriptions = [], tp_error = None, tp_history = [], tp_cancelled = []\<rparr>"

definition idle_system :: system where
  "idle_system = \<lparr>sy_transport = observed raw_0, sy_tasks = [], sy_next = 0\<rparr>"

lemma idle_fresh: "fresh_system idle_system"
proof -
  have "new_transport studio True False False 4 1 False False registry_0 \<lparr>al_limit = 8, al_records = []\<rparr> = Inr (observed raw_0)"
    by (simp add: new_transport_def observed_def raw_0_def guard_def)
  then show ?thesis unfolding fresh_system_def idle_system_def system.simps by blast
qed

text \<open>The states of the transport along the connection.\<close>

definition started :: transport where
  "started = audited noon ''START'' None ''NONE'' ''SUCCESS'' None (moved LISTENING None (moved STARTING None (observed raw_0)))"

definition connecting :: transport where "connecting = moved CONNECTING None (started\<lparr>tp_epoch := 1\<rparr>)"
definition handshaking :: transport where "handshaking = facts_taken tutor_facts connecting"
definition attested :: transport where "attested = peer_attested hello_1 tutor_identity handshaking"
definition negotiated :: transport where "negotiated = observed (attested\<lparr>tp_negotiated := True\<rparr>)"
definition opened :: transport where "opened = session_opened noon ''ai.tutor'' opened_1 negotiated"
definition booked :: transport where "booked = request_booked 2 ''heartbeat-1'' opened"

definition connect_1 :: connect_data where
  "connect_1 = \<lparr>ct_peer = tutor_peer, ct_requested = [''project.context.read''], ct_user = ''u-1'', ct_epoch = 1,
     ct_nonce = fixed_nonce\<rparr>"

definition pending_1 :: request_data where
  "pending_1 = request_of 2 ''heartbeat-1'' heartbeat_request opened session_1"

lemmas stage_defs = started_def connecting_def handshaking_def facts_taken_def attested_def peer_attested_def
  negotiated_def opened_def session_opened_def booked_def request_booked_def raw_0_def

lemma stage_fields [simp]:
  "tp_state started = LISTENING" "tp_epoch started = 0" "tp_product started = studio"
  "tp_state connecting = CONNECTING" "tp_epoch connecting = 1" "tp_product connecting = studio"
  "tp_state handshaking = HANDSHAKING" "tp_epoch handshaking = 1" "tp_product handshaking = studio" "tp_mock_only handshaking = False"
  "tp_state attested = NEGOTIATING" "tp_epoch attested = 1"
  "tp_state negotiated = NEGOTIATING" "tp_epoch negotiated = 1" "tp_product negotiated = studio"
  "tp_state opened = READY" "tp_epoch opened = 1" "tp_session opened = Some session_1" "tp_used_requests opened = []"
  "tp_pending opened = []" "tp_max_pending opened = 4"
  "tp_state booked = READY" "tp_epoch booked = 1" "tp_peer booked = Some tutor" "tp_identity booked = Some tutor_identity"
  "tp_authenticated opened" "tp_negotiated opened" "tp_mock_only booked = False" "tp_cancelled booked = []" "tp_cancelled connecting = []" "tp_cancelled handshaking = []"
  "tp_cancelled attested = []" "tp_cancelled negotiated = []" "tp_cancelled opened = []"
  by (simp_all add: stage_defs hello_1_def opened_1_def)

lemma stage_allowed [simp]:
  "feature_allowed noon raw_0" "feature_allowed noon started" "feature_allowed noon connecting" "feature_allowed noon handshaking"
  "feature_allowed noon attested" "feature_allowed noon negotiated" "feature_allowed noon opened" "feature_allowed noon booked"
  by (simp_all add: feature_allowed_def stage_defs noon_def)

lemma question_forms:
  "hello_request connecting connect_1 = question_of ''HELLO'' (HandshakeHello studio_hello)"
  "hello_request handshaking connect_1 = question_of ''HELLO'' (HandshakeHello studio_hello)"
  "negotiation_request connect_1 hello_1 = question_of ''CAPABILITY_NEGOTIATION'' (NegotiationRequest asked_1)"
  "session_request connect_1 hello_1 = question_of ''SESSION'' (SessionOpenRequest open_1)"
  "heartbeat_request = question_of ''HEARTBEAT'' (HeartbeatRequest heartbeat_1)"
  by (simp_all add: hello_request_def negotiation_request_def session_request_def heartbeat_request_def question_of_def
      connect_1_def tutor_peer_def studio_hello_def asked_1_def open_1_def hello_1_def)

lemma sender_opaque [simp]: "opaque ''ai.tutor'' = Inr ''ai.tutor''"
  by code_simp

section \<open>Its steps\<close>

lemma noon_fields [simp]:
  "wo_wire noon = plain_wire" "wo_now noon = 1000" "wo_nonce noon = fixed_nonce" "wo_fresh noon = ''1''"
  "wo_attest noon p f = Inr tutor_identity" "wo_unchanged noon"
  by (simp_all add: noon_def)

lemma answer_fields [simp]:
  "rp_payload (answer_of operation p) = p" "rp_operation (answer_of operation p) = operation"
  "rq_payload (question_of operation q) = q" "rq_operation (question_of operation q) = operation"
  by (simp_all add: answer_of_def question_of_def)

lemma sample_fields [simp]:
  "ct_epoch connect_1 = 1" "ct_requested connect_1 = [''project.context.read'']" "hl_product hello_1 = tutor"
  "pd_capabilities tutor = [''project.context.read'']" "pd_product_id tutor = ''ai.tutor''"
  "cn_hello_id granted_1 = hl_hello_id hello_1" "cn_requested_capabilities granted_1 = [''project.context.read'']"
  "cn_granted_capabilities granted_1 = [''project.context.read'']" "sr_session opened_1 = session_1"
  "pi_attestation_state tutor_identity = TRUSTED_INSTALLATION" "hello_ok connect_1 hello_1"
  "sd_expires_at session_1 = 100000" "sd_session_id session_1 = ''s-1''" "hb_session_id heartbeat_1 = ''s-1''"
  "sd_product_id session_1 = ''ai.tutor''"
  by (simp_all add: connect_1_def hello_1_def tutor_def granted_1_def opened_1_def tutor_identity_def hello_ok_def
      tutor_peer_def PROTOCOL_VERSION_def session_1_def heartbeat_1_def)

lemma sample_bound [simp]: "session_bound noon studio connect_1 hello_1 granted_1 session_1"
  by (simp add: session_bound_def session_1_def hello_1_def tutor_def studio_def connect_1_def granted_1_def tutor_peer_def)

lemma answers_fit [simp]:
  "response_fits (question_of ''HELLO'' (HandshakeHello studio_hello)) (answer_of ''HELLO'' (HelloResult hello_1))"
  "response_fits (question_of ''CAPABILITY_NEGOTIATION'' (NegotiationRequest asked_1))
     (answer_of ''CAPABILITY_NEGOTIATION'' (NegotiationResult granted_1))"
  "response_fits (question_of ''SESSION'' (SessionOpenRequest open_1)) (answer_of ''SESSION'' (SessionOpenResult opened_1))"
  "response_fits heartbeat_request (answer_of ''HEARTBEAT'' (HeartbeatResult heartbeat_1))"
  by (simp_all add: response_fits_def expects_def question_forms)

lemma idle_state [simp]: "tp_state raw_0 = STOPPED" "tp_cancelled raw_0 = []"
  by (simp_all add: raw_0_def)

lemma run_started:
  "run_call noon CallStart idle_system = (Inr (Waits Starting),
     \<lparr>sy_transport = moved STARTING None (observed raw_0), sy_tasks = [(0, Starting)], sy_next = 1\<rparr>)"
  by (simp add: run_call_def idle_system_def course)

lemma run_listening:
  "run_resume noon 0 Starting Completes
     \<lparr>sy_transport = moved STARTING None (observed raw_0), sy_tasks = [(0, Starting)], sy_next = 1\<rparr> =
   (Inr (Finished (Flag True)), \<lparr>sy_transport = started, sy_tasks = [], sy_next = 1\<rparr>)"
  by (simp add: run_resume_def woken_def course started_def)

lemma run_connecting:
  "run_call noon (CallConnect tutor_peer [''project.context.read''] ''u-1'') \<lparr>sy_transport = started, sy_tasks = [], sy_next = 1\<rparr> =
   (Inr (Waits (ConnectPeer (connect_1\<lparr>ct_nonce := []\<rparr>))),
    \<lparr>sy_transport = connecting, sy_tasks = [(1, ConnectPeer (connect_1\<lparr>ct_nonce := []\<rparr>))], sy_next = 2\<rparr>)"
  by (simp add: run_call_def begin_connect_ok tutor_peer_def PROTOCOL_VERSION_def CAPABILITIES_def studio_def
      connecting_def connect_1_def)

lemma run_handshaking:
  "run_resume noon 1 (ConnectPeer (connect_1\<lparr>ct_nonce := []\<rparr>)) (Facts tutor_facts)
     \<lparr>sy_transport = connecting, sy_tasks = [(1, ConnectPeer (connect_1\<lparr>ct_nonce := []\<rparr>))], sy_next = 2\<rparr> =
   (Inr (Waits (ConnectHello connect_1 tutor_facts)),
    \<lparr>sy_transport = handshaking, sy_tasks = [(1, ConnectHello connect_1 tutor_facts)], sy_next = 2\<rparr>)"
proof -
  have d: "connect_1\<lparr>ct_nonce := fixed_nonce\<rparr> = connect_1" by (simp add: connect_1_def)
  have "resume_connect_peer noon (connect_1\<lparr>ct_nonce := []\<rparr>) (Facts tutor_facts) connecting =
      (Inr (Waits (ConnectHello connect_1 tutor_facts)), handshaking)"
    using resume_connect_peer_ok [of connecting noon "connect_1\<lparr>ct_nonce := []\<rparr>" tutor_facts]
    by (simp add: question_forms d handshaking_def) (simp add: connect_1_def tutor_facts_def)
  then show ?thesis by (simp add: run_resume_def woken_def)
qed

lemma run_attested:
  "run_resume noon 1 (ConnectHello connect_1 tutor_facts) (Responds (answer_of ''HELLO'' (HelloResult hello_1)))
     \<lparr>sy_transport = handshaking, sy_tasks = [(1, ConnectHello connect_1 tutor_facts)], sy_next = 2\<rparr> =
   (Inr (Waits (ConnectNegotiate connect_1 hello_1)),
    \<lparr>sy_transport = attested, sy_tasks = [(1, ConnectNegotiate connect_1 hello_1)], sy_next = 2\<rparr>)"
proof -
  have "resume_connect_hello noon connect_1 tutor_facts (Responds (answer_of ''HELLO'' (HelloResult hello_1))) handshaking =
      (Inr (Waits (ConnectNegotiate connect_1 hello_1)), attested)"
    unfolding attested_def by (rule resume_connect_hello_ok) (simp_all add: question_forms expected_state_def)
  then show ?thesis by (simp add: run_resume_def woken_def)
qed

lemma run_negotiated:
  "run_resume noon 1 (ConnectNegotiate connect_1 hello_1) (Responds (answer_of ''CAPABILITY_NEGOTIATION'' (NegotiationResult granted_1)))
     \<lparr>sy_transport = attested, sy_tasks = [(1, ConnectNegotiate connect_1 hello_1)], sy_next = 2\<rparr> =
   (Inr (Waits (ConnectSession connect_1 hello_1 granted_1)),
    \<lparr>sy_transport = negotiated, sy_tasks = [(1, ConnectSession connect_1 hello_1 granted_1)], sy_next = 2\<rparr>)"
proof -
  have "resume_connect_negotiate noon connect_1 hello_1 (Responds (answer_of ''CAPABILITY_NEGOTIATION'' (NegotiationResult granted_1))) attested =
      (Inr (Waits (ConnectSession connect_1 hello_1 granted_1)), negotiated)"
    unfolding negotiated_def by (rule resume_connect_negotiate_ok) (simp_all add: question_forms)
  then show ?thesis by (simp add: run_resume_def woken_def)
qed

lemma run_opened:
  "run_resume noon 1 (ConnectSession connect_1 hello_1 granted_1) (Responds (answer_of ''SESSION'' (SessionOpenResult opened_1)))
     \<lparr>sy_transport = negotiated, sy_tasks = [(1, ConnectSession connect_1 hello_1 granted_1)], sy_next = 2\<rparr> =
   (Inr (Finished (Opened session_1)), \<lparr>sy_transport = opened, sy_tasks = [], sy_next = 2\<rparr>)"
proof -
  have "resume_connect_session noon connect_1 hello_1 granted_1 (Responds (answer_of ''SESSION'' (SessionOpenResult opened_1))) negotiated =
      (Inr (Finished (Opened (sr_session opened_1))), session_opened noon (pd_product_id (hl_product hello_1)) opened_1 negotiated)"
    by (rule resume_connect_session_ok) (simp_all add: question_forms)
  then show ?thesis by (simp add: run_resume_def woken_def opened_def)
qed

lemma run_booked:
  "run_call noon (CallRequest heartbeat_request None) \<lparr>sy_transport = opened, sy_tasks = [], sy_next = 2\<rparr> =
   (Inr (Waits (RequestRefresh pending_1)), \<lparr>sy_transport = booked, sy_tasks = [(2, RequestRefresh pending_1)], sy_next = 3\<rparr>)"
proof -
  have "begin_request noon 2 heartbeat_request None opened =
      (Inr (Waits (RequestRefresh (request_of 2 (''heartbeat-'' @ wo_fresh noon) heartbeat_request opened session_1))),
       request_booked 2 (''heartbeat-'' @ wo_fresh noon) opened)"
    by (rule begin_heartbeat_ok [where h = heartbeat_1]) (simp_all add: heartbeat_request_def)
  then show ?thesis by (simp add: run_call_def booked_def pending_1_def)
qed

text \<open>Rechecking the peer changes only the facts it was attested by.\<close>

definition rechecked :: transport where
  "rechecked = booked\<lparr>tp_facts := Some tutor_facts, tp_identity := Some tutor_identity\<rparr>"

lemma rechecked_fields [simp]:
  "tp_epoch rechecked = 1" "tp_peer rechecked = Some tutor" "tp_identity rechecked = Some tutor_identity"
  "expected_state rechecked = TRUSTED_INSTALLATION" "expected_state booked = TRUSTED_INSTALLATION"
  "tp_cancelled rechecked = []" "feature_allowed noon rechecked"
  using stage_allowed(8) by (simp_all add: rechecked_def expected_state_def feature_allowed_def)

lemma pending_fields [simp]:
  "rt_request pending_1 = heartbeat_request" "rt_id pending_1 = ''heartbeat-1''" "rt_epoch pending_1 = 1"
  "rt_session pending_1 = session_1"
  by (simp_all add: pending_1_def request_of_def)

lemma refresh_sample [simp]: "refresh_trust noon tutor_facts booked = (Inr (), rechecked)"
  "refresh_trust noon tutor_facts rechecked = (Inr (), rechecked)"
proof -
  show "refresh_trust noon tutor_facts booked = (Inr (), rechecked)"
    unfolding rechecked_def by (rule refresh_trust_ok) (simp_all add: same_installation_def)
  have "refresh_trust noon tutor_facts rechecked =
      (Inr (), rechecked\<lparr>tp_facts := Some tutor_facts, tp_identity := Some tutor_identity\<rparr>)"
    by (rule refresh_trust_ok) (simp_all add: same_installation_def)
  then show "refresh_trust noon tutor_facts rechecked = (Inr (), rechecked)" by (simp add: rechecked_def)
qed

abbreviation heartbeat_answer :: transport_response where
  "heartbeat_answer \<equiv> answer_of ''HEARTBEAT'' (HeartbeatResult heartbeat_1)"

lemma run_refreshed:
  "run_resume noon 2 (RequestRefresh pending_1) (Facts tutor_facts)
     \<lparr>sy_transport = booked, sy_tasks = [(2, RequestRefresh pending_1)], sy_next = 3\<rparr> =
   (Inr (Waits (RequestExchange pending_1)), \<lparr>sy_transport = rechecked, sy_tasks = [(2, RequestExchange pending_1)], sy_next = 3\<rparr>)"
proof -
  have "resume_request_refresh noon 2 pending_1 (Facts tutor_facts) booked = (Inr (Waits (RequestExchange pending_1)), rechecked)"
    by (rule resume_request_refresh_ok) (simp_all add: question_forms)
  then show ?thesis by (simp add: run_resume_def woken_def)
qed

lemma run_answered:
  "run_resume noon 2 (RequestExchange pending_1) (Responds heartbeat_answer)
     \<lparr>sy_transport = rechecked, sy_tasks = [(2, RequestExchange pending_1)], sy_next = 3\<rparr> =
   (Inr (Waits (RequestConfirm pending_1 heartbeat_answer)),
    \<lparr>sy_transport = rechecked, sy_tasks = [(2, RequestConfirm pending_1 heartbeat_answer)], sy_next = 3\<rparr>)"
proof -
  have "resume_request_exchange noon 2 pending_1 (Responds heartbeat_answer) rechecked =
      (Inr (Waits (RequestConfirm pending_1 heartbeat_answer)), rechecked)"
    by (rule resume_request_exchange_ok) simp_all
  then show ?thesis by (simp add: run_resume_def woken_def)
qed

lemma run_delivered:
  "fst (run_resume noon 2 (RequestConfirm pending_1 heartbeat_answer) (Facts tutor_facts)
     \<lparr>sy_transport = rechecked, sy_tasks = [(2, RequestConfirm pending_1 heartbeat_answer)], sy_next = 3\<rparr>) =
   Inr (Finished (Delivered heartbeat_answer))"
proof -
  obtain st where "resume_request_confirm noon 2 pending_1 heartbeat_answer (Facts tutor_facts) rechecked =
      (Inr (Finished (Delivered heartbeat_answer)), st)"
    using resume_request_confirm_ok [of noon tutor_facts rechecked rechecked pending_1 2 heartbeat_answer]
    by (simp add: heartbeat_request_def sensitive_def audit_operations_def)
  then show ?thesis by (simp add: run_resume_def woken_def)
qed

lemmas sample_runs = run_started run_listening run_connecting run_handshaking run_attested run_negotiated run_opened
  run_booked run_refreshed run_answered

abbreviation opened_system :: system where
  "opened_system \<equiv> \<lparr>sy_transport = opened, sy_tasks = [], sy_next = 2\<rparr>"

abbreviation answered_system :: system where
  "answered_system \<equiv> \<lparr>sy_transport = rechecked, sy_tasks = [(2, RequestConfirm pending_1 heartbeat_answer)], sy_next = 3\<rparr>"

definition connection :: "happening list" where
  "connection = [Calls noon CallStart, Wakes noon 0 Completes,
     Calls noon (CallConnect tutor_peer [''project.context.read''] ''u-1''), Wakes noon 1 (Facts tutor_facts),
     Wakes noon 1 (Responds (answer_of ''HELLO'' (HelloResult hello_1))),
     Wakes noon 1 (Responds (answer_of ''CAPABILITY_NEGOTIATION'' (NegotiationResult granted_1))),
     Wakes noon 1 (Responds (answer_of ''SESSION'' (SessionOpenResult opened_1)))]"

lemma connection_opens: "play_out connection idle_system = opened_system"
  by (simp add: play_out_def connection_def sample_runs del: One_nat_def)

lemma heartbeat_answered:
  "play_out [Calls noon (CallRequest heartbeat_request None), Wakes noon 2 (Facts tutor_facts), Wakes noon 2 (Responds heartbeat_answer)]
     opened_system = answered_system"
  by (simp add: play_out_def sample_runs del: One_nat_def)

lemma opened_reachable: "system_step\<^sup>*\<^sup>* idle_system opened_system"
  using play_out_steps [of idle_system connection] by (simp add: connection_opens)

lemma answered_reachable: "system_step\<^sup>*\<^sup>* idle_system answered_system"
  using opened_reachable play_out_steps [of opened_system "[Calls noon (CallRequest heartbeat_request None),
      Wakes noon 2 (Facts tutor_facts), Wakes noon 2 (Responds heartbeat_answer)]"]
  by (simp add: heartbeat_answered)

section \<open>What holds in every reachable state\<close>

text \<open>C30: in every reachable state a session in force belongs to an authenticated peer with which
  capabilities were negotiated, holds only capabilities of the protocol that this product offers, and
  is bound to this product and instance; the state READY implies a session.\<close>

theorem session_needs_trust:
  assumes "fresh_system s\<^sub>0" and "system_step\<^sup>*\<^sup>* s\<^sub>0 s" and "st = sy_transport s"
  shows "(tp_state st = READY \<longrightarrow> tp_session st \<noteq> None) \<and>
    (\<forall>x. tp_session st = Some x \<longrightarrow> tp_authenticated st \<and> tp_negotiated st \<and>
       set (sd_capabilities x) \<subseteq> set CAPABILITIES \<inter> set (pd_capabilities (tp_product st)) \<and>
       sd_peer_product_id x = pd_product_id (tp_product st) \<and> sd_peer_instance_id x = pd_instance_id (tp_product st))"
proof -
  have "core st" using local_transport.inv_reachable [OF assms(1,2)] assms(3) by (simp add: sys_ok_def)
  then show ?thesis by (auto simp: core_def)
qed

theorem session_needs_trust_witness:
  "fresh_system idle_system \<and> system_step\<^sup>*\<^sup>* idle_system opened_system \<and> tp_state opened = READY \<and>
   tp_session opened = Some session_1 \<and> tp_authenticated opened \<and> tp_negotiated opened"
  using session_needs_trust [OF idle_fresh opened_reachable refl] idle_fresh opened_reachable by simp

lemma only_confirm_delivers:
  assumes "resume_task wo n t r st = (Inr (Finished (Delivered response)), st')"
  obtains d where "t = RequestConfirm d response"
proof (cases t)
  case Starting
  then show thesis using assms that by (auto simp: resume_start_def handle_exception_def results split: if_splits)
next
  case (ConnectPeer d)
  then show thesis using assms that by (auto simp: resume_connect_peer_def results Let_def dest: connect_failed_result)
next
  case (ConnectHello d facts)
  then show thesis using assms that by (auto simp: resume_connect_hello_def results dest: connect_failed_result)
next
  case (ConnectNegotiate d hello)
  then show thesis using assms that by (auto simp: resume_connect_negotiate_def results dest: connect_failed_result)
next
  case (ConnectSession d hello granted)
  then show thesis using assms that by (auto simp: resume_connect_session_def results dest: connect_failed_result)
next
  case (ConnectAbort e)
  then show thesis using assms by (simp add: raise_result)
next
  case (RequestRefresh d)
  then show thesis using assms
    by (auto simp: resume_request_refresh_def request_scope_def results split: prod.splits sum.splits progress.splits)
next
  case (RequestExchange d)
  then show thesis using assms
    by (auto simp: resume_request_exchange_def request_scope_def results split: prod.splits sum.splits progress.splits)
next
  case (RequestConfirm d response')
  then have "response' = response" using assms
    by (auto simp: resume_request_confirm_def request_scope_def results split: prod.splits sum.splits progress.splits)
  then show thesis using RequestConfirm that by simp
next
  case (RefreshingAuthority epoch)
  then show thesis using assms by (auto simp: resume_refresh_authority_def handle_exception_def results split: if_splits)
next
  case (DrainingEvents epoch sid)
  then show thesis using assms by (auto simp: resume_drain_def handle_exception_def results split: if_splits)
next
  case Disconnecting
  then show thesis using assms by (auto simp: resume_disconnect_def Let_def results split: if_splits)
next
  case ShutdownDisconnect
  then show thesis using assms
    by (auto simp: resume_shutdown_disconnect_def shutdown_scope_def results split: prod.splits sum.splits progress.splits)
next
  case ShutdownStop
  then show thesis using assms
    by (auto simp: resume_shutdown_stop_def shutdown_scope_def results split: prod.splits sum.splits progress.splits if_splits)
qed

text \<open>What a successful recheck says.\<close>

definition peer_rechecked :: "world \<Rightarrow> transport \<Rightarrow> peer_os_facts \<Rightarrow> bool" where
  "peer_rechecked wo st facts \<longleftrightarrow> (\<exists>p i j. tp_peer st = Some p \<and> wo_attest wo p facts = Inr i \<and>
     pi_attestation_state i = expected_state st \<and> tp_identity st = Some j \<and> same_installation i j)"

lemma attest_peer_result: "attest_peer wo facts st = (Inr i, st') \<longleftrightarrow>
    st' = st \<and> (\<exists>p. tp_peer st = Some p \<and> wo_attest wo p facts = Inr i)"
  by (auto simp: attest_peer_def results split: option.splits)

lemma refresh_trust_result:
  "refresh_trust wo facts st = (Inr u, st') \<Longrightarrow> peer_rechecked wo st facts \<and> tp_epoch st' = tp_epoch st \<and>
     feature_allowed wo st' = feature_allowed wo st \<and> tp_session st' = tp_session st"
  by (auto simp: refresh_trust_def results attest_peer_result require_trusted_def peer_rechecked_def feature_allowed_def
      split: option.splits)

lemma refresh_or_invalidate_result:
  "refresh_or_invalidate wo self r st = (Inr u, st') \<Longrightarrow> \<exists>facts. r = Facts facts \<and> refresh_trust wo facts st = (Inr (), st')"
  by (auto simp: refresh_or_invalidate_def handle_exception_def results facts_of_def split: outcome.splits if_splits)

lemma check_context_result: "check_context wo request st = (Inr u, st') \<longleftrightarrow> st' = st \<and>
    (\<forall>c. context_of (rq_payload request) = Some c \<longrightarrow> validate_capsule (wo_wire wo) c (wo_now wo) None None None = Inr ())"
  by (auto simp: check_context_def results split: option.splits)

lemma request_scope_result: "request_scope d m st = (Inr (Finished x), st') \<Longrightarrow> \<exists>st1. m st = (Inr (Finished x), st1)"
  by (auto simp: request_scope_def split: prod.splits sum.splits progress.splits)

lemma confirm_result:
  assumes "resume_request_confirm wo self d response r st = (Inr (Finished (Delivered x)), st')"
  shows "x = response \<and> rt_epoch d = tp_epoch st \<and> feature_allowed wo st \<and> (\<exists>facts. r = Facts facts \<and> peer_rechecked wo st facts) \<and>
    (\<forall>c. context_of (rq_payload (rt_request d)) = Some c \<longrightarrow> validate_capsule (wo_wire wo) c (wo_now wo) None None None = Inr ()) \<and>
    wo_now wo < sd_expires_at (rt_session d) \<and> (sensitive (rt_request d) \<longrightarrow> wo_authorize wo) \<and> wo_unchanged wo"
proof -
  note request_scope_result [OF assms [unfolded resume_request_confirm_def]]
  then obtain st2 where refreshed: "refresh_or_invalidate wo self r st = (Inr (), st2)"
    and rest: "x = response" "rt_epoch d = tp_epoch st2" "feature_allowed wo st2"
      "\<forall>c. context_of (rq_payload (rt_request d)) = Some c \<longrightarrow> validate_capsule (wo_wire wo) c (wo_now wo) None None None = Inr ()"
      "wo_now wo < sd_expires_at (rt_session d)" "sensitive (rt_request d) \<longrightarrow> wo_authorize wo" "wo_unchanged wo"
    by (auto simp: results check_context_result)
  obtain facts where "r = Facts facts" "refresh_trust wo facts st = (Inr (), st2)"
    using refresh_or_invalidate_result [OF refreshed] by blast
  then show ?thesis using rest refresh_trust_result [of wo facts st "()" st2] by auto
qed

text \<open>C31: an answer reaches the caller of \<open>request\<close> only from the confirming segment of a request that
  was not cancelled, and then, at that moment: the transport is still in the generation the request
  was made in and the feature is allowed; fresh facts of the peer attest it as trusted and as the
  same installation; the session has not expired; the host still authorises a sensitive operation
  and reports its source unchanged; a context capsule still validates. The session held every
  capability the operation needs, and the answer is of the operation, request and session asked.\<close>

theorem delivered_answer_rechecked:
  assumes "fresh_system s\<^sub>0" and "system_step\<^sup>*\<^sup>* s\<^sub>0 s"
    and "dget (sy_tasks s) n = Some t"
    and "run_resume wo n t r s = (Inr (Finished (Delivered response)), s')"
  shows "\<exists>d facts. t = RequestConfirm d response \<and> r = Facts facts \<and> n \<notin> set (tp_cancelled (sy_transport s)) \<and>
    rt_epoch d = tp_epoch (sy_transport s) \<and> feature_allowed wo (sy_transport s) \<and>
    peer_rechecked wo (sy_transport s) facts \<and> wo_now wo < sd_expires_at (rt_session d) \<and>
    (sensitive (rt_request d) \<longrightarrow> wo_authorize wo) \<and> wo_unchanged wo \<and>
    (\<forall>c. context_of (rq_payload (rt_request d)) = Some c \<longrightarrow> validate_capsule (wo_wire wo) c (wo_now wo) None None None = Inr ()) \<and>
    set (required_capabilities (rt_request d)) \<subseteq> set (sd_capabilities (rt_session d)) \<and>
    session_id_of (rq_payload (rt_request d)) = Some (sd_session_id (rt_session d)) \<and>
    response_fits (rt_request d) response"
proof -
  let ?r = "woken n (sy_transport s) r"
  obtain st' where run: "resume_task wo n t ?r (sy_transport s) = (Inr (Finished (Delivered response)), st')"
    using assms(4) by (auto simp: run_resume_def split: prod.splits)
  then obtain d where t: "t = RequestConfirm d response" by (rule only_confirm_delivers)
  have "task_ok (sy_transport s) t"
    using local_transport.inv_reachable [OF assms(1,2)] assms(3) by (auto simp: sys_ok_def)
  moreover obtain facts where "?r = Facts facts" "peer_rechecked wo (sy_transport s) facts"
    using confirm_result run t by (metis resume_task.simps(9))
  moreover from this have "n \<notin> set (tp_cancelled (sy_transport s))" "r = Facts facts" by (auto simp: woken_def split: if_splits)
  ultimately show ?thesis
    using confirm_result [of wo n d response ?r "sy_transport s" response st'] run t
    by (auto simp: request_granted_def)
qed

theorem delivered_answer_rechecked_witness:
  "fst (run_resume noon 2 (RequestConfirm pending_1 heartbeat_answer) (Facts tutor_facts) answered_system) =
     Inr (Finished (Delivered heartbeat_answer)) \<and>
   peer_rechecked noon rechecked tutor_facts \<and> response_fits heartbeat_request heartbeat_answer"
proof -
  obtain s' where run: "run_resume noon 2 (RequestConfirm pending_1 heartbeat_answer) (Facts tutor_facts) answered_system =
      (Inr (Finished (Delivered heartbeat_answer)), s')"
    using run_delivered by (metis prod.collapse)
  have "dget (sy_tasks answered_system) 2 = Some (RequestConfirm pending_1 heartbeat_answer)" by simp
  from delivered_answer_rechecked [OF idle_fresh answered_reachable this run] run
  show ?thesis by auto
qed

section \<open>Shutting down during a disconnect\<close>

lemma begin_disconnect_ok:
  assumes "REVOKING \<in> set (TRANSITIONS (tp_state st))" "tp_state st \<noteq> STOPPED"
  shows "\<exists>st'. begin_disconnect self None st = (Inr (Waits Disconnecting), st') \<and> tp_state st' = DISCONNECTING"
proof -
  have "\<exists>st1. invalidate (Some self) ''SESSION_REVOKED'' False (moved REVOKING None st) = (Inr (), st1) \<and> tp_state st1 = REVOKING"
    by (simp add: invalidate_def runs course Let_def)
  then obtain st1 where "invalidate (Some self) ''SESSION_REVOKED'' False (moved REVOKING None st) = (Inr (), st1)" "tp_state st1 = REVOKING"
    by blast
  then show ?thesis using assms by (simp add: begin_disconnect_def runs course)
qed

lemma resume_disconnect_state:
  assumes "tp_state st = DISCONNECTING"
  shows "tp_state (snd (resume_disconnect wo Completes st)) = LISTENING \<and> tp_state (snd (resume_disconnect wo (Fails Cancelled) st)) = LISTENING"
  using assms by (simp add: resume_disconnect_def done_of_def runs course audit_operations_def optional_def)

lemma shutdown_refused:
  assumes "tp_state st = DISCONNECTING" "0 \<le> timeout" "timeout \<le> 30"
  shows "fst (begin_shutdown wo self timeout st) = Inl RuntimeError \<and> tp_state (snd (begin_shutdown wo self timeout st)) = DISCONNECTING"
proof -
  have "begin_disconnect self None st = (Inl RuntimeError, st)"
    using assms(1) by (simp add: begin_disconnect_def runs transition_run)
  moreover have "fst (finish_shutdown wo self st) = Inl RuntimeError \<and> tp_state (snd (finish_shutdown wo self st)) = DISCONNECTING"
    using assms(1) by (simp add: finish_shutdown_def runs transition_run Let_def)
  ultimately show ?thesis
    using assms by (simp add: begin_shutdown_def shutdown_scope_def runs)
      (cases "finish_shutdown wo self st"; simp add: runs)
qed

text \<open>C32: a shutdown that arrives while a disconnect waits for the adapter fails with \<open>RuntimeError\<close>:
  it leaves no coroutine behind, so the adapter's \<open>stop\<close> is never called, and when the disconnect
  then completes the transport is listening again instead of stopped.\<close>

theorem shutdown_during_disconnect_fails:
  assumes "tp_state (sy_transport s) = DISCONNECTING" and "dget (sy_tasks s) n = Some Disconnecting"
    and "0 \<le> timeout" and "timeout \<le> 30"
    and "run_call wo (CallShutdown timeout) s = (r\<^sub>1, s\<^sub>1)"
    and "run_resume wo' n Disconnecting Completes s\<^sub>1 = (r\<^sub>2, s\<^sub>2)"
  shows "r\<^sub>1 = Inl RuntimeError \<and> sy_tasks s\<^sub>1 = sy_tasks s \<and> tp_state (sy_transport s\<^sub>1) = DISCONNECTING \<and>
    tp_state (sy_transport s\<^sub>2) = LISTENING"
proof -
  have refused: "fst (begin_shutdown wo (sy_next s) timeout (sy_transport s)) = Inl RuntimeError \<and>
      tp_state (snd (begin_shutdown wo (sy_next s) timeout (sy_transport s))) = DISCONNECTING"
    using shutdown_refused assms(1,3,4) by blast
  then have first: "r\<^sub>1 = Inl RuntimeError" "sy_tasks s\<^sub>1 = sy_tasks s" "tp_state (sy_transport s\<^sub>1) = DISCONNECTING"
    using assms(5) by (auto simp: run_call_def split: prod.splits)
  then have "tp_state (sy_transport s\<^sub>2) = LISTENING"
    using assms(6) resume_disconnect_state [OF first(3), of wo']
    by (auto simp: run_resume_def woken_def split: prod.splits if_splits)
  then show ?thesis using first by simp
qed

theorem shutdown_during_disconnect_fails_witness:
  "\<exists>s s\<^sub>1 s\<^sub>2 r\<^sub>2. system_step\<^sup>*\<^sup>* idle_system s \<and> dget (sy_tasks s) 2 = Some Disconnecting \<and>
     run_call noon (CallShutdown 1) s = (Inl RuntimeError, s\<^sub>1) \<and>
     run_resume noon 2 Disconnecting Completes s\<^sub>1 = (r\<^sub>2, s\<^sub>2) \<and> tp_state (sy_transport s\<^sub>2) = LISTENING"
proof -
  obtain st where "begin_disconnect 2 None opened = (Inr (Waits Disconnecting), st)" and st: "tp_state st = DISCONNECTING"
    using begin_disconnect_ok [of opened 2] by auto
  then have run: "run_call noon (CallDisconnect None) opened_system =
      (Inr (Waits Disconnecting), \<lparr>sy_transport = st, sy_tasks = [(2, Disconnecting)], sy_next = 3\<rparr>)"
    by (simp add: run_call_def)
  let ?s = "\<lparr>sy_transport = st, sy_tasks = [(2, Disconnecting)], sy_next = 3\<rparr>"
  have reach: "system_step\<^sup>*\<^sup>* idle_system ?s"
    using opened_reachable called [OF run] by (rule rtranclp.rtrancl_into_rtrancl)
  obtain r\<^sub>1 s\<^sub>1 where one: "run_call noon (CallShutdown 1) ?s = (r\<^sub>1, s\<^sub>1)" by fastforce
  obtain r\<^sub>2 s\<^sub>2 where two: "run_resume noon 2 Disconnecting Completes s\<^sub>1 = (r\<^sub>2, s\<^sub>2)" by fastforce
  from shutdown_during_disconnect_fails [OF _ _ _ _ one two] st one two reach
  show ?thesis by fastforce
qed

end
