(* ===== verification/Interop_Laws.thy ===== *)
theory Interop_Laws
  imports Interop_Host
begin

text \<open>
  What the pieces the transport builds on guarantee on their own: the evidence checks
  (\<open>validation.py\<close>), the attestation and the trust store (\<open>identity.py\<close>) and the gate of user
  gestures (\<open>providers.py\<close>).
\<close>

section \<open>Evidence\<close>

text \<open>evidence is accepted exactly when it is the trusted snapshot (source, version and content), its
  authority is the authority of the provenance, text of a model is only ever advisory, both privacy
  classes are known, and the evidence is at least as private as its source.\<close>

theorem evidence_accepted_iff:
  "validate_evidence_authority e p = Inr () \<longleftrightarrow>
     ev_source_id e = ts_source_id p \<and> ev_source_version e = ts_source_version p \<and>
     ev_content_hash e = ts_content_hash p \<and> ev_authority e = ts_authority p \<and>
     (ts_origin p = LLM \<longrightarrow> ev_authority e = ''ADVISORY'') \<and>
     Privacy (ev_privacy e) \<and> Privacy (ts_privacy p) \<and> privacy_rank (ts_privacy p) \<le> privacy_rank (ev_privacy e)"
  by (auto simp: validate_evidence_authority_def sbind_Inr_iff validate_derived_privacy_iff rank_le_def)

definition model_text :: context_evidence where
  "model_text = \<lparr>ev_source_id = ''s'', ev_source_version = ''1'', ev_locator = ''app:a'', ev_content_hash = zero_hash,
     ev_timestamp = 0, ev_authority = ''ADVISORY'', ev_privacy = ''LOCAL_ONLY''\<rparr>"

definition model_origin :: trusted_source_provenance where
  "model_origin = \<lparr>ts_source_id = ''s'', ts_source_version = ''1'', ts_content_hash = zero_hash, ts_authority = ''ADVISORY'',
     ts_privacy = ''CONSENTED_CLOUD'', ts_origin = LLM\<rparr>"

theorem evidence_accepted_iff_witness:
  "validate_evidence_authority model_text model_origin = Inr () \<and>
   validate_evidence_authority (model_text\<lparr>ev_authority := ''SUPPORTING''\<rparr>) (model_origin\<lparr>ts_authority := ''SUPPORTING''\<rparr>) \<noteq> Inr ()"
  unfolding evidence_accepted_iff by (simp add: model_text_def model_origin_def Privacy_def privacy_rank_def)

section \<open>Attestation\<close>

lemma identity_state: "identity_of product facts state = Inr i \<Longrightarrow> pi_attestation_state i = state"
  by (auto simp: identity_of_def new_peer_identity_def sbind_Inr_iff)

definition trusted_by :: "trust_store \<Rightarrow> string \<Rightarrow> string \<Rightarrow> bool" where
  "trusted_by st product installation \<longleftrightarrow> (\<exists>t. get_trust product installation st = Some t \<and> \<not> tr_revoked t \<and>
     tr_protocol_version t = PROTOCOL_VERSION \<and> tr_trust_level t = ''TRUSTED_INSTALLATION'')"

text \<open>The installation record of a peer, and that it and the facts agree on everything the record
  pins: product, path and contents of the executable, and the publisher's signature.\<close>

definition filed_record :: "attestation \<Rightarrow> peer_os_facts \<Rightarrow> installation_record option" where
  "filed_record a facts = (case pf_installation_id facts of None \<Rightarrow> None | Some i \<Rightarrow> dget (at_installations a) i)"

lemma attested_trusted:
  assumes "attested_state a st now product facts = Inr (TRUSTED_INSTALLATION, st')"
  shows "pf_local_connection facts \<and> pf_user_sid facts = at_current_user_sid a \<and>
    (\<exists>r. filed_record a facts = Some r \<and> matches r product facts \<and>
       (in_require_signature r \<or> in_publisher_id r \<noteq> None \<longrightarrow> signed r facts) \<and>
       (pf_signature_valid facts \<longrightarrow> pf_publisher_id facts = in_publisher_id r) \<and>
       trusted_by st (pd_product_id product) (in_installation_id r))"
  using assms
  by (auto simp: attested_state_def Let_def trusted_by_def sbind_Inr_iff filed_record_def matches_def
      split: if_splits option.splits)

lemma attest_state: "attest a st now product facts = (Inr i, st') \<Longrightarrow>
    attested_state a st now product facts = Inr (pi_attestation_state i, st')"
  by (auto simp: attest_def dest: identity_state split: sum.splits prod.splits)

lemma revoked_not_trusted: "\<not> trusted_by (revoke product installation st) product installation"
  by (auto simp: trusted_by_def revoke_def get_trust_def split: option.splits)

text \<open>C33: attestation calls a peer a trusted installation only if the connection is local and by the same
  user, and the record filed in the installation table under the peer's installation id pins this
  very peer: its product, the path and the contents of its executable; if the record asks for a
  signature or names a publisher, the peer's signature is valid and by that publisher, and a valid
  signature is never by another publisher. The trust store must hold an approval of that product and
  installation, of full level, for this protocol version and not revoked; after revoking it the same
  peer is never a trusted installation.\<close>

theorem trusted_only_by_approval:
  assumes "attest a st now product facts = (Inr i, st')" and "pi_attestation_state i = TRUSTED_INSTALLATION"
  shows "pf_local_connection facts \<and> pf_user_sid facts = at_current_user_sid a \<and>
    (\<exists>iid r t. pf_installation_id facts = Some iid \<and> dget (at_installations a) iid = Some r \<and>
       in_installation_id r = iid \<and> in_product_id r = pd_product_id product \<and>
       pf_registered_product_id facts = Some (pd_product_id product) \<and>
       in_executable_path_hash r = pf_executable_path_hash facts \<and>
       in_executable_hash r = pf_executable_hash facts \<and>
       (in_require_signature r \<or> in_publisher_id r \<noteq> None \<longrightarrow>
          pf_signature_valid facts \<and> in_publisher_id r \<noteq> None) \<and>
       (pf_signature_valid facts \<longrightarrow> pf_publisher_id facts = in_publisher_id r) \<and>
       get_trust (pd_product_id product) iid st = Some t \<and> \<not> tr_revoked t \<and>
       tr_protocol_version t = PROTOCOL_VERSION \<and> tr_trust_level t = ''TRUSTED_INSTALLATION'' \<and>
       (\<forall>now' j st''. attest a (revoke (pd_product_id product) iid st) now' product facts = (Inr j, st'') \<longrightarrow>
          pi_attestation_state j \<noteq> TRUSTED_INSTALLATION))"
proof -
  obtain r where r: "filed_record a facts = Some r" "matches r product facts"
      "in_require_signature r \<or> in_publisher_id r \<noteq> None \<longrightarrow> signed r facts"
      "pf_signature_valid facts \<longrightarrow> pf_publisher_id facts = in_publisher_id r"
      "trusted_by st (pd_product_id product) (in_installation_id r)"
    and local: "pf_local_connection facts \<and> pf_user_sid facts = at_current_user_sid a"
    using attested_trusted attest_state [OF assms(1)] assms(2) by metis
  have later: "pi_attestation_state j \<noteq> TRUSTED_INSTALLATION"
    if run: "attest a (revoke (pd_product_id product) (in_installation_id r) st) now' product facts = (Inr j, st'')" for now' j st''
  proof
    assume "pi_attestation_state j = TRUSTED_INSTALLATION"
    then obtain r' where "filed_record a facts = Some r'"
        "trusted_by (revoke (pd_product_id product) (in_installation_id r) st) (pd_product_id product) (in_installation_id r')"
      using attested_trusted attest_state [OF run] by metis
    then show False using r(1) revoked_not_trusted by auto
  qed
  obtain t where t: "get_trust (pd_product_id product) (in_installation_id r) st = Some t" "\<not> tr_revoked t"
      "tr_protocol_version t = PROTOCOL_VERSION" "tr_trust_level t = ''TRUSTED_INSTALLATION''"
    using r(5) by (auto simp: trusted_by_def)
  have key: "pf_installation_id facts = Some (in_installation_id r)"
    "dget (at_installations a) (in_installation_id r) = Some r"
    using r(1,2) by (auto simp: filed_record_def matches_def split: option.splits)
  show ?thesis
    by (rule conjI [OF local [THEN conjunct1]], rule conjI [OF local [THEN conjunct2]],
        rule exI [of _ "in_installation_id r"], rule exI [of _ r], rule exI [of _ t])
      (use r(2,3,4) t key later in \<open>auto simp: matches_def signed_def\<close>)
qed

definition desk :: attestation where
  "desk = \<lparr>at_current_user_sid = ''u'', at_installations = [(''i-1'', \<lparr>in_installation_id = ''i-1'', in_product_id = ''ai.tutor'',
     in_executable_path_hash = zero_hash, in_executable_hash = zero_hash, in_publisher_id = Some ''pub-1'', in_require_signature = True\<rparr>)]\<rparr>"

definition desk_facts :: peer_os_facts where
  "desk_facts = \<lparr>pf_process_id = 7, pf_user_sid = ''u'', pf_executable_path_hash = zero_hash, pf_executable_hash = zero_hash,
     pf_installation_id = Some ''i-1'', pf_registered_product_id = Some ''ai.tutor'', pf_publisher_id = Some ''pub-1'',
     pf_signature_valid = True, pf_local_connection = True\<rparr>"

definition desk_approval :: trust_record where
  "desk_approval = \<lparr>tr_product = ''ai.tutor'', tr_installation = ''i-1'', tr_trust_level = ''TRUSTED_INSTALLATION'',
     tr_first_approved_time = (1, 0), tr_last_verified_time = (1, 0), tr_product_version = ''1.0'',
     tr_protocol_version = ''1.0'', tr_revoked = False\<rparr>"

definition desk_store :: trust_store where
  "desk_store = \<lparr>st_limit = 4, st_records = [((''ai.tutor'', ''i-1''), desk_approval)]\<rparr>"

definition desk_tutor :: product_descriptor where
  "desk_tutor = \<lparr>pd_product_id = ''ai.tutor'', pd_display_name = ''Tutor'', pd_product_version = ''2.0'',
     pd_instance_id = ''t-1'', pd_product_role = ''AI_TUTOR'', pd_protocol_versions = [''1.0''], pd_capabilities = []\<rparr>"

definition desk_identity :: peer_identity where
  "desk_identity = \<lparr>pi_process_id = 7, pi_user_sid = ''u'', pi_executable_path_hash = zero_hash, pi_product_id = ''ai.tutor'',
     pi_instance_id = ''t-1'', pi_product_version = ''2.0'', pi_attestation_state = TRUSTED_INSTALLATION,
     pi_installation_id = Some ''i-1''\<rparr>"

lemma desk_attested: "fst (attest desk desk_store (5, 0) desk_tutor desk_facts) = Inr desk_identity"
  by code_simp

theorem trusted_only_by_approval_witness:
  "fst (attest desk desk_store (5, 0) desk_tutor desk_facts) = Inr desk_identity \<and>
   (\<exists>r t. dget (at_installations desk) ''i-1'' = Some r \<and> in_executable_hash r = pf_executable_hash desk_facts \<and>
     pf_signature_valid desk_facts \<and> pf_publisher_id desk_facts = in_publisher_id r \<and>
     get_trust ''ai.tutor'' ''i-1'' desk_store = Some t \<and> \<not> tr_revoked t)"
proof -
  obtain st' where "attest desk desk_store (5, 0) desk_tutor desk_facts = (Inr desk_identity, st')"
    using desk_attested by (metis prod.collapse)
  from trusted_only_by_approval [OF this] desk_attested show ?thesis
    by (auto simp: desk_identity_def desk_tutor_def desk_facts_def)
qed

section \<open>User gestures\<close>

lemma consume_result:
  assumes "consume now token action target pg = (r, pg')"
  shows "dget (pg_tokens pg') token = None \<and>
    (r = Inr () \<longleftrightarrow> (\<exists>p. dget (pg_tokens pg) token = Some p \<and> now < ps_expires_at p \<and> ps_action p = action \<and> ps_target_id p = target))"
  using assms by (auto simp: consume_def guard_def split: option.splits if_splits)

lemma consume_absent: "dget (pg_tokens pg) token = None \<Longrightarrow> consume now token action target pg = (Inl presence_required, pg)"
  by (simp add: consume_def)

lemma issue_result:
  assumes "issue now token action target source ttl pg = (Inr token', pg')"
  shows "token' = token \<and> 0 < ttl \<and> ttl \<le> 60 * 1000000 \<and>
    dget (pg_tokens pg') token = Some \<lparr>ps_action = action, ps_target_id = target, ps_source = source, ps_expires_at = now + ttl\<rparr>"
  using assms by (auto simp: issue_def Let_def sbind_Inr_iff split: sum.splits if_splits)

text \<open>What a token is bound to: the JSON document of target and session, whose SHA-256 is the binding.
  The document determines both.\<close>

definition gesture_document :: "wire \<Rightarrow> handoff_target \<Rightarrow> string option \<Rightarrow> json" where
  "gesture_document w target session_id =
     sort_json (JDict [(''target'', dump_handoff_target w target), (''session_id'', opt_dump JStr session_id)])"

lemma target_binding_document: "target_binding w target session_id = w_sha w (gesture_document w target session_id)"
  by (simp add: target_binding_def canonical_hash_def gesture_document_def)

lemma sorted_fields:
  assumes "sort_json (JDict d) = sort_json (JDict e)" "distinct (dkeys d)" "distinct (dkeys e)"
  shows "map_option sort_json (dget d k) = map_option sort_json (dget e k)"
proof -
  have f: "dget (sort_key fst (map (\<lambda>kv. (fst kv, sort_json (snd kv))) x)) k = map_option sort_json (dget x k)"
    if "distinct (dkeys x)" for x :: "(string, json) dict"
    using that by (simp add: comp_def dget_map_snd)
  show ?thesis using assms(1) f [OF assms(2)] f [OF assms(3)] by simp
qed

lemma opt_text_inj: "sort_json (opt_dump JStr a) = sort_json (opt_dump JStr b) \<Longrightarrow> a = b"
  by (cases a; cases b) (auto simp: opt_dump_def)

lemma handoff_target_text:
  assumes "sort_json (dump_handoff_target w x) = sort_json (dump_handoff_target w y)"
  shows "x = y"
proof -
  note f = sorted_fields [OF assms [unfolded dump_handoff_target_def], simplified]
  show ?thesis
    by (rule handoff_target.equality)
      (use f [of "''action''"] f [of "''target_product_id''"] f [of "''feature''"] f [of "''project_id''"]
        f [of "''chapter_id''"] f [of "''task_id''"] f [of "''session_id''"] f [of "''source_version''"]
        in \<open>auto intro: opt_text_inj\<close>)
qed

lemma gesture_document_inj:
  assumes "gesture_document w x a = gesture_document w y b"
  shows "x = y \<and> a = b"
proof -
  note f = sorted_fields [OF assms [unfolded gesture_document_def], simplified]
  show ?thesis
    using f [of "''target''"] f [of "''session_id''"] by (auto intro: opt_text_inj handoff_target_text)
qed

text \<open>C34: a gesture opens its target at most once: after a token was issued for a target in a session,
  the first call that presents it opens something exactly when it presents that very target, field
  by field, and that very session, the target is still current, and the token's lifetime (at most a
  minute) has not passed; what opens is that target. Whatever that call answered, every later call
  with the token is refused. The SHA-256 the token stores is assumed not to confuse the two documents
  compared.\<close>

theorem gesture_opens_once:
  assumes "issue_target w now token target session source ttl pg = (Inr token', pg\<^sub>1)"
    and "open_handoff w now\<^sub>1 resolve target\<^sub>1 token session\<^sub>1 pg\<^sub>1 = (r\<^sub>1, pg\<^sub>2)"
    and "valid_handoff_target w target\<^sub>1"
    and "w_sha w (gesture_document w target\<^sub>1 session\<^sub>1) = w_sha w (gesture_document w target session) \<longrightarrow>
      gesture_document w target\<^sub>1 session\<^sub>1 = gesture_document w target session"
  shows "token' = token \<and> ttl \<le> 60 * 1000000 \<and>
    (\<forall>x. r\<^sub>1 = Inr x \<longleftrightarrow> x = target \<and> target\<^sub>1 = target \<and> session\<^sub>1 = session \<and> now\<^sub>1 < now + ttl \<and> resolve target) \<and>
    (\<forall>now\<^sub>2 resolve\<^sub>2 target\<^sub>2 session\<^sub>2. fst (open_handoff w now\<^sub>2 resolve\<^sub>2 target\<^sub>2 token session\<^sub>2 pg\<^sub>2) \<in> {Inl ValueError, Inl presence_required})"
proof -
  have issued: "token' = token \<and> 0 < ttl \<and> ttl \<le> 60 * 1000000 \<and> dget (pg_tokens pg\<^sub>1) token =
      Some \<lparr>ps_action = ht_action target, ps_target_id = target_binding w target session, ps_source = source, ps_expires_at = now + ttl\<rparr>"
    using assms(1) issue_result by (auto simp: issue_target_def split: sum.splits)
  obtain r pg' where c: "consume now\<^sub>1 token (ht_action target\<^sub>1) (target_binding w target\<^sub>1 session\<^sub>1) pg\<^sub>1 = (r, pg')" by fastforce
  have bound: "target_binding w target\<^sub>1 session\<^sub>1 = target_binding w target session \<longleftrightarrow> target\<^sub>1 = target \<and> session\<^sub>1 = session"
    unfolding target_binding_document using assms(4) gesture_document_inj by blast
  have "pg' = pg\<^sub>2" "r\<^sub>1 = sbind r (\<lambda>_. sbind (guard (resolve target\<^sub>1)
      (violation ''HANDOFF_TARGET_NOT_FOUND'' ''Handoff target is not current'')) (\<lambda>_. Inr target\<^sub>1))"
    using assms(2,3) c by (auto simp: open_handoff_def consume_target_def)
  moreover from this have "fst (open_handoff w now\<^sub>2 resolve\<^sub>2 target\<^sub>2 token session\<^sub>2 pg\<^sub>2) \<in> {Inl ValueError, Inl presence_required}"
    for now\<^sub>2 resolve\<^sub>2 target\<^sub>2 session\<^sub>2
    using consume_result [OF c] by (simp add: open_handoff_def consume_target_def consume_absent)
  ultimately show ?thesis
    using issued bound consume_result [OF c] by (auto simp: sbind_Inr_iff)
qed

definition open_task :: handoff_target where
  "open_task = \<lparr>ht_action = ''OPEN_TASK'', ht_target_product_id = ''ai.tutor'', ht_feature = None, ht_project_id = None,
     ht_chapter_id = None, ht_task_id = Some ''t-1'', ht_session_id = None, ht_source_version = Some ''1''\<rparr>"

definition other_task :: handoff_target where "other_task = open_task\<lparr>ht_task_id := Some ''t-2''\<rparr>"

text \<open>A digest that tells the document of the first task from all others.\<close>

definition gate_wire :: wire where
  "gate_wire = \<lparr>w_utc = (\<lambda>_. ''12:00''),
     w_sha = (\<lambda>v. if v = gesture_document \<lparr>w_utc = (\<lambda>_. ''12:00''), w_sha = (\<lambda>_. zero_hash)\<rparr> open_task None
                  then zero_hash else replicate 64 CHR ''1'')\<rparr>"

definition one_gate :: presence_gate where "one_gate = \<lparr>pg_limit = 4, pg_tokens = []\<rparr>"

definition issued_gate :: presence_gate where
  "issued_gate = snd (issue_target gate_wire 100 ''k'' open_task None ''USER_CLICK'' 500 one_gate)"

lemma gate_runs:
  "valid_handoff_target gate_wire open_task" "valid_handoff_target gate_wire other_task"
  "fst (issue_target gate_wire 100 ''k'' open_task None ''USER_CLICK'' 500 one_gate) = Inr ''k''"
  "w_sha gate_wire (gesture_document gate_wire other_task None) \<noteq> w_sha gate_wire (gesture_document gate_wire open_task None)"
  by code_simp+

theorem gesture_opens_once_witness:
  "fst (open_handoff gate_wire 200 (\<lambda>_. True) open_task ''k'' None issued_gate) = Inr open_task \<and>
   fst (open_handoff gate_wire 201 (\<lambda>_. True) open_task ''k'' None
     (snd (open_handoff gate_wire 200 (\<lambda>_. True) open_task ''k'' None issued_gate))) \<in> {Inl ValueError, Inl presence_required} \<and>
   (\<forall>x. fst (open_handoff gate_wire 200 (\<lambda>_. True) other_task ''k'' None issued_gate) \<noteq> Inr x)"
proof -
  have issued: "issue_target gate_wire 100 ''k'' open_task None ''USER_CLICK'' 500 one_gate = (Inr ''k'', issued_gate)"
    using gate_runs(3) by (simp add: issued_gate_def prod_eq_iff)
  obtain r pg where opened: "open_handoff gate_wire 200 (\<lambda>_. True) open_task ''k'' None issued_gate = (r, pg)" by fastforce
  obtain r' pg' where other: "open_handoff gate_wire 200 (\<lambda>_. True) other_task ''k'' None issued_gate = (r', pg')" by fastforce
  have "other_task \<noteq> open_task" by (simp add: other_task_def open_task_def)
  then have "r' \<noteq> Inr x" for x using gesture_opens_once [OF issued other gate_runs(2)] gate_runs(4) by blast
  then show ?thesis using gesture_opens_once [OF issued opened gate_runs(1)] opened other by auto
qed

section \<open>The text of the trust store\<close>

text \<open>What the operations keep: keys are those of the records, every record passed its checks, the
  bound holds.\<close>

definition store_ok :: "trust_store \<Rightarrow> bool" where
  "store_ok st \<longleftrightarrow> 1 \<le> st_limit st \<and> st_limit st \<le> 1024 \<and> length (st_records st) \<le> st_limit st \<and>
     distinct (dkeys (st_records st)) \<and> (\<forall>(k, r) \<in> set (st_records st). k = trust_key r \<and> new_trust_record r = Inr r)"

lemma store_ok_dset:
  assumes "store_ok st" "new_trust_record r = Inr r" "k = trust_key r"
    "dget (st_records st) k \<noteq> None \<or> length (st_records st) < st_limit st"
  shows "store_ok (st\<lparr>st_records := dset (st_records st) k r\<rparr>)"
proof -
  have kept: "k' = trust_key r' \<and> new_trust_record r' = Inr r'" if elem: "(k', r') \<in> set (dset (st_records st) k r)" for k' r'
  proof -
    have "distinct (dkeys (st_records st))" using assms(1) by (simp add: store_ok_def)
    from set_dset [OF this elem] show ?thesis using assms(1-3) by (auto simp: store_ok_def)
  qed
  have "length (dset (st_records st) k r) \<le> st_limit st"
    using assms(1,4) by (auto simp: length_dset store_ok_def)
  then show ?thesis using assms(1) kept by (auto simp: store_ok_def)
qed

lemma store_ok_get: "store_ok st \<Longrightarrow> dget (st_records st) k = Some r \<Longrightarrow> k = trust_key r \<and> new_trust_record r = Inr r"
  by (auto simp: store_ok_def dest!: map_of_SomeD)

lemma new_trust_record_id: "new_trust_record r = Inr r' \<Longrightarrow> r' = r"
  by (auto simp: new_trust_record_def sbind_Inr_iff)

lemma new_trust_store_ok: "new_trust_store limit = Inr st \<Longrightarrow> store_ok st"
  by (auto simp: new_trust_store_def store_ok_def sbind_Inr_iff)

lemma approve_ok: "store_ok st \<Longrightarrow> new_trust_record r = Inr r \<Longrightarrow> approve r user st = Inr st' \<Longrightarrow> store_ok st'"
  by (auto simp: approve_def sbind_Inr_iff intro!: store_ok_dset)

lemma revoke_ok: "store_ok st \<Longrightarrow> store_ok (revoke product installation st)"
proof -
  assume ok: "store_ok st"
  have "store_ok (st\<lparr>st_records := dset (st_records st) (product, installation) (r\<lparr>tr_revoked := True\<rparr>)\<rparr>)"
    if r: "dget (st_records st) (product, installation) = Some r" for r
    using store_ok_get [OF ok r] r
    by (intro store_ok_dset [OF ok]) (auto simp: new_trust_record_def trust_key_def sbind_Inr_iff)
  then show ?thesis using ok by (auto simp: revoke_def get_trust_def split: option.splits)
qed

lemma verified_ok: "store_ok st \<Longrightarrow> verified product installation ver now st = Inr st' \<Longrightarrow> store_ok st'"
proof -
  assume ok: "store_ok st" and run: "verified product installation ver now st = Inr st'"
  show ?thesis
  proof (cases "dget (st_records st) (product, installation)")
    case (Some r)
    have "trust_key (r\<lparr>tr_last_verified_time := now, tr_product_version := ver\<rparr>) = (product, installation)"
      using store_ok_get [OF ok Some] by (simp add: trust_key_def)
    then show ?thesis using ok run Some
      by (auto simp: verified_def get_trust_def sbind_Inr_iff split: if_splits dest: new_trust_record_id
          intro!: store_ok_dset)
  qed (use ok run in \<open>simp add: verified_def get_trust_def\<close>)
qed

lemma get_field_sorted: "get_field (sort_key fst d) k = get_field d k"
  by (simp add: get_field_def)

lemma opaque_id: "opaque x = Inr y \<Longrightarrow> y = x" and version_id: "version x = Inr y \<Longrightarrow> y = x"
  by (auto simp: opaque_def version_def sbind_Inr_iff)

lemma new_trust_record_parts:
  assumes "new_trust_record r = Inr r"
  shows "opaque (tr_product r) = Inr (tr_product r) \<and> opaque (tr_installation r) = Inr (tr_installation r) \<and>
    version (tr_product_version r) = Inr (tr_product_version r) \<and> version (tr_protocol_version r) = Inr (tr_protocol_version r) \<and>
    tr_trust_level r \<in> set trust_levels \<and> fst (tr_first_approved_time r) \<le> fst (tr_last_verified_time r)"
  using assms by (auto simp: new_trust_record_def sbind_Inr_iff dest: opaque_id version_id)

lemma trust_row_fields:
  obtains d where "trust_row sc r = JDict d" "sort_json (trust_row sc r) = JDict (sort_key fst d)"
    "set (dkeys d) = set trust_fields" "distinct (dkeys d)" "list_all (\<lambda>kv. duplicate_free (snd kv)) d"
    "get_field d ''first_approved_time'' = JStr (sc_isoformat sc (tr_first_approved_time r))"
    "get_field d ''last_verified_time'' = JStr (sc_isoformat sc (tr_last_verified_time r))"
    "get_field d ''approved_product_identity'' = JStr (tr_product r)"
    "get_field d ''approved_installation_identity'' = JStr (tr_installation r)"
    "get_field d ''product_version'' = JStr (tr_product_version r)"
    "get_field d ''protocol_version'' = JStr (tr_protocol_version r)"
    "get_field d ''trust_level'' = JStr (tr_trust_level r)" "get_field d ''revoked'' = JBool (tr_revoked r)"
proof -
  obtain d where d: "trust_row sc r = JDict d" by (simp add: trust_row_def)
  show thesis
    by (rule that [OF d]) (use d in \<open>auto simp: trust_row_def trust_fields_def get_field_def\<close>)
qed

lemma load_row_sorted:
  assumes iso: "\<And>t. sc_fromisoformat sc (sc_isoformat sc t) = Aware t" and r: "new_trust_record r = Inr r"
  shows "load_row sc (sort_json (trust_row sc r)) = Inr r"
proof -
  obtain d where row: "sort_json (trust_row sc r) = JDict (sort_key fst d)" and keys: "set (dkeys d) = set trust_fields"
    and fields: "get_field d ''first_approved_time'' = JStr (sc_isoformat sc (tr_first_approved_time r))"
    "get_field d ''last_verified_time'' = JStr (sc_isoformat sc (tr_last_verified_time r))"
    "get_field d ''approved_product_identity'' = JStr (tr_product r)"
    "get_field d ''approved_installation_identity'' = JStr (tr_installation r)"
    "get_field d ''product_version'' = JStr (tr_product_version r)"
    "get_field d ''protocol_version'' = JStr (tr_protocol_version r)"
    "get_field d ''trust_level'' = JStr (tr_trust_level r)" "get_field d ''revoked'' = JBool (tr_revoked r)"
    using trust_row_fields [of sc r] by metis
  have "has_keys (sort_key fst d) trust_fields"
    unfolding has_keys_def set_map set_sort using keys by simp
  then show ?thesis
    using new_trust_record_parts [OF r] unfolding row load_row_def json_as_JX sbind_simps get_field_sorted fields
    by (simp add: load_time_def load_level_def aware_def iso guard_def)
qed

lemma load_rows:
  assumes iso: "\<And>t. sc_fromisoformat sc (sc_isoformat sc t) = Aware t"
    and ok: "\<forall>(k, r) \<in> set rs. k = trust_key r \<and> new_trust_record r = Inr r"
    and dist: "distinct (dkeys (st_records st @ rs))"
  shows "sfold (\<lambda>st row. sbind (load_row sc row) (\<lambda>r.
       sbind (guard (dget (st_records st) (trust_key r) = None) ValueError) (\<lambda>_.
       Inr (st\<lparr>st_records := dset (st_records st) (trust_key r) r\<rparr>)))) st
     (map (\<lambda>kr. sort_json (trust_row sc (snd kr))) rs) = Inr (st\<lparr>st_records := st_records st @ rs\<rparr>)"
  using ok dist
proof (induction rs arbitrary: st)
  case (Cons kr rs)
  obtain k r where kr: "kr = (k, r)" by (cases kr)
  have r: "k = trust_key r" "new_trust_record r = Inr r" using Cons.prems(1) kr by auto
  have fresh: "k \<notin> set (dkeys (st_records st))" using Cons.prems(2) kr by auto
  then have "dget (st_records st) k = None" by (simp add: dget_None_keys)
  moreover have "dset (st_records st) k r = st_records st @ [(k, r)]" using fresh by (rule dset_fresh)
  ultimately show ?case
    using Cons.IH [of "st\<lparr>st_records := st_records st @ [(k, r)]\<rparr>"] Cons.prems kr r load_row_sorted [OF iso r(2)]
    by (simp add: guard_def)
qed simp

text \<open>What the document of a store decodes to: the library's \<open>json.loads\<close> gives back what
  \<open>json.dumps\<close> with sorted keys wrote.\<close>

definition store_document :: "store_codec \<Rightarrow> trust_store \<Rightarrow> json" where
  "store_document sc st = JList (map (\<lambda>kr. trust_row sc (snd kr)) (sort_key fst (st_records st)))"

lemma document_duplicate_free: "duplicate_free (sort_json (store_document sc st))"
proof -
  have "duplicate_free (sort_json (trust_row sc r))" for r
  proof -
    obtain d where "trust_row sc r = JDict d" "distinct (dkeys d)" "list_all (\<lambda>kv. duplicate_free (snd kv)) d"
      and sorted: "sort_json (trust_row sc r) = JDict (sort_key fst d)"
      using trust_row_fields [of sc r] by metis
    then show ?thesis by (simp add: list_all_iff distinct_map)
  qed
  then show ?thesis by (simp add: store_document_def list_all_iff)
qed

text \<open>C35: the text of a trust store loads back as that store, its records in the order of their keys
  and otherwise unchanged: every approval, level, time, version and revocation survives.\<close>

theorem trust_store_roundtrip:
  assumes "store_ok st"
    and iso: "\<And>t. sc_fromisoformat sc (sc_isoformat sc t) = Aware t"
    and codec: "sc_decode sc (dumps sc st) = Some (sort_json (store_document sc st))"
    and "sc_bytes sc (dumps sc st) \<le> 1024 * 1024"
  shows "loads sc (dumps sc st) (st_limit st) = Inr (st\<lparr>st_records := sort_key fst (st_records st)\<rparr>) \<and>
    get_trust product installation (st\<lparr>st_records := sort_key fst (st_records st)\<rparr>) = get_trust product installation st"
proof -
  let ?rs = "sort_key fst (st_records st)"
  have rs: "\<forall>(k, r) \<in> set ?rs. k = trust_key r \<and> new_trust_record r = Inr r" "distinct (dkeys ?rs)"
    "length ?rs \<le> st_limit st" "1 \<le> st_limit st" "st_limit st \<le> 1024"
    using assms(1) by (auto simp: store_ok_def distinct_map)
  have doc: "sort_json (store_document sc st) = JList (map (\<lambda>kr. sort_json (trust_row sc (snd kr))) ?rs)"
    by (simp add: store_document_def)
  have "loads sc (dumps sc st) (st_limit st) = Inr (st\<lparr>st_records := ?rs\<rparr>)"
    using assms(4) rs load_rows [OF iso rs(1), of "\<lparr>st_limit = st_limit st, st_records = []\<rparr>"]
      document_duplicate_free [of sc st]
    by (simp add: loads_def codec doc guard_def new_trust_store_def)
  then show ?thesis by (simp add: get_trust_def)
qed

text \<open>A codec: times are written in unary, the one document is named \<open>d\<close>.\<close>

definition unary :: "int \<Rightarrow> string" where
  "unary i = (if i < 0 then CHR ''-'' else CHR ''+'') # replicate (nat \<bar>i\<bar>) CHR ''1''"

definition of_unary :: "string \<Rightarrow> int" where
  "of_unary s = (if hd s = CHR ''-'' then - int (length (tl s)) else int (length (tl s)))"

definition unary_stamp :: "stamp \<Rightarrow> string" where "unary_stamp t = unary (fst t) @ CHR '','' # unary (snd t)"

definition of_unary_stamp :: "string \<Rightarrow> parsed_time" where
  "of_unary_stamp s = (let a = takeWhile (\<lambda>c. c \<noteq> CHR '','') s
     in Aware (of_unary a, of_unary (drop (length a + 1) s)))"

lemma of_unary_stamp: "of_unary_stamp (unary_stamp t) = Aware t"
proof -
  have "takeWhile (\<lambda>c. c \<noteq> CHR '','') (unary i @ CHR '','' # s) = unary i" for i s
    by (simp add: unary_def takeWhile_append)
  moreover have "of_unary (unary i) = i" for i by (simp add: of_unary_def unary_def)
  ultimately show ?thesis by (cases t) (simp add: of_unary_stamp_def unary_stamp_def Let_def)
qed

definition desk_codec :: store_codec where
  "desk_codec = \<lparr>sc_encode = (\<lambda>_. ''d''),
     sc_decode = (\<lambda>_. Some (sort_json (JList (map (\<lambda>kr. trust_row \<lparr>sc_encode = (\<lambda>_. ''d''), sc_decode = (\<lambda>_. None),
        sc_bytes = (\<lambda>_. 1), sc_isoformat = unary_stamp, sc_fromisoformat = of_unary_stamp\<rparr> (snd kr)) (st_records desk_store))))),
     sc_bytes = (\<lambda>_. 1), sc_isoformat = unary_stamp, sc_fromisoformat = of_unary_stamp\<rparr>"

theorem trust_store_roundtrip_witness:
  "loads desk_codec (dumps desk_codec desk_store) 4 = Inr desk_store"
proof -
  have "new_trust_record desk_approval = Inr desk_approval" by code_simp
  then have ok: "store_ok desk_store" by (simp add: store_ok_def desk_store_def desk_approval_def trust_key_def)
  have iso: "sc_fromisoformat desk_codec (sc_isoformat desk_codec t) = Aware t" for t
    by (simp add: desk_codec_def of_unary_stamp)
  have "sc_decode desk_codec (dumps desk_codec desk_store) = Some (sort_json (store_document desk_codec desk_store))"
    by (simp add: desk_codec_def store_document_def desk_store_def trust_row_def)
  moreover have "sc_bytes desk_codec (dumps desk_codec desk_store) \<le> 1024 * 1024" by (simp add: desk_codec_def)
  ultimately show ?thesis
    using trust_store_roundtrip [OF ok iso] by (simp add: desk_store_def)
qed

end
