(* ===== verification/Interop_Events_Laws.thy ===== *)
theory Interop_Events_Laws
  imports Interop_Events Interop_Sample
begin

text \<open>
  The event projection over every history of its operations. \<open>events_ok\<close> is kept by each of them:
  queues stay within their bound and hold only valid capsules without content, of modules the
  subscription asked for, for which its callback had said yes when they were published. Delivery then
  hands out only what the callback allows once more at that moment.

  A history carries \<open>given\<close>: which subscription's callback has said yes to which capsule when that
  capsule was published or polled.
\<close>

section \<open>The invariant\<close>

definition queue_ok :: "wire \<Rightarrow> (app_context_capsule \<Rightarrow> bool) \<Rightarrow> nat \<Rightarrow> subscription \<Rightarrow> bool" where
  "queue_ok w allowed limit s \<longleftrightarrow> length (sb_queue s) \<le> limit \<and>
     (\<forall>(k, e) \<in> set (sb_queue s). cc_level (cx_content (qe_capsule e)) = ''NONE'' \<and> valid_app_context_capsule w (qe_capsule e) \<and>
        EventType (qe_type e) \<and> qe_module e \<in> set (sb_modules s) \<and> allowed (qe_capsule e))"

definition events_ok :: "wire \<Rightarrow> grants \<Rightarrow> registry \<Rightarrow> bool" where
  "events_ok w given re \<longleftrightarrow> 1 \<le> re_queue_limit re \<and> distinct (dkeys (re_subscribers re)) \<and>
     length (re_subscribers re) \<le> re_subscriber_limit re \<and>
     (\<forall>(k, s) \<in> set (re_subscribers re). queue_ok w (given k) (re_queue_limit re) s)"

lemma events_ok_get: "events_ok w given re \<Longrightarrow> dget (re_subscribers re) sid = Some s \<Longrightarrow> queue_ok w (given sid) (re_queue_limit re) s"
  by (auto simp: events_ok_def dest!: map_of_SomeD)

lemma events_ok_frame:
  assumes "events_ok w given re" "re_queue_limit re' = re_queue_limit re" "re_subscriber_limit re' = re_subscriber_limit re"
    "distinct (dkeys (re_subscribers re'))" "length (re_subscribers re') \<le> length (re_subscribers re)"
    "\<And>k s. (k, s) \<in> set (re_subscribers re') \<Longrightarrow> queue_ok w (given k) (re_queue_limit re) s"
  shows "events_ok w given re'"
  using assms by (auto simp: events_ok_def)

lemma events_ok_dset:
  assumes "events_ok w given re" "dget (re_subscribers re) sid \<noteq> None" "queue_ok w (given sid) (re_queue_limit re) s"
  shows "events_ok w given (re\<lparr>re_subscribers := dset (re_subscribers re) sid s\<rparr>)"
proof (rule events_ok_frame [OF assms(1)])
  fix k s'
  assume "(k, s') \<in> set (re_subscribers (re\<lparr>re_subscribers := dset (re_subscribers re) sid s\<rparr>))"
  then have "(k, s') = (sid, s) \<or> (k, s') \<in> set (re_subscribers re)"
    using assms(1) set_dset [of "re_subscribers re" k s' sid s] by (simp add: events_ok_def)
  then show "queue_ok w (given k) (re_queue_limit re) s'" using assms(1,3) by (auto simp: events_ok_def)
qed (use assms in \<open>auto simp: events_ok_def length_dset\<close>)

lemma events_ok_filter:
  assumes "events_ok w given re" "re' = re\<lparr>re_subscribers := filter P (re_subscribers re)\<rparr>"
  shows "events_ok w given re'"
  using assms by (auto simp: events_ok_def distinct_map_filter intro: le_trans [OF length_filter_le])

lemma revoke_filter: "revoke_subscription sid re = re\<lparr>re_subscribers := filter (\<lambda>kv. fst kv \<noteq> sid) (re_subscribers re)\<rparr>"
  by (simp add: revoke_subscription_def AList.delete_eq) (metis (mono_tags, lifting) case_prod_beta filter_cong)

lemma revoke_fold:
  "fold (\<lambda>(sid, s) re. if P s then revoke_subscription sid re else re) xs re =
     re\<lparr>re_subscribers := filter (\<lambda>kv. \<forall>(sid, s) \<in> set xs. P s \<longrightarrow> fst kv \<noteq> sid) (re_subscribers re)\<rparr>"
proof (induction xs arbitrary: re)
  case (Cons x xs)
  obtain sid s where x: "x = (sid, s)" by (cases x)
  show ?case unfolding x fold.simps comp_def prod.case Cons.IH
    by (auto simp: revoke_filter intro!: arg_cong [where f = "\<lambda>xs. re\<lparr>re_subscribers := xs\<rparr>"] filter_cong)
qed simp

lemma expire_filter:
  assumes "distinct (dkeys (re_subscribers re))"
  shows "expire now re = re\<lparr>re_subscribers := filter (\<lambda>kv. now < sb_expires_at (snd kv)) (re_subscribers re)\<rparr>"
proof -
  have "(\<forall>(sid, s) \<in> set (re_subscribers re). sb_expires_at s \<le> now \<longrightarrow> fst kv \<noteq> sid) \<longleftrightarrow> now < sb_expires_at (snd kv)"
    (is "?kept kv \<longleftrightarrow> _") if elem: "kv \<in> set (re_subscribers re)" for kv
  proof
    assume "?kept kv"
    then show "now < sb_expires_at (snd kv)" using elem by (cases kv) force
  next
    assume later: "now < sb_expires_at (snd kv)"
    have "s = snd kv" if "(fst kv, s) \<in> set (re_subscribers re)" for s
      using assms elem that eq_key_imp_eq_value [of "re_subscribers re" "fst kv" s "snd kv"] by simp
    then show "?kept kv" using later by (auto simp: not_le)
  qed
  then show ?thesis unfolding expire_def revoke_fold by (simp cong: filter_cong)
qed

lemma expire_ok: "events_ok w given re \<Longrightarrow> events_ok w given (expire now re)"
  by (rule events_ok_filter) (auto simp: expire_filter events_ok_def)

lemma expire_get:
  assumes "distinct (dkeys (re_subscribers re))" "dget (re_subscribers (expire now re)) sid = Some s"
  shows "dget (re_subscribers re) sid = Some s \<and> now < sb_expires_at s"
proof -
  have "(sid, s) \<in> set (re_subscribers re)" "now < sb_expires_at s"
    using assms by (auto simp: expire_filter dest!: map_of_SomeD)
  then show ?thesis using assms(1) by simp
qed

lemma expire_limits [simp]: "re_queue_limit (expire now re) = re_queue_limit re"
  "re_subscriber_limit (expire now re) = re_subscriber_limit re" "re_sources (expire now re) = re_sources re"
  by (simp_all add: expire_def revoke_fold)

lemma update_ok:
  assumes "events_ok w given re" "\<And>s. queue_ok w (given sid) (re_queue_limit re) s \<Longrightarrow> queue_ok w (given sid) (re_queue_limit re) (f s)"
  shows "events_ok w given (update_subscription sid f re)"
  using assms events_ok_get [OF assms(1)] by (auto simp: update_subscription_def intro!: events_ok_dset split: option.splits)

lemma subscribe_ok:
  assumes "events_ok w given re" "dget (re_subscribers re) fresh = None"
  shows "events_ok w given (snd (subscribe now fresh session peer until callback modules re))"
proof -
  have ok: "events_ok w given (expire now re)" using assms(1) by (rule expire_ok)
  have "dget (re_subscribers (expire now re)) fresh = None"
    using assms expire_get [of re now fresh] by (cases "dget (re_subscribers (expire now re)) fresh") (auto simp: events_ok_def)
  then show ?thesis
    using ok by (auto simp: subscribe_def Let_def sbind_Inr_iff events_ok_def queue_ok_def dset_fresh dget_None_keys
        split: sum.splits)
qed

lemma length_dpop: "dget d k \<noteq> None \<Longrightarrow> length (dpop d k) < length d"
proof -
  assume "dget d k \<noteq> None"
  then obtain v where "(k, v) \<in> set d" by (auto dest: map_of_SomeD)
  then show ?thesis
    unfolding AList.delete_eq by (intro length_filter_less) auto
qed

lemma set_tl_subset: "set (tl xs) \<subseteq> set xs" by (cases xs) auto

lemma enqueue_shape:
  "\<exists>q. sb_queue (enqueue limit key e s) = q @ [(key, e)] \<and> set q \<subseteq> set (sb_queue s) \<and>
     (length (sb_queue s) \<le> limit \<and> 1 \<le> limit \<longrightarrow> length q < limit) \<and> sb_modules (enqueue limit key e s) = sb_modules s"
proof (cases "dget (sb_queue s) key")
  case None
  then have "key \<notin> set (dkeys (sb_queue s))" by (simp add: dget_None_keys)
  moreover from this have "key \<notin> set (dkeys (tl (sb_queue s)))" using set_tl_subset [of "sb_queue s"] by auto
  ultimately show ?thesis
    using None set_tl_subset [of "sb_queue s"]
    by (cases "limit \<le> length (sb_queue s)") (auto simp: enqueue_def Let_def dset_fresh)
next
  case (Some v)
  have "key \<notin> set (dkeys (dpop (sb_queue s) key))" by (auto simp: set_dpop)
  then show ?thesis
    using Some length_dpop [of "sb_queue s" key] by (auto simp: enqueue_def Let_def dset_fresh set_dpop)
qed

lemma enqueue_ok:
  assumes "queue_ok w allowed limit s" "1 \<le> limit" "cc_level (cx_content (qe_capsule e)) = ''NONE''"
    "valid_app_context_capsule w (qe_capsule e)" "EventType (qe_type e)" "qe_module e \<in> set (sb_modules s)" "allowed (qe_capsule e)"
  shows "queue_ok w allowed limit (enqueue limit key e s)"
proof -
  obtain q where q: "sb_queue (enqueue limit key e s) = q @ [(key, e)]" "set q \<subseteq> set (sb_queue s)"
    "length (sb_queue s) \<le> limit \<and> 1 \<le> limit \<longrightarrow> length q < limit" "sb_modules (enqueue limit key e s) = sb_modules s"
    using enqueue_shape by blast
  moreover have "length q < limit" using q(3) assms(1,2) by (simp add: queue_ok_def)
  ultimately show ?thesis using assms by (auto simp: queue_ok_def)
qed

definition entry_ok :: "wire \<Rightarrow> queued \<Rightarrow> bool" where
  "entry_ok w e \<longleftrightarrow> cc_level (cx_content (qe_capsule e)) = ''NONE'' \<and> valid_app_context_capsule w (qe_capsule e) \<and> EventType (qe_type e)"

lemma publish_fold_ok:
  assumes "events_ok w given re" "entry_ok w e"
    "\<forall>(k, s) \<in> set xs. dget (re_subscribers re) k \<noteq> None \<and> queue_ok w (given k) (re_queue_limit re) s"
    "\<forall>k. ask k (qe_capsule e) \<longrightarrow> given k (qe_capsule e)"
  shows "events_ok w given (snd (fold (publish_to w now ask e sid) xs (c, re)))"
  using assms
proof (induction xs arbitrary: re c)
  case (Cons x xs)
  obtain k s where x: "x = (k, s)" by (cases x)
  let ?s = "enqueue (re_queue_limit re) (event_key (qe_module e) (qe_type e) (qe_capsule e)) e s"
  have next_ok: "events_ok w given (re\<lparr>re_subscribers := dset (re_subscribers re) k ?s\<rparr>)"
    if mdl: "qe_module e \<in> set (sb_modules s)" "given k (qe_capsule e)"
  proof (rule events_ok_dset)
    have "1 \<le> re_queue_limit re" using Cons.prems(1) by (simp add: events_ok_def)
    then show "queue_ok w (given k) (re_queue_limit re) ?s"
      using Cons.prems(2,3) mdl x by (intro enqueue_ok) (auto simp: entry_ok_def)
  qed (use Cons.prems x in auto)
  obtain c' re' where step: "publish_to w now ask e sid (k, s) (c, re) = (c', re')" by fastforce
  then have "re' = re \<or> re' = re\<lparr>re_subscribers := dset (re_subscribers re) k ?s\<rparr> \<and> qe_module e \<in> set (sb_modules s) \<and> given k (qe_capsule e)"
    using Cons.prems(4) by (auto simp: publish_to_def authorized_def split: if_splits)
  then have "events_ok w given re'" "\<forall>(k, s) \<in> set xs. dget (re_subscribers re') k \<noteq> None \<and> queue_ok w (given k) (re_queue_limit re') s"
    using Cons.prems next_ok by auto
  then show ?case using Cons.IH [of re' c'] Cons.prems(2,4) step x by simp
qed simp

lemma in_set_dget: "(k, s) \<in> set d \<Longrightarrow> dget d k \<noteq> None"
  by (induction d) auto

lemma publish_ok:
  assumes "events_ok w given re" and granted: "\<forall>k. ask k capsule \<longrightarrow> given k capsule"
  shows "events_ok w given (snd (publish w now ask mdl event_type capsule sid re))"
proof -
  let ?re = "expire now re"
  have ok: "events_ok w given ?re" using assms(1) by (rule expire_ok)
  have "\<forall>(k, s) \<in> set (re_subscribers ?re). dget (re_subscribers ?re) k \<noteq> None \<and> queue_ok w (given k) (re_queue_limit ?re) s"
    using ok in_set_dget by (fastforce simp: events_ok_def simp del: expire_limits)
  then have folded: "events_ok w given (snd (fold (publish_to w now ask e sid) (re_subscribers ?re) (0, ?re)))"
    if "entry_ok w e" "qe_capsule e = capsule" for e
    using ok that granted by (intro publish_fold_ok) simp_all
  show ?thesis
  proof (cases "dget (re_sources re) mdl")
    case (Some source)
    let ?e = "\<lparr>qe_type = event_type, qe_capsule = capsule, qe_provenance = rg_provenance source, qe_module = mdl\<rparr>"
    obtain c re' where run: "fold (publish_to w now ask ?e sid) (re_subscribers ?re) (0, ?re) = (c, re')" by fastforce
    then have "events_ok w given re'" if "entry_ok w ?e" using folded [OF that] by simp
    then show ?thesis using assms(1) Some run by (simp add: publish_def Let_def entry_ok_def)
  qed (use assms in \<open>simp add: publish_def\<close>)
qed

section \<open>Delivery\<close>

lemma drain_loop_ok: "events_ok w given re \<Longrightarrow> events_ok w given (snd (drain_loop w now ask fresh sid n re result))"
proof (induction n arbitrary: re result)
  case (Suc n)
  show ?case
  proof (cases "dget (re_subscribers re) sid")
    case (Some s)
    show ?thesis
    proof (cases "sb_queue s")
      case (Cons x rest)
      obtain k e where x: "x = (k, e)" by (cases x)
      have "queue_ok w (given sid) (re_queue_limit re) (s\<lparr>sb_queue := rest, sb_sequence := i\<rparr>)" for i
        using events_ok_get [OF Suc.prems Some] Cons by (auto simp: queue_ok_def)
      then have put: "events_ok w given (re\<lparr>re_subscribers := dset (re_subscribers re) sid (s\<lparr>sb_queue := rest, sb_sequence := i\<rparr>)\<rparr>)" for i
        using Suc.prems Some by (intro events_ok_dset) auto
      have gone: "events_ok w given (revoke_subscription sid (re\<lparr>re_subscribers := dset (re_subscribers re) sid (s\<lparr>sb_queue := rest, sb_sequence := i\<rparr>)\<rparr>))" for i
        by (rule events_ok_filter [OF put]) (simp add: revoke_filter)
      have skip: "events_ok w given (re\<lparr>re_subscribers := dset (re_subscribers re) sid (s\<lparr>sb_queue := rest\<rparr>)\<rparr>)"
        using put [of "sb_sequence s"] by simp
      show ?thesis
        using Suc.IH [OF skip] Suc.IH [OF put] Suc.IH [OF gone] put gone Some Cons x
        by (simp add: Let_def split: option.splits callback_effect.splits)
    qed (use Suc.prems Some in simp)
  qed (use Suc.prems in simp)
qed simp

lemma drain_ok: "events_ok w given re \<Longrightarrow> events_ok w given (snd (drain w now ask fresh sid limit re))"
  using expire_ok [of w given re now] drain_loop_ok by (auto simp: drain_def Let_def split: option.splits)

definition delivery_ok :: "wire \<Rightarrow> int \<Rightarrow> subscription \<Rightarrow> event_delivery \<Rightarrow> bool" where
  "delivery_ok w now s d \<longleftrightarrow>
     validate_capsule w (ie_context (dl_event d)) now None None None = Inr () \<and>
     cc_level (cx_content (ie_context (dl_event d))) = ''NONE'' \<and> dl_module d \<in> set (sb_modules s) \<and>
     ie_session_id (dl_event d) = sb_session_id s \<and> ie_created_at (dl_event d) = now"

abbreviation numbers :: "event_delivery list \<Rightarrow> int list" where
  "numbers ds \<equiv> map (\<lambda>d. ie_sequence (dl_event d)) ds"

definition numbered_from :: "int \<Rightarrow> event_delivery list \<Rightarrow> bool" where
  "numbered_from i ds \<longleftrightarrow> numbers ds = map (\<lambda>k. i + 1 + int k) [0..<length ds]"

lemma numbered_Nil [simp]: "numbered_from i []" by (simp add: numbered_from_def)

lemma numbered_Cons [simp]: "numbered_from i (d # ds) \<longleftrightarrow> ie_sequence (dl_event d) = i + 1 \<and> numbered_from (i + 1) ds"
  by (simp add: numbered_from_def upt_conv_Cons map_Suc_upt [symmetric] comp_def add.assoc del: upt_Suc)

lemma drain_loop_deliveries:
  assumes "drain_loop w now ask fresh sid n re acc = (Inr ds, re')" "dget (re_subscribers re) sid = Some s"
    "sb_modules s = sb_modules s0" "sb_session_id s = sb_session_id s0"
    "queue_ok w (given sid) limit s"
  shows "\<exists>new. ds = acc @ new \<and> length new \<le> n \<and> (\<forall>d \<in> set new. delivery_ok w now s0 d \<and>
      ask sid (ie_context (dl_event d)) \<and> given sid (ie_context (dl_event d))) \<and> numbered_from (sb_sequence s) new"
  using assms
proof (induction n arbitrary: re acc s)
  case (Suc n)
  show ?case
  proof (cases "sb_queue s")
    case Nil
    then show ?thesis using Suc.prems by simp
  next
    case (Cons x rest)
    obtain k e where x: "x = (k, e)" by (cases x)
    let ?next = "\<lambda>i. s\<lparr>sb_queue := rest, sb_sequence := i\<rparr>"
    let ?re = "\<lambda>i. re\<lparr>re_subscribers := dset (re_subscribers re) sid (?next i)\<rparr>"
    have queue: "queue_ok w (given sid) limit (?next i)" "queue_ok w (given sid) limit (s\<lparr>sb_queue := rest\<rparr>)" for i
      using Suc.prems(5) Cons by (auto simp: queue_ok_def)
    show ?thesis
    proof (cases "authorized w now (ask sid) (s\<lparr>sb_queue := rest\<rparr>) (qe_capsule e)")
      case False
      then have "drain_loop w now ask fresh sid n (re\<lparr>re_subscribers := dset (re_subscribers re) sid (s\<lparr>sb_queue := rest\<rparr>)\<rparr>) acc = (Inr ds, re')"
        using Suc.prems(1,2) Cons x by simp
      from Suc.IH [OF this] Suc.prems queue(2) show ?thesis by fastforce
    next
      case True
      let ?i = "sb_sequence s + 1"
      let ?event = "\<lparr>ie_event_id = fresh ?i, ie_session_id = sb_session_id s, ie_sequence = ?i, ie_event_type = qe_type e,
          ie_created_at = now, ie_context = qe_capsule e\<rparr>"
      let ?d = "\<lparr>dl_event = ?event, dl_provenance = qe_provenance e, dl_module = qe_module e\<rparr>"
      have d: "delivery_ok w now s0 ?d" "ie_sequence (dl_event ?d) = ?i" "ask sid (qe_capsule e)" "given sid (qe_capsule e)"
        using True Suc.prems(3-5) Cons x by (auto simp: delivery_ok_def authorized_def queue_ok_def)
      have run: "(if \<not> valid_interop_event w ?event then (Inl ValueError, ?re ?i)
           else (case sb_callback s of None \<Rightarrow> drain_loop w now ask fresh sid n (?re ?i) (acc @ [?d])
             | Some callback \<Rightarrow> (case callback ?d of Returns \<Rightarrow> drain_loop w now ask fresh sid n (?re ?i) (acc @ [?d])
                | Raises \<Rightarrow> (Inr acc, revoke_subscription sid (?re ?i))
                | Revokes \<Rightarrow> drain_loop w now ask fresh sid n (revoke_subscription sid (?re ?i)) (acc @ [?d])))) = (Inr ds, re')"
        using Suc.prems(1,2) Cons x True by (simp add: Let_def cong: if_cong option.case_cong callback_effect.case_cong)
      have again: ?thesis if go: "drain_loop w now ask fresh sid n (?re ?i) (acc @ [?d]) = (Inr ds, re')"
      proof -
        obtain new where "ds = (acc @ [?d]) @ new" "length new \<le> n" "\<forall>d \<in> set new. delivery_ok w now s0 d \<and>
          ask sid (ie_context (dl_event d)) \<and> given sid (ie_context (dl_event d))" "numbered_from ?i new"
          using Suc.IH [OF go, of "?next ?i"] Suc.prems(3-4) queue(1) by auto
        then show ?thesis using d by (intro exI [of _ "?d # new"]) simp
      qed
      have gone: "drain_loop w now ask fresh sid n (revoke_subscription sid (?re ?i)) (acc @ [?d]) = (Inr (acc @ [?d]), revoke_subscription sid (?re ?i))"
        by (cases n) (simp_all add: revoke_subscription_def)
      show ?thesis
        using run again d by (auto simp: gone split: if_splits option.splits callback_effect.splits)
    qed
  qed
qed simp

section \<open>Every history\<close>

lemma publish_polled_ok:
  assumes "events_ok w given re" "\<forall>(kind, c) \<in> set items. \<forall>k. ask k c \<longrightarrow> given k c"
  shows "events_ok w given (snd (snd (publish_polled w now ask mdl items n re)))"
  using assms
proof (induction items arbitrary: n re)
  case (Cons x items)
  obtain kind capsule where x: "x = (kind, capsule)" by (cases x)
  have "events_ok w given (snd (publish w now ask mdl kind capsule None re))"
    by (rule publish_ok [OF Cons.prems(1)]) (use Cons.prems(2) x in auto)
  then show ?case using Cons.IH Cons.prems(2) x by (auto split: prod.splits sum.splits)
qed simp

definition polled :: "(string \<Rightarrow> poll_outcome) \<Rightarrow> app_context_capsule set" where
  "polled polls = (\<Union>mdl. snd ` set (po_items (polls mdl)))"

lemma poll_source_ok:
  assumes "events_ok w given (snd acc)" "\<forall>c \<in> polled polls. \<forall>k. ask k c \<longrightarrow> given k c"
  shows "events_ok w given (snd (poll_source w now ask tick polls mdl acc))"
proof -
  have "\<forall>(kind, c) \<in> set (take (re_poll_batch_limit (snd acc)) (po_items (polls mdl))). \<forall>k. ask k c \<longrightarrow> given k c"
    using assms(2) by (fastforce simp: polled_def dest: in_set_takeD)
  from publish_polled_ok [OF assms(1) this, of now mdl 0] show ?thesis
    using assms(1) by (auto simp: poll_source_def Let_def events_ok_def split: option.splits prod.splits)
qed

lemma poll_due_ok:
  assumes ok: "events_ok w given re" and granted: "\<forall>c \<in> polled polls. \<forall>k. ask k c \<longrightarrow> given k c"
  shows "events_ok w given (snd (poll_due w now ask tick polls re))"
proof -
  have "events_ok w given (snd (fold (poll_source w now ask tick polls) ms (c, re')))" if "events_ok w given re'" for ms c re'
    using that
  proof (induction ms arbitrary: c re')
    case (Cons m ms)
    obtain c' re'' where step: "poll_source w now ask tick polls m (c, re') = (c', re'')" by fastforce
    then have "events_ok w given re''" using poll_source_ok [of w given "(c, re')" polls ask now tick m] Cons.prems granted by simp
    then show ?case using Cons.IH [of re'' c'] step by simp
  qed simp
  then show ?thesis using expire_ok [OF ok] by (simp add: poll_due_def Let_def)
qed

lemma accept_ok:
  assumes "events_ok w given re" "\<forall>k. ask k capsule \<longrightarrow> given k capsule"
  shows "events_ok w given (accept w now ask mdl current kind capsule re)"
  using publish_ok [where given = given and ask = ask, OF assms, of now mdl kind None]
  by (auto simp: accept_def events_ok_def split: prod.splits option.splits)

lemma events_ok_mono:
  assumes "events_ok w given re" "\<forall>k c. given k c \<longrightarrow> given' k c"
  shows "events_ok w given' re"
  using assms unfolding events_ok_def queue_ok_def by fastforce

text \<open>A step of the registry, with the grants given so far; a new subscription gets an identity not in
  use. Whatever publishes or polls adds the grants its callbacks give for what is published.\<close>

type_synonym history = "grants \<times> registry"

definition no_grants :: grants where "no_grants = (\<lambda>_ _. False)"

definition given_for :: "grants \<Rightarrow> grants \<Rightarrow> app_context_capsule set \<Rightarrow> grants" where
  "given_for given ask cs = (\<lambda>sid c. given sid c \<or> (c \<in> cs \<and> ask sid c))"

inductive registry_step :: "wire \<Rightarrow> history \<Rightarrow> history \<Rightarrow> bool" for w where
  registers: "register mdl kind provenance connects re = Inr re' \<Longrightarrow> registry_step w (g, re) (g, re')"
| subscribes: "dget (re_subscribers re) fresh = None \<Longrightarrow>
     subscribe now fresh session peer until callback modules re = (r, re') \<Longrightarrow> registry_step w (g, re) (g, re')"
| publishes: "publish w now ask mdl event_type capsule sid re = (r, re') \<Longrightarrow>
     registry_step w (g, re) (given_for g ask {capsule}, re')"
| accepts: "accept w now ask mdl current kind capsule re = re' \<Longrightarrow>
     registry_step w (g, re) (given_for g ask {capsule}, re')"
| drains: "drain w now ask fresh_id sid limit re = (d, re') \<Longrightarrow> registry_step w (g, re) (g, re')"
| polls: "poll_due w now ask tick ps re = (c, re') \<Longrightarrow> registry_step w (g, re) (given_for g ask (polled ps), re')"
| pauses: "registry_step w (g, re) (g, pause sid re)"
| resumes: "registry_step w (g, re) (g, resume now sid re)"
| revokes: "registry_step w (g, re) (g, revoke_subscription sid re)"
| disconnects: "registry_step w (g, re) (g, disconnect_peer peer re)"
| expires: "registry_step w (g, re) (g, expire now re)"
| clears: "registry_step w (g, re) (g, clear_subscriptions re)"
| shuts: "registry_step w (g, re) (g, shutdown_registry re)"

definition registry_init :: "registry \<Rightarrow> bool" where
  "registry_init re \<longleftrightarrow> (\<exists>q sub p m b mock. new_registry q sub p m b mock = Inr re)"

lemma registry_init_ok: "registry_init re \<Longrightarrow> events_ok w given re"
  by (auto simp: registry_init_def new_registry_def events_ok_def sbind_Inr_iff)

lemma clear_filter: "clear_subscriptions re = re\<lparr>re_subscribers := filter (\<lambda>kv. fst kv \<notin> set (dkeys (re_subscribers re))) (re_subscribers re)\<rparr>"
proof -
  have "fold (\<lambda>sid. revoke_subscription sid) ks re' = re'\<lparr>re_subscribers := filter (\<lambda>kv. fst kv \<notin> set ks) (re_subscribers re')\<rparr>" for ks re'
    by (induction ks arbitrary: re') (auto simp: revoke_filter intro!: arg_cong [where f = "\<lambda>xs. _\<lparr>re_subscribers := xs\<rparr>"] filter_cong)
  then show ?thesis by (simp add: clear_subscriptions_def)
qed

lemma given_for_ok: "events_ok w given re \<Longrightarrow> events_ok w (given_for given ask cs) re"
  by (erule events_ok_mono) (simp add: given_for_def)

lemma registry_step_ok:
  assumes "registry_step w x y" "case x of (given, re) \<Rightarrow> events_ok w given re"
  shows "case y of (given, re) \<Rightarrow> events_ok w given re"
  using assms
proof cases
  case (registers mdl kind provenance connects re re' g)
  then show ?thesis using assms(2) by (auto simp: register_def Let_def sbind_Inr_iff events_ok_def)
next
  case (subscribes re fresh now session peer until callback modules r re' g)
  then show ?thesis using subscribe_ok [of w g re fresh] assms(2) by (metis case_prod_conv snd_conv)
next
  case (publishes now ask mdl event_type capsule sid re r re' g)
  have "events_ok w (given_for g ask {capsule}) (snd (publish w now ask mdl event_type capsule sid re))"
    by (rule publish_ok [OF given_for_ok]) (use publishes assms(2) in \<open>simp_all add: given_for_def\<close>)
  then show ?thesis using publishes by simp
next
  case (accepts now ask mdl current kind capsule re re' g)
  have "events_ok w (given_for g ask {capsule}) (accept w now ask mdl current kind capsule re)"
    by (rule accept_ok [OF given_for_ok]) (use accepts assms(2) in \<open>simp_all add: given_for_def\<close>)
  then show ?thesis using accepts by simp
next
  case (drains now ask fresh_id sid limit re d re' g)
  then show ?thesis using drain_ok [of w g re now ask fresh_id sid limit] assms(2) by simp
next
  case (polls now ask tick ps re c re' g)
  have "events_ok w (given_for g ask (polled ps)) (snd (poll_due w now ask tick ps re))"
    by (rule poll_due_ok [OF given_for_ok]) (use polls assms(2) in \<open>simp_all add: given_for_def\<close>)
  then show ?thesis using polls by simp
next
  case (pauses g re sid)
  then show ?thesis using assms(2) by (auto simp: pause_def queue_ok_def intro!: update_ok)
next
  case (resumes g re now sid)
  then show ?thesis using expire_ok [of w g re now] assms(2) by (auto simp: resume_def queue_ok_def intro!: update_ok)
next
  case (revokes g re sid)
  then show ?thesis using events_ok_filter [OF _ revoke_filter] assms(2) by simp
next
  case (disconnects g re peer)
  then show ?thesis
    using events_ok_filter [OF _ revoke_fold [of "\<lambda>s. sb_peer_id s = peer" "re_subscribers re" re]] assms(2)
    by (simp add: disconnect_peer_def)
next
  case (expires g re now)
  then show ?thesis using expire_ok assms(2) by simp
next
  case (clears g re)
  then show ?thesis using events_ok_filter [OF _ clear_filter] assms(2) by simp
next
  case (shuts g re)
  then show ?thesis using events_ok_filter [OF _ clear_filter, of w g re] assms(2) by (simp add: shutdown_registry_def events_ok_def)
qed

definition history_init :: "history \<Rightarrow> bool" where
  "history_init h \<longleftrightarrow> fst h = no_grants \<and> registry_init (snd h)"

interpretation event_registry: transition_system history_init "registry_step w" "\<lambda>(given, re). events_ok w given re"
  by unfold_locales (auto simp: history_init_def registry_init_ok dest: registry_step_ok)

section \<open>What a drain hands out\<close>

text \<open>C36: in every reachable registry, a drain hands out no more than the queue holds, only while the
  grant of the subscription lasts and it is not paused. The authorisation callback answers from live
  state: whatever is handed out, it said yes to twice, when that capsule was published or polled and
  again at this delivery, however its answers changed in between. What is handed out is fresh at that
  moment, carries no content, is of a module asked for, and is numbered without gaps from the last
  delivery on.\<close>

theorem drained_events_authorised:
  assumes "registry_init re0" "(registry_step w)\<^sup>*\<^sup>* (no_grants, re0) (given, re)"
    "drain w now ask fresh sid limit re = (Inr ds, re')"
  shows "length ds \<le> re_queue_limit re \<and>
    (ds \<noteq> [] \<longrightarrow> (\<exists>s. dget (re_subscribers re) sid = Some s \<and> now < sb_expires_at s \<and> \<not> sb_paused s \<and>
       (\<forall>d \<in> set ds. delivery_ok w now s d \<and>
          given sid (ie_context (dl_event d)) \<and> ask sid (ie_context (dl_event d))) \<and>
       numbered_from (sb_sequence s) ds))"
proof (cases "dget (re_subscribers (expire now re)) sid")
  case None
  then show ?thesis using assms(3) by (simp add: drain_def)
next
  case (Some s)
  have "history_init (no_grants, re0)" using assms(1) by (simp add: history_init_def)
  then have ok: "events_ok w given re" using event_registry.inv_reachable [OF _ assms(2)] by simp
  then have live: "dget (re_subscribers re) sid = Some s" "now < sb_expires_at s"
    using expire_get [of re now sid s] Some by (simp_all add: events_ok_def)
  have queue: "queue_ok w (given sid) (re_queue_limit re) s" using ok live(1) by (rule events_ok_get)
  show ?thesis
  proof (cases "sb_paused s")
    case True
    then show ?thesis using assms(3) Some by (simp add: drain_def)
  next
    case False
    then obtain n where n: "n \<le> re_queue_limit re" "drain_loop w now ask fresh sid n (expire now re) [] = (Inr ds, re')"
      using assms(3) Some queue by (auto simp: drain_def Let_def queue_ok_def split: if_splits)
        (meson min.coboundedI2)
    from drain_loop_deliveries [where given = given, OF n(2) Some refl refl queue] n(1) live False show ?thesis by auto
  qed
qed

text \<open>One event: the tasks of the studio enrol, a peer subscribes, a capsule is published and drained.\<close>

definition bare :: registry where
  "bare = \<lparr>re_queue_limit = 2, re_subscriber_limit = 1, re_poll_interval = 1, re_max_idle_interval = 30,
     re_poll_batch_limit = 8, re_mock_only = False, re_sources = [], re_subscribers = []\<rparr>"

definition enrolled :: registry where
  "enrolled = bare\<lparr>re_sources := [(''PROJECT'', \<lparr>rg_provenance = DIRECT_EVENT, rg_polls = False, rg_next_poll = 0,
     rg_interval = 1, rg_failures = 0\<rparr>)]\<rparr>"

definition watcher :: subscription where
  "watcher = \<lparr>sb_session_id = ''s-1'', sb_peer_id = ''t-1'', sb_expires_at = 4000,
     sb_callback = None, sb_modules = MODULES, sb_paused = False, sb_sequence = 0, sb_dropped = 0, sb_queue = []\<rparr>"

definition waiting :: registry where
  "waiting = enrolled\<lparr>re_subscribers := [(''sub-1'', watcher\<lparr>sb_queue :=
     [(event_key ''PROJECT'' ''PROJECT_OPENED'' memo, \<lparr>qe_type = ''PROJECT_OPENED'', qe_capsule = memo,
        qe_provenance = DIRECT_EVENT, qe_module = ''PROJECT''\<rparr>)]\<rparr>)]\<rparr>"

definition memo_delivery :: event_delivery where
  "memo_delivery = \<lparr>dl_event = memo_event ''e-1'' 1, dl_provenance = DIRECT_EVENT, dl_module = ''PROJECT''\<rparr>"

lemma memo_live: "validate_capsule plain_wire memo 1000 None None None = Inr ()"
proof -
  have "canonical_hash plain_wire (dump_app_context_capsule plain_wire memo) [''capsule_hash''] = cx_capsule_hash memo"
    using memo_valid by (simp add: valid_app_context_capsule_def)
  then show ?thesis by (simp add: validate_capsule_def guard_def expects_def memo_def)
qed

lemma bare_init: "registry_init bare"
proof -
  have "new_registry 2 1 1 30 8 False = Inr bare" by (simp add: new_registry_def bare_def guard_def)
  then show ?thesis unfolding registry_init_def by blast
qed

text \<open>The peer's callback allows the memo when it is published; a later drain asks again.\<close>

definition memo_given :: grants where "memo_given = given_for no_grants (\<lambda>_ _. True) {memo}"

lemma waiting_reachable: "(registry_step plain_wire)\<^sup>*\<^sup>* (no_grants, bare) (memo_given, waiting)"
proof -
  let ?subscribed = "enrolled\<lparr>re_subscribers := [(''sub-1'', watcher)]\<rparr>"
  have "opaque ''s-1'' = Inr ''s-1''" "opaque ''t-1'' = Inr ''t-1''" by code_simp+
  then have "subscribe 1000 ''sub-1'' ''s-1'' ''t-1'' 4000 None None enrolled = (Inr ''sub-1'', ?subscribed)"
    by (simp add: subscribe_def expire_def enrolled_def bare_def guard_def watcher_def)
  moreover have "register ''PROJECT'' Direct None True bare = Inr enrolled"
    by (simp add: register_def bare_def enrolled_def MODULES_def guard_def)
  moreover have "publish plain_wire 1000 (\<lambda>_ _. True) ''PROJECT'' ''PROJECT_OPENED'' memo None ?subscribed = (Inr 1, waiting)"
    using memo_valid memo_live
    by (simp add: publish_def publish_to_def expire_def enrolled_def bare_def watcher_def waiting_def memo_fields
        authorized_def enqueue_def MODULES_def) (simp add: memo_def)
  moreover have "dget (re_subscribers enrolled) ''sub-1'' = None" by (simp add: enrolled_def bare_def)
  ultimately have "registry_step plain_wire (no_grants, bare) (no_grants, enrolled)"
    "registry_step plain_wire (no_grants, enrolled) (no_grants, ?subscribed)"
    "registry_step plain_wire (no_grants, ?subscribed) (memo_given, waiting)"
    unfolding memo_given_def by (blast intro: registers publishes subscribes)+
  then show ?thesis by (blast intro: rtranclp.rtrancl_refl rtranclp.rtrancl_into_rtrancl)
qed

lemma waiting_drained:
  "\<exists>re'. drain plain_wire 1000 (\<lambda>_ _. True) (\<lambda>_. ''e-1'') ''sub-1'' None waiting = (Inr [memo_delivery], re')"
  using memo_live memo_event_valid [of 1]
  by (simp add: drain_def expire_def waiting_def enrolled_def bare_def watcher_def authorized_def numeral_2_eq_2
      memo_event_def memo_delivery_def)

lemma waiting_refused:
  "\<exists>ds re'. drain plain_wire 1000 (\<lambda>_ _. False) (\<lambda>_. ''e-1'') ''sub-1'' None waiting = (Inr ds, re')"
  by (simp add: drain_def expire_def waiting_def enrolled_def bare_def watcher_def authorized_def numeral_2_eq_2)

text \<open>With the permission still given the memo is handed out; with the permission withdrawn between
  publication and delivery nothing is.\<close>

theorem drained_events_authorised_witness:
  "(\<exists>s. dget (re_subscribers waiting) ''sub-1'' = Some s \<and> delivery_ok plain_wire 1000 s memo_delivery) \<and>
   fst (drain plain_wire 1000 (\<lambda>_ _. False) (\<lambda>_. ''e-1'') ''sub-1'' None waiting) = Inr []"
proof
  obtain re' where "drain plain_wire 1000 (\<lambda>_ _. True) (\<lambda>_. ''e-1'') ''sub-1'' None waiting = (Inr [memo_delivery], re')"
    using waiting_drained by blast
  from drained_events_authorised [OF bare_init waiting_reachable this]
  show "\<exists>s. dget (re_subscribers waiting) ''sub-1'' = Some s \<and> delivery_ok plain_wire 1000 s memo_delivery" by auto
  obtain ds re'' where no: "drain plain_wire 1000 (\<lambda>_ _. False) (\<lambda>_. ''e-1'') ''sub-1'' None waiting = (Inr ds, re'')"
    using waiting_refused by blast
  from drained_events_authorised [OF bare_init waiting_reachable this] have "ds = []" by (cases ds) auto
  then show "fst (drain plain_wire 1000 (\<lambda>_ _. False) (\<lambda>_. ''e-1'') ''sub-1'' None waiting) = Inr []" using no by simp
qed

end
