(* ===== verification/Timeline.thy ===== *)
theory Timeline
  imports Prelude
begin

text \<open>
  The author's timeline document: the closed normalizers of
  \<open>app/services/studio_timeline_render.py\<close> (first schema), \<open>studio_timeline_schema.py\<close>
  (schemas two and three), \<open>studio_timeline_caption_style.py\<close> and the links of
  \<open>studio_timeline_links.py\<close>.

  \<^item> A value is what the request's JSON decodes to. A float is its exact value; the infinities and
    NaN, which fail every comparison with a bound, are \<open>VSpecial\<close>. Text is a list of code points.
  \<^item> A normalized document is a \<open>timeline\<close>: its tracks, and the dictionary of its other keys; a track
    likewise keeps its clips apart. \<open>timeline_value\<close> and \<open>track_value\<close> are the dictionaries themselves.
  \<^item> \<open>seen\<close> is what the loops over tracks and clips remember: the sets of identities and orders, the
    counts, and the snapshot first seen of each source.

  Shown in \<open>Timeline_Laws\<close>: a normalized document is a fixed point, and at no time does a video
  track show more than two pictures.
\<close>

section \<open>Values\<close>

datatype val =
  VNull
| VBool bool
| VInt int
| VFloat rat
| VSpecial
| VStr utext
| VList "val list"
| VDict "(string \<times> val) list"

type_synonym fields = "(string, val) dict"

datatype raised = Value_Error string | Key_Error | Type_Error

abbreviation invalid :: "string \<Rightarrow> raised + 'a" where "invalid code \<equiv> Inl (Value_Error code)"
abbreviation check :: "bool \<Rightarrow> string \<Rightarrow> raised + unit" where "check ok code \<equiv> guard ok (Value_Error code)"
abbreviation vtext :: "string \<Rightarrow> val" where "vtext s \<equiv> VStr (points s)"

text \<open>\<open>d.get(key, other)\<close>; \<open>d[key]\<close> where the key is known to be there.\<close>

definition getd :: "fields \<Rightarrow> string \<Rightarrow> val \<Rightarrow> val" where
  "getd d k other = (case dget d k of None \<Rightarrow> other | Some v \<Rightarrow> v)"

abbreviation fld :: "fields \<Rightarrow> string \<Rightarrow> val" where "fld d k \<equiv> getd d k VNull"

text \<open>\<open>==\<close> on such values: a boolean is the integer 0 or 1, numbers compare by value, dictionaries
  without regard to order. \<open>VSpecial\<close> stands for several floats and is equal to none.\<close>

fun numeric :: "val \<Rightarrow> rat option" where
  "numeric (VBool b) = Some (if b then 1 else 0)"
| "numeric (VInt i) = Some (of_int i)"
| "numeric (VFloat q) = Some q"
| "numeric v = None"

lemma size_val_nth: "x \<in> set xs \<Longrightarrow> size x < Suc (size_list size xs)"
  by (induction xs) auto

lemma size_val_entry: "(k, x) \<in> set d \<Longrightarrow> size x < Suc (size_list (size_prod f size) d)"
  by (induction d) auto

function py_eq :: "val \<Rightarrow> val \<Rightarrow> bool" where
  "py_eq v w = (case (v, w) of
     (VNull, VNull) \<Rightarrow> True
   | (VStr s, VStr t) \<Rightarrow> s = t
   | (VList xs, VList ys) \<Rightarrow> length xs = length ys \<and> list_all (\<lambda>(x, y). py_eq x y) (zip xs ys)
   | (VDict d, VDict e) \<Rightarrow> length d = length e \<and>
       list_all (\<lambda>(k, x). case dget e k of None \<Rightarrow> False | Some y \<Rightarrow> py_eq x y) d
   | _ \<Rightarrow> (case (numeric v, numeric w) of (Some a, Some b) \<Rightarrow> a = b | _ \<Rightarrow> False))"
  by pat_completeness auto

termination
  by (relation "measure (\<lambda>(v, w). size v)")
    (auto dest!: set_zip_leftD intro: size_val_nth size_val_entry simp flip: less_Suc_eq_le)

declare py_eq.simps [simp del]

text \<open>One equation per kind of value, for evaluation.\<close>

lemma py_eq_eval [code]:
  "py_eq VNull w = (case w of VNull \<Rightarrow> True | _ \<Rightarrow> False)"
  "py_eq (VStr s) w = (case w of VStr t \<Rightarrow> s = t | _ \<Rightarrow> False)"
  "py_eq (VList xs) w = (case w of VList ys \<Rightarrow> length xs = length ys \<and> list_all (\<lambda>(x, y). py_eq x y) (zip xs ys) | _ \<Rightarrow> False)"
  "py_eq (VDict d) w = (case w of VDict e \<Rightarrow> length d = length e \<and>
     list_all (\<lambda>(k, x). case dget e k of None \<Rightarrow> False | Some y \<Rightarrow> py_eq x y) d | _ \<Rightarrow> False)"
  "py_eq (VBool b) w = (numeric w = Some (if b then 1 else 0))"
  "py_eq (VInt i) w = (numeric w = Some (of_int i))"
  "py_eq (VFloat q) w = (numeric w = Some q)"
  "py_eq VSpecial w = False"
  by (subst py_eq.simps; cases w; auto)+

section \<open>Fields of a request\<close>

text \<open>\<open>_object\<close>, \<open>_integer\<close>, \<open>_identity\<close>, \<open>_boolean\<close> and the \<open>number\<close> of the second schema.\<close>

definition object_of :: "val \<Rightarrow> string list \<Rightarrow> string list \<Rightarrow> raised + fields" where
  "object_of v allowed required = (case v of
     VDict d \<Rightarrow> if set (dkeys d) \<subseteq> set allowed \<and> set required \<subseteq> set (dkeys d) then Inr d
                else invalid ''STUDIO_TIMELINE_FIELDS_INVALID''
   | _ \<Rightarrow> invalid ''STUDIO_TIMELINE_FIELDS_INVALID'')"

definition integer_of :: "val \<Rightarrow> int \<Rightarrow> int \<Rightarrow> raised + int" where
  "integer_of v lo hi = (case v of
     VInt i \<Rightarrow> if lo \<le> i \<and> i \<le> hi then Inr i else invalid ''STUDIO_TIMELINE_INTEGER_INVALID''
   | _ \<Rightarrow> invalid ''STUDIO_TIMELINE_INTEGER_INVALID'')"

definition ascii_alnum :: "nat \<Rightarrow> bool" where
  "ascii_alnum c \<longleftrightarrow> 48 \<le> c \<and> c \<le> 57 \<or> 65 \<le> c \<and> c \<le> 90 \<or> 97 \<le> c \<and> c \<le> 122"

text \<open>\<open>[A-Za-z0-9][A-Za-z0-9_-]{0,239}\<close>\<close>

definition id_text :: "utext \<Rightarrow> bool" where
  "id_text s \<longleftrightarrow> (case s of [] \<Rightarrow> False
     | c # cs \<Rightarrow> ascii_alnum c \<and> length cs \<le> 239 \<and> list_all (\<lambda>c. ascii_alnum c \<or> c = 95 \<or> c = 45) cs)"

definition identity_of :: "val \<Rightarrow> raised + utext" where
  "identity_of v = (case v of VStr s \<Rightarrow> if id_text s then Inr s else invalid ''STUDIO_TIMELINE_ID_INVALID''
     | _ \<Rightarrow> invalid ''STUDIO_TIMELINE_ID_INVALID'')"

definition boolean_of :: "val \<Rightarrow> raised + bool" where
  "boolean_of v = (case v of VBool b \<Rightarrow> Inr b | _ \<Rightarrow> invalid ''STUDIO_TIMELINE_BOOLEAN_INVALID'')"

text \<open>\<open>float(value)\<close> of an integer is exact here: every bound is small.\<close>

definition number_of :: "val \<Rightarrow> rat \<Rightarrow> rat \<Rightarrow> string \<Rightarrow> raised + rat" where
  "number_of v lo hi code =
     (case (case v of VInt i \<Rightarrow> Some (of_int i) | VFloat q \<Rightarrow> Some q | _ \<Rightarrow> None) of
        Some q \<Rightarrow> if lo \<le> q \<and> q \<le> hi then Inr q else invalid code
      | None \<Rightarrow> invalid code)"

text \<open>\<open>[a-f0-9]{64}\<close>\<close>

definition digest_text :: "val \<Rightarrow> bool" where
  "digest_text v = (case v of VStr s \<Rightarrow> length s = 64 \<and> list_all (\<lambda>c. 97 \<le> c \<and> c \<le> 102 \<or> 48 \<le> c \<and> c \<le> 57) s
     | _ \<Rightarrow> False)"

text \<open>Reading a field whose type is already established.\<close>

definition int_fld :: "fields \<Rightarrow> string \<Rightarrow> int" where
  "int_fld d k = (case fld d k of VInt i \<Rightarrow> i | _ \<Rightarrow> 0)"

definition text_fld :: "fields \<Rightarrow> string \<Rightarrow> utext" where
  "text_fld d k = (case fld d k of VStr s \<Rightarrow> s | _ \<Rightarrow> [])"

definition clip_duration_ms :: "fields \<Rightarrow> raised + int" where
  "clip_duration_ms clip = (case (getd clip ''speed_num'' (VInt 1), getd clip ''speed_den'' (VInt 1), fld clip ''in_ms'', fld clip ''out_ms'') of
     (VInt num, VInt den, VInt start, VInt stop) \<Rightarrow>
       sbind (check (1 \<le> num \<and> num \<le> 4 \<and> 1 \<le> den \<and> den \<le> 4) ''STUDIO_TIMELINE_SPEED_INVALID'') (\<lambda>_.
       let duration = (stop - start) * den div num
       in sbind (check (1 \<le> duration \<and> (stop - start) * den mod num = 0) ''STUDIO_TIMELINE_SPEED_REQUIRES_EXACT_MILLISECONDS'') (\<lambda>_.
          Inr duration))
   | _ \<Rightarrow> invalid ''STUDIO_TIMELINE_SPEED_INVALID'')"

section \<open>Documents\<close>

record track =
  tk_fields :: fields
  tk_clips :: "fields list"

record timeline =
  tl_fields :: fields
  tl_tracks :: "track list"

definition track_value :: "track \<Rightarrow> val" where
  "track_value t = VDict (tk_fields t @ [(''clips'', VList (map VDict (tk_clips t)))])"

definition timeline_value :: "timeline \<Rightarrow> val" where
  "timeline_value t = VDict (tl_fields t @ [(''tracks'', VList (map track_value (tl_tracks t)))])"

record canvas =
  cv_duration :: int
  cv_width :: int
  cv_height :: int
  cv_fps :: int

record seen =
  sn_ids :: "utext list"
  sn_orders :: "int list"
  sn_video :: nat
  sn_audio :: nat
  sn_clips :: "utext list"
  sn_sources :: "(utext, fields) dict"

definition nothing_seen :: seen where
  "nothing_seen = \<lparr>sn_ids = [], sn_orders = [], sn_video = 0, sn_audio = 0, sn_clips = [], sn_sources = []\<rparr>"

definition MAX_DURATION_MS :: int where "MAX_DURATION_MS = 600000"
definition MAX_CLIPS :: nat where "MAX_CLIPS = 30"
definition MAX_CAPTION_CHARACTERS :: nat where "MAX_CAPTION_CHARACTERS = 32000"

section \<open>Parts both schemas share\<close>

definition canvas_of :: "fields \<Rightarrow> raised + canvas" where
  "canvas_of row =
     sbind (integer_of (fld row ''duration_ms'') 1 MAX_DURATION_MS) (\<lambda>duration.
     sbind (integer_of (getd row ''width'' (VInt 1280)) 16 1920) (\<lambda>width.
     sbind (integer_of (getd row ''height'' (VInt 720)) 16 1080) (\<lambda>height.
     sbind (integer_of (getd row ''fps'' (VInt 24)) 1 60) (\<lambda>fps.
     sbind (check (even width \<and> even height) ''STUDIO_TIMELINE_EVEN_DIMENSIONS_REQUIRED'') (\<lambda>_.
     Inr \<lparr>cv_duration = duration, cv_width = width, cv_height = height, cv_fps = fps\<rparr>)))))"

definition tracks_field :: "fields \<Rightarrow> raised + val list" where
  "tracks_field row = (case fld row ''tracks'' of
     VList xs \<Rightarrow> if 1 \<le> length xs \<and> length xs \<le> 8 then Inr xs else invalid ''STUDIO_TIMELINE_TRACK_LIMIT''
   | _ \<Rightarrow> invalid ''STUDIO_TIMELINE_TRACK_LIMIT'')"

definition clips_field :: "fields \<Rightarrow> raised + val list" where
  "clips_field row = (case fld row ''clips'' of
     VList xs \<Rightarrow> if 1 \<le> length xs \<and> length xs \<le> MAX_CLIPS then Inr xs else invalid ''STUDIO_TIMELINE_CLIP_LIMIT''
   | _ \<Rightarrow> invalid ''STUDIO_TIMELINE_CLIP_LIMIT'')"

text \<open>Identity, order and kind of a track, checked against the tracks before it.\<close>

definition enter_track :: "utext \<Rightarrow> int \<Rightarrow> bool \<Rightarrow> seen \<Rightarrow> raised + seen" where
  "enter_track tid order video sn =
     (let sn = sn\<lparr>sn_ids := tid # sn_ids sn, sn_orders := order # sn_orders sn,
                  sn_video := sn_video sn + (if video then 1 else 0), sn_audio := sn_audio sn + (if video then 0 else 1)\<rparr>
      in sbind (check ((if video then sn_video sn else sn_audio sn) \<le> 4) ''STUDIO_TIMELINE_TRACK_KIND_LIMIT'') (\<lambda>_. Inr sn))"

definition enter_clip :: "utext \<Rightarrow> seen \<Rightarrow> raised + seen" where
  "enter_clip cid sn =
     sbind (check (cid \<notin> set (sn_clips sn)) ''STUDIO_TIMELINE_CLIP_ID_DUPLICATE'') (\<lambda>_.
     let sn = sn\<lparr>sn_clips := cid # sn_clips sn\<rparr>
     in sbind (check (length (sn_clips sn) \<le> MAX_CLIPS) ''STUDIO_TIMELINE_CLIP_LIMIT'') (\<lambda>_. Inr sn))"

text \<open>\<open>sources.setdefault(id, snapshot) != snapshot\<close>\<close>

definition enter_source :: "utext \<Rightarrow> fields \<Rightarrow> seen \<Rightarrow> raised + seen" where
  "enter_source sid snapshot sn = (case dget (sn_sources sn) sid of
     None \<Rightarrow> Inr (sn\<lparr>sn_sources := dset (sn_sources sn) sid snapshot\<rparr>)
   | Some previous \<Rightarrow> sbind (check (previous = snapshot) ''STUDIO_TIMELINE_SOURCE_SNAPSHOT_CONFLICT'') (\<lambda>_. Inr sn))"

definition source_of :: "val \<Rightarrow> raised + fields" where
  "source_of v = object_of v [''id'', ''kind'', ''asset_kind'', ''version'', ''digest'']
     [''id'', ''kind'', ''asset_kind'', ''version'', ''digest'']"

definition snapshot_of :: "utext \<Rightarrow> val \<Rightarrow> int \<Rightarrow> val \<Rightarrow> fields" where
  "snapshot_of sid asset_kind version digest = [(''id'', VStr sid), (''kind'', vtext ''ASSET''), (''asset_kind'', asset_kind),
     (''version'', VInt version), (''digest'', digest)]"

definition geometry_of :: "canvas \<Rightarrow> fields \<Rightarrow> raised + int \<times> int \<times> int \<times> int" where
  "geometry_of cv clip =
     sbind (integer_of (getd clip ''x'' (VInt 0)) 0 (cv_width cv - 16)) (\<lambda>x.
     sbind (integer_of (getd clip ''y'' (VInt 0)) 0 (cv_height cv - 16)) (\<lambda>y.
     sbind (integer_of (getd clip ''width'' (VInt (cv_width cv - x))) 16 (cv_width cv - x)) (\<lambda>w.
     sbind (integer_of (getd clip ''height'' (VInt (cv_height cv - y))) 16 (cv_height cv - y)) (\<lambda>h.
     sbind (check (even w \<and> even h) ''STUDIO_TIMELINE_EVEN_DIMENSIONS_REQUIRED'') (\<lambda>_.
     Inr (x, y, w, h))))))"

definition geometry_fields :: "int \<times> int \<times> int \<times> int \<Rightarrow> fields" where
  "geometry_fields g = (case g of (x, y, w, h) \<Rightarrow>
     [(''x'', VInt x), (''y'', VInt y), (''width'', VInt w), (''height'', VInt h)])"

definition sort_clips :: "fields list \<Rightarrow> fields list" where
  "sort_clips = sort_key (\<lambda>c. (int_fld c ''start_ms'', text_fld c ''id''))"

definition sort_tracks :: "track list \<Rightarrow> track list" where
  "sort_tracks = sort_key (\<lambda>t. int_fld (tk_fields t) ''order'')"

section \<open>Captions\<close>

text \<open>\<open>str.strip\<close> leaves something: some character is not white space.\<close>

definition py_space :: "nat \<Rightarrow> bool" where
  "py_space c \<longleftrightarrow> 9 \<le> c \<and> c \<le> 13 \<or> 28 \<le> c \<and> c \<le> 32 \<or> c = 133 \<or> c = 160 \<or> c = 5760 \<or> 8192 \<le> c \<and> c \<le> 8202 \<or>
     c = 8232 \<or> c = 8233 \<or> c = 8239 \<or> c = 8287 \<or> c = 12288"

definition not_blank :: "utext \<Rightarrow> bool" where "not_blank s \<longleftrightarrow> list_ex (\<lambda>c. \<not> py_space c) s"

text \<open>\<open>text.replace("\\r\\n", "\\n")\<close>\<close>

fun unix_lines :: "utext \<Rightarrow> utext" where
  "unix_lines [] = []"
| "unix_lines (c # cs) = (if c = 13 \<and> cs \<noteq> [] \<and> hd cs = 10 then unix_lines cs else c # unix_lines cs)"

fun split_lines :: "utext \<Rightarrow> utext list" where
  "split_lines [] = [[]]"
| "split_lines (c # cs) = (if c = 10 then [] # split_lines cs
     else (case split_lines cs of [] \<Rightarrow> [[c]] | l # ls \<Rightarrow> (c # l) # ls))"

fun has_arrow :: "utext \<Rightarrow> bool" where
  "has_arrow (a # b # c # cs) = (a = 45 \<and> b = 45 \<and> c = 62 \<or> has_arrow (b # c # cs))"
| "has_arrow s = False"

definition literal_text :: "utext \<Rightarrow> bool" where
  "literal_text s \<longleftrightarrow> length (filter (\<lambda>c. c = 10) s) \<le> 7 \<and> \<not> has_arrow s \<and> list_all not_blank (split_lines s) \<and>
     list_all (\<lambda>c. \<not> (c < 32 \<and> c \<noteq> 10 \<or> c = 127 \<or> 0xD800 \<le> c \<and> c \<le> 0xDFFF)) s \<and>
     list_all (\<lambda>c. c \<notin> set (points ''{}<>'') \<and> c \<noteq> 92) s"

definition caption_of :: "canvas \<Rightarrow> val \<Rightarrow> raised + int \<times> int \<times> utext" where
  "caption_of cv raw =
     sbind (object_of raw [''start_ms'', ''end_ms'', ''text''] [''start_ms'', ''end_ms'', ''text'']) (\<lambda>cue.
     sbind (integer_of (fld cue ''start_ms'') 0 (cv_duration cv - 1)) (\<lambda>start.
     sbind (integer_of (fld cue ''end_ms'') 1 (cv_duration cv)) (\<lambda>stop.
     case fld cue ''text'' of
       VStr text \<Rightarrow>
         sbind (check (not_blank text \<and> length text \<le> 1000) ''STUDIO_TIMELINE_CAPTION_TEXT_INVALID'') (\<lambda>_.
         let text = unix_lines text
         in sbind (check (start < stop \<and> literal_text text) ''STUDIO_TIMELINE_CAPTION_LITERAL_TEXT_REQUIRED'') (\<lambda>_.
            Inr (start, stop, text)))
     | _ \<Rightarrow> invalid ''STUDIO_TIMELINE_CAPTION_TEXT_INVALID'')))"

fun captions_loop :: "canvas \<Rightarrow> val list \<Rightarrow> nat \<Rightarrow> raised + (int \<times> int \<times> utext) list" where
  "captions_loop cv [] characters = Inr []"
| "captions_loop cv (raw # raws) characters =
     sbind (caption_of cv raw) (\<lambda>cue.
     let characters = characters + length (snd (snd cue))
     in sbind (check (characters \<le> MAX_CAPTION_CHARACTERS) ''STUDIO_TIMELINE_CAPTION_LIMIT'') (\<lambda>_.
        sbind (captions_loop cv raws characters) (\<lambda>cues. Inr (cue # cues))))"

definition cue_value :: "int \<times> int \<times> utext \<Rightarrow> val" where
  "cue_value cue = (case cue of (start, stop, text) \<Rightarrow>
     VDict [(''start_ms'', VInt start), (''end_ms'', VInt stop), (''text'', VStr text)])"

definition captions_of :: "canvas \<Rightarrow> fields \<Rightarrow> raised + val" where
  "captions_of cv row = (case getd row ''captions'' (VList []) of
     VList raws \<Rightarrow>
       if length raws \<le> 500
       then sbind (captions_loop cv raws 0) (\<lambda>cues. Inr (VList (map cue_value (sort cues))))
       else invalid ''STUDIO_TIMELINE_CAPTION_LIMIT''
   | _ \<Rightarrow> invalid ''STUDIO_TIMELINE_CAPTION_LIMIT'')"

text \<open>\<open>normalize_caption_style\<close>\<close>

definition hex_color :: "utext \<Rightarrow> bool" where
  "hex_color s \<longleftrightarrow> length s = 7 \<and> hd s = 35 \<and>
     list_all (\<lambda>c. 48 \<le> c \<and> c \<le> 57 \<or> 97 \<le> c \<and> c \<le> 102 \<or> 65 \<le> c \<and> c \<le> 70) (tl s)"

definition upper_ascii :: "nat \<Rightarrow> nat" where "upper_ascii c = (if 97 \<le> c \<and> c \<le> 122 then c - 32 else c)"

definition normalize_caption_style :: "val \<Rightarrow> raised + val" where
  "normalize_caption_style v =
     sbind (object_of v [''font_size'', ''primary_color'', ''alignment'', ''outline_width'']
       [''font_size'', ''primary_color'', ''alignment'', ''outline_width'']) (\<lambda>row.
     case fld row ''primary_color'' of
       VStr color \<Rightarrow>
         if \<not> hex_color color then invalid ''STUDIO_TIMELINE_CAPTION_COLOR_INVALID''
         else
           let alignment = fld row ''alignment''
           in sbind (check (alignment \<in> {vtext ''TOP_CENTER'', vtext ''BOTTOM_CENTER''}) ''STUDIO_TIMELINE_CAPTION_ALIGNMENT_INVALID'') (\<lambda>_.
              sbind (integer_of (fld row ''font_size'') 8 72) (\<lambda>font_size.
              sbind (integer_of (fld row ''outline_width'') 0 4) (\<lambda>outline_width.
              Inr (VDict [(''font_size'', VInt font_size), (''primary_color'', VStr (map upper_ascii color)),
                (''alignment'', alignment), (''outline_width'', VInt outline_width)]))))
     | _ \<Rightarrow> invalid ''STUDIO_TIMELINE_CAPTION_COLOR_INVALID'')"

end
