(* ===== verification/Timeline_Normal.thy ===== *)
theory Timeline_Normal
  imports Timeline
begin

text \<open>
  \<open>normalize_studio_timeline\<close> and \<open>normalize_timeline_v2\<close>: which documents are accepted, and the one
  form each is stored in. The loops over tracks and clips are one \<open>sfold\<close> that threads \<open>seen\<close>; the
  first check that fails gives the error, in the order of the code.
\<close>

definition as_fields :: "val \<Rightarrow> fields" where
  "as_fields v = (case v of VDict d \<Rightarrow> d | _ \<Rightarrow> [])"

definition is_video :: "val \<Rightarrow> bool" where "is_video kind \<longleftrightarrow> kind = vtext ''VIDEO''"

section \<open>The first schema\<close>

definition clip_v1 :: "canvas \<Rightarrow> bool \<Rightarrow> seen \<Rightarrow> val \<Rightarrow> raised + seen \<times> fields" where
  "clip_v1 cv video sn raw =
     sbind (object_of raw [''id'', ''source_snapshot'', ''start_ms'', ''in_ms'', ''out_ms'', ''x'', ''y'', ''width'', ''height'']
       [''id'', ''source_snapshot'', ''start_ms'', ''in_ms'', ''out_ms'']) (\<lambda>clip.
     sbind (identity_of (fld clip ''id'')) (\<lambda>cid.
     sbind (enter_clip cid sn) (\<lambda>sn.
     sbind (source_of (fld clip ''source_snapshot'')) (\<lambda>source.
     sbind (identity_of (fld source ''id'')) (\<lambda>sid.
     sbind (integer_of (fld source ''version'') 1 (2 ^ 53 - 1)) (\<lambda>version.
     let asset_kind = vtext (if video then ''video'' else ''audio'');
         snapshot = snapshot_of sid asset_kind version (fld source ''digest'')
     in
     sbind (check (fld source ''kind'' = vtext ''ASSET'' \<and> fld source ''asset_kind'' = asset_kind \<and>
        digest_text (fld source ''digest'')) ''STUDIO_TIMELINE_SOURCE_INVALID'') (\<lambda>_.
     sbind (enter_source sid snapshot sn) (\<lambda>sn.
     sbind (integer_of (fld clip ''start_ms'') 0 (cv_duration cv - 1)) (\<lambda>placement.
     sbind (integer_of (fld clip ''in_ms'') 0 36000000) (\<lambda>start.
     sbind (integer_of (fld clip ''out_ms'') 1 36000000) (\<lambda>stop.
     sbind (check (\<not> (stop \<le> start \<or> placement + stop - start > cv_duration cv)) ''STUDIO_TIMELINE_CLIP_RANGE_INVALID'') (\<lambda>_.
     let item = [(''id'', VStr cid), (''source_snapshot'', VDict snapshot), (''start_ms'', VInt placement),
                 (''in_ms'', VInt start), (''out_ms'', VInt stop)]
     in if video then sbind (geometry_of cv clip) (\<lambda>g. Inr (sn, item @ geometry_fields g))
        else sbind (check (\<forall>k \<in> {''x'', ''y'', ''width'', ''height''}. dget clip k = None)
               ''STUDIO_TIMELINE_VIDEO_GEOMETRY_REQUIRES_VIDEO'') (\<lambda>_. Inr (sn, item))))))))))))))"

text \<open>The loops over the clips of a track and over the tracks: one body, which threads \<open>seen\<close>.\<close>

definition collect :: "(seen \<Rightarrow> val \<Rightarrow> raised + seen \<times> 'a) \<Rightarrow> seen \<Rightarrow> val list \<Rightarrow> raised + seen \<times> 'a list" where
  "collect body sn raws = sfold (\<lambda>(sn, xs) raw. sbind (body sn raw) (\<lambda>(sn, x). Inr (sn, xs @ [x]))) (sn, []) raws"

definition overlap_free :: "fields list \<Rightarrow> bool" where
  "overlap_free clips \<longleftrightarrow> list_all (\<lambda>(l, r). int_fld l ''start_ms'' + int_fld l ''out_ms'' - int_fld l ''in_ms'' \<le> int_fld r ''start_ms'')
     (zip clips (tl clips))"

definition track_v1 :: "canvas \<Rightarrow> seen \<Rightarrow> val \<Rightarrow> raised + seen \<times> track" where
  "track_v1 cv sn raw =
     sbind (object_of raw [''id'', ''kind'', ''order'', ''muted'', ''gain_db'', ''clips''] [''id'', ''kind'', ''order'', ''clips'']) (\<lambda>track.
     sbind (identity_of (fld track ''id'')) (\<lambda>tid.
     sbind (integer_of (fld track ''order'') 0 7) (\<lambda>order.
     let kind = fld track ''kind''; video = is_video kind
     in
     sbind (check (kind \<in> {vtext ''VIDEO'', vtext ''AUDIO''} \<and> tid \<notin> set (sn_ids sn) \<and> order \<notin> set (sn_orders sn))
       ''STUDIO_TIMELINE_TRACK_ID_ORDER_KIND_INVALID'') (\<lambda>_.
     sbind (enter_track tid order video sn) (\<lambda>sn.
     sbind (boolean_of (getd track ''muted'' (VBool False))) (\<lambda>muted.
     sbind (number_of (getd track ''gain_db'' (VFloat 0)) (-60) 12 ''STUDIO_TIMELINE_AUDIO_GAIN_INVALID'') (\<lambda>gain.
     sbind (check (\<not> (video \<and> gain \<noteq> 0)) ''STUDIO_TIMELINE_GAIN_REQUIRES_AUDIO'') (\<lambda>_.
     sbind (clips_field track) (\<lambda>raws.
     sbind (collect (clip_v1 cv video) sn raws) (\<lambda>(sn, clips).
     let clips = sort_clips clips
     in
     sbind (check (\<not> (video \<and> \<not> overlap_free clips)) ''STUDIO_TIMELINE_SAME_VIDEO_TRACK_OVERLAP'') (\<lambda>_.
     Inr (sn, \<lparr>tk_fields = [(''id'', VStr tid), (''kind'', kind), (''order'', VInt order), (''muted'', VBool muted),
                (''gain_db'', VFloat gain)], tk_clips = clips\<rparr>))))))))))))"

definition normalize_v1 :: "val \<Rightarrow> raised + timeline" where
  "normalize_v1 v =
     sbind (object_of v [''duration_ms'', ''width'', ''height'', ''fps'', ''tracks'', ''captions''] [''duration_ms'', ''tracks'']) (\<lambda>row.
     sbind (canvas_of row) (\<lambda>cv.
     sbind (tracks_field row) (\<lambda>raws.
     sbind (collect (track_v1 cv) nothing_seen raws) (\<lambda>(sn, tracks).
     sbind (check (sn_video sn \<noteq> 0) ''STUDIO_TIMELINE_VIDEO_TRACK_REQUIRED'') (\<lambda>_.
     sbind (captions_of cv row) (\<lambda>captions.
     Inr \<lparr>tl_fields = [(''duration_ms'', VInt (cv_duration cv)), (''width'', VInt (cv_width cv)), (''height'', VInt (cv_height cv)),
            (''fps'', VInt (cv_fps cv)), (''captions'', captions)], tl_tracks = sort_tracks tracks\<rparr>))))))"

section \<open>The second and third schema\<close>

definition optional_field :: "string \<Rightarrow> (val \<Rightarrow> raised + val) \<Rightarrow> fields \<Rightarrow> raised + fields" where
  "optional_field key f d = (case dget d key of None \<Rightarrow> Inr [] | Some v \<Rightarrow> sbind (f v) (\<lambda>w. Inr [(key, w)]))"

definition color_of :: "val \<Rightarrow> raised + val" where
  "color_of v = sbind (object_of v [''brightness'', ''contrast'', ''saturation''] [''brightness'', ''contrast'', ''saturation'']) (\<lambda>color.
     sbind (number_of (fld color ''brightness'') (-1) 1 ''STUDIO_TIMELINE_COLOR_ADJUSTMENT_INVALID'') (\<lambda>brightness.
     sbind (number_of (fld color ''contrast'') 0 2 ''STUDIO_TIMELINE_COLOR_ADJUSTMENT_INVALID'') (\<lambda>contrast.
     sbind (number_of (fld color ''saturation'') 0 3 ''STUDIO_TIMELINE_COLOR_ADJUSTMENT_INVALID'') (\<lambda>saturation.
     Inr (VDict [(''brightness'', VFloat brightness), (''contrast'', VFloat contrast), (''saturation'', VFloat saturation)])))))"

definition crop_of :: "val \<Rightarrow> raised + val" where
  "crop_of v = sbind (object_of v [''x'', ''y'', ''width'', ''height''] [''x'', ''y'', ''width'', ''height'']) (\<lambda>crop.
     sbind (integer_of (fld crop ''x'') 0 32767) (\<lambda>x.
     sbind (integer_of (fld crop ''y'') 0 32767) (\<lambda>y.
     sbind (integer_of (fld crop ''width'') 1 32768) (\<lambda>w.
     sbind (integer_of (fld crop ''height'') 1 32768) (\<lambda>h.
     Inr (VDict (geometry_fields (x, y, w, h))))))))"

text \<open>\<open>math.ceil(2000 / fps)\<close>\<close>

definition transition_of :: "canvas \<Rightarrow> val \<Rightarrow> raised + val" where
  "transition_of cv v = sbind (object_of v [''kind'', ''to_clip_id'', ''duration_ms''] [''kind'', ''to_clip_id'', ''duration_ms'']) (\<lambda>tr.
     sbind (check (fld tr ''kind'' = vtext ''CROSS_DISSOLVE'') ''STUDIO_TIMELINE_TRANSITION_KIND_INVALID'') (\<lambda>_.
     sbind (identity_of (fld tr ''to_clip_id'')) (\<lambda>target.
     sbind (integer_of (fld tr ''duration_ms'') (- ((- 2000) div cv_fps cv)) 10000) (\<lambda>duration.
     Inr (VDict [(''kind'', vtext ''CROSS_DISSOLVE''), (''to_clip_id'', VStr target), (''duration_ms'', VInt duration)])))))"

definition CLIP_FIELDS :: "string list" where
  "CLIP_FIELDS = [''id'', ''source_snapshot'', ''start_ms'', ''in_ms'', ''out_ms'', ''x'', ''y'', ''width'', ''height'',
     ''speed_num'', ''speed_den'', ''opacity'', ''gain_db'', ''muted'', ''fade_in_ms'', ''fade_out_ms'', ''include_audio'',
     ''crop'', ''transition_out'', ''color_adjustment'']"

text \<open>The picture of a clip on a video track.\<close>

definition picture_of :: "canvas \<Rightarrow> fields \<Rightarrow> fields \<Rightarrow> raised + fields" where
  "picture_of cv clip item =
     sbind (geometry_of cv clip) (\<lambda>g.
     sbind (number_of (getd clip ''opacity'' (VFloat 1)) 0 1 ''STUDIO_TIMELINE_OPACITY_INVALID'') (\<lambda>opacity.
     sbind (boolean_of (getd clip ''include_audio'' (VBool False))) (\<lambda>include_audio.
     sbind (check (\<not> (fld (as_fields (fld item ''source_snapshot'')) ''asset_kind'' = vtext ''image'' \<and>
          (int_fld item ''in_ms'' \<noteq> 0 \<or> int_fld item ''speed_num'' \<noteq> int_fld item ''speed_den'' \<or> include_audio)))
       ''STUDIO_TIMELINE_STILL_RANGE_INVALID'') (\<lambda>_.
     sbind (check (\<not> (\<not> include_audio \<and> fld item ''gain_db'' \<noteq> VFloat 0)) ''STUDIO_TIMELINE_GAIN_REQUIRES_AUDIO'') (\<lambda>_.
     sbind (optional_field ''color_adjustment'' color_of clip) (\<lambda>color.
     sbind (optional_field ''crop'' crop_of clip) (\<lambda>crop.
     sbind (optional_field ''transition_out'' (transition_of cv) clip) (\<lambda>transition.
     Inr (geometry_fields g @ [(''opacity'', VFloat opacity), (''include_audio'', VBool include_audio)] @ color @ crop @ transition)))))))))"

definition clip_v2 :: "canvas \<Rightarrow> bool \<Rightarrow> seen \<Rightarrow> val \<Rightarrow> raised + seen \<times> fields" where
  "clip_v2 cv video sn raw =
     sbind (object_of raw CLIP_FIELDS [''id'', ''source_snapshot'', ''start_ms'', ''in_ms'', ''out_ms'']) (\<lambda>clip.
     sbind (identity_of (fld clip ''id'')) (\<lambda>cid.
     sbind (enter_clip cid sn) (\<lambda>sn.
     sbind (source_of (fld clip ''source_snapshot'')) (\<lambda>source.
     sbind (check (fld source ''kind'' = vtext ''ASSET'' \<and>
        fld source ''asset_kind'' \<in> (if video then {vtext ''video'', vtext ''image''} else {vtext ''audio''}) \<and>
        digest_text (fld source ''digest'')) ''STUDIO_TIMELINE_SOURCE_INVALID'') (\<lambda>_.
     sbind (identity_of (fld source ''id'')) (\<lambda>sid.
     sbind (integer_of (fld source ''version'') 1 (2 ^ 53 - 1)) (\<lambda>version.
     let snapshot = snapshot_of sid (fld source ''asset_kind'') version (fld source ''digest'')
     in
     sbind (enter_source sid snapshot sn) (\<lambda>sn.
     sbind (integer_of (fld clip ''start_ms'') 0 (cv_duration cv - 1)) (\<lambda>placement.
     sbind (integer_of (fld clip ''in_ms'') 0 36000000) (\<lambda>start.
     sbind (integer_of (fld clip ''out_ms'') 1 36000000) (\<lambda>stop.
     sbind (check (\<not> stop \<le> start) ''STUDIO_TIMELINE_CLIP_RANGE_INVALID'') (\<lambda>_.
     sbind (integer_of (getd clip ''speed_num'' (VInt 1)) 1 4) (\<lambda>num.
     sbind (integer_of (getd clip ''speed_den'' (VInt 1)) 1 4) (\<lambda>den.
     sbind (boolean_of (getd clip ''muted'' (VBool False))) (\<lambda>muted.
     sbind (number_of (getd clip ''gain_db'' (VFloat 0)) (-60) 12 ''STUDIO_TIMELINE_AUDIO_GAIN_INVALID'') (\<lambda>gain.
     let divisor = gcd num den;
         item = [(''id'', VStr cid), (''source_snapshot'', VDict snapshot), (''start_ms'', VInt placement),
                 (''in_ms'', VInt start), (''out_ms'', VInt stop), (''speed_num'', VInt (num div divisor)),
                 (''speed_den'', VInt (den div divisor)), (''muted'', VBool muted), (''gain_db'', VFloat gain)]
     in
     sbind (clip_duration_ms item) (\<lambda>len.
     sbind (check (\<not> placement + len > cv_duration cv) ''STUDIO_TIMELINE_CLIP_RANGE_INVALID'') (\<lambda>_.
     sbind (integer_of (getd clip ''fade_in_ms'' (VInt 0)) 0 len) (\<lambda>fade_in.
     sbind (integer_of (getd clip ''fade_out_ms'' (VInt 0)) 0 len) (\<lambda>fade_out.
     sbind (check (\<not> fade_in + fade_out > len) ''STUDIO_TIMELINE_FADE_RANGE_INVALID'') (\<lambda>_.
     let item = item @ [(''fade_in_ms'', VInt fade_in), (''fade_out_ms'', VInt fade_out)]
     in if video then sbind (picture_of cv clip item) (\<lambda>picture. Inr (sn, item @ picture))
        else sbind (check (\<forall>k \<in> {''x'', ''y'', ''width'', ''height'', ''opacity'', ''include_audio'', ''crop'', ''transition_out'',
                 ''color_adjustment''}. dget clip k = None) ''STUDIO_TIMELINE_VIDEO_GEOMETRY_REQUIRES_VIDEO'') (\<lambda>_.
             Inr (sn, item)))))))))))))))))))))))"

section \<open>Dissolves\<close>

definition same_picture :: "fields \<Rightarrow> fields \<Rightarrow> bool" where
  "same_picture left right \<longleftrightarrow> (\<forall>k \<in> {''x'', ''y'', ''width'', ''height'', ''opacity''}. fld left k = fld right k) \<and>
     fld left ''muted'' \<noteq> VBool True \<and> fld right ''muted'' \<noteq> VBool True \<and>
     (\<forall>c \<in> {left, right}. int_fld c ''fade_in_ms'' = 0 \<and> int_fld c ''fade_out_ms'' = 0)"

fun transitions_loop :: "int \<Rightarrow> fields list \<Rightarrow> raised + unit" where
  "transitions_loop incoming [] = Inr ()"
| "transitions_loop incoming (left # rest) =
     sbind (clip_duration_ms left) (\<lambda>len.
     let finish = int_fld left ''start_ms'' + len;
         overlap = (case rest of [] \<Rightarrow> 0 | right # _ \<Rightarrow> finish - int_fld right ''start_ms'')
     in case dget left ''transition_out'' of
          None \<Rightarrow> sbind (check (\<not> overlap > 0) ''STUDIO_TIMELINE_SAME_VIDEO_TRACK_OVERLAP'') (\<lambda>_. transitions_loop 0 rest)
        | Some transition \<Rightarrow>
            let window = int_fld (as_fields transition) ''duration_ms''
            in case rest of
                 [] \<Rightarrow> invalid ''STUDIO_TIMELINE_TRANSITION_WINDOW_INVALID''
               | right # _ \<Rightarrow>
                   sbind (check (fld (as_fields transition) ''to_clip_id'' = fld right ''id'' \<and> overlap = window \<and> window < len)
                     ''STUDIO_TIMELINE_TRANSITION_WINDOW_INVALID'') (\<lambda>_.
                   sbind (clip_duration_ms right) (\<lambda>next_len.
                   sbind (check (window < next_len \<and> incoming + window \<le> len) ''STUDIO_TIMELINE_TRANSITION_WINDOW_INVALID'') (\<lambda>_.
                   sbind (check (same_picture left right) ''STUDIO_TIMELINE_TRANSITION_VISUALS_INCOMPATIBLE'') (\<lambda>_.
                   transitions_loop window rest)))))"

section \<open>Tracks and documents\<close>

definition role_of :: "bool \<Rightarrow> fields \<Rightarrow> raised + val" where
  "role_of video track =
     (let role = getd track ''role'' (vtext (if video then ''PRIMARY'' else ''DIALOGUE''))
      in sbind (check (role \<in> (if video then {vtext ''PRIMARY'', vtext ''OVERLAY''}
            else {vtext ''DIALOGUE'', vtext ''MUSIC'', vtext ''EFFECTS''})) ''STUDIO_TIMELINE_TRACK_ROLE_INVALID'') (\<lambda>_. Inr role))"

definition track_v2 :: "bool \<Rightarrow> canvas \<Rightarrow> seen \<Rightarrow> val \<Rightarrow> raised + seen \<times> track" where
  "track_v2 audio_only cv sn raw =
     sbind (object_of raw [''id'', ''kind'', ''order'', ''role'', ''muted'', ''gain_db'', ''clips'', ''locked'']
       [''id'', ''kind'', ''order'', ''clips'']) (\<lambda>track.
     sbind (identity_of (fld track ''id'')) (\<lambda>tid.
     sbind (integer_of (fld track ''order'') 0 7) (\<lambda>order.
     let kind = fld track ''kind''; video = is_video kind
     in
     sbind (check (kind \<in> {vtext ''VIDEO'', vtext ''AUDIO''} \<and> tid \<notin> set (sn_ids sn) \<and> order \<notin> set (sn_orders sn))
       ''STUDIO_TIMELINE_TRACK_ID_ORDER_KIND_INVALID'') (\<lambda>_.
     sbind (check (\<not> (audio_only \<and> video)) ''STUDIO_TIMELINE_AUDIO_TRACK_REQUIRED'') (\<lambda>_.
     sbind (enter_track tid order video sn) (\<lambda>sn.
     sbind (role_of video track) (\<lambda>role.
     sbind (boolean_of (getd track ''muted'' (VBool False))) (\<lambda>muted.
     sbind (number_of (getd track ''gain_db'' (VFloat 0)) (-60) 12 ''STUDIO_TIMELINE_AUDIO_GAIN_INVALID'') (\<lambda>gain.
     sbind (check (\<not> (video \<and> gain \<noteq> 0)) ''STUDIO_TIMELINE_GAIN_REQUIRES_AUDIO'') (\<lambda>_.
     sbind (clips_field track) (\<lambda>raws.
     sbind (collect (clip_v2 cv video) sn raws) (\<lambda>(sn, clips).
     let clips = sort_clips clips
     in
     sbind (if video then transitions_loop 0 clips else Inr ()) (\<lambda>_.
     sbind (optional_field ''locked'' (\<lambda>v. sbind (boolean_of v) (\<lambda>b. Inr (VBool b))) track) (\<lambda>locked.
     Inr (sn, \<lparr>tk_fields = [(''id'', VStr tid), (''kind'', kind), (''order'', VInt order), (''role'', role), (''muted'', VBool muted),
                (''gain_db'', VFloat gain)] @ locked, tk_clips = clips\<rparr>)))))))))))))))"

text \<open>\<open>normalize_clip_links\<close> and \<open>clip_link\<close> of \<open>studio_timeline_links.py\<close>.\<close>

definition clip_table :: "track list \<Rightarrow> (utext, track \<times> fields) dict" where
  "clip_table tracks = dict_of (concat (map (\<lambda>t. map (\<lambda>c. (text_fld c ''id'', (t, c))) (tk_clips t)) tracks))"

definition link_value :: "utext \<times> utext \<times> int \<Rightarrow> val" where
  "link_value l = (case l of (video, audio, offset) \<Rightarrow>
     VDict [(''video_clip_id'', VStr video), (''audio_clip_id'', VStr audio), (''offset_ms'', VInt offset)])"

definition link_of :: "track list \<Rightarrow> utext list \<Rightarrow> val \<Rightarrow> raised + utext \<times> utext \<times> int" where
  "link_of tracks used raw =
     sbind (object_of raw [''video_clip_id'', ''audio_clip_id'', ''offset_ms''] [''video_clip_id'', ''audio_clip_id'', ''offset_ms'']) (\<lambda>row.
     sbind (identity_of (fld row ''video_clip_id'')) (\<lambda>video.
     sbind (identity_of (fld row ''audio_clip_id'')) (\<lambda>audio.
     sbind (integer_of (fld row ''offset_ms'') (- MAX_DURATION_MS) MAX_DURATION_MS) (\<lambda>offset.
     if video = audio \<or> video \<in> set used \<or> audio \<in> set used then invalid ''STUDIO_TIMELINE_LINK_PAIR_INVALID''
     else (case (dget (clip_table tracks) video, dget (clip_table tracks) audio) of
        (Some (vtr, vc), Some (atr, ac)) \<Rightarrow>
          sbind (check (fld (tk_fields vtr) ''kind'' = vtext ''VIDEO'' \<and> fld (tk_fields atr) ''kind'' = vtext ''AUDIO'')
            ''STUDIO_TIMELINE_LINK_PAIR_INVALID'') (\<lambda>_.
          sbind (check (int_fld ac ''start_ms'' - int_fld vc ''start_ms'' = offset) ''STUDIO_TIMELINE_LINK_OFFSET_CHANGED'') (\<lambda>_.
          Inr (video, audio, offset)))
      | _ \<Rightarrow> invalid ''STUDIO_TIMELINE_LINK_PAIR_INVALID'')))))"

fun links_loop :: "track list \<Rightarrow> utext list \<Rightarrow> val list \<Rightarrow> raised + (utext \<times> utext \<times> int) list" where
  "links_loop tracks used [] = Inr []"
| "links_loop tracks used (raw # raws) =
     sbind (link_of tracks used raw) (\<lambda>l.
     sbind (links_loop tracks (fst l # fst (snd l) # used) raws) (\<lambda>ls. Inr (l # ls)))"

definition MAX_CLIP_LINKS :: nat where "MAX_CLIP_LINKS = 15"

definition normalize_clip_links :: "track list \<Rightarrow> val \<Rightarrow> raised + val" where
  "normalize_clip_links tracks v = (case v of
     VList raws \<Rightarrow>
       if length raws \<le> MAX_CLIP_LINKS
       then sbind (links_loop tracks [] raws) (\<lambda>ls. Inr (VList (map link_value (sort_key (\<lambda>l. (fst l, fst (snd l))) ls))))
       else invalid ''STUDIO_TIMELINE_LINK_LIMIT''
   | _ \<Rightarrow> invalid ''STUDIO_TIMELINE_LINK_LIMIT'')"

definition normalize_v2 :: "bool \<Rightarrow> val \<Rightarrow> raised + timeline" where
  "normalize_v2 audio_only v =
     sbind (if audio_only then object_of v [''schema_version'', ''media_kind'', ''duration_ms'', ''tracks'']
              [''schema_version'', ''media_kind'', ''duration_ms'', ''tracks'']
            else object_of v [''schema_version'', ''duration_ms'', ''width'', ''height'', ''fps'', ''tracks'', ''captions'', ''caption_style'',
              ''clip_links''] [''schema_version'', ''duration_ms'', ''tracks'']) (\<lambda>row.
     sbind (check (\<not> (audio_only \<and> fld row ''media_kind'' \<noteq> vtext ''AUDIO'')) ''STUDIO_TIMELINE_AUDIO_KIND_REQUIRED'') (\<lambda>_.
     sbind (check (fld row ''schema_version'' = VInt (if audio_only then 3 else 2)) ''STUDIO_TIMELINE_SCHEMA_INVALID'') (\<lambda>_.
     sbind (canvas_of row) (\<lambda>cv.
     sbind (tracks_field row) (\<lambda>raws.
     sbind (collect (track_v2 audio_only cv) nothing_seen raws) (\<lambda>(sn, tracks).
     let tracks = sort_tracks tracks
     in if audio_only
        then Inr \<lparr>tl_fields = [(''schema_version'', VInt 3), (''media_kind'', vtext ''AUDIO''), (''duration_ms'', VInt (cv_duration cv))],
                  tl_tracks = tracks\<rparr>
        else
          sbind (check (sn_video sn \<noteq> 0) ''STUDIO_TIMELINE_VIDEO_TRACK_REQUIRED'') (\<lambda>_.
          sbind (captions_of cv row) (\<lambda>captions.
          sbind (optional_field ''caption_style'' normalize_caption_style row) (\<lambda>style.
          sbind (optional_field ''clip_links'' (normalize_clip_links tracks) row) (\<lambda>links.
          Inr \<lparr>tl_fields = [(''schema_version'', VInt 2), (''duration_ms'', VInt (cv_duration cv)), (''width'', VInt (cv_width cv)),
                 (''height'', VInt (cv_height cv)), (''fps'', VInt (cv_fps cv)), (''captions'', captions)] @ style @ links,
               tl_tracks = tracks\<rparr>))))))))))"

definition normalize_studio_timeline :: "val \<Rightarrow> raised + timeline" where
  "normalize_studio_timeline v = (case v of
     VDict d \<Rightarrow> (case dget d ''schema_version'' of
        Some version \<Rightarrow> normalize_v2 (py_eq version (VInt 3)) v
      | None \<Rightarrow> normalize_v1 v)
   | _ \<Rightarrow> normalize_v1 v)"

end
