(* ===== verification/Timeline_Links.thy ===== *)
theory Timeline_Links
  imports Timeline_Normal
begin

text \<open>
  Video/audio pairs, \<open>app/services/studio_timeline_links.py\<close>: the shared cut and the shared trim of a
  pair, and the fence that lets a saved document keep a pair only if nothing but one such edit
  touched it.

  \<^item> A clip is reached by its position (track, index), so an in-place change of the code is an
    update at that position.
\<close>

section \<open>Positions\<close>

type_synonym position = "nat \<times> nat"

definition clip_positions :: "timeline \<Rightarrow> (val \<times> position) list" where
  "clip_positions doc = concat (map (\<lambda>(i, t). map (\<lambda>(j, c). (fld c ''id'', (i, j))) (enumerate 0 (tk_clips t))) (enumerate 0 (tl_tracks doc)))"

definition track_at :: "timeline \<Rightarrow> nat \<Rightarrow> track" where "track_at doc i = tl_tracks doc ! i"
definition clip_at :: "timeline \<Rightarrow> position \<Rightarrow> fields" where "clip_at doc p = tk_clips (track_at doc (fst p)) ! snd p"

definition upd_track :: "nat \<Rightarrow> (track \<Rightarrow> track) \<Rightarrow> timeline \<Rightarrow> timeline" where
  "upd_track i f doc = doc\<lparr>tl_tracks := (tl_tracks doc)[i := f (track_at doc i)]\<rparr>"

definition upd_clip :: "position \<Rightarrow> (fields \<Rightarrow> fields) \<Rightarrow> timeline \<Rightarrow> timeline" where
  "upd_clip p f = upd_track (fst p) (\<lambda>t. t\<lparr>tk_clips := (tk_clips t)[snd p := f (tk_clips t ! snd p)]\<rparr>)"

definition add_clip :: "nat \<Rightarrow> fields \<Rightarrow> timeline \<Rightarrow> timeline" where
  "add_clip i c = upd_track i (\<lambda>t. t\<lparr>tk_clips := tk_clips t @ [c]\<rparr>)"

definition is_locked :: "track \<Rightarrow> bool" where "is_locked t \<longleftrightarrow> dget (tk_fields t) ''locked'' = Some (VBool True)"

definition links_of :: "timeline \<Rightarrow> fields list" where
  "links_of doc = (case dget (tl_fields doc) ''clip_links'' of Some (VList ls) \<Rightarrow> map as_fields ls | _ \<Rightarrow> [])"

definition set_links :: "fields list \<Rightarrow> timeline \<Rightarrow> timeline" where
  "set_links ls doc = doc\<lparr>tl_fields := dset (tl_fields doc) ''clip_links'' (VList (map VDict ls))\<rparr>"

section \<open>Pairs\<close>

definition clip_link :: "timeline \<Rightarrow> val \<Rightarrow> fields option" where
  "clip_link doc identity = List.find (\<lambda>row. py_eq identity (fld row ''video_clip_id'') \<or> py_eq identity (fld row ''audio_clip_id'')) (links_of doc)"

definition position_of :: "timeline \<Rightarrow> val \<Rightarrow> raised + position" where
  "position_of doc identity = (case dget (dict_of (clip_positions doc)) identity of Some p \<Rightarrow> Inr p | None \<Rightarrow> Inl Key_Error)"

definition asset_kind_of :: "fields \<Rightarrow> val" where
  "asset_kind_of c = fld (as_fields (fld c ''source_snapshot'')) ''asset_kind''"

text \<open>Plain speed and no fade.\<close>

definition plain_clip :: "fields \<Rightarrow> bool" where
  "plain_clip c \<longleftrightarrow> (\<forall>k \<in> {''speed_num'', ''speed_den''}. getd c k (VInt 1) = VInt 1) \<and>
     (\<forall>k \<in> {''fade_in_ms'', ''fade_out_ms''}. getd c k (VInt 0) = VInt 0)"

definition dissolves :: "val list \<Rightarrow> fields \<Rightarrow> bool" where
  "dissolves ids c \<longleftrightarrow> (case dget c ''transition_out'' of None \<Rightarrow> False
     | Some tr \<Rightarrow> fld c ''id'' \<in> set ids \<or> fld (as_fields tr) ''to_clip_id'' \<in> set ids)"

text \<open>\<open>linked_pair_facts\<close>: the pair, where its two clips are, and the length both have.\<close>

definition linked_pair_facts ::
  "timeline \<Rightarrow> val \<Rightarrow> val \<Rightarrow> string \<Rightarrow> raised + fields \<times> position \<times> position \<times> int" where
  "linked_pair_facts doc video_id audio_id operation =
     sbind (identity_of video_id) (\<lambda>_. sbind (identity_of audio_id) (\<lambda>_.
     case clip_link doc video_id of
       None \<Rightarrow> invalid (''STUDIO_TIMELINE_LINKED_'' @ operation @ ''_PAIR_REQUIRED'')
     | Some pair \<Rightarrow>
         sbind (check (fld (tl_fields doc) ''schema_version'' = VInt 2 \<and> fld pair ''video_clip_id'' = video_id \<and>
             fld pair ''audio_clip_id'' = audio_id) (''STUDIO_TIMELINE_LINKED_'' @ operation @ ''_PAIR_REQUIRED'')) (\<lambda>_.
         sbind (position_of doc video_id) (\<lambda>v. sbind (position_of doc audio_id) (\<lambda>a.
         let video = clip_at doc v; audio = clip_at doc a
         in
         sbind (check (\<not> is_locked (track_at doc (fst v)) \<and> \<not> is_locked (track_at doc (fst a))) ''STUDIO_TIMELINE_TRACK_LOCKED'') (\<lambda>_.
         sbind (check (asset_kind_of video = vtext ''video'' \<and> asset_kind_of audio = vtext ''audio'' \<and> plain_clip video \<and> plain_clip audio \<and>
             \<not> list_ex (\<lambda>t. list_ex (dissolves [video_id, audio_id]) (tk_clips t)) (tl_tracks doc))
             (''STUDIO_TIMELINE_LINKED_'' @ operation @ ''_MODE_UNSUPPORTED'')) (\<lambda>_.
         Inr (pair, v, a, min (int_fld video ''out_ms'' - int_fld video ''in_ms'') (int_fld audio ''out_ms'' - int_fld audio ''in_ms'')))))))))"

section \<open>The shared trim and cut\<close>

definition trim_linked_pair :: "timeline \<Rightarrow> val \<Rightarrow> val \<Rightarrow> val \<Rightarrow> val \<Rightarrow> raised + timeline" where
  "trim_linked_pair doc video_id audio_id keep_from keep_to =
     sbind (linked_pair_facts doc video_id audio_id ''TRIM'') (\<lambda>(pair, v, a, common).
     sbind (integer_of keep_from 0 MAX_DURATION_MS) (\<lambda>start.
     sbind (integer_of keep_to 0 MAX_DURATION_MS) (\<lambda>stop.
     sbind (check (0 \<le> start \<and> start < stop \<and> stop \<le> common) ''STUDIO_TIMELINE_LINKED_TRIM_OUTSIDE_COMMON_RANGE'') (\<lambda>_.
     sbind (check (\<not> (start = 0 \<and> (\<forall>p \<in> {v, a}. int_fld (clip_at doc p) ''out_ms'' - int_fld (clip_at doc p) ''in_ms'' = stop)))
       ''STUDIO_TIMELINE_LINKED_TRIM_NO_CHANGE'') (\<lambda>_.
     let trim = (\<lambda>c. dset (dset c ''in_ms'' (VInt (int_fld c ''in_ms'' + start))) ''out_ms'' (VInt (int_fld c ''in_ms'' + stop)))
     in normalize_studio_timeline (timeline_value (upd_clip a trim (upd_clip v trim doc))))))))"

definition split_linked_pair :: "timeline \<Rightarrow> val \<Rightarrow> val \<Rightarrow> val \<Rightarrow> val \<Rightarrow> val \<Rightarrow> raised + timeline" where
  "split_linked_pair doc video_id audio_id at_ms new_video_id new_audio_id =
     sbind (linked_pair_facts doc video_id audio_id ''SPLIT'') (\<lambda>(pair, v, a, common).
     sbind (integer_of at_ms 0 MAX_DURATION_MS) (\<lambda>cut.
     let elapsed = cut - int_fld (clip_at doc v) ''start_ms''
     in
     sbind (check (0 < elapsed \<and> elapsed < common) ''STUDIO_TIMELINE_LINKED_SPLIT_OUTSIDE_COMMON_RANGE'') (\<lambda>_.
     sbind (identity_of new_video_id) (\<lambda>nv. sbind (identity_of new_audio_id) (\<lambda>na.
     let existing = map fst (clip_positions doc)
     in
     sbind (check (nv \<noteq> na \<and> VStr nv \<notin> set existing \<and> VStr na \<notin> set existing) ''STUDIO_TIMELINE_LINKED_SPLIT_NEW_IDS_INVALID'') (\<lambda>_.
     sbind (check (card (set existing) + 2 \<le> 30 \<and> length (links_of doc) + 1 \<le> MAX_CLIP_LINKS) ''STUDIO_TIMELINE_LINKED_SPLIT_LIMIT'') (\<lambda>_.
     let tail_of = (\<lambda>c i. dset (dset (dset c ''id'' (VStr i)) ''start_ms'' (VInt (int_fld c ''start_ms'' + elapsed)))
                     ''in_ms'' (VInt (int_fld c ''in_ms'' + elapsed)));
         head_of = (\<lambda>c. dset c ''out_ms'' (VInt (int_fld c ''in_ms'' + elapsed)));
         cut_at = (\<lambda>p i doc. add_clip (fst p) (tail_of (clip_at doc p) i) (upd_clip p head_of doc));
         doc = cut_at a na (cut_at v nv doc)
     in normalize_studio_timeline (timeline_value (set_links
          (links_of doc @ [[(''video_clip_id'', VStr nv), (''audio_clip_id'', VStr na), (''offset_ms'', fld pair ''offset_ms'')]]) doc)))))))))"

section \<open>The fence around a whole-document save\<close>

definition same_clip :: "timeline \<Rightarrow> timeline \<Rightarrow> val \<Rightarrow> bool" where
  "same_clip new expected identity =
     (case (dget (dict_of (clip_positions new)) identity, dget (dict_of (clip_positions expected)) identity) of
        (Some p, Some q) \<Rightarrow> fld (tk_fields (track_at new (fst p))) ''id'' = fld (tk_fields (track_at expected (fst q))) ''id'' \<and>
                            clip_at new p = clip_at expected q
      | _ \<Rightarrow> False)"

definition matches_linked_trim :: "timeline \<Rightarrow> timeline \<Rightarrow> fields \<Rightarrow> raised + bool" where
  "matches_linked_trim before after pair =
     (let video_id = fld pair ''video_clip_id''; audio_id = fld pair ''audio_clip_id''
      in case (dget (dict_of (clip_positions after)) video_id, dget (dict_of (clip_positions after)) audio_id) of
           (Some p, Some _) \<Rightarrow>
             sbind (position_of before video_id) (\<lambda>q.
             let origin = int_fld (clip_at before q) ''in_ms'';
                 expected = trim_linked_pair before video_id audio_id (VInt (int_fld (clip_at after p) ''in_ms'' - origin))
                   (VInt (int_fld (clip_at after p) ''out_ms'' - origin))
             in case expected of
                  Inr e \<Rightarrow> Inr (after = e)
                | Inl (Value_Error _) \<Rightarrow> Inr False
                | Inl e \<Rightarrow> Inl e)
         | _ \<Rightarrow> Inr False)"

definition matches_linked_split :: "timeline \<Rightarrow> timeline \<Rightarrow> fields \<Rightarrow> raised + bool" where
  "matches_linked_split before after pair =
     (let video_id = fld pair ''video_clip_id''; audio_id = fld pair ''audio_clip_id''; old = map fst (clip_positions before)
      in case (dget (dict_of (clip_positions after)) video_id, dget (dict_of (clip_positions after)) audio_id) of
           (Some p, Some _) \<Rightarrow>
             sbind (position_of before video_id) (\<lambda>q.
             let elapsed = int_fld (clip_at after p) ''out_ms'' - int_fld (clip_at before q) ''in_ms'';
                 cut = int_fld (clip_at before q) ''start_ms'' + elapsed
             in sbind (sfold (\<lambda>n tail.
                  let nv = fld tail ''video_clip_id''; na = fld tail ''audio_clip_id''
                  in if nv \<in> set old \<or> na \<in> set old \<or> fld tail ''offset_ms'' \<noteq> fld pair ''offset_ms'' then Inr n
                     else (case split_linked_pair before video_id audio_id (VInt cut) nv na of
                         Inl (Value_Error _) \<Rightarrow> Inr n
                       | Inl e \<Rightarrow> Inl e
                       | Inr expected \<Rightarrow>
                           Inr (if list_all (same_clip after expected) [video_id, audio_id, nv, na] then Suc n else n)))
                0 (links_of after)) (\<lambda>n. Inr (n = 1)))
         | _ \<Rightarrow> Inr False)"

definition RANGE_FIELDS :: "string list" where
  "RANGE_FIELDS = [''source_snapshot'', ''in_ms'', ''out_ms'', ''speed_num'', ''speed_den'']"

definition same_range :: "fields \<Rightarrow> fields \<Rightarrow> bool" where
  "same_range left right \<longleftrightarrow> list_all (\<lambda>k. getd left k (VInt 1) = getd right k (VInt 1)) RANGE_FIELDS"

text \<open>The two clips of a retained pair, one after the other.\<close>

definition retained_clip :: "timeline \<Rightarrow> timeline \<Rightarrow> bool \<Rightarrow> val \<Rightarrow> raised + unit" where
  "retained_clip before after edited identity =
     sbind (position_of before identity) (\<lambda>p. sbind (position_of after identity) (\<lambda>q.
     let left = clip_at before p; right = clip_at after q;
         old_track = track_at before (fst p); new_track = track_at after (fst q)
     in
     sbind (check (edited \<or> same_range left right) ''STUDIO_TIMELINE_LINK_EDIT_UNSUPPORTED_UNLINK_FIRST'') (\<lambda>_.
     check (\<not> ((is_locked old_track \<or> is_locked new_track) \<and>
        (fld (tk_fields old_track) ''id'' \<noteq> fld (tk_fields new_track) ''id'' \<or> fld left ''start_ms'' \<noteq> fld right ''start_ms'')))
       ''STUDIO_TIMELINE_TRACK_LOCKED'')))"

definition retained_pair :: "timeline \<Rightarrow> timeline \<Rightarrow> nat \<Rightarrow> fields \<Rightarrow> raised + nat" where
  "retained_pair before after edits pair =
     (let video_id = fld pair ''video_clip_id''; audio_id = fld pair ''audio_clip_id''
      in case List.find (\<lambda>row. fld row ''video_clip_id'' = video_id \<and> fld row ''audio_clip_id'' = audio_id) (links_of after) of
           None \<Rightarrow> Inr edits
         | Some match \<Rightarrow>
             sbind (check (fld match ''offset_ms'' = fld pair ''offset_ms'') ''STUDIO_TIMELINE_LINK_OFFSET_CHANGED'') (\<lambda>_.
             sbind (position_of before video_id) (\<lambda>v. sbind (position_of after video_id) (\<lambda>v'.
             sbind (position_of before audio_id) (\<lambda>a. sbind (position_of after audio_id) (\<lambda>a'.
             let range_changed = (\<not> same_range (clip_at before v) (clip_at after v') \<or> \<not> same_range (clip_at before a) (clip_at after a'))
             in
             sbind (if range_changed then matches_linked_split before after pair else Inr False) (\<lambda>paired_split.
             sbind (if range_changed then matches_linked_trim before after pair else Inr False) (\<lambda>paired_trim.
             let edited = (paired_split \<or> paired_trim); edits = (if edited then Suc edits else edits)
             in
             sbind (check (edits \<le> 1) ''STUDIO_TIMELINE_LINKED_EDIT_ONE_PAIR_REQUIRED'') (\<lambda>_.
             sbind (retained_clip before after edited video_id) (\<lambda>_.
             sbind (retained_clip before after edited audio_id) (\<lambda>_. Inr edits)))))))))))"

text \<open>\<open>old.get(identity, new.get(identity))[0].get('locked') is True\<close>\<close>

definition held_by_lock :: "timeline \<Rightarrow> timeline \<Rightarrow> val \<Rightarrow> raised + bool" where
  "held_by_lock before after identity = (case dget (dict_of (clip_positions before)) identity of
     Some p \<Rightarrow> Inr (is_locked (track_at before (fst p)))
   | None \<Rightarrow> (case dget (dict_of (clip_positions after)) identity of
        Some p \<Rightarrow> Inr (is_locked (track_at after (fst p))) | None \<Rightarrow> Inl Type_Error))"

definition require_clip_link_preservation :: "timeline \<Rightarrow> timeline \<Rightarrow> raised + unit" where
  "require_clip_link_preservation before after =
     (let previous = links_of before; current = links_of after
      in sbind (sfold (retained_pair before after) 0 previous) (\<lambda>_.
         sfold (\<lambda>_ pair.
           sbind (held_by_lock before after (fld pair ''video_clip_id'')) (\<lambda>held.
           if held then invalid ''STUDIO_TIMELINE_TRACK_LOCKED''
           else sbind (held_by_lock before after (fld pair ''audio_clip_id'')) (\<lambda>held.
                check (\<not> held) ''STUDIO_TIMELINE_TRACK_LOCKED'')))
           () (filter (\<lambda>p. p \<notin> set current) previous @ filter (\<lambda>p. p \<notin> set previous) current)))"

end
