(* ===== verification/Timeline_Edit.thy ===== *)
theory Timeline_Edit
  imports Timeline_Links
begin

text \<open>
  \<open>app/services/studio_timeline_edit.py\<close>: a closed batch of author edits of a timeline document, and
  the fence that keeps a whole-document save from changing locked tracks.

  \<^item> One definition per operation, from the normalized document on; fields that came with an edit stay
    raw until the final normalization, as in the code.
  \<^item> \<open>dumped\<close> is the length of the UTF-8 text \<open>json.dumps\<close> gives for the batch, or nothing if that
    raises \<open>ValueError\<close> (a float without a finite value, a lone surrogate).

  Shown in \<open>Timeline_Laws\<close>: a batch leaves every locked track exactly as it was, unless it unlocks
  it; a cut plays the same source at every instant.
\<close>

section \<open>Helpers\<close>

definition edit_fields :: "val \<Rightarrow> string list \<Rightarrow> string list \<Rightarrow> raised + fields" where
  "edit_fields v required optional = (case v of
     VDict d \<Rightarrow> if set (dkeys d) \<subseteq> set required \<union> set optional \<and> set required \<subseteq> set (dkeys d) then Inr d
                else invalid ''STUDIO_TIMELINE_EDIT_FIELDS_INVALID''
   | _ \<Rightarrow> invalid ''STUDIO_TIMELINE_EDIT_FIELDS_INVALID'')"

definition edit_id :: "val \<Rightarrow> raised + utext" where
  "edit_id v = (case v of VStr s \<Rightarrow> if id_text s then Inr s else invalid ''STUDIO_TIMELINE_EDIT_ID_INVALID''
     | _ \<Rightarrow> invalid ''STUDIO_TIMELINE_EDIT_ID_INVALID'')"

definition edit_int :: "val \<Rightarrow> raised + int" where
  "edit_int v = (case v of VInt i \<Rightarrow> Inr i | _ \<Rightarrow> invalid ''STUDIO_TIMELINE_EDIT_INTEGER_INVALID'')"

definition edit_bool :: "val \<Rightarrow> raised + bool" where
  "edit_bool v = (case v of VBool b \<Rightarrow> Inr b | _ \<Rightarrow> invalid ''STUDIO_TIMELINE_EDIT_BOOLEAN_INVALID'')"

text \<open>\<open>_duration\<close>\<close>

definition edit_duration :: "val \<Rightarrow> raised + int" where
  "edit_duration v = (case v of
     VDict clip \<Rightarrow>
       sbind (check (dget clip ''out_ms'' \<noteq> None \<and> dget clip ''in_ms'' \<noteq> None) ''STUDIO_TIMELINE_EDIT_CLIP_FIELDS_INVALID'') (\<lambda>_.
       sbind (edit_int (fld clip ''out_ms'')) (\<lambda>stop.
       sbind (edit_int (fld clip ''in_ms'')) (\<lambda>start.
       case (getd clip ''speed_num'' (VInt 1), getd clip ''speed_den'' (VInt 1)) of
         (VInt num, VInt den) \<Rightarrow>
           sbind (check (1 \<le> num \<and> num \<le> 4 \<and> 1 \<le> den \<and> den \<le> 4 \<and> \<not> stop - start \<le> 0 \<and> (stop - start) * den mod num = 0)
             ''STUDIO_TIMELINE_EDIT_FRACTIONAL_MS'') (\<lambda>_. Inr ((stop - start) * den div num))
       | _ \<Rightarrow> invalid ''STUDIO_TIMELINE_EDIT_FRACTIONAL_MS'')))
   | _ \<Rightarrow> invalid ''STUDIO_TIMELINE_EDIT_CLIP_FIELDS_INVALID'')"

text \<open>\<open>track\<close> and \<open>locate\<close>: the one track, the one clip of that identity.\<close>

definition find_track :: "timeline \<Rightarrow> val \<Rightarrow> raised + nat" where
  "find_track doc identity =
     sbind (edit_id identity) (\<lambda>_.
     case filter (\<lambda>i. dget (tk_fields (track_at doc i)) ''id'' = Some identity) [0..<length (tl_tracks doc)] of
       [i] \<Rightarrow> Inr i | _ \<Rightarrow> invalid ''STUDIO_TIMELINE_EDIT_TRACK_NOT_FOUND'')"

definition find_clip :: "timeline \<Rightarrow> val \<Rightarrow> raised + position" where
  "find_clip doc identity =
     sbind (edit_id identity) (\<lambda>_.
     case filter (\<lambda>p. fst p = identity) (clip_positions doc) of
       [(_, p)] \<Rightarrow> Inr p | _ \<Rightarrow> invalid ''STUDIO_TIMELINE_EDIT_CLIP_NOT_FOUND'')"

definition editable :: "timeline \<Rightarrow> nat \<Rightarrow> raised + unit" where
  "editable doc i = check (\<not> is_locked (track_at doc i)) ''STUDIO_TIMELINE_TRACK_LOCKED''"

definition shift :: "nat \<Rightarrow> int \<Rightarrow> int \<Rightarrow> val \<Rightarrow> timeline \<Rightarrow> timeline" where
  "shift i boundary delta excluding = upd_track i (\<lambda>t. t\<lparr>tk_clips := map (\<lambda>c.
     if fld c ''id'' \<noteq> excluding \<and> boundary \<le> int_fld c ''start_ms''
     then dset c ''start_ms'' (VInt (int_fld c ''start_ms'' + delta)) else c) (tk_clips t)\<rparr>)"

definition drop_clip :: "position \<Rightarrow> timeline \<Rightarrow> timeline" where
  "drop_clip p = upd_track (fst p) (\<lambda>t. t\<lparr>tk_clips := take (snd p) (tk_clips t) @ drop (Suc (snd p)) (tk_clips t)\<rparr>)"

definition has_version :: "timeline \<Rightarrow> int \<Rightarrow> bool" where
  "has_version doc n \<longleftrightarrow> py_eq (fld (tl_fields doc) ''schema_version'') (VInt n)"

section \<open>Links and the canvas\<close>

definition edit_link :: "fields \<Rightarrow> timeline \<Rightarrow> raised + timeline" where
  "edit_link raw doc =
     sbind (edit_fields (VDict raw) [''op'', ''video_clip_id'', ''audio_clip_id''] []) (\<lambda>body.
     sbind (check (has_version doc 2) ''STUDIO_TIMELINE_EDIT_SCHEMA_UPGRADE_REQUIRED'') (\<lambda>_.
     sbind (find_clip doc (fld body ''video_clip_id'')) (\<lambda>v.
     sbind (find_clip doc (fld body ''audio_clip_id'')) (\<lambda>a.
     sbind (editable doc (fst v)) (\<lambda>_. sbind (editable doc (fst a)) (\<lambda>_.
     let video = clip_at doc v; audio = clip_at doc a
     in
     sbind (check (py_eq (fld (tk_fields (track_at doc (fst v))) ''kind'') (vtext ''VIDEO'') \<and>
         py_eq (fld (tk_fields (track_at doc (fst a))) ''kind'') (vtext ''AUDIO'') \<and>
         clip_link doc (fld video ''id'') = None \<and> clip_link doc (fld audio ''id'') = None) ''STUDIO_TIMELINE_LINK_PAIR_INVALID'') (\<lambda>_.
     Inr (set_links (links_of doc @ [[(''video_clip_id'', fld video ''id''), (''audio_clip_id'', fld audio ''id''),
       (''offset_ms'', VInt (int_fld audio ''start_ms'' - int_fld video ''start_ms''))]]) doc))))))))"

definition edit_unlink :: "fields \<Rightarrow> timeline \<Rightarrow> raised + timeline" where
  "edit_unlink raw doc =
     sbind (edit_fields (VDict raw) [''op'', ''clip_id''] []) (\<lambda>body.
     sbind (edit_id (fld body ''clip_id'')) (\<lambda>cid.
     case clip_link doc (VStr cid) of
       None \<Rightarrow> invalid ''STUDIO_TIMELINE_LINK_NOT_FOUND''
     | Some pair \<Rightarrow>
         sbind (find_clip doc (fld pair ''video_clip_id'')) (\<lambda>v. sbind (editable doc (fst v)) (\<lambda>_.
         sbind (find_clip doc (fld pair ''audio_clip_id'')) (\<lambda>a. sbind (editable doc (fst a)) (\<lambda>_.
         let rest = remove1 pair (links_of doc)
         in Inr (if rest = [] then doc\<lparr>tl_fields := dpop (tl_fields doc) ''clip_links''\<rparr> else set_links rest doc)))))))"

definition CANVAS_FIELDS :: "string list" where
  "CANVAS_FIELDS = [''schema_version'', ''media_kind'', ''duration_ms'', ''width'', ''height'', ''fps'']"

definition edit_canvas :: "fields \<Rightarrow> timeline \<Rightarrow> raised + timeline" where
  "edit_canvas raw doc =
     sbind (edit_fields (VDict raw) [''op'', ''changes''] []) (\<lambda>body.
     sbind (edit_fields (fld body ''changes'') [] [''duration_ms'', ''width'', ''height'', ''fps'', ''schema_version'', ''caption_style'']) (\<lambda>changes.
     sbind (check (changes \<noteq> []) ''STUDIO_TIMELINE_EDIT_EMPTY'') (\<lambda>_.
     sbind (check (\<not> (dget changes ''schema_version'' \<noteq> None \<and>
         (\<not> py_eq (fld changes ''schema_version'') (VInt 2) \<or> has_version doc 3))) ''STUDIO_TIMELINE_EDIT_SCHEMA_UPGRADE_REQUIRED'') (\<lambda>_.
     sbind (check (\<not> (list_ex is_locked (tl_tracks doc) \<and>
         list_ex (\<lambda>k. dget changes k \<noteq> None \<and> \<not> py_eq (fld changes k) (fld (tl_fields doc) k)) CANVAS_FIELDS))
       ''STUDIO_TIMELINE_TRACK_LOCKED'') (\<lambda>_.
     sbind (check (\<not> (dget changes ''caption_style'' \<noteq> None \<and>
         \<not> py_eq (getd changes ''schema_version'' (fld (tl_fields doc) ''schema_version'')) (VInt 2)))
       ''STUDIO_TIMELINE_EDIT_SCHEMA_UPGRADE_REQUIRED'') (\<lambda>_.
     let updated = dmerge (tl_fields doc) changes
     in Inr (doc\<lparr>tl_fields := if dget changes ''caption_style'' = Some VNull then dpop updated ''caption_style'' else updated\<rparr>)))))))"

section \<open>Tracks\<close>

definition edit_track_insert :: "fields \<Rightarrow> timeline \<Rightarrow> raised + timeline" where
  "edit_track_insert raw doc =
     sbind (edit_fields (VDict raw) [''op'', ''track''] []) (\<lambda>body.
     sbind (edit_fields (fld body ''track'') [''id'', ''kind'', ''order'', ''clips''] [''muted'', ''gain_db'', ''role'', ''locked'']) (\<lambda>track.
     sbind (edit_id (fld track ''id'')) (\<lambda>_.
     sbind (check (\<not> (dget track ''locked'' \<noteq> None \<and> \<not> has_version doc 2 \<and> \<not> has_version doc 3))
       ''STUDIO_TIMELINE_EDIT_SCHEMA_UPGRADE_REQUIRED'') (\<lambda>_.
     sbind (case dget track ''locked'' of None \<Rightarrow> Inr () | Some v \<Rightarrow> sbind (edit_bool v) (\<lambda>_. Inr ())) (\<lambda>_.
     sbind (check (fld track ''clips'' = VList []) ''STUDIO_TIMELINE_EDIT_INSERT_EMPTY_TRACK_REQUIRED'') (\<lambda>_.
     Inr (doc\<lparr>tl_tracks := tl_tracks doc @ [\<lparr>tk_fields = dpop track ''clips'', tk_clips = []\<rparr>]\<rparr>)))))))"

definition edit_track_remove :: "fields \<Rightarrow> timeline \<Rightarrow> raised + timeline" where
  "edit_track_remove raw doc =
     sbind (edit_fields (VDict raw) [''op'', ''track_id'', ''remove_clips''] []) (\<lambda>body.
     sbind (find_track doc (fld body ''track_id'')) (\<lambda>i.
     sbind (editable doc i) (\<lambda>_.
     sbind (check (case fld body ''remove_clips'' of VBool b \<Rightarrow> tk_clips (track_at doc i) = [] \<or> b | _ \<Rightarrow> False)
       ''STUDIO_TIMELINE_EDIT_TRACK_DELETE_CONFIRMATION_REQUIRED'') (\<lambda>_.
     Inr (doc\<lparr>tl_tracks := take i (tl_tracks doc) @ drop (Suc i) (tl_tracks doc)\<rparr>)))))"

definition edit_track_update :: "fields \<Rightarrow> timeline \<Rightarrow> raised + timeline" where
  "edit_track_update raw doc =
     sbind (edit_fields (VDict raw) [''op'', ''track_id'', ''changes''] []) (\<lambda>body.
     sbind (edit_fields (fld body ''changes'') [] [''muted'', ''gain_db'', ''role'', ''locked'']) (\<lambda>changes.
     sbind (check (changes \<noteq> []) ''STUDIO_TIMELINE_EDIT_EMPTY'') (\<lambda>_.
     sbind (find_track doc (fld body ''track_id'')) (\<lambda>i.
     sbind (check (\<not> (dget changes ''locked'' \<noteq> None \<and> \<not> has_version doc 2 \<and> \<not> has_version doc 3))
       ''STUDIO_TIMELINE_EDIT_SCHEMA_UPGRADE_REQUIRED'') (\<lambda>_.
     sbind (case dget changes ''locked'' of None \<Rightarrow> Inr () | Some v \<Rightarrow> sbind (edit_bool v) (\<lambda>_. Inr ())) (\<lambda>_.
     sbind (check (\<not> (is_locked (track_at doc i) \<and> changes \<noteq> [(''locked'', VBool False)])) ''STUDIO_TIMELINE_TRACK_LOCKED'') (\<lambda>_.
     Inr (upd_track i (\<lambda>t. t\<lparr>tk_fields := dmerge (tk_fields t) changes\<rparr>) doc))))))))"

definition edit_track_reorder :: "fields \<Rightarrow> timeline \<Rightarrow> raised + timeline" where
  "edit_track_reorder raw doc =
     sbind (edit_fields (VDict raw) [''op'', ''track_ids''] []) (\<lambda>body.
     case fld body ''track_ids'' of
       VList identities \<Rightarrow>
         sbind (check (list_all (\<lambda>v. case v of VStr _ \<Rightarrow> True | _ \<Rightarrow> False) identities \<and>
             length identities = length (tl_tracks doc) \<and> distinct identities \<and>
             set identities = set (map (\<lambda>t. fld (tk_fields t) ''id'') (tl_tracks doc))) ''STUDIO_TIMELINE_EDIT_TRACK_ORDER_INVALID'') (\<lambda>_.
         sfold (\<lambda>doc (order, identity).
           sbind (find_track doc identity) (\<lambda>i.
           sbind (check (\<not> (is_locked (track_at doc i) \<and> \<not> py_eq (fld (tk_fields (track_at doc i)) ''order'') (VInt (int order))))
             ''STUDIO_TIMELINE_TRACK_LOCKED'') (\<lambda>_.
           Inr (upd_track i (\<lambda>t. t\<lparr>tk_fields := dset (tk_fields t) ''order'' (VInt (int order))\<rparr>) doc)))) doc (enumerate 0 identities))
     | _ \<Rightarrow> invalid ''STUDIO_TIMELINE_EDIT_TRACK_ORDER_INVALID'')"

section \<open>Clips\<close>

definition REQUIRED_CLIP :: "string list" where
  "REQUIRED_CLIP = [''id'', ''source_snapshot'', ''start_ms'', ''in_ms'', ''out_ms'']"

definition OPTIONAL_CLIP :: "string list" where
  "OPTIONAL_CLIP = [''x'', ''y'', ''width'', ''height'', ''speed_num'', ''speed_den'', ''opacity'', ''gain_db'', ''muted'',
     ''include_audio'', ''fade_in_ms'', ''fade_out_ms'', ''crop'', ''transition_out'', ''color_adjustment'']"

definition NEWER_FIELDS :: "string list" where "NEWER_FIELDS = [''crop'', ''transition_out'', ''color_adjustment'']"

definition newer_allowed :: "timeline \<Rightarrow> fields \<Rightarrow> raised + unit" where
  "newer_allowed doc d = check (\<not> (list_ex (\<lambda>k. dget d k \<noteq> None) NEWER_FIELDS \<and> \<not> has_version doc 2))
     ''STUDIO_TIMELINE_EDIT_SCHEMA_UPGRADE_REQUIRED''"

definition edit_clip_insert :: "fields \<Rightarrow> timeline \<Rightarrow> raised + timeline" where
  "edit_clip_insert raw doc =
     sbind (edit_fields (VDict raw) [''op'', ''track_id'', ''clip''] []) (\<lambda>body.
     sbind (edit_fields (fld body ''clip'') REQUIRED_CLIP OPTIONAL_CLIP) (\<lambda>clip.
     sbind (edit_id (fld clip ''id'')) (\<lambda>_.
     sbind (newer_allowed doc clip) (\<lambda>_.
     sbind (edit_int (fld clip ''start_ms'')) (\<lambda>_.
     sbind (edit_duration (VDict clip)) (\<lambda>_.
     sbind (find_track doc (fld body ''track_id'')) (\<lambda>i.
     sbind (editable doc i) (\<lambda>_.
     Inr (add_clip i clip doc)))))))))"

definition edit_clip_update :: "fields \<Rightarrow> timeline \<Rightarrow> raised + timeline" where
  "edit_clip_update raw doc =
     sbind (edit_fields (VDict raw) [''op'', ''clip_id'', ''changes''] []) (\<lambda>body.
     sbind (edit_fields (fld body ''changes'') [] (tl REQUIRED_CLIP @ OPTIONAL_CLIP)) (\<lambda>changes.
     sbind (check (changes \<noteq> []) ''STUDIO_TIMELINE_EDIT_EMPTY'') (\<lambda>_.
     sbind (newer_allowed doc changes) (\<lambda>_.
     sbind (sfold (\<lambda>_ k. case dget changes k of None \<Rightarrow> Inr () | Some v \<Rightarrow> sbind (edit_int v) (\<lambda>_. Inr ())) ()
       [''start_ms'', ''in_ms'', ''out_ms'', ''x'', ''y'', ''width'', ''height'', ''speed_num'', ''speed_den'', ''fade_in_ms'', ''fade_out_ms'']) (\<lambda>_.
     sbind (find_clip doc (fld body ''clip_id'')) (\<lambda>p.
     sbind (editable doc (fst p)) (\<lambda>_.
     sbind (check (\<not> (dget changes ''color_adjustment'' \<noteq> None \<and>
         \<not> py_eq (fld (tk_fields (track_at doc (fst p))) ''kind'') (vtext ''VIDEO''))) ''STUDIO_TIMELINE_COLOR_REQUIRES_VIDEO'') (\<lambda>_.
     let removed = filter (\<lambda>k. dget changes k = Some VNull) NEWER_FIELDS
     in Inr (upd_clip p (\<lambda>c. dmerge (foldl dpop c removed) (foldl dpop changes removed)) doc)))))))))"

definition edit_clip_remove :: "fields \<Rightarrow> timeline \<Rightarrow> raised + timeline" where
  "edit_clip_remove raw doc =
     sbind (edit_fields (VDict raw) [''op'', ''clip_id'', ''ripple''] []) (\<lambda>body.
     sbind (find_clip doc (fld body ''clip_id'')) (\<lambda>p.
     sbind (editable doc (fst p)) (\<lambda>_.
     sbind (edit_bool (fld body ''ripple'')) (\<lambda>ripple.
     let clip = clip_at doc p
     in if ripple
        then sbind (edit_duration (VDict clip)) (\<lambda>len.
             Inr (drop_clip p (shift (fst p) (int_fld clip ''start_ms'' + len) (- len) (fld clip ''id'') doc)))
        else Inr (drop_clip p doc)))))"

definition edit_clip_move :: "fields \<Rightarrow> timeline \<Rightarrow> raised + timeline" where
  "edit_clip_move raw doc =
     sbind (edit_fields (VDict raw) [''op'', ''clip_id'', ''track_id'', ''start_ms''] []) (\<lambda>body.
     sbind (find_clip doc (fld body ''clip_id'')) (\<lambda>p.
     sbind (find_track doc (fld body ''track_id'')) (\<lambda>k.
     sbind (editable doc (fst p)) (\<lambda>_. sbind (editable doc k) (\<lambda>_.
     sbind (check (py_eq (fld (tk_fields (track_at doc k)) ''kind'') (fld (tk_fields (track_at doc (fst p))) ''kind''))
       ''STUDIO_TIMELINE_EDIT_MOVE_KIND_INVALID'') (\<lambda>_.
     sbind (edit_int (fld body ''start_ms'')) (\<lambda>start.
     let clip = clip_at doc p
     in
     sbind (case clip_link doc (fld clip ''id'') of
         None \<Rightarrow> Inr doc
       | Some pair \<Rightarrow>
           let partner_id = (if py_eq (fld pair ''video_clip_id'') (fld clip ''id'') then fld pair ''audio_clip_id'' else fld pair ''video_clip_id'')
           in sbind (find_clip doc partner_id) (\<lambda>q.
              sbind (editable doc (fst q)) (\<lambda>_.
              Inr (upd_clip q (\<lambda>c. dset c ''start_ms'' (VInt (int_fld c ''start_ms'' + (start - int_fld clip ''start_ms'')))) doc)))) (\<lambda>doc.
     Inr (add_clip k (dset clip ''start_ms'' (VInt start)) (drop_clip p doc))))))))))"

definition edit_clip_duplicate :: "fields \<Rightarrow> timeline \<Rightarrow> raised + timeline" where
  "edit_clip_duplicate raw doc =
     sbind (edit_fields (VDict raw) [''op'', ''clip_id'', ''new_clip_id'', ''track_id'', ''start_ms''] []) (\<lambda>body.
     sbind (find_clip doc (fld body ''clip_id'')) (\<lambda>p.
     sbind (find_track doc (fld body ''track_id'')) (\<lambda>k.
     sbind (editable doc (fst p)) (\<lambda>_. sbind (editable doc k) (\<lambda>_.
     sbind (check (py_eq (fld (tk_fields (track_at doc k)) ''kind'') (fld (tk_fields (track_at doc (fst p))) ''kind''))
       ''STUDIO_TIMELINE_EDIT_MOVE_KIND_INVALID'') (\<lambda>_.
     sbind (edit_id (fld body ''new_clip_id'')) (\<lambda>cid.
     sbind (edit_int (fld body ''start_ms'')) (\<lambda>start.
     Inr (add_clip k (dset (dset (dpop (clip_at doc p) ''transition_out'') ''id'' (VStr cid)) ''start_ms'' (VInt start)) doc)))))))))"

text \<open>The two pieces of a cut: the head keeps identity and place, the tail gets the rest.\<close>

definition zeroed :: "string \<Rightarrow> fields \<Rightarrow> fields" where
  "zeroed k c = (if dget c k \<noteq> None then dset c k (VInt 0) else c)"

definition split_head :: "int \<Rightarrow> fields \<Rightarrow> fields" where
  "split_head cut_ms clip = zeroed ''fade_out_ms'' (dpop (dset clip ''out_ms'' (VInt cut_ms)) ''transition_out'')"

definition split_tail :: "utext \<Rightarrow> int \<Rightarrow> int \<Rightarrow> int \<Rightarrow> fields \<Rightarrow> fields" where
  "split_tail cid at_ms offset cut_ms clip =
     (let copied = dset (dset (dset clip ''id'' (VStr cid)) ''start_ms'' (VInt at_ms)) ''in_ms'' (VInt cut_ms);
          copied = (if asset_kind_of clip = vtext ''image''
                    then dset (dset copied ''in_ms'' (VInt 0)) ''out_ms'' (VInt (int_fld clip ''out_ms'' - offset)) else copied)
      in zeroed ''fade_in_ms'' copied)"

definition edit_clip_split :: "fields \<Rightarrow> timeline \<Rightarrow> raised + timeline" where
  "edit_clip_split raw doc =
     sbind (edit_fields (VDict raw) [''op'', ''clip_id'', ''at_ms'', ''new_clip_id''] []) (\<lambda>body.
     sbind (find_clip doc (fld body ''clip_id'')) (\<lambda>p.
     sbind (editable doc (fst p)) (\<lambda>_.
     sbind (edit_int (fld body ''at_ms'')) (\<lambda>at_ms.
     let clip = clip_at doc p; offset = at_ms - int_fld clip ''start_ms''
     in
     sbind (check (0 < offset) ''STUDIO_TIMELINE_EDIT_SPLIT_OUTSIDE_CLIP'') (\<lambda>_.
     sbind (edit_duration (VDict clip)) (\<lambda>len.
     sbind (check (offset < len) ''STUDIO_TIMELINE_EDIT_SPLIT_OUTSIDE_CLIP'') (\<lambda>_.
     case (getd clip ''speed_num'' (VInt 1), getd clip ''speed_den'' (VInt 1)) of
       (VInt num, VInt den) \<Rightarrow>
         sbind (check (offset * num mod den = 0) ''STUDIO_TIMELINE_EDIT_FRACTIONAL_MS'') (\<lambda>_.
         let cut = int_fld clip ''in_ms'' + offset * num div den
         in sbind (edit_id (fld body ''new_clip_id'')) (\<lambda>cid.
            Inr (add_clip (fst p) (split_tail cid at_ms offset cut clip) (upd_clip p (split_head cut) doc))))
     | _ \<Rightarrow> Inl Type_Error)))))))"

definition edit_clip_trim :: "fields \<Rightarrow> timeline \<Rightarrow> raised + timeline" where
  "edit_clip_trim raw doc =
     sbind (edit_fields (VDict raw) [''op'', ''clip_id'', ''in_ms'', ''out_ms'', ''ripple''] []) (\<lambda>body.
     sbind (find_clip doc (fld body ''clip_id'')) (\<lambda>p.
     sbind (editable doc (fst p)) (\<lambda>_.
     sbind (edit_bool (fld body ''ripple'')) (\<lambda>ripple.
     let clip = clip_at doc p
     in
     sbind (edit_duration (VDict clip)) (\<lambda>previous.
     sbind (edit_int (fld body ''in_ms'')) (\<lambda>start.
     sbind (edit_int (fld body ''out_ms'')) (\<lambda>stop.
     let clip' = dset (dset clip ''in_ms'' (VInt start)) ''out_ms'' (VInt stop);
         doc = upd_clip p (\<lambda>_. clip') doc
     in if ripple
        then sbind (edit_duration (VDict clip')) (\<lambda>len.
             Inr (shift (fst p) (int_fld clip ''start_ms'' + previous) (len - previous) (fld clip ''id'') doc))
        else Inr doc)))))))"

definition edit_clip_slip :: "fields \<Rightarrow> timeline \<Rightarrow> raised + timeline" where
  "edit_clip_slip raw doc =
     sbind (edit_fields (VDict raw) [''op'', ''clip_id'', ''offset_ms''] []) (\<lambda>body.
     sbind (find_clip doc (fld body ''clip_id'')) (\<lambda>p.
     sbind (editable doc (fst p)) (\<lambda>_.
     sbind (edit_duration (VDict (clip_at doc p))) (\<lambda>_.
     sbind (check (case fld (clip_at doc p) ''source_snapshot'' of
         VDict d \<Rightarrow> \<not> py_eq (fld d ''asset_kind'') (vtext ''image'') | _ \<Rightarrow> False) ''STUDIO_TIMELINE_EDIT_STILL_SLIP_INVALID'') (\<lambda>_.
     sbind (edit_int (fld body ''offset_ms'')) (\<lambda>delta.
     Inr (upd_clip p (\<lambda>c. dset (dset c ''in_ms'' (VInt (int_fld c ''in_ms'' + delta))) ''out_ms'' (VInt (int_fld c ''out_ms'' + delta))) doc)))))))"

section \<open>Captions\<close>

definition edit_caption :: "string \<Rightarrow> fields \<Rightarrow> timeline \<Rightarrow> raised + timeline" where
  "edit_caption operation raw doc =
     sbind (check (\<not> has_version doc 3) ''STUDIO_TIMELINE_AUDIO_CAPTIONS_UNSUPPORTED'') (\<lambda>_.
     sbind (edit_fields (VDict raw) (if operation = ''caption.insert'' then [''op'', ''caption'']
         else if operation = ''caption.update'' then [''op'', ''index'', ''caption''] else [''op'', ''index'']) []) (\<lambda>body.
     case dget (tl_fields doc) ''captions'' of
       Some (VList captions) \<Rightarrow>
         let put = (\<lambda>cs. doc\<lparr>tl_fields := dset (tl_fields doc) ''captions'' (VList cs)\<rparr>)
         in if operation = ''caption.insert'' then Inr (put (captions @ [fld body ''caption'']))
            else sbind (edit_int (fld body ''index'')) (\<lambda>index.
                 sbind (check (0 \<le> index \<and> index < int (length captions)) ''STUDIO_TIMELINE_EDIT_CAPTION_NOT_FOUND'') (\<lambda>_.
                 Inr (put (if operation = ''caption.update'' then captions[nat index := fld body ''caption'']
                           else take (nat index) captions @ drop (Suc (nat index)) captions))))
     | _ \<Rightarrow> Inl Key_Error))"

section \<open>A batch\<close>

definition LINK_SENSITIVE :: "string list" where
  "LINK_SENSITIVE = [''clip.trim'', ''clip.split'', ''clip.slip'', ''clip.remove'', ''clip.duplicate'']"

definition breaks_link :: "utext \<Rightarrow> fields \<Rightarrow> timeline \<Rightarrow> bool" where
  "breaks_link operation raw doc \<longleftrightarrow> clip_link doc (fld raw ''clip_id'') \<noteq> None \<and>
     (operation \<in> points ` set LINK_SENSITIVE \<or>
      operation = points ''clip.update'' \<and> (\<exists>k \<in> set (dkeys (as_fields (fld raw ''changes''))).
        k \<in> {''source_snapshot'', ''start_ms'', ''in_ms'', ''out_ms'', ''speed_num'', ''speed_den''}))"

definition edit_linked :: "utext \<Rightarrow> fields \<Rightarrow> timeline \<Rightarrow> raised + timeline" where
  "edit_linked operation raw doc =
     (if operation = points ''clip.split_linked''
      then sbind (edit_fields (VDict raw) [''op'', ''video_clip_id'', ''audio_clip_id'', ''at_ms'', ''new_video_clip_id'', ''new_audio_clip_id''] []) (\<lambda>body.
           split_linked_pair doc (fld body ''video_clip_id'') (fld body ''audio_clip_id'') (fld body ''at_ms'')
             (fld body ''new_video_clip_id'') (fld body ''new_audio_clip_id''))
      else sbind (edit_fields (VDict raw) [''op'', ''video_clip_id'', ''audio_clip_id'', ''keep_from_ms'', ''keep_to_ms''] []) (\<lambda>body.
           trim_linked_pair doc (fld body ''video_clip_id'') (fld body ''audio_clip_id'') (fld body ''keep_from_ms'') (fld body ''keep_to_ms'')))"

definition OPERATIONS :: "(string, fields \<Rightarrow> timeline \<Rightarrow> raised + timeline) dict" where
  "OPERATIONS = [
     (''clip.split_linked'', edit_linked (points ''clip.split_linked'')), (''clip.trim_linked'', edit_linked (points ''clip.trim_linked'')),
     (''clip.link'', edit_link), (''clip.unlink'', edit_unlink), (''canvas.update'', edit_canvas),
     (''track.insert'', edit_track_insert), (''track.remove'', edit_track_remove), (''track.update'', edit_track_update),
     (''track.reorder'', edit_track_reorder), (''clip.insert'', edit_clip_insert), (''clip.update'', edit_clip_update),
     (''clip.remove'', edit_clip_remove), (''clip.move'', edit_clip_move), (''clip.duplicate'', edit_clip_duplicate),
     (''clip.split'', edit_clip_split), (''clip.trim'', edit_clip_trim), (''clip.slip'', edit_clip_slip),
     (''caption.insert'', edit_caption ''caption.insert''), (''caption.update'', edit_caption ''caption.update''),
     (''caption.remove'', edit_caption ''caption.remove'')]"

definition apply_operation :: "timeline \<Rightarrow> val \<Rightarrow> raised + timeline" where
  "apply_operation doc raw = (case raw of
     VDict d \<Rightarrow>
       (case fld d ''op'' of
          VStr operation \<Rightarrow>
            sbind (check (\<not> breaks_link operation d doc) ''STUDIO_TIMELINE_LINK_EDIT_UNSUPPORTED_UNLINK_FIRST'') (\<lambda>_.
            case dget (map (\<lambda>(k, f). (points k, f)) OPERATIONS) operation of
              Some f \<Rightarrow> f d doc
            | None \<Rightarrow> invalid ''STUDIO_TIMELINE_EDIT_OPERATION_UNSUPPORTED'')
        | _ \<Rightarrow> invalid ''STUDIO_TIMELINE_EDIT_OPERATION_UNSUPPORTED'')
   | _ \<Rightarrow> invalid ''STUDIO_TIMELINE_EDIT_FIELDS_INVALID'')"

text \<open>\<open>any(isinstance(o, dict) and o.get('op') in {...} for o in operations)\<close>: a list or a dictionary
  under \<open>op\<close> cannot be hashed, so the test itself raises \<open>TypeError\<close>.\<close>

fun has_linked :: "val list \<Rightarrow> raised + bool" where
  "has_linked [] = Inr False"
| "has_linked (VDict d # rest) = (case fld d ''op'' of
     VStr operation \<Rightarrow> if operation \<in> {points ''clip.split_linked'', points ''clip.trim_linked''} then Inr True else has_linked rest
   | VList _ \<Rightarrow> Inl Type_Error
   | VDict _ \<Rightarrow> Inl Type_Error
   | _ \<Rightarrow> has_linked rest)"
| "has_linked (_ # rest) = has_linked rest"

definition apply_timeline_edits :: "(val \<Rightarrow> nat option) \<Rightarrow> val \<Rightarrow> val \<Rightarrow> raised + timeline" where
  "apply_timeline_edits dumped v operations =
     sbind (normalize_studio_timeline v) (\<lambda>doc.
     case operations of
       VList raws \<Rightarrow>
         sbind (check (1 \<le> length raws \<and> length raws \<le> 40) ''STUDIO_TIMELINE_EDIT_OPERATION_LIMIT'') (\<lambda>_.
         sbind (case dumped operations of
             None \<Rightarrow> invalid ''json''
           | Some n \<Rightarrow> check (n \<le> 128000) ''STUDIO_TIMELINE_EDIT_BYTES_LIMIT'') (\<lambda>_.
         sbind (has_linked raws) (\<lambda>linked.
         sbind (check (\<not> (linked \<and> length raws \<noteq> 1)) ''STUDIO_TIMELINE_LINKED_EDIT_SINGLE_OPERATION_REQUIRED'') (\<lambda>_.
         sbind (sfold apply_operation doc raws) (\<lambda>doc.
         normalize_studio_timeline (timeline_value doc))))))
     | _ \<Rightarrow> invalid ''STUDIO_TIMELINE_EDIT_OPERATION_LIMIT'')"

section \<open>The fence around locked tracks\<close>

definition require_timeline_lock_preservation :: "val \<Rightarrow> val \<Rightarrow> raised + timeline" where
  "require_timeline_lock_preservation current replacement =
     sbind (normalize_studio_timeline current) (\<lambda>before.
     sbind (normalize_studio_timeline replacement) (\<lambda>after.
     sbind (require_clip_link_preservation before after) (\<lambda>_.
     let locked = filter is_locked (tl_tracks before)
     in if locked = [] then Inr after
        else
          sbind (check (\<not> list_ex (\<lambda>k. fld (tl_fields before) k \<noteq> fld (tl_fields after) k) CANVAS_FIELDS) ''STUDIO_TIMELINE_TRACK_LOCKED'') (\<lambda>_.
          let by_id = dict_of (map (\<lambda>t. (fld (tk_fields t) ''id'', t)) (tl_tracks after))
          in sbind (check (\<not> list_ex (\<lambda>t. dget by_id (fld (tk_fields t) ''id'') \<noteq> Some t) locked) ''STUDIO_TIMELINE_TRACK_LOCKED'') (\<lambda>_.
             Inr after)))))"

end
