(* ===== verification/Timeline_Fixed.thy ===== *)
theory Timeline_Fixed
  imports Timeline_Normal
begin

text \<open>
  The normalized form is a fixed point: read back, every clip, track and document is accepted
  and yields itself. What the loops remember is a list of \<open>entry\<close>s; whether they all go through
  does not depend on their order, which the normalizer changes by sorting.
\<close>

section \<open>Fields\<close>

lemma guard_True [simp]: "guard True e = Inr ()" by simp

lemma getd_Some: "dget d k = Some v \<Longrightarrow> getd d k w = v" by (simp add: getd_def)

lemma object_of_Inr: "object_of v allowed required = Inr d \<longleftrightarrow>
    v = VDict d \<and> set (dkeys d) \<subseteq> set allowed \<and> set required \<subseteq> set (dkeys d)"
  by (cases v) (auto simp: object_of_def)

lemma integer_of_Inr: "integer_of v lo hi = Inr i \<longleftrightarrow> v = VInt i \<and> lo \<le> i \<and> i \<le> hi"
  by (cases v) (auto simp: integer_of_def)

lemma identity_of_Inr: "identity_of v = Inr s \<longleftrightarrow> v = VStr s \<and> id_text s"
  by (cases v) (auto simp: identity_of_def)

lemma boolean_of_Inr: "boolean_of v = Inr b \<longleftrightarrow> v = VBool b"
  by (cases v) (auto simp: boolean_of_def)

lemma number_of_Inr: "number_of v lo hi code = Inr q \<Longrightarrow> lo \<le> q \<and> q \<le> hi \<and> number_of (VFloat q) lo hi code = Inr q"
  by (cases v) (auto simp: number_of_def split: if_splits)

lemmas value_Inr = object_of_Inr integer_of_Inr identity_of_Inr boolean_of_Inr

lemma optional_settled:
  assumes "optional_field key f d = Inr xs" and "\<And>v w. f v = Inr w \<Longrightarrow> f w = Inr w"
  shows "xs = [] \<or> (\<exists>w. xs = [(key, w)] \<and> f w = Inr w)"
  using assms by (fastforce simp: optional_field_def sbind_Inr_iff split: option.splits)

lemma color_settled:
  assumes "color_of v = Inr w"
  shows "color_of w = Inr w"
proof -
  obtain b c s where "w = VDict [(''brightness'', VFloat b), (''contrast'', VFloat c), (''saturation'', VFloat s)]"
    "number_of (VFloat b) (-1) 1 ''STUDIO_TIMELINE_COLOR_ADJUSTMENT_INVALID'' = Inr b"
    "number_of (VFloat c) 0 2 ''STUDIO_TIMELINE_COLOR_ADJUSTMENT_INVALID'' = Inr c"
    "number_of (VFloat s) 0 3 ''STUDIO_TIMELINE_COLOR_ADJUSTMENT_INVALID'' = Inr s"
    using assms unfolding color_of_def sbind_Inr_iff by (blast dest: number_of_Inr)
  then show ?thesis by (simp add: color_of_def object_of_def getd_def)
qed

lemma crop_settled:
  assumes "crop_of v = Inr w"
  shows "crop_of w = Inr w"
proof -
  obtain x y a b where "w = VDict (geometry_fields (x, y, a, b))" "0 \<le> x" "x \<le> 32767" "0 \<le> y" "y \<le> 32767"
    "1 \<le> a" "a \<le> 32768" "1 \<le> b" "b \<le> 32768"
    using assms unfolding crop_of_def sbind_Inr_iff integer_of_Inr by blast
  then show ?thesis by (simp add: crop_of_def object_of_def getd_def geometry_fields_def integer_of_def)
qed

lemma transition_settled:
  assumes "transition_of cv v = Inr w"
  shows "transition_of cv w = Inr w"
proof -
  obtain t d where "w = VDict [(''kind'', vtext ''CROSS_DISSOLVE''), (''to_clip_id'', VStr t), (''duration_ms'', VInt d)]"
    "id_text t" "- ((- 2000) div cv_fps cv) \<le> d" "d \<le> 10000"
    using assms unfolding transition_of_def sbind_Inr_iff integer_of_Inr identity_of_Inr by blast
  then show ?thesis by (simp add: transition_of_def object_of_def getd_def integer_of_def identity_of_def)
qed

section \<open>Clips\<close>

lemma geometry_settled:
  assumes "geometry_of cv clip = Inr (x, y, w, h)"
    and "dget c ''x'' = Some (VInt x)" "dget c ''y'' = Some (VInt y)" "dget c ''width'' = Some (VInt w)" "dget c ''height'' = Some (VInt h)"
  shows "geometry_of cv c = Inr (x, y, w, h)"
  using assms by (auto simp: geometry_of_def sbind_Inr_iff value_Inr getd_Some)

definition PICTURE_FIELDS :: "string list" where
  "PICTURE_FIELDS = [''x'', ''y'', ''width'', ''height'', ''opacity'', ''include_audio'', ''color_adjustment'', ''crop'', ''transition_out'']"

lemma picture_settled:
  assumes "picture_of cv clip item = Inr p" and fresh: "\<forall>k \<in> set PICTURE_FIELDS. dget d k = None"
  shows "picture_of cv (d @ p) item = Inr p \<and> set (dkeys p) \<subseteq> set PICTURE_FIELDS"
proof -
  obtain x y w h opacity audio color crop tr where run: "geometry_of cv clip = Inr (x, y, w, h)"
    "number_of (getd clip ''opacity'' (VFloat 1)) 0 1 ''STUDIO_TIMELINE_OPACITY_INVALID'' = Inr opacity"
    "\<not> (fld (as_fields (fld item ''source_snapshot'')) ''asset_kind'' = vtext ''image'' \<and>
          (int_fld item ''in_ms'' \<noteq> 0 \<or> int_fld item ''speed_num'' \<noteq> int_fld item ''speed_den'' \<or> audio))"
    "\<not> (\<not> audio \<and> fld item ''gain_db'' \<noteq> VFloat 0)"
    "optional_field ''color_adjustment'' color_of clip = Inr color" "optional_field ''crop'' crop_of clip = Inr crop"
    "optional_field ''transition_out'' (transition_of cv) clip = Inr tr"
    and p: "p = geometry_fields (x, y, w, h) @ [(''opacity'', VFloat opacity), (''include_audio'', VBool audio)] @ color @ crop @ tr"
    using assms(1) by (auto simp: picture_of_def sbind_Inr_iff)
  have opacity: "number_of (VFloat opacity) 0 1 ''STUDIO_TIMELINE_OPACITY_INVALID'' = Inr opacity"
    using number_of_Inr [OF run(2)] by simp
  have parts: "color = [] \<or> (\<exists>v. color = [(''color_adjustment'', v)] \<and> color_of v = Inr v)"
    "crop = [] \<or> (\<exists>v. crop = [(''crop'', v)] \<and> crop_of v = Inr v)"
    "tr = [] \<or> (\<exists>v. tr = [(''transition_out'', v)] \<and> transition_of cv v = Inr v)"
    by (rule optional_settled [OF run(5)], erule color_settled)
      (rule optional_settled [OF run(6)], erule crop_settled, rule optional_settled [OF run(7)], erule transition_settled)
  have new: "dget d ''x'' = None" "dget d ''y'' = None" "dget d ''width'' = None" "dget d ''height'' = None" "dget d ''opacity'' = None"
    "dget d ''include_audio'' = None" "dget d ''color_adjustment'' = None" "dget d ''crop'' = None" "dget d ''transition_out'' = None"
    using fresh by (simp_all add: PICTURE_FIELDS_def)
  have others: "dget color ''crop'' = None" "dget color ''transition_out'' = None" "dget crop ''transition_out'' = None"
    "dget crop ''color_adjustment'' = None" "dget tr ''color_adjustment'' = None" "dget tr ''crop'' = None"
    using parts by fastforce+
  have lookups: "dget (d @ p) ''color_adjustment'' = dget color ''color_adjustment''" "dget (d @ p) ''crop'' = dget crop ''crop''"
    "dget (d @ p) ''transition_out'' = dget tr ''transition_out''"
    unfolding p by (simp_all add: map_add_def geometry_fields_def new others split: option.splits)
  have "dget (d @ p) ''x'' = Some (VInt x)" "dget (d @ p) ''y'' = Some (VInt y)" "dget (d @ p) ''width'' = Some (VInt w)"
    "dget (d @ p) ''height'' = Some (VInt h)"
    unfolding p by (simp_all add: map_add_def geometry_fields_def new)
  then have geometry: "geometry_of cv (d @ p) = Inr (x, y, w, h)" by (rule geometry_settled [OF run(1)])
  have fields: "getd (d @ p) ''opacity'' v = VFloat opacity" "getd (d @ p) ''include_audio'' v = VBool audio" for v
    unfolding p by (simp_all add: map_add_def geometry_fields_def getd_def new)
  have "optional_field key f (d @ p) = Inr xs"
    if "dget (d @ p) key = dget xs key" "xs = [] \<or> (\<exists>v. xs = [(key, v)] \<and> f v = Inr v)" for key f xs
    using that by (auto simp: optional_field_def)
  note optionals = this [OF lookups(1) parts(1)] this [OF lookups(2) parts(2)] this [OF lookups(3) parts(3)]
  have "picture_of cv (d @ p) item = Inr p"
    unfolding picture_of_def using run(3,4) by (simp add: geometry fields optionals opacity boolean_of_def) (simp add: p)
  moreover have "set (dkeys p) \<subseteq> set PICTURE_FIELDS"
    using parts unfolding p by (auto simp: geometry_fields_def PICTURE_FIELDS_def)
  ultimately show ?thesis by blast
qed

datatype entry = Track_Entry utext int bool | Clip_Entry utext utext fields

text \<open>What one track or clip adds to \<open>seen\<close>.\<close>

fun enter :: "seen \<Rightarrow> entry \<Rightarrow> raised + seen" where
  "enter sn (Track_Entry tid order video) =
     sbind (check (tid \<notin> set (sn_ids sn) \<and> order \<notin> set (sn_orders sn)) ''STUDIO_TIMELINE_TRACK_ID_ORDER_KIND_INVALID'') (\<lambda>_.
     enter_track tid order video sn)"
| "enter sn (Clip_Entry cid sid snapshot) = sbind (enter_clip cid sn) (enter_source sid snapshot)"

lemma snapshot_object: "source_of (VDict (snapshot_of sid kind version digest)) = Inr (snapshot_of sid kind version digest)"
  by (simp add: source_of_def object_of_def snapshot_of_def)

lemma snapshot_fields [simp]:
  "fld (snapshot_of sid kind version digest) ''kind'' = vtext ''ASSET''"
  "fld (snapshot_of sid kind version digest) ''asset_kind'' = kind"
  "fld (snapshot_of sid kind version digest) ''digest'' = digest"
  "fld (snapshot_of sid kind version digest) ''id'' = VStr sid"
  "fld (snapshot_of sid kind version digest) ''version'' = VInt version"
  by (simp_all add: snapshot_of_def getd_def)

lemma reduced_speed:
  assumes "1 \<le> num" "num \<le> 4" "1 \<le> den" "den \<le> (4 :: int)"
  shows "1 \<le> num div gcd num den \<and> num div gcd num den \<le> 4 \<and> 1 \<le> den div gcd num den \<and> den div gcd num den \<le> 4 \<and>
    gcd (num div gcd num den) (den div gcd num den) = 1"
proof -
  have "num \<in> {1, 2, 3, 4}" "den \<in> {1, 2, 3, 4}" using assms by auto
  then show ?thesis by (elim insertE emptyE) (simp_all add: gcd_non_0_int)
qed

definition base_item :: "utext \<Rightarrow> fields \<Rightarrow> int \<Rightarrow> int \<Rightarrow> int \<Rightarrow> int \<Rightarrow> int \<Rightarrow> bool \<Rightarrow> rat \<Rightarrow> fields" where
  "base_item cid snapshot placement start stop num den muted gain =
     [(''id'', VStr cid), (''source_snapshot'', VDict snapshot), (''start_ms'', VInt placement),
      (''in_ms'', VInt start), (''out_ms'', VInt stop), (''speed_num'', VInt num),
      (''speed_den'', VInt den), (''muted'', VBool muted), (''gain_db'', VFloat gain)]"

definition whole_item :: "fields \<Rightarrow> int \<Rightarrow> int \<Rightarrow> fields \<Rightarrow> fields" where
  "whole_item base fade_in fade_out picture = (base @ [(''fade_in_ms'', VInt fade_in), (''fade_out_ms'', VInt fade_out)]) @ picture"

lemma whole_item_fields:
  "getd (whole_item (base_item cid snap p a b n d m g) fi fo pic) ''id'' v = VStr cid"
  "getd (whole_item (base_item cid snap p a b n d m g) fi fo pic) ''source_snapshot'' v = VDict snap"
  "getd (whole_item (base_item cid snap p a b n d m g) fi fo pic) ''start_ms'' v = VInt p"
  "getd (whole_item (base_item cid snap p a b n d m g) fi fo pic) ''in_ms'' v = VInt a"
  "getd (whole_item (base_item cid snap p a b n d m g) fi fo pic) ''out_ms'' v = VInt b"
  "getd (whole_item (base_item cid snap p a b n d m g) fi fo pic) ''speed_num'' v = VInt n"
  "getd (whole_item (base_item cid snap p a b n d m g) fi fo pic) ''speed_den'' v = VInt d"
  "getd (whole_item (base_item cid snap p a b n d m g) fi fo pic) ''muted'' v = VBool m"
  "getd (whole_item (base_item cid snap p a b n d m g) fi fo pic) ''gain_db'' v = VFloat g"
  "getd (whole_item (base_item cid snap p a b n d m g) fi fo pic) ''fade_in_ms'' v = VInt fi"
  "getd (whole_item (base_item cid snap p a b n d m g) fi fo pic) ''fade_out_ms'' v = VInt fo"
  by (simp_all add: whole_item_def base_item_def getd_def)

lemma whole_item_object:
  assumes "set (dkeys pic) \<subseteq> set PICTURE_FIELDS"
  shows "object_of (VDict (whole_item (base_item cid snap p a b n d m g) fi fo pic)) CLIP_FIELDS
     [''id'', ''source_snapshot'', ''start_ms'', ''in_ms'', ''out_ms''] = Inr (whole_item (base_item cid snap p a b n d m g) fi fo pic)"
proof -
  have "set PICTURE_FIELDS \<subseteq> set CLIP_FIELDS" by (simp add: PICTURE_FIELDS_def CLIP_FIELDS_def)
  then have "set (dkeys pic) \<subseteq> set CLIP_FIELDS" using assms by blast
  then show ?thesis by (simp add: object_of_def whole_item_def base_item_def CLIP_FIELDS_def)
qed

lemma clip_v2_shape:
  assumes "clip_v2 cv video sn raw = Inr (sn', c)"
  obtains cid sid kind version digest p a b n d m g fi fo pic len base where
    "base = base_item cid (snapshot_of sid kind version digest) p a b n d m g" "c = whole_item base fi fo pic"
    "enter sn (Clip_Entry cid sid (snapshot_of sid kind version digest)) = Inr sn'"
    "id_text cid" "id_text sid" "kind \<in> (if video then {vtext ''video'', vtext ''image''} else {vtext ''audio''})" "digest_text digest"
    "1 \<le> version" "version \<le> 2 ^ 53 - 1" "0 \<le> p" "p \<le> cv_duration cv - 1" "0 \<le> a" "a \<le> 36000000" "1 \<le> b" "b \<le> 36000000" "a < b"
    "1 \<le> n" "n \<le> 4" "1 \<le> d" "d \<le> 4" "gcd n d = 1" "number_of (VFloat g) (-60) 12 ''STUDIO_TIMELINE_AUDIO_GAIN_INVALID'' = Inr g"
    "clip_duration_ms base = Inr len" "p + len \<le> cv_duration cv" "0 \<le> fi" "fi \<le> len" "0 \<le> fo" "fo \<le> len" "fi + fo \<le> len"
    "if video then \<exists>clip. picture_of cv clip (base @ [(''fade_in_ms'', VInt fi), (''fade_out_ms'', VInt fo)]) = Inr pic else pic = []"
proof -
  from assms obtain clip cid sn1 source sid version sn2 p a b num den m g len fi fo where
    run: "identity_of (fld clip ''id'') = Inr cid" "enter_clip cid sn = Inr sn1"
      "fld source ''kind'' = vtext ''ASSET''" "fld source ''asset_kind'' \<in> (if video then {vtext ''video'', vtext ''image''} else {vtext ''audio''})"
      "digest_text (fld source ''digest'')" "identity_of (fld source ''id'') = Inr sid"
      "integer_of (fld source ''version'') 1 (2 ^ 53 - 1) = Inr version"
      "enter_source sid (snapshot_of sid (fld source ''asset_kind'') version (fld source ''digest'')) sn1 = Inr sn2"
      "integer_of (fld clip ''start_ms'') 0 (cv_duration cv - 1) = Inr p" "integer_of (fld clip ''in_ms'') 0 36000000 = Inr a"
      "integer_of (fld clip ''out_ms'') 1 36000000 = Inr b" "\<not> b \<le> a"
      "integer_of (getd clip ''speed_num'' (VInt 1)) 1 4 = Inr num" "integer_of (getd clip ''speed_den'' (VInt 1)) 1 4 = Inr den"
      "number_of (getd clip ''gain_db'' (VFloat 0)) (-60) 12 ''STUDIO_TIMELINE_AUDIO_GAIN_INVALID'' = Inr g"
      "clip_duration_ms (base_item cid (snapshot_of sid (fld source ''asset_kind'') version (fld source ''digest'')) p a b
         (num div gcd num den) (den div gcd num den) m g) = Inr len" "\<not> p + len > cv_duration cv"
      "integer_of (getd clip ''fade_in_ms'' (VInt 0)) 0 len = Inr fi" "integer_of (getd clip ''fade_out_ms'' (VInt 0)) 0 len = Inr fo"
      "\<not> fi + fo > len"
    and last: "(let item = base_item cid (snapshot_of sid (fld source ''asset_kind'') version (fld source ''digest'')) p a b
         (num div gcd num den) (den div gcd num den) m g @ [(''fade_in_ms'', VInt fi), (''fade_out_ms'', VInt fo)]
       in if video then sbind (picture_of cv clip item) (\<lambda>picture. Inr (sn2, item @ picture))
        else sbind (check (\<forall>k \<in> {''x'', ''y'', ''width'', ''height'', ''opacity'', ''include_audio'', ''crop'', ''transition_out'',
                 ''color_adjustment''}. dget clip k = None) ''STUDIO_TIMELINE_VIDEO_GEOMETRY_REQUIRES_VIDEO'') (\<lambda>_.
             Inr (sn2, item))) = Inr (sn', c)"
    unfolding clip_v2_def sbind_Inr_iff Let_def base_item_def guard_iff by blast
  let ?base = "base_item cid (snapshot_of sid (fld source ''asset_kind'') version (fld source ''digest'')) p a b
         (num div gcd num den) (den div gcd num den) m g"
  let ?item = "?base @ [(''fade_in_ms'', VInt fi), (''fade_out_ms'', VInt fo)]"
  obtain pic where pic: "sn' = sn2" "c = ?item @ pic" "if video then picture_of cv clip ?item = Inr pic else pic = []"
    using last by (cases video) (auto simp: Let_def sbind_Inr_iff)
  have speed: "1 \<le> num \<and> num \<le> 4 \<and> 1 \<le> den \<and> den \<le> 4" using run(13,14) by (simp add: integer_of_Inr)
  have picture: "if video then \<exists>clip. picture_of cv clip ?item = Inr pic else pic = []" using pic(3) by (cases video) auto
  have c: "c = whole_item ?base fi fo pic" using pic(2) by (simp add: whole_item_def)
  have entered: "enter sn (Clip_Entry cid sid (snapshot_of sid (fld source ''asset_kind'') version (fld source ''digest''))) = Inr sn'"
    using run(2,8) pic(1) by simp
  have ids: "id_text cid" "id_text sid" using run(1,6) by (simp_all add: identity_of_Inr)
  have ints: "1 \<le> version" "version \<le> 2 ^ 53 - 1" "0 \<le> p" "p \<le> cv_duration cv - 1" "0 \<le> a" "a \<le> 36000000" "1 \<le> b" "b \<le> 36000000"
    "0 \<le> fi" "fi \<le> len" "0 \<le> fo" "fo \<le> len"
    using run(7,9,10,11,18,19) by (simp_all only: integer_of_Inr)
  have sums: "a < b" "p + len \<le> cv_duration cv" "fi + fo \<le> len" using run(12,17,20) by simp_all
  have gain: "number_of (VFloat g) (-60) 12 ''STUDIO_TIMELINE_AUDIO_GAIN_INVALID'' = Inr g" using number_of_Inr [OF run(15)] by blast
  note reduced = reduced_speed [OF conjunct1 [OF speed] conjunct1 [OF conjunct2 [OF speed]] conjunct1 [OF conjunct2 [OF conjunct2 [OF speed]]]
    conjunct2 [OF conjunct2 [OF conjunct2 [OF speed]]]]
  from reduced have parts: "1 \<le> num div gcd num den" "num div gcd num den \<le> 4" "1 \<le> den div gcd num den" "den div gcd num den \<le> 4"
    "gcd (num div gcd num den) (den div gcd num den) = 1" by blast+
  show thesis
    by (rule that [OF refl c entered ids run(4,5) ints(1-8) sums(1) parts gain run(16) sums(2) ints(9-12) sums(3) picture])
qed

lemma picture_keys_fresh:
  "\<forall>k \<in> set PICTURE_FIELDS. dget (base_item cid snap p a b n d m g @ [(''fade_in_ms'', VInt fi), (''fade_out_ms'', VInt fo)]) k = None"
  by (simp add: PICTURE_FIELDS_def base_item_def)

definition clip_entry :: "fields \<Rightarrow> entry" where
  "clip_entry c = (let snapshot = as_fields (fld c ''source_snapshot'')
     in Clip_Entry (text_fld c ''id'') (text_fld snapshot ''id'') snapshot)"

lemma clip_v2_settled:
  assumes "clip_v2 cv video sn raw = Inr (sn', c)"
  shows "enter sn (clip_entry c) = Inr sn' \<and> (\<forall>s. clip_v2 cv video s (VDict c) = sbind (enter s (clip_entry c)) (\<lambda>s'. Inr (s', c)))"
proof -
  from assms obtain cid sid kind version digest p a b n d m g fi fo pic len base where
    base: "base = base_item cid (snapshot_of sid kind version digest) p a b n d m g" and c: "c = whole_item base fi fo pic" and
    entered: "enter sn (Clip_Entry cid sid (snapshot_of sid kind version digest)) = Inr sn'" and
    facts: "id_text cid" "id_text sid" "kind \<in> (if video then {vtext ''video'', vtext ''image''} else {vtext ''audio''})" "digest_text digest"
      "1 \<le> version" "version \<le> 2 ^ 53 - 1" "0 \<le> p" "p \<le> cv_duration cv - 1" "0 \<le> a" "a \<le> 36000000" "1 \<le> b" "b \<le> 36000000" "a < b"
      "1 \<le> n" "n \<le> 4" "1 \<le> d" "d \<le> 4" "gcd n d = 1" "number_of (VFloat g) (-60) 12 ''STUDIO_TIMELINE_AUDIO_GAIN_INVALID'' = Inr g"
      "clip_duration_ms base = Inr len" "p + len \<le> cv_duration cv" "0 \<le> fi" "fi \<le> len" "0 \<le> fo" "fo \<le> len" "fi + fo \<le> len" and
    pic: "if video then \<exists>clip. picture_of cv clip (base @ [(''fade_in_ms'', VInt fi), (''fade_out_ms'', VInt fo)]) = Inr pic else pic = []"
    by (rule clip_v2_shape)
  let ?item = "base @ [(''fade_in_ms'', VInt fi), (''fade_out_ms'', VInt fo)]"
  have c': "c = ?item @ pic" using c by (simp add: whole_item_def)
  have picture: "video \<Longrightarrow> picture_of cv c ?item = Inr pic" and keys: "set (dkeys pic) \<subseteq> set PICTURE_FIELDS"
    using pic picture_settled [of cv _ ?item pic ?item] picture_keys_fresh unfolding c' base by (auto split: if_splits)
  have none: "\<not> video \<Longrightarrow> \<forall>k \<in> {''x'', ''y'', ''width'', ''height'', ''opacity'', ''include_audio'', ''crop'', ''transition_out'',
                 ''color_adjustment''}. dget c k = None"
    using pic unfolding c' base by (simp add: base_item_def)
  have reads: "object_of (VDict c) CLIP_FIELDS [''id'', ''source_snapshot'', ''start_ms'', ''in_ms'', ''out_ms''] = Inr c"
    unfolding c base using keys by (rule whole_item_object)
  have explicit: "?item = [(''id'', VStr cid), (''source_snapshot'', VDict (snapshot_of sid kind version digest)), (''start_ms'', VInt p),
      (''in_ms'', VInt a), (''out_ms'', VInt b), (''speed_num'', VInt n), (''speed_den'', VInt d), (''muted'', VBool m),
      (''gain_db'', VFloat g), (''fade_in_ms'', VInt fi), (''fade_out_ms'', VInt fo)]"
    by (simp add: base base_item_def)
  have len: "clip_duration_ms [(''id'', VStr cid), (''source_snapshot'', VDict (snapshot_of sid kind version digest)), (''start_ms'', VInt p),
      (''in_ms'', VInt a), (''out_ms'', VInt b), (''speed_num'', VInt n), (''speed_den'', VInt d), (''muted'', VBool m),
      (''gain_db'', VFloat g)] = Inr len"
    using facts(20) by (simp add: base base_item_def)
  have picture': "video \<Longrightarrow> picture_of cv c [(''id'', VStr cid), (''source_snapshot'', VDict (snapshot_of sid kind version digest)), (''start_ms'', VInt p),
      (''in_ms'', VInt a), (''out_ms'', VInt b), (''speed_num'', VInt n), (''speed_den'', VInt d), (''muted'', VBool m),
      (''gain_db'', VFloat g), (''fade_in_ms'', VInt fi), (''fade_out_ms'', VInt fo)] = Inr pic"
    using picture unfolding explicit .
  have whole: "video \<or> pic = []" "c = (''id'', VStr cid) # (''source_snapshot'', VDict (snapshot_of sid kind version digest)) # (''start_ms'', VInt p) #
      (''in_ms'', VInt a) # (''out_ms'', VInt b) # (''speed_num'', VInt n) # (''speed_den'', VInt d) # (''muted'', VBool m) #
      (''gain_db'', VFloat g) # (''fade_in_ms'', VInt fi) # (''fade_out_ms'', VInt fo) # pic"
    using pic unfolding c' explicit by (auto split: if_splits)
  have reads': "fld c ''id'' = VStr cid" "fld c ''source_snapshot'' = VDict (snapshot_of sid kind version digest)"
    "fld c ''start_ms'' = VInt p" "fld c ''in_ms'' = VInt a" "fld c ''out_ms'' = VInt b" "getd c ''speed_num'' (VInt 1) = VInt n"
      "getd c ''speed_den'' (VInt 1) = VInt d" "getd c ''muted'' (VBool False) = VBool m" "getd c ''gain_db'' (VFloat 0) = VFloat g"
      "getd c ''fade_in_ms'' (VInt 0) = VInt fi" "getd c ''fade_out_ms'' (VInt 0) = VInt fo"
      unfolding c base whole_item_fields by (rule refl)+
  have "clip_v2 cv video s (VDict c) = sbind (enter s (Clip_Entry cid sid (snapshot_of sid kind version digest))) (\<lambda>s'. Inr (s', c))" for s
  proof (cases "enter_clip cid s")
    case (Inl e)
    show ?thesis
      unfolding clip_v2_def reads sbind_simps reads' by (simp add: identity_of_def facts Inl)
  next
    case (Inr s1)
    show ?thesis
    proof (cases "enter_source sid (snapshot_of sid kind version digest) s1")
      case (Inl e)
      then show ?thesis using facts(3,6) Inr
        unfolding clip_v2_def reads sbind_simps reads'
        by (simp add: identity_of_def integer_of_def snapshot_object facts)
    next
      case (Inr s2)
      have sums: "\<not> b \<le> a" "\<not> cv_duration cv < p + len" "\<not> len < fi + fo" "p < cv_duration cv" using facts by auto
      show ?thesis
      proof (cases video)
        case True
        then show ?thesis
          unfolding clip_v2_def reads sbind_simps reads'
          using \<open>enter_clip cid s = Inr s1\<close> Inr facts(3,6) picture' whole
          by (simp add: identity_of_def integer_of_def boolean_of_def snapshot_object facts sums len Let_def)
      next
        case False
        then have kind: "kind = vtext ''audio''" using facts(3) by simp
        then show ?thesis
          unfolding clip_v2_def reads sbind_simps reads'
          using False \<open>enter_clip cid s = Inr s1\<close> Inr facts(6) none whole(1)
          by (simp add: identity_of_def integer_of_def boolean_of_def snapshot_object facts sums len [unfolded kind] Let_def)
            (simp add: whole(2))
      qed
    qed
  qed
  moreover have "clip_entry c = Clip_Entry cid sid (snapshot_of sid kind version digest)"
    using reads'(1,2) by (simp add: clip_entry_def text_fld_def as_fields_def)
  ultimately show ?thesis using entered by simp
qed

section \<open>Loops\<close>

abbreviation enters :: "seen \<Rightarrow> entry list \<Rightarrow> raised + seen" where "enters \<equiv> sfold enter"

text \<open>A body that settles: what it yields reads back as itself, whatever was seen before, provided
  \<open>adds\<close>, what the element brings along, can be entered.\<close>

locale settling =
  fixes body :: "seen \<Rightarrow> val \<Rightarrow> raised + seen \<times> 'a"
    and dump :: "'a \<Rightarrow> val"
    and adds :: "'a \<Rightarrow> entry list"
  assumes settled: "body sn raw = Inr (sn', x) \<Longrightarrow>
    (\<exists>es. mset es = mset (adds x) \<and> enters sn es = Inr sn') \<and>
    (\<forall>s s2 y. body s (dump x) = Inr (s2, y) \<longleftrightarrow> y = x \<and> enters s (adds x) = Inr s2)"
begin

lemma collect_from:
  assumes "sfold (\<lambda>(sn, xs) raw. sbind (body sn raw) (\<lambda>(sn, x). Inr (sn, xs @ [x]))) (sn, acc) raws = Inr (sn', xs)"
  shows "\<exists>new es. xs = acc @ new \<and> mset es = mset (concat (map adds new)) \<and> enters sn es = Inr sn' \<and>
    (\<forall>x \<in> set new. \<exists>s r s'. body s r = Inr (s', x)) \<and> length new = length raws"
  using assms
proof (induction raws arbitrary: sn acc)
  case (Cons raw raws)
  from Cons.prems obtain sn1 x where x: "body sn raw = Inr (sn1, x)" and
    rest: "sfold (\<lambda>(sn, xs) raw. sbind (body sn raw) (\<lambda>(sn, x). Inr (sn, xs @ [x]))) (sn1, acc @ [x]) raws = Inr (sn', xs)"
    by (auto simp: sbind_Inr_iff)
  obtain new es where new: "xs = (acc @ [x]) @ new" "mset es = mset (concat (map adds new))" "enters sn1 es = Inr sn'"
    "\<forall>x \<in> set new. \<exists>s r s'. body s r = Inr (s', x)" "length new = length raws"
    using Cons.IH [OF rest] by blast
  obtain es1 where "mset es1 = mset (adds x)" "enters sn es1 = Inr sn1" using settled [OF x] by blast
  then show ?case
    using new x by (intro exI [of _ "x # new"] exI [of _ "es1 @ es"]) (auto simp: sfold_append)
qed auto

lemma collect_adds:
  assumes "collect body sn raws = Inr (sn', xs)"
  shows "\<exists>es. mset es = mset (concat (map adds xs)) \<and> enters sn es = Inr sn'"
  using collect_from [OF assms [unfolded collect_def]] by auto

lemma collect_length: "collect body sn raws = Inr (sn', xs) \<Longrightarrow> length xs = length raws"
  unfolding collect_def by (drule collect_from) auto

lemma collect_again:
  assumes "\<forall>x \<in> set xs. \<exists>s r s'. body s r = Inr (s', x)"
  shows "sfold (\<lambda>(sn, xs) raw. sbind (body sn raw) (\<lambda>(sn, x). Inr (sn, xs @ [x]))) (s, acc) (map dump xs) = Inr (s2, zs) \<longleftrightarrow>
    zs = acc @ xs \<and> enters s (concat (map adds xs)) = Inr s2"
  using assms
proof (induction xs arbitrary: s acc)
  case (Cons x xs)
  then have x: "body s (dump x) = Inr (s', y) \<longleftrightarrow> y = x \<and> enters s (adds x) = Inr s'" for s s' y
    using settled by (metis list.set_intros(1))
  show ?case
    using Cons by (auto simp: sbind_Inr_iff x sfold_append)
qed auto

lemma collect_settled:
  assumes "collect body sn raws = Inr (sn', xs)" and "set ys \<subseteq> set xs"
  shows "collect body s (map dump ys) = Inr (s2, zs) \<longleftrightarrow> zs = ys \<and> enters s (concat (map adds ys)) = Inr s2"
  using collect_from [OF assms(1) [unfolded collect_def]] assms(2) collect_again [of ys s "[]"]
  unfolding collect_def by fastforce

end

interpretation clips_v2: settling "clip_v2 cv video" VDict "\<lambda>c. [clip_entry c]" for cv video
proof
  fix sn raw sn' c
  assume "clip_v2 cv video sn raw = Inr (sn', c)"
  from clip_v2_settled [OF this]
  show "(\<exists>es. mset es = mset [clip_entry c] \<and> enters sn es = Inr sn') \<and>
    (\<forall>s s2 y. clip_v2 cv video s (VDict c) = Inr (s2, y) \<longleftrightarrow> y = c \<and> enters s [clip_entry c] = Inr s2)"
    by (auto simp: sbind_Inr_iff intro!: exI [of _ "[clip_entry c]"])
qed

section \<open>Clips of the first schema\<close>

lemma clip_v1_settled:
  assumes "clip_v1 cv video sn raw = Inr (sn', c)"
  shows "enter sn (clip_entry c) = Inr sn' \<and> (\<forall>s. clip_v1 cv video s (VDict c) = sbind (enter s (clip_entry c)) (\<lambda>s'. Inr (s', c)))"
proof -
  define kind where "kind = vtext (if video then ''video'' else ''audio'')"
  from assms obtain clip cid sn1 source sid version sn2 p a b where
    run: "identity_of (fld clip ''id'') = Inr cid" "enter_clip cid sn = Inr sn1"
      "digest_text (fld source ''digest'')" "identity_of (fld source ''id'') = Inr sid"
      "integer_of (fld source ''version'') 1 (2 ^ 53 - 1) = Inr version"
      "enter_source sid (snapshot_of sid kind version (fld source ''digest'')) sn1 = Inr sn2"
      "integer_of (fld clip ''start_ms'') 0 (cv_duration cv - 1) = Inr p" "integer_of (fld clip ''in_ms'') 0 36000000 = Inr a"
      "integer_of (fld clip ''out_ms'') 1 36000000 = Inr b" "\<not> (b \<le> a \<or> p + b - a > cv_duration cv)"
    and last: "(let item = [(''id'', VStr cid), (''source_snapshot'', VDict (snapshot_of sid kind version (fld source ''digest''))),
         (''start_ms'', VInt p), (''in_ms'', VInt a), (''out_ms'', VInt b)]
       in if video then sbind (geometry_of cv clip) (\<lambda>g. Inr (sn2, item @ geometry_fields g))
        else sbind (check (\<forall>k \<in> {''x'', ''y'', ''width'', ''height''}. dget clip k = None)
               ''STUDIO_TIMELINE_VIDEO_GEOMETRY_REQUIRES_VIDEO'') (\<lambda>_. Inr (sn2, item))) = Inr (sn', c)"
    unfolding clip_v1_def sbind_Inr_iff Let_def guard_iff kind_def by blast
  define digest where "digest = fld source ''digest''"
  define snap where "snap = snapshot_of sid kind version digest"
  obtain pic where pic: "sn' = sn2" "c = [(''id'', VStr cid), (''source_snapshot'', VDict snap), (''start_ms'', VInt p), (''in_ms'', VInt a),
      (''out_ms'', VInt b)] @ pic"
    "if video then \<exists>g. geometry_of cv clip = Inr g \<and> pic = geometry_fields g else pic = []"
    using last unfolding snap_def digest_def by (cases video) (auto simp: Let_def sbind_Inr_iff)
  have entry: "clip_entry c = Clip_Entry cid sid snap"
    unfolding pic(2) clip_entry_def snap_def by (simp add: text_fld_def as_fields_def getd_def snapshot_of_def)
  have facts: "id_text cid" "id_text sid" "version \<le> 9007199254740991" "1 \<le> version" "0 \<le> p" "p < cv_duration cv" "0 \<le> a" "a \<le> 36000000"
    "1 \<le> b" "b \<le> 36000000" "\<not> b \<le> a" "\<not> p + b - a > cv_duration cv" "digest_text digest"
    using run unfolding digest_def by (auto simp: value_Inr)
  have reads: "object_of (VDict c) [''id'', ''source_snapshot'', ''start_ms'', ''in_ms'', ''out_ms'', ''x'', ''y'', ''width'', ''height'']
       [''id'', ''source_snapshot'', ''start_ms'', ''in_ms'', ''out_ms''] = Inr c"
  proof (cases video)
    case True
    then obtain x y w h where "pic = geometry_fields (x, y, w, h)" using pic(3) by auto
    then show ?thesis unfolding pic(2) by (simp add: object_of_def geometry_fields_def)
  next
    case False
    then show ?thesis using pic(3) unfolding pic(2) by (simp add: object_of_def)
  qed
  have reads': "fld c ''id'' = VStr cid" "fld c ''source_snapshot'' = VDict snap" "fld c ''start_ms'' = VInt p" "fld c ''in_ms'' = VInt a"
    "fld c ''out_ms'' = VInt b"
    unfolding pic(2) by (simp_all add: getd_def)
  have geometry: "\<exists>g. geometry_of cv c = Inr g \<and> pic = geometry_fields g" if video
  proof -
    from pic(3) that obtain x y w h where g: "geometry_of cv clip = Inr (x, y, w, h)" "pic = geometry_fields (x, y, w, h)" by auto
    have "geometry_of cv c = Inr (x, y, w, h)"
      by (rule geometry_settled [OF g(1)]) (simp_all add: pic(2) g(2) geometry_fields_def)
    then show ?thesis using g(2) by blast
  qed
  have "clip_v1 cv video s (VDict c) = sbind (enter s (Clip_Entry cid sid snap)) (\<lambda>s'. Inr (s', c))" for s
  proof (cases "enter_clip cid s")
    case (Inl e)
    then show ?thesis unfolding clip_v1_def reads sbind_simps reads' by (simp add: identity_of_def facts)
  next
    case (Inr s1)
    have source: "source_of (VDict snap) = Inr snap" unfolding snap_def by (rule snapshot_object)
    have fields: "fld snap ''id'' = VStr sid" "fld snap ''version'' = VInt version" "fld snap ''kind'' = vtext ''ASSET''"
      "fld snap ''asset_kind'' = kind" "fld snap ''digest'' = digest" unfolding snap_def by simp_all
    have rest: "clip_v1 cv video s (VDict c) = sbind (enter_source sid snap s1) (\<lambda>sn.
       let item = [(''id'', VStr cid), (''source_snapshot'', VDict snap), (''start_ms'', VInt p), (''in_ms'', VInt a), (''out_ms'', VInt b)]
       in if video then sbind (geometry_of cv c) (\<lambda>g. Inr (sn, item @ geometry_fields g))
        else sbind (check (\<forall>k \<in> {''x'', ''y'', ''width'', ''height''}. dget c k = None)
               ''STUDIO_TIMELINE_VIDEO_GEOMETRY_REQUIRES_VIDEO'') (\<lambda>_. Inr (sn, item)))"
      unfolding clip_v1_def reads sbind_simps reads'
      using Inr facts(3) by (simp add: identity_of_def integer_of_def facts source fields kind_def [symmetric] snap_def [symmetric] Let_def
          cong: if_cong)
    show ?thesis unfolding rest
      using geometry pic(2,3) Inr by (cases "enter_source sid snap s1"; cases video) auto
  qed
  then show ?thesis using run(2,6) pic(1) entry unfolding snap_def digest_def by simp
qed

interpretation clips_v1: settling "clip_v1 cv video" VDict "\<lambda>c. [clip_entry c]" for cv video
proof
  fix sn raw sn' c
  assume "clip_v1 cv video sn raw = Inr (sn', c)"
  from clip_v1_settled [OF this]
  show "(\<exists>es. mset es = mset [clip_entry c] \<and> enters sn es = Inr sn') \<and>
    (\<forall>s s2 y. clip_v1 cv video s (VDict c) = Inr (s2, y) \<longleftrightarrow> y = c \<and> enters s [clip_entry c] = Inr s2)"
    by (auto simp: sbind_Inr_iff intro!: exI [of _ "[clip_entry c]"])
qed

end
