(* ===== verification/Timeline_Documents.thy ===== *)
theory Timeline_Documents
  imports Timeline_Fixed
begin

text \<open>
  Tracks and whole documents as fixed points of the normalizer, captions and links included.
\<close>

section \<open>Entering does not depend on the order\<close>

primrec track_ids :: "entry \<Rightarrow> utext list" where
  "track_ids (Track_Entry tid order video) = [tid]" | "track_ids (Clip_Entry cid sid snap) = []"

primrec track_orders :: "entry \<Rightarrow> int list" where
  "track_orders (Track_Entry tid order video) = [order]" | "track_orders (Clip_Entry cid sid snap) = []"

primrec track_kinds :: "entry \<Rightarrow> bool list" where
  "track_kinds (Track_Entry tid order video) = [video]" | "track_kinds (Clip_Entry cid sid snap) = []"

primrec clip_ids :: "entry \<Rightarrow> utext list" where
  "clip_ids (Track_Entry tid order video) = []" | "clip_ids (Clip_Entry cid sid snap) = [cid]"

primrec clip_sources :: "entry \<Rightarrow> (utext \<times> fields) list" where
  "clip_sources (Track_Entry tid order video) = []" | "clip_sources (Clip_Entry cid sid snap) = [(sid, snap)]"

abbreviation all_of :: "(entry \<Rightarrow> 'a list) \<Rightarrow> entry list \<Rightarrow> 'a list" where "all_of f es \<equiv> concat (map f es)"

definition consistent :: "('a \<times> 'b) list \<Rightarrow> bool" where
  "consistent xs \<longleftrightarrow> (\<forall>a x y. (a, x) \<in> set xs \<longrightarrow> (a, y) \<in> set xs \<longrightarrow> x = y)"

lemma consistent_append: "consistent (xs @ ys) \<Longrightarrow> consistent xs" by (auto simp: consistent_def)

lemma consistent_snoc: "consistent (xs @ [(a, x)]) \<longleftrightarrow> consistent xs \<and> (\<forall>y. (a, y) \<in> set xs \<longrightarrow> y = x)"
  by (auto simp: consistent_def)

definition entries_ok :: "entry list \<Rightarrow> bool" where
  "entries_ok es \<longleftrightarrow> distinct (all_of track_ids es) \<and> distinct (all_of track_orders es) \<and>
     length (filter id (all_of track_kinds es)) \<le> 4 \<and> length (filter Not (all_of track_kinds es)) \<le> 4 \<and>
     distinct (all_of clip_ids es) \<and> length (all_of clip_ids es) \<le> MAX_CLIPS \<and>
     consistent (all_of clip_sources es)"

definition describes :: "seen \<Rightarrow> entry list \<Rightarrow> bool" where
  "describes s es \<longleftrightarrow> set (sn_ids s) = set (all_of track_ids es) \<and> set (sn_orders s) = set (all_of track_orders es) \<and>
     sn_video s = length (filter id (all_of track_kinds es)) \<and> sn_audio s = length (filter Not (all_of track_kinds es)) \<and>
     set (sn_clips s) = set (all_of clip_ids es) \<and> length (sn_clips s) = length (all_of clip_ids es) \<and>
     (\<forall>sid snap. dget (sn_sources s) sid = Some snap \<longleftrightarrow> (sid, snap) \<in> set (all_of clip_sources es))"

lemma enter_describes:
  assumes "describes s es" "entries_ok es"
  shows "(\<exists>s'. enter s e = Inr s') \<longleftrightarrow> entries_ok (es @ [e])"
    and "enter s e = Inr s' \<Longrightarrow> describes s' (es @ [e])"
proof -
  have "((\<exists>s'. enter s e = Inr s') \<longleftrightarrow> entries_ok (es @ [e])) \<and> (\<forall>s'. enter s e = Inr s' \<longrightarrow> describes s' (es @ [e]))"
  proof (cases e)
    case (Track_Entry tid order video)
    then show ?thesis
      using assms by (cases video)
        (auto simp: entries_ok_def describes_def enter_track_def sbind_Inr_iff Let_def simp del: set_concat)
  next
    case (Clip_Entry cid sid snap)
    then show ?thesis
    proof (cases "dget (sn_sources s) sid")
      case None
      then have "(sid, x) \<notin> set (all_of clip_sources es)" for x using assms(1) unfolding describes_def by (metis option.distinct(1))
      then show ?thesis using Clip_Entry None assms
        by (auto simp: entries_ok_def describes_def enter_clip_def enter_source_def sbind_Inr_iff Let_def consistent_snoc
            simp del: set_concat)
    next
      case (Some previous)
      then have only: "(sid, y) \<in> set (all_of clip_sources es) \<longleftrightarrow> y = previous" for y
        using assms(1) unfolding describes_def by (metis option.inject)
      have run: "enter s e = Inr s' \<longleftrightarrow> cid \<notin> set (sn_clips s) \<and> Suc (length (sn_clips s)) \<le> MAX_CLIPS \<and> snap = previous \<and>
          s' = s\<lparr>sn_clips := cid # sn_clips s\<rparr>" for s'
        using Clip_Entry Some by (auto simp: enter_clip_def enter_source_def sbind_Inr_iff Let_def)
      show ?thesis using Clip_Entry assms unfolding run
        by (auto simp: entries_ok_def describes_def consistent_snoc only simp del: set_concat)
    qed
  qed
  then show "(\<exists>s'. enter s e = Inr s') \<longleftrightarrow> entries_ok (es @ [e])" "enter s e = Inr s' \<Longrightarrow> describes s' (es @ [e])" by blast+
qed

lemma entries_ok_prefix: "entries_ok (es @ [e]) \<Longrightarrow> entries_ok es"
  by (auto simp: entries_ok_def dest: consistent_append)

lemma enters_iff: "(\<exists>s. enters nothing_seen es = Inr s) \<longleftrightarrow> entries_ok es"
  and enters_describes: "enters nothing_seen es = Inr s \<Longrightarrow> describes s es"
proof -
  have "((\<exists>s. enters nothing_seen es = Inr s) \<longleftrightarrow> entries_ok es) \<and> (\<forall>s. enters nothing_seen es = Inr s \<longrightarrow> describes s es)"
  proof (induction es rule: rev_induct)
    case Nil
    show ?case by (simp add: entries_ok_def describes_def nothing_seen_def consistent_def)
  next
    case (snoc e es)
    show ?case
    proof (cases "entries_ok es")
      case True
      then obtain s where "enters nothing_seen es = Inr s" "describes s es" using snoc by blast
      then show ?thesis using enter_describes [OF _ True] by (auto simp: sfold_append sbind_Inr_iff)
    next
      case False
      then show ?thesis using snoc entries_ok_prefix by (auto simp: sfold_append sbind_Inr_iff)
    qed
  qed
  then show "(\<exists>s. enters nothing_seen es = Inr s) \<longleftrightarrow> entries_ok es" "enters nothing_seen es = Inr s \<Longrightarrow> describes s es" by blast+
qed

lemma mset_all_of: "mset es = mset es' \<Longrightarrow> mset (all_of f es) = mset (all_of f es')"
proof -
  have "mset (all_of f xs) = (\<Sum>e \<in># mset xs. mset (f e))" for xs by (induction xs) auto
  then show "mset es = mset es' \<Longrightarrow> mset (all_of f es) = mset (all_of f es')" by simp
qed

lemma entries_ok_mset:
  assumes "mset es = mset es'"
  shows "entries_ok es = entries_ok es'"
    and "length (filter id (all_of track_kinds es)) = length (filter id (all_of track_kinds es'))"
proof -
  have m: "mset (all_of f es) = mset (all_of f es')" for f :: "entry \<Rightarrow> 'b list" using assms by (rule mset_all_of)
  have kinds: "length (filter P (all_of track_kinds es)) = length (filter P (all_of track_kinds es'))" for P
    using m [of track_kinds] by (metis mset_filter size_mset)
  have "distinct (all_of f es) = distinct (all_of f es')" for f :: "entry \<Rightarrow> 'b list"
    using m [of f] by (rule mset_eq_imp_distinct_iff)
  moreover have "length (all_of clip_ids es) = length (all_of clip_ids es')" using m by (metis size_mset)
  moreover have "set (all_of clip_sources es) = set (all_of clip_sources es')" using m by (metis set_mset_mset)
  ultimately show "entries_ok es = entries_ok es'" unfolding entries_ok_def kinds consistent_def by metis
  show "length (filter id (all_of track_kinds es)) = length (filter id (all_of track_kinds es'))" by (rule kinds)
qed

lemma enters_permuted:
  assumes "enters nothing_seen es = Inr s" "mset es = mset es'"
  shows "\<exists>s'. enters nothing_seen es' = Inr s' \<and> sn_video s' = sn_video s"
proof -
  have "entries_ok es'" using assms entries_ok_mset(1) enters_iff by metis
  then obtain s' where "enters nothing_seen es' = Inr s'" using enters_iff by blast
  then show ?thesis
    using enters_describes [OF assms(1)] enters_describes [of es' s'] entries_ok_mset(2) [OF assms(2)] by (auto simp: describes_def)
qed

section \<open>Tracks\<close>

definition track_adds :: "track \<Rightarrow> entry list" where
  "track_adds t = Track_Entry (text_fld (tk_fields t) ''id'') (int_fld (tk_fields t) ''order'') (is_video (fld (tk_fields t) ''kind''))
     # map clip_entry (tk_clips t)"

lemma sort_clips_again [simp]: "sort_clips (sort_clips cs) = sort_clips cs"
  by (simp add: sort_clips_def sort_key_id_if_sorted)

lemma mset_sort_clips [simp]: "mset (sort_clips cs) = mset cs" "set (sort_clips cs) = set cs" "length (sort_clips cs) = length cs"
  by (simp_all add: sort_clips_def)

lemma role_settled:
  assumes "role_of video d = Inr role" "getd d' ''role'' (vtext (if video then ''PRIMARY'' else ''DIALOGUE'')) = role"
  shows "role_of video d' = Inr role"
  using assms by (auto simp: role_of_def Let_def sbind_Inr_iff)

lemma locked_settled:
  assumes "optional_field ''locked'' (\<lambda>v. sbind (boolean_of v) (\<lambda>b. Inr (VBool b))) d = Inr xs" "dget d' ''locked'' = dget xs ''locked''"
  shows "optional_field ''locked'' (\<lambda>v. sbind (boolean_of v) (\<lambda>b. Inr (VBool b))) d' = Inr xs"
  using assms by (auto simp: optional_field_def sbind_Inr_iff boolean_of_Inr boolean_of_def split: option.splits)

lemma track_v2_shape:
  assumes "track_v2 audio_only cv sn raw = Inr (sn', t)"
  obtains tid order kind role muted gain locked clips sn1 raws d where
    "id_text tid" "0 \<le> order" "order \<le> 7" "kind \<in> {vtext ''VIDEO'', vtext ''AUDIO''}" "\<not> (audio_only \<and> is_video kind)"
    "enter sn (Track_Entry tid order (is_video kind)) = Inr sn1" "role_of (is_video kind) d = Inr role"
    "number_of (VFloat gain) (-60) 12 ''STUDIO_TIMELINE_AUDIO_GAIN_INVALID'' = Inr gain" "\<not> (is_video kind \<and> gain \<noteq> 0)"
    "1 \<le> length raws" "length raws \<le> MAX_CLIPS" "collect (clip_v2 cv (is_video kind)) sn1 raws = Inr (sn', clips)"
    "is_video kind \<longrightarrow> transitions_loop 0 (sort_clips clips) = Inr ()"
    "optional_field ''locked'' (\<lambda>v. sbind (boolean_of v) (\<lambda>b. Inr (VBool b))) d = Inr locked"
    "t = \<lparr>tk_fields = [(''id'', VStr tid), (''kind'', kind), (''order'', VInt order), (''role'', role), (''muted'', VBool muted),
       (''gain_db'', VFloat gain)] @ locked, tk_clips = sort_clips clips\<rparr>"
proof -
  from assms obtain d tid order sn1 role muted gain raws clips locked where
    run: "identity_of (fld d ''id'') = Inr tid" "integer_of (fld d ''order'') 0 7 = Inr order"
      "fld d ''kind'' \<in> {vtext ''VIDEO'', vtext ''AUDIO''} \<and> tid \<notin> set (sn_ids sn) \<and> order \<notin> set (sn_orders sn)"
      "\<not> (audio_only \<and> is_video (fld d ''kind''))" "enter_track tid order (is_video (fld d ''kind'')) sn = Inr sn1"
      "role_of (is_video (fld d ''kind'')) d = Inr role"
      "number_of (getd d ''gain_db'' (VFloat 0)) (-60) 12 ''STUDIO_TIMELINE_AUDIO_GAIN_INVALID'' = Inr gain"
      "\<not> (is_video (fld d ''kind'') \<and> gain \<noteq> 0)" "clips_field d = Inr raws"
      "collect (clip_v2 cv (is_video (fld d ''kind''))) sn1 raws = Inr (sn', clips)"
      "(if is_video (fld d ''kind'') then transitions_loop 0 (sort_clips clips) else Inr ()) = Inr ()"
      "optional_field ''locked'' (\<lambda>v. sbind (boolean_of v) (\<lambda>b. Inr (VBool b))) d = Inr locked"
    and t: "t = \<lparr>tk_fields = [(''id'', VStr tid), (''kind'', fld d ''kind''), (''order'', VInt order), (''role'', role), (''muted'', VBool muted),
       (''gain_db'', VFloat gain)] @ locked, tk_clips = sort_clips clips\<rparr>"
    unfolding track_v2_def sbind_Inr_iff Let_def guard_iff by (auto simp: sbind_Inr_iff)
  have "1 \<le> length raws \<and> length raws \<le> MAX_CLIPS" using run(9) by (auto simp: clips_field_def split: val.splits if_splits)
  then show thesis
    by (intro that [of tid order "fld d ''kind''" sn1 d role gain raws clips locked muted])
      (use run t number_of_Inr [OF run(7)] in \<open>auto simp: value_Inr\<close>)
qed

lemma track_v2_settled:
  assumes "track_v2 audio_only cv sn raw = Inr (sn', t)"
  shows "(\<exists>es. mset es = mset (track_adds t) \<and> enters sn es = Inr sn') \<and>
    (\<forall>s s2 y. track_v2 audio_only cv s (track_value t) = Inr (s2, y) \<longleftrightarrow> y = t \<and> enters s (track_adds t) = Inr s2)"
proof -
  from assms obtain tid order kind role muted gain locked clips sn1 raws d where
    facts: "id_text tid" "0 \<le> order" "order \<le> 7" "kind \<in> {vtext ''VIDEO'', vtext ''AUDIO''}" "\<not> (audio_only \<and> is_video kind)"
    "enter sn (Track_Entry tid order (is_video kind)) = Inr sn1" "role_of (is_video kind) d = Inr role"
    "number_of (VFloat gain) (-60) 12 ''STUDIO_TIMELINE_AUDIO_GAIN_INVALID'' = Inr gain" "\<not> (is_video kind \<and> gain \<noteq> 0)"
    "1 \<le> length raws" "length raws \<le> MAX_CLIPS" "collect (clip_v2 cv (is_video kind)) sn1 raws = Inr (sn', clips)"
    "is_video kind \<longrightarrow> transitions_loop 0 (sort_clips clips) = Inr ()"
    "optional_field ''locked'' (\<lambda>v. sbind (boolean_of v) (\<lambda>b. Inr (VBool b))) d = Inr locked"
    and t: "t = \<lparr>tk_fields = [(''id'', VStr tid), (''kind'', kind), (''order'', VInt order), (''role'', role), (''muted'', VBool muted),
       (''gain_db'', VFloat gain)] @ locked, tk_clips = sort_clips clips\<rparr>"
    by (rule track_v2_shape)
  let ?cs = "sort_clips clips"
  let ?d = "tk_fields t @ [(''clips'', VList (map VDict ?cs))]"
  have adds: "track_adds t = Track_Entry tid order (is_video kind) # map clip_entry ?cs"
    by (simp add: track_adds_def t text_fld_def int_fld_def getd_def)
  have first: "\<exists>es. mset es = mset (track_adds t) \<and> enters sn es = Inr sn'"
  proof -
    obtain es where "mset es = mset (concat (map (\<lambda>c. [clip_entry c]) clips))" "enters sn1 es = Inr sn'"
      using clips_v2.collect_adds [OF facts(12)] by blast
    then show ?thesis
      using facts(6) by (intro exI [of _ "Track_Entry tid order (is_video kind) # es"]) (simp add: adds del: enter.simps)
  qed
  have locked: "locked = [] \<or> (\<exists>b. locked = [(''locked'', VBool b)])"
    using facts(14) by (auto simp: optional_field_def sbind_Inr_iff boolean_of_Inr split: option.splits)
  have reads: "object_of (VDict ?d) [''id'', ''kind'', ''order'', ''role'', ''muted'', ''gain_db'', ''clips'', ''locked'']
       [''id'', ''kind'', ''order'', ''clips''] = Inr ?d"
    using locked unfolding t by (elim disjE exE) (simp_all add: object_of_def)
  have reads': "fld ?d ''id'' = VStr tid" "fld ?d ''kind'' = kind" "fld ?d ''order'' = VInt order" "getd ?d ''muted'' (VBool False) = VBool muted"
    "getd ?d ''gain_db'' (VFloat 0) = VFloat gain" "fld ?d ''clips'' = VList (map VDict ?cs)"
    using locked unfolding t by (elim disjE exE; simp add: getd_def)+
  have len: "length ?cs = length raws" using clips_v2.collect_length [OF facts(12)] by simp
  have clips_field: "clips_field ?d = Inr (map VDict ?cs)"
    unfolding clips_field_def reads' using facts(10,11) len by simp
  have role: "role_of (is_video kind) ?d = Inr role"
    using facts(7) by (rule role_settled) (simp add: t getd_def)
  have locked': "optional_field ''locked'' (\<lambda>v. sbind (boolean_of v) (\<lambda>b. Inr (VBool b))) ?d = Inr locked"
    using facts(14) by (rule locked_settled) (use locked in \<open>elim disjE exE; simp add: t\<close>)
  have again: "collect (clip_v2 cv (is_video kind)) s (map VDict ?cs) = Inr (s2, zs) \<longleftrightarrow>
      zs = ?cs \<and> enters s (map clip_entry ?cs) = Inr s2" for s s2 zs
    using clips_v2.collect_settled [OF facts(12), of ?cs s s2 zs] by simp
  have "track_v2 audio_only cv s (VDict ?d) = Inr (s2, y) \<longleftrightarrow> y = t \<and> enters s (track_adds t) = Inr s2" for s s2 y
  proof -
    have "track_v2 audio_only cv s (VDict ?d) = Inr (s2, y) \<longleftrightarrow>
        (\<exists>s1. enter s (Track_Entry tid order (is_video kind)) = Inr s1 \<and>
          (\<exists>s3 zs. collect (clip_v2 cv (is_video kind)) s1 (map VDict ?cs) = Inr (s3, zs) \<and>
            (is_video kind \<longrightarrow> transitions_loop 0 (sort_clips zs) = Inr ()) \<and> s2 = s3 \<and>
            y = \<lparr>tk_fields = [(''id'', VStr tid), (''kind'', kind), (''order'', VInt order), (''role'', role), (''muted'', VBool muted),
               (''gain_db'', VFloat gain)] @ locked, tk_clips = sort_clips zs\<rparr>))"
    proof -
      have kind: "(kind \<in> {vtext ''VIDEO'', vtext ''AUDIO''} \<and> P) = P" for P using facts(4) by simp
      have parts: "identity_of (VStr tid) = Inr tid" "integer_of (VInt order) 0 7 = Inr order" "boolean_of (VBool muted) = Inr muted"
        using facts(1-3) by (simp_all add: identity_of_def integer_of_def boolean_of_def)
      have transitions: "(if is_video kind then transitions_loop 0 cs else Inr ()) = Inr u \<longleftrightarrow>
          (is_video kind \<longrightarrow> transitions_loop 0 cs = Inr ())" for cs u by simp
      show ?thesis
        unfolding track_v2_def reads sbind_simps reads' Let_def kind parts facts(8) role clips_field locked' guard_iff(1) sbind_Inr_iff
        using facts(5,9) by (auto simp: sbind_Inr_iff transitions)
    qed
    also have "\<dots> \<longleftrightarrow> y = t \<and> enters s (track_adds t) = Inr s2"
      unfolding again adds using facts(13) by (auto simp: t sbind_Inr_iff simp del: enter.simps)
    finally show ?thesis .
  qed
  then show ?thesis using first by (simp add: track_value_def t)
qed

interpretation tracks_v2: settling "track_v2 audio_only cv" track_value track_adds for audio_only cv
  by unfold_locales (rule track_v2_settled)

lemma track_v1_settled:
  assumes "track_v1 cv sn raw = Inr (sn', t)"
  shows "(\<exists>es. mset es = mset (track_adds t) \<and> enters sn es = Inr sn') \<and>
    (\<forall>s s2 y. track_v1 cv s (track_value t) = Inr (s2, y) \<longleftrightarrow> y = t \<and> enters s (track_adds t) = Inr s2)"
proof -
  from assms obtain d tid order sn1 muted gain raws clips where
    run: "identity_of (fld d ''id'') = Inr tid" "integer_of (fld d ''order'') 0 7 = Inr order"
      "fld d ''kind'' \<in> {vtext ''VIDEO'', vtext ''AUDIO''} \<and> tid \<notin> set (sn_ids sn) \<and> order \<notin> set (sn_orders sn)"
      "enter_track tid order (is_video (fld d ''kind'')) sn = Inr sn1"
      "number_of (getd d ''gain_db'' (VFloat 0)) (-60) 12 ''STUDIO_TIMELINE_AUDIO_GAIN_INVALID'' = Inr gain"
      "\<not> (is_video (fld d ''kind'') \<and> gain \<noteq> 0)" "clips_field d = Inr raws"
      "collect (clip_v1 cv (is_video (fld d ''kind''))) sn1 raws = Inr (sn', clips)"
      "\<not> (is_video (fld d ''kind'') \<and> \<not> overlap_free (sort_clips clips))"
    and t: "t = \<lparr>tk_fields = [(''id'', VStr tid), (''kind'', fld d ''kind''), (''order'', VInt order), (''muted'', VBool muted),
       (''gain_db'', VFloat gain)], tk_clips = sort_clips clips\<rparr>"
    unfolding track_v1_def sbind_Inr_iff Let_def guard_iff by (auto simp: sbind_Inr_iff)
  define kind where "kind = fld d ''kind''"
  note run = run [folded kind_def] and t = t [folded kind_def]
  let ?cs = "sort_clips clips"
  let ?d = "tk_fields t @ [(''clips'', VList (map VDict ?cs))]"
  have adds: "track_adds t = Track_Entry tid order (is_video kind) # map clip_entry ?cs"
    by (simp add: track_adds_def t text_fld_def int_fld_def getd_def)
  obtain es where "mset es = mset (concat (map (\<lambda>c. [clip_entry c]) clips))" "enters sn1 es = Inr sn'"
    using clips_v1.collect_adds [OF run(8)] by blast
  then have first: "\<exists>es. mset es = mset (track_adds t) \<and> enters sn es = Inr sn'"
    using run(3,4) by (intro exI [of _ "Track_Entry tid order (is_video kind) # es"]) (simp add: adds)
  have reads: "object_of (VDict ?d) [''id'', ''kind'', ''order'', ''muted'', ''gain_db'', ''clips''] [''id'', ''kind'', ''order'', ''clips''] = Inr ?d"
    unfolding t by (simp add: object_of_def)
  have reads': "fld ?d ''id'' = VStr tid" "fld ?d ''kind'' = kind" "fld ?d ''order'' = VInt order" "getd ?d ''muted'' (VBool False) = VBool muted"
    "getd ?d ''gain_db'' (VFloat 0) = VFloat gain" "fld ?d ''clips'' = VList (map VDict ?cs)"
    unfolding t by (simp_all add: getd_def)
  have "1 \<le> length raws \<and> length raws \<le> MAX_CLIPS" using run(7) by (auto simp: clips_field_def split: val.splits if_splits)
  then have clips_field: "clips_field ?d = Inr (map VDict ?cs)"
    unfolding clips_field_def reads' using clips_v1.collect_length [OF run(8)] by simp
  have again: "collect (clip_v1 cv (is_video kind)) s (map VDict ?cs) = Inr (s2, zs) \<longleftrightarrow>
      zs = ?cs \<and> enters s (map clip_entry ?cs) = Inr s2" for s s2 zs
    using clips_v1.collect_settled [OF run(8), of ?cs s s2 zs] by simp
  have kind: "(kind \<in> {vtext ''VIDEO'', vtext ''AUDIO''} \<and> P) = P" for P using run(3) by simp
  have parts: "identity_of (VStr tid) = Inr tid" "integer_of (VInt order) 0 7 = Inr order" "boolean_of (VBool muted) = Inr muted"
    "number_of (VFloat gain) (-60) 12 ''STUDIO_TIMELINE_AUDIO_GAIN_INVALID'' = Inr gain"
    using run(1,2) number_of_Inr [OF run(5)] by (auto simp: identity_of_def integer_of_def boolean_of_def value_Inr split: val.splits if_splits)
  have "track_v1 cv s (VDict ?d) = Inr (s2, y) \<longleftrightarrow> y = t \<and> enters s (track_adds t) = Inr s2" for s s2 y
  proof -
    have "track_v1 cv s (VDict ?d) = Inr (s2, y) \<longleftrightarrow>
        (\<exists>s1. enter s (Track_Entry tid order (is_video kind)) = Inr s1 \<and>
          (\<exists>s3 zs. collect (clip_v1 cv (is_video kind)) s1 (map VDict ?cs) = Inr (s3, zs) \<and>
            \<not> (is_video kind \<and> \<not> overlap_free (sort_clips zs)) \<and> s2 = s3 \<and>
            y = \<lparr>tk_fields = [(''id'', VStr tid), (''kind'', kind), (''order'', VInt order), (''muted'', VBool muted),
               (''gain_db'', VFloat gain)], tk_clips = sort_clips zs\<rparr>))"
      unfolding track_v1_def reads sbind_simps reads' Let_def kind parts clips_field guard_iff(1) sbind_Inr_iff
      using run(6) by (auto simp: sbind_Inr_iff)
    also have "\<dots> \<longleftrightarrow> y = t \<and> enters s (track_adds t) = Inr s2"
      unfolding again adds using run(9) by (auto simp: t sbind_Inr_iff simp del: enter.simps)
    finally show ?thesis .
  qed
  then show ?thesis using first by (simp add: track_value_def t)
qed

interpretation tracks_v1: settling "track_v1 cv" track_value track_adds for cv
  by unfold_locales (rule track_v1_settled)

section \<open>Captions and links\<close>

lemma unix_lines_id: "13 \<notin> set s \<Longrightarrow> unix_lines s = s"
  by (induction s) auto

lemma unix_lines_set: "set (unix_lines s) \<subseteq> set s"
  by (induction s) auto

lemma literal_no_return: "literal_text s \<Longrightarrow> 13 \<notin> set s"
  by (auto simp: literal_text_def list_all_iff)

lemma length_unix_lines: "length (unix_lines s) \<le> length s"
  by (induction s) auto

lemma split_lines_subset: "l \<in> set (split_lines s) \<Longrightarrow> set l \<subseteq> set s"
  by (induction s arbitrary: l) (fastforce split: if_splits list.splits)+

lemma split_lines_not_Nil: "split_lines s \<noteq> []"
  by (induction s) (auto split: list.splits)

lemma not_blank_split:
  assumes "list_all not_blank (split_lines s)"
  shows "not_blank s"
proof -
  obtain l where l: "l \<in> set (split_lines s)" using split_lines_not_Nil [of s] by (cases "split_lines s") auto
  then have "not_blank l" using assms by (simp add: list_all_iff)
  then show ?thesis using split_lines_subset [OF l] by (auto simp: not_blank_def list_ex_iff)
qed

lemma caption_settled:
  assumes "caption_of cv raw = Inr cue"
  shows "caption_of cv (cue_value cue) = Inr cue"
proof -
  obtain d start stop where run: "integer_of (fld d ''start_ms'') 0 (cv_duration cv - 1) = Inr start"
      "integer_of (fld d ''end_ms'') 1 (cv_duration cv) = Inr stop" and
    rest: "(case fld d ''text'' of
       VStr words \<Rightarrow>
         sbind (check (not_blank words \<and> length words \<le> 1000) ''STUDIO_TIMELINE_CAPTION_TEXT_INVALID'') (\<lambda>_.
         let words = unix_lines words
         in sbind (check (start < stop \<and> literal_text words) ''STUDIO_TIMELINE_CAPTION_LITERAL_TEXT_REQUIRED'') (\<lambda>_.
            Inr (start, stop, words)))
     | _ \<Rightarrow> invalid ''STUDIO_TIMELINE_CAPTION_TEXT_INVALID'') = Inr cue"
    using assms unfolding caption_of_def sbind_Inr_iff by blast
  from rest obtain words where cue: "cue = (start, stop, unix_lines words)" and facts: "length words \<le> 1000" "start < stop"
      "literal_text (unix_lines words)"
    by (cases "fld d ''text''") (auto simp: Let_def sbind_Inr_iff)
  have same: "unix_lines (unix_lines words) = unix_lines words" using facts(3) by (intro unix_lines_id literal_no_return)
  have "not_blank (unix_lines words)" using facts(3) by (intro not_blank_split) (simp add: literal_text_def)
  moreover have "length (unix_lines words) \<le> 1000" using length_unix_lines [of words] facts(1) by simp
  ultimately show ?thesis
    using facts run unfolding cue integer_of_Inr
    by (simp add: caption_of_def cue_value_def object_of_def getd_def integer_of_def same Let_def)
qed

lemma captions_loop_iff:
  "captions_loop cv raws n = Inr cues \<longleftrightarrow> smap (caption_of cv) raws = Inr cues \<and>
     n + (\<Sum>c \<leftarrow> cues. length (snd (snd c))) \<le> MAX_CAPTION_CHARACTERS \<or> raws = [] \<and> cues = []"
proof (induction raws arbitrary: n cues)
  case (Cons raw raws)
  then show ?case by (auto simp: sbind_Inr_iff Let_def)
qed auto

lemma smap_settled: "\<forall>c \<in> set cues. caption_of cv (cue_value c) = Inr c \<Longrightarrow> smap (caption_of cv) (map cue_value cues) = Inr cues"
  by (induction cues) auto

lemma captions_settled:
  assumes "captions_of cv row = Inr v" "getd row' ''captions'' (VList []) = v"
  shows "captions_of cv row' = Inr v"
proof -
  obtain raws cues where run: "getd row ''captions'' (VList []) = VList raws" "length raws \<le> 500" "captions_loop cv raws 0 = Inr cues"
    and v: "v = VList (map cue_value (sort cues))"
    using assms(1) unfolding captions_of_def
    by (cases "getd row ''captions'' (VList [])") (auto simp: sbind_Inr_iff split: if_splits)
  have cues: "smap (caption_of cv) raws = Inr cues" using run(3) by (auto simp: captions_loop_iff)
  have "\<forall>c \<in> set cues. caption_of cv (cue_value c) = Inr c" by (rule smap_all [OF cues]) (rule caption_settled)
  then have "smap (caption_of cv) (map cue_value (sort cues)) = Inr (sort cues)" by (intro smap_settled) simp
  then have "captions_loop cv (map cue_value (sort cues)) 0 = Inr (sort cues)"
    using run(3) by (auto simp: captions_loop_iff)
  moreover have "length (sort cues) \<le> 500" using smap_nth [OF cues] run(2) by simp
  ultimately show ?thesis using assms(2) by (simp add: captions_of_def v sorted_sort_id)
qed

lemma style_settled:
  assumes "normalize_caption_style v = Inr w"
  shows "normalize_caption_style w = Inr w"
proof -
  obtain row where row: "(case fld row ''primary_color'' of
       VStr color \<Rightarrow>
         if \<not> hex_color color then invalid ''STUDIO_TIMELINE_CAPTION_COLOR_INVALID''
         else
           let alignment = fld row ''alignment''
           in sbind (check (alignment \<in> {vtext ''TOP_CENTER'', vtext ''BOTTOM_CENTER''}) ''STUDIO_TIMELINE_CAPTION_ALIGNMENT_INVALID'') (\<lambda>_.
              sbind (integer_of (fld row ''font_size'') 8 72) (\<lambda>font_size.
              sbind (integer_of (fld row ''outline_width'') 0 4) (\<lambda>outline_width.
              Inr (VDict [(''font_size'', VInt font_size), (''primary_color'', VStr (map upper_ascii color)),
                (''alignment'', alignment), (''outline_width'', VInt outline_width)]))))
     | _ \<Rightarrow> invalid ''STUDIO_TIMELINE_CAPTION_COLOR_INVALID'') = Inr w"
    using assms unfolding normalize_caption_style_def sbind_Inr_iff by blast
  then obtain color al fs ow where w: "w = VDict [(''font_size'', VInt fs), (''primary_color'', VStr (map upper_ascii color)),
      (''alignment'', al), (''outline_width'', VInt ow)]" and facts: "hex_color color"
    "al \<in> {vtext ''TOP_CENTER'', vtext ''BOTTOM_CENTER''}" "8 \<le> fs" "fs \<le> 72" "0 \<le> ow" "ow \<le> 4"
    by (cases "fld row ''primary_color''") (auto simp: sbind_Inr_iff integer_of_Inr Let_def split: if_splits)
  have "upper_ascii (upper_ascii c) = upper_ascii c" for c unfolding upper_ascii_def by (cases "97 \<le> c \<and> c \<le> 122") auto
  then have "map upper_ascii (map upper_ascii color) = map upper_ascii color" by simp
  moreover have "hex_color (map upper_ascii color)"
    using facts(1) by (cases color) (auto simp: hex_color_def upper_ascii_def list_all_iff)
  ultimately show ?thesis
    using facts(2-6) unfolding w by (simp add: normalize_caption_style_def object_of_def getd_def integer_of_def Let_def del: map_map)
qed

text \<open>A link, its two clips not yet used: the table decides, the order of the links does not.\<close>

definition link_fits :: "track list \<Rightarrow> utext \<times> utext \<times> int \<Rightarrow> bool" where
  "link_fits tracks l \<longleftrightarrow> link_of tracks [] (link_value l) = Inr l"

lemma both_found: "(case (x, y) of (Some (p, q), Some (r, s)) \<Rightarrow> f p q r s | _ \<Rightarrow> Inl e) = Inr l \<longleftrightarrow>
    (\<exists>p q r s. x = Some (p, q) \<and> y = Some (r, s) \<and> f p q r s = Inr l)"
  by (cases x; cases y) auto

lemma link_of_Inr: "link_of tracks used raw = Inr (v, a, n) \<longleftrightarrow>
    (\<exists>row. object_of raw [''video_clip_id'', ''audio_clip_id'', ''offset_ms''] [''video_clip_id'', ''audio_clip_id'', ''offset_ms''] = Inr row \<and>
       fld row ''video_clip_id'' = VStr v \<and> fld row ''audio_clip_id'' = VStr a \<and> fld row ''offset_ms'' = VInt n) \<and>
    id_text v \<and> id_text a \<and> - MAX_DURATION_MS \<le> n \<and> n \<le> MAX_DURATION_MS \<and> v \<noteq> a \<and> v \<notin> set used \<and> a \<notin> set used \<and>
    (\<exists>vtr vc atr ac. dget (clip_table tracks) v = Some (vtr, vc) \<and> dget (clip_table tracks) a = Some (atr, ac) \<and>
       fld (tk_fields vtr) ''kind'' = vtext ''VIDEO'' \<and> fld (tk_fields atr) ''kind'' = vtext ''AUDIO'' \<and>
       int_fld ac ''start_ms'' - int_fld vc ''start_ms'' = n)"
proof -
  have cond: "(if c then invalid e else (r :: raised + utext \<times> utext \<times> int)) = Inr l \<longleftrightarrow> \<not> c \<and> r = Inr l" for c e r l by simp
  show ?thesis
    unfolding link_of_def sbind_Inr_iff cond both_found identity_of_Inr integer_of_Inr guard_iff by auto
qed

lemma link_of_iff:
  "link_of tracks used raw = Inr l \<longleftrightarrow> link_of tracks [] raw = Inr l \<and> fst l \<notin> set used \<and> fst (snd l) \<notin> set used"
  by (cases l) (auto simp: link_of_Inr)

lemma link_settled:
  assumes "link_of tracks [] raw = Inr l"
  shows "link_fits tracks l \<and> fst l \<noteq> fst (snd l)"
proof -
  obtain v a n where l: "l = (v, a, n)" by (cases l)
  have "object_of (link_value l) [''video_clip_id'', ''audio_clip_id'', ''offset_ms''] [''video_clip_id'', ''audio_clip_id'', ''offset_ms''] =
      Inr [(''video_clip_id'', VStr v), (''audio_clip_id'', VStr a), (''offset_ms'', VInt n)]"
    by (simp add: object_of_def link_value_def l)
  then show ?thesis
    using assms unfolding l link_fits_def link_of_Inr by (auto simp: getd_def)
qed

lemma links_loop_iff:
  "links_loop tracks used raws = Inr ls \<longleftrightarrow> smap (link_of tracks []) raws = Inr ls \<and>
     distinct (concat (map (\<lambda>l. [fst l, fst (snd l)]) ls)) \<and>
     set (concat (map (\<lambda>l. [fst l, fst (snd l)]) ls)) \<inter> set used = {}"
proof (induction raws arbitrary: used ls)
  case (Cons raw raws)
  have "links_loop tracks used (raw # raws) = Inr ls \<longleftrightarrow> (\<exists>l ls'. link_of tracks [] raw = Inr l \<and> fst l \<notin> set used \<and>
      fst (snd l) \<notin> set used \<and> links_loop tracks (fst l # fst (snd l) # used) raws = Inr ls' \<and> ls = l # ls')"
    using link_of_iff [of tracks used raw] by (auto simp: sbind_Inr_iff)
  then show ?case
    unfolding Cons.IH using link_settled [of tracks raw] by (auto simp: sbind_Inr_iff simp del: set_concat)
qed auto

lemma smap_links: "\<forall>l \<in> set ls. link_fits tracks l \<Longrightarrow> smap (link_of tracks []) (map link_value ls) = Inr ls"
  by (induction ls) (auto simp: link_fits_def)

lemma links_settled:
  assumes "normalize_clip_links tracks v = Inr w"
  shows "normalize_clip_links tracks w = Inr w"
proof -
  obtain raws ls where run: "length raws \<le> MAX_CLIP_LINKS" "links_loop tracks [] raws = Inr ls"
    and w: "w = VList (map link_value (sort_key (\<lambda>l. (fst l, fst (snd l))) ls))"
    using assms unfolding normalize_clip_links_def by (cases v) (auto simp: sbind_Inr_iff split: if_splits)
  let ?ls = "sort_key (\<lambda>l. (fst l, fst (snd l))) ls"
  have ls: "smap (link_of tracks []) raws = Inr ls" "distinct (concat (map (\<lambda>l. [fst l, fst (snd l)]) ls))"
    using run(2) by (simp_all add: links_loop_iff)
  have "\<forall>l \<in> set ls. link_fits tracks l" by (rule smap_all [OF ls(1)]) (simp add: link_settled)
  then have "smap (link_of tracks []) (map link_value ?ls) = Inr ?ls" by (intro smap_links) simp
  moreover have "distinct (concat (map (\<lambda>l. [fst l, fst (snd l)]) ?ls))"
  proof -
    have "mset (concat (map f xs)) = (\<Sum>x \<in># mset xs. mset (f x))" for f :: "utext \<times> utext \<times> int \<Rightarrow> utext list" and xs
      by (induction xs) auto
    then have "mset (concat (map (\<lambda>l. [fst l, fst (snd l)]) ?ls)) = mset (concat (map (\<lambda>l. [fst l, fst (snd l)]) ls))" by simp
    from mset_eq_imp_distinct_iff [OF this] show ?thesis using ls(2) by blast
  qed
  ultimately have "links_loop tracks [] (map link_value ?ls) = Inr ?ls" by (simp add: links_loop_iff)
  moreover have "length ?ls \<le> MAX_CLIP_LINKS" using smap_nth [OF ls(1)] run(1) by simp
  ultimately show ?thesis unfolding w by (simp add: normalize_clip_links_def sort_key_id_if_sorted)
qed

section \<open>Documents\<close>

context settling
begin

lemma collect_permuted:
  assumes "collect body nothing_seen raws = Inr (sn, xs)" and "mset ys = mset xs"
  shows "\<exists>s2. collect body nothing_seen (map dump ys) = Inr (s2, ys) \<and> sn_video s2 = sn_video sn"
proof -
  obtain es where es: "mset es = mset (concat (map adds xs))" "enters nothing_seen es = Inr sn"
    using collect_adds [OF assms(1)] by blast
  have sum: "mset (concat (map adds zs)) = (\<Sum>z \<in># mset zs. mset (adds z))" for zs by (induction zs) auto
  have "mset es = mset (concat (map adds ys))" using es(1) assms(2) by (simp only: sum)
  from enters_permuted [OF es(2) this] obtain s2 where "enters nothing_seen (concat (map adds ys)) = Inr s2" "sn_video s2 = sn_video sn"
    by blast
  moreover have "set ys \<subseteq> set xs" using assms(2) mset_eq_setD by blast
  ultimately show ?thesis using collect_settled [OF assms(1)] by blast
qed

end

lemma sort_tracks_again [simp]: "sort_tracks (sort_tracks ts) = sort_tracks ts" "mset (sort_tracks ts) = mset ts" "length (sort_tracks ts) = length ts"
  by (simp_all add: sort_tracks_def sort_key_id_if_sorted)

lemma canvas_again:
  assumes "canvas_of row = Inr cv"
    and "getd row' ''duration_ms'' VNull = VInt (cv_duration cv)" "getd row' ''width'' (VInt 1280) = VInt (cv_width cv)"
    "getd row' ''height'' (VInt 720) = VInt (cv_height cv)" "getd row' ''fps'' (VInt 24) = VInt (cv_fps cv)"
  shows "canvas_of row' = Inr cv"
  using assms(1) unfolding canvas_of_def sbind_Inr_iff assms(2-5) integer_of_Inr by auto

lemma tracks_field_again:
  assumes "tracks_field row = Inr raws" "fld row' ''tracks'' = VList ys" "length ys = length raws"
  shows "tracks_field row' = Inr ys"
  using assms unfolding tracks_field_def by (cases "fld row ''tracks''") (auto split: if_splits)

lemma normalize_v1_settled:
  assumes "normalize_v1 v = Inr t"
  shows "normalize_v1 (timeline_value t) = Inr t"
proof -
  obtain row cv raws sn tracks captions where run: "canvas_of row = Inr cv" "tracks_field row = Inr raws"
      "collect (track_v1 cv) nothing_seen raws = Inr (sn, tracks)" "sn_video sn \<noteq> 0" "captions_of cv row = Inr captions"
    and t: "t = \<lparr>tl_fields = [(''duration_ms'', VInt (cv_duration cv)), (''width'', VInt (cv_width cv)), (''height'', VInt (cv_height cv)),
            (''fps'', VInt (cv_fps cv)), (''captions'', captions)], tl_tracks = sort_tracks tracks\<rparr>"
    using assms unfolding normalize_v1_def sbind_Inr_iff guard_iff by (auto simp: sbind_Inr_iff)
  let ?ts = "sort_tracks tracks"
  let ?d = "tl_fields t @ [(''tracks'', VList (map track_value ?ts))]"
  obtain s2 where again: "collect (track_v1 cv) nothing_seen (map track_value ?ts) = Inr (s2, ?ts)" "sn_video s2 = sn_video sn"
    using tracks_v1.collect_permuted [OF run(3) sort_tracks_again(2)] by blast
  have reads: "object_of (VDict ?d) [''duration_ms'', ''width'', ''height'', ''fps'', ''tracks'', ''captions''] [''duration_ms'', ''tracks''] = Inr ?d"
    by (simp add: object_of_def t)
  have canvas: "canvas_of ?d = Inr cv" using run(1) by (rule canvas_again) (simp_all add: t getd_def)
  have "tracks_field ?d = Inr (map track_value ?ts)"
    using run(2) by (rule tracks_field_again) (simp_all add: t getd_def tracks_v1.collect_length [OF run(3)])
  moreover have "captions_of cv ?d = Inr captions" using run(5) by (rule captions_settled) (simp add: t getd_def)
  ultimately have "normalize_v1 (VDict ?d) = Inr t"
    unfolding normalize_v1_def reads sbind_simps canvas using again run(4) by (simp add: t)
  then show ?thesis by (simp add: timeline_value_def t)
qed

lemma normalize_v2_settled:
  assumes "normalize_v2 audio_only v = Inr t"
  shows "normalize_v2 audio_only (timeline_value t) = Inr t \<and> fld (tl_fields t) ''schema_version'' = VInt (if audio_only then 3 else 2)"
proof (cases audio_only)
  case True
  with assms obtain row cv raws sn tracks where
    run: "object_of v [''schema_version'', ''media_kind'', ''duration_ms'', ''tracks''] [''schema_version'', ''media_kind'', ''duration_ms'', ''tracks''] = Inr row"
      "canvas_of row = Inr cv" "tracks_field row = Inr raws" "collect (track_v2 True cv) nothing_seen raws = Inr (sn, tracks)"
    and t: "t = \<lparr>tl_fields = [(''schema_version'', VInt 3), (''media_kind'', vtext ''AUDIO''), (''duration_ms'', VInt (cv_duration cv))],
                  tl_tracks = sort_tracks tracks\<rparr>"
    unfolding normalize_v2_def sbind_Inr_iff guard_iff by (auto simp: Let_def)
  let ?ts = "sort_tracks tracks"
  let ?d = "tl_fields t @ [(''tracks'', VList (map track_value ?ts))]"
  have "set (dkeys row) \<subseteq> {''schema_version'', ''media_kind'', ''duration_ms'', ''tracks''}" using run(1) by (simp add: object_of_Inr)
  then have "dget row ''width'' = None" "dget row ''height'' = None" "dget row ''fps'' = None"
    unfolding dget_None_keys by (auto simp del: set_map)
  then have cv: "cv_width cv = 1280" "cv_height cv = 720" "cv_fps cv = 24"
    using run(2) by (auto simp: canvas_of_def sbind_Inr_iff integer_of_Inr getd_def)
  obtain s2 where again: "collect (track_v2 True cv) nothing_seen (map track_value ?ts) = Inr (s2, ?ts)"
    using tracks_v2.collect_permuted [OF run(4) sort_tracks_again(2)] by blast
  have canvas: "canvas_of ?d = Inr cv" using run(2) by (rule canvas_again) (simp_all add: t getd_def cv)
  have "tracks_field ?d = Inr (map track_value ?ts)"
    using run(3) by (rule tracks_field_again) (simp_all add: t getd_def tracks_v2.collect_length [OF run(4)])
  then have "normalize_v2 True (VDict ?d) = Inr t"
    unfolding normalize_v2_def using again canvas by (simp add: object_of_def t getd_def)
  then show ?thesis using True by (simp add: timeline_value_def t getd_def)
next
  case False
  with assms obtain row cv raws sn tracks captions style links where
    run: "canvas_of row = Inr cv" "tracks_field row = Inr raws" "collect (track_v2 False cv) nothing_seen raws = Inr (sn, tracks)"
      "sn_video sn \<noteq> 0" "captions_of cv row = Inr captions" "optional_field ''caption_style'' normalize_caption_style row = Inr style"
      "optional_field ''clip_links'' (normalize_clip_links (sort_tracks tracks)) row = Inr links"
    and t: "t = \<lparr>tl_fields = [(''schema_version'', VInt 2), (''duration_ms'', VInt (cv_duration cv)), (''width'', VInt (cv_width cv)),
                 (''height'', VInt (cv_height cv)), (''fps'', VInt (cv_fps cv)), (''captions'', captions)] @ style @ links,
               tl_tracks = sort_tracks tracks\<rparr>"
    unfolding normalize_v2_def sbind_Inr_iff guard_iff by (auto simp: Let_def sbind_Inr_iff)
  let ?ts = "sort_tracks tracks"
  let ?d = "tl_fields t @ [(''tracks'', VList (map track_value ?ts))]"
  obtain s2 where again: "collect (track_v2 False cv) nothing_seen (map track_value ?ts) = Inr (s2, ?ts)" "sn_video s2 = sn_video sn"
    using tracks_v2.collect_permuted [OF run(3) sort_tracks_again(2)] by blast
  have style: "style = [] \<or> (\<exists>w. style = [(''caption_style'', w)] \<and> normalize_caption_style w = Inr w)"
    by (rule optional_settled [OF run(6)], erule style_settled)
  have links: "links = [] \<or> (\<exists>w. links = [(''clip_links'', w)] \<and> normalize_clip_links ?ts w = Inr w)"
    by (rule optional_settled [OF run(7)], erule links_settled)
  have reads: "object_of (VDict ?d) [''schema_version'', ''duration_ms'', ''width'', ''height'', ''fps'', ''tracks'', ''captions'', ''caption_style'',
      ''clip_links''] [''schema_version'', ''duration_ms'', ''tracks''] = Inr ?d"
    using style links unfolding t by (elim disjE exE conjE) (simp_all add: object_of_def)
  have keys: "dget style ''tracks'' = None" "dget links ''tracks'' = None" "dget links ''caption_style'' = None" "dget style ''clip_links'' = None"
    using style links by fastforce+
  have canvas: "canvas_of ?d = Inr cv" using run(1) by (rule canvas_again) (simp_all add: t getd_def)
  have tracks: "tracks_field ?d = Inr (map track_value ?ts)"
    using run(2) by (rule tracks_field_again)
      (simp_all add: t getd_def map_add_def keys tracks_v2.collect_length [OF run(3)])
  have captions: "captions_of cv ?d = Inr captions" using run(5) by (rule captions_settled) (simp add: t getd_def)
  have "dget ?d ''caption_style'' = dget style ''caption_style''" "dget ?d ''clip_links'' = dget links ''clip_links''"
    by (simp_all add: t map_add_def keys split: option.splits)
  then have options: "optional_field ''caption_style'' normalize_caption_style ?d = Inr style"
    "optional_field ''clip_links'' (normalize_clip_links ?ts) ?d = Inr links"
    using style links by (auto simp: optional_field_def)
  have version: "fld ?d ''schema_version'' = VInt 2" by (simp add: t getd_def)
  have "normalize_v2 False (VDict ?d) = Inr t"
    unfolding normalize_v2_def if_False reads sbind_simps version canvas tracks again(1) prod.case captions
    using options again(2) run(4) by (simp add: Let_def) (simp add: t)
  then show ?thesis using False by (simp add: timeline_value_def t getd_def)
qed

lemma normalize_settled:
  assumes "normalize_studio_timeline v = Inr t"
  shows "normalize_studio_timeline (timeline_value t) = Inr t"
proof -
  consider (new) audio_only where "normalize_v2 audio_only v = Inr t" | (old) "normalize_v1 v = Inr t"
    using assms by (auto simp: normalize_studio_timeline_def split: val.splits option.splits)
  then show ?thesis
  proof cases
    case new
    from normalize_v2_settled [OF new] have fixed: "normalize_v2 audio_only (timeline_value t) = Inr t"
      and version: "dget (tl_fields t) ''schema_version'' = Some (VInt (if audio_only then 3 else 2))"
      by (auto simp: getd_def split: option.splits)
    have "py_eq (VInt (if audio_only then 3 else 2)) (VInt 3) = audio_only" by (simp add: py_eq.simps)
    then show ?thesis using fixed version
      by (simp add: normalize_studio_timeline_def timeline_value_def map_add_def split: option.splits)
  next
    case old
    then have "dget (tl_fields t) ''schema_version'' = None" by (auto simp: normalize_v1_def sbind_Inr_iff)
    then show ?thesis using normalize_v1_settled [OF old]
      by (simp add: normalize_studio_timeline_def timeline_value_def map_add_def)
  qed
qed

end
