(* ===== verification/Timeline_Locks.thy ===== *)
theory Timeline_Locks
  imports Timeline_Documents Timeline_Edit
begin

text \<open>
  Every operation on clips is a \<open>clip_change\<close>: it touches the clips of unlocked tracks and nothing else.
  The collection \<open>clip_changes\<close> proves it from the primitive changes.
\<close>

section \<open>Changes of clips\<close>

definition clip_change :: "timeline \<Rightarrow> timeline \<Rightarrow> bool" where
  "clip_change doc doc' \<longleftrightarrow> tl_fields doc' = tl_fields doc \<and> length (tl_tracks doc') = length (tl_tracks doc) \<and>
     (\<forall>m < length (tl_tracks doc). tk_fields (tl_tracks doc' ! m) = tk_fields (tl_tracks doc ! m) \<and>
        (is_locked (tl_tracks doc ! m) \<longrightarrow> tl_tracks doc' ! m = tl_tracks doc ! m))"

named_theorems clip_changes \<open>operations that only change clips of unlocked tracks\<close>

lemma clip_change_refl [clip_changes]: "clip_change doc doc" by (simp add: clip_change_def)

lemma clip_change_trans: "clip_change a b \<Longrightarrow> clip_change b c \<Longrightarrow> clip_change a c"
  unfolding clip_change_def is_locked_def by metis

lemma is_locked_clips: "is_locked (t\<lparr>tk_clips := cs\<rparr>) = is_locked t" by (simp add: is_locked_def)

lemma upd_track_change:
  assumes "\<And>t. tk_fields (f t) = tk_fields t" and "i < length (tl_tracks doc) \<longrightarrow> \<not> is_locked (tl_tracks doc ! i)"
  shows "clip_change doc (upd_track i f doc)"
proof (cases "i < length (tl_tracks doc)")
  case True
  then show ?thesis using assms by (auto simp: clip_change_def upd_track_def track_at_def nth_list_update)
next
  case False
  then show ?thesis by (simp add: clip_change_def upd_track_def list_update_beyond)
qed

lemma editable_iff: "editable doc i = Inr u \<longleftrightarrow> \<not> is_locked (track_at doc i)" by (simp add: editable_def)

lemma upd_clip_change [clip_changes]: "\<not> is_locked (track_at doc (fst p)) \<Longrightarrow> clip_change doc (upd_clip p f doc)"
  and add_clip_change [clip_changes]: "\<not> is_locked (track_at doc i) \<Longrightarrow> clip_change doc (add_clip i c doc)"
  and drop_clip_change [clip_changes]: "\<not> is_locked (track_at doc (fst p)) \<Longrightarrow> clip_change doc (drop_clip p doc)"
  and shift_change [clip_changes]: "\<not> is_locked (track_at doc i) \<Longrightarrow> clip_change doc (shift i b d x doc)"
  unfolding upd_clip_def add_clip_def drop_clip_def shift_def by (rule upd_track_change; simp add: track_at_def)+

text \<open>A second change may rely on the first having kept the locks.\<close>

lemma clip_change_then:
  assumes "clip_change doc doc'" "i < length (tl_tracks doc') \<longrightarrow> \<not> is_locked (tl_tracks doc ! i)" "\<And>t. tk_fields (f t) = tk_fields t"
  shows "clip_change doc (upd_track i f doc')"
proof -
  have "i < length (tl_tracks doc') \<longrightarrow> \<not> is_locked (tl_tracks doc' ! i)" using assms(1,2) by (auto simp: clip_change_def is_locked_def)
  then show ?thesis using clip_change_trans [OF assms(1) upd_track_change] assms(3) by blast
qed

lemma then_changes [clip_changes]:
  assumes "clip_change doc doc'"
  shows "\<not> is_locked (track_at doc (fst p)) \<Longrightarrow> clip_change doc (upd_clip p f doc')"
    and "\<not> is_locked (track_at doc i) \<Longrightarrow> clip_change doc (add_clip i c doc')"
    and "\<not> is_locked (track_at doc (fst p)) \<Longrightarrow> clip_change doc (drop_clip p doc')"
    and "\<not> is_locked (track_at doc i) \<Longrightarrow> clip_change doc (shift i b d x doc')"
  unfolding upd_clip_def add_clip_def drop_clip_def shift_def
  by (rule clip_change_then [OF assms]; simp add: track_at_def)+

section \<open>The operations on clips\<close>

lemma clip_insert_change: "edit_clip_insert raw doc = Inr doc' \<Longrightarrow> clip_change doc doc'"
  by (auto simp: edit_clip_insert_def sbind_Inr_iff editable_iff intro: clip_changes)

lemma clip_update_change: "edit_clip_update raw doc = Inr doc' \<Longrightarrow> clip_change doc doc'"
  by (auto simp: edit_clip_update_def sbind_Inr_iff editable_iff Let_def intro: clip_changes)

lemma clip_remove_change: "edit_clip_remove raw doc = Inr doc' \<Longrightarrow> clip_change doc doc'"
  by (auto simp: edit_clip_remove_def sbind_Inr_iff editable_iff Let_def intro!: clip_changes split: if_splits)

lemma clip_duplicate_change: "edit_clip_duplicate raw doc = Inr doc' \<Longrightarrow> clip_change doc doc'"
  by (auto simp: edit_clip_duplicate_def sbind_Inr_iff editable_iff intro: clip_changes)

lemma clip_trim_change: "edit_clip_trim raw doc = Inr doc' \<Longrightarrow> clip_change doc doc'"
  by (auto simp: edit_clip_trim_def sbind_Inr_iff editable_iff Let_def intro!: clip_changes split: if_splits)

lemma clip_slip_change: "edit_clip_slip raw doc = Inr doc' \<Longrightarrow> clip_change doc doc'"
  by (auto simp: edit_clip_slip_def sbind_Inr_iff editable_iff intro: clip_changes)

lemma clip_split_change:
  assumes "edit_clip_split raw doc = Inr doc'"
  shows "clip_change doc doc'"
proof -
  obtain body p at_ms where free: "\<not> is_locked (track_at doc (fst p))" and
    rest: "(case (getd (clip_at doc p) ''speed_num'' (VInt 1), getd (clip_at doc p) ''speed_den'' (VInt 1)) of
       (VInt num, VInt den) \<Rightarrow>
         sbind (check ((at_ms - int_fld (clip_at doc p) ''start_ms'') * num mod den = 0) ''STUDIO_TIMELINE_EDIT_FRACTIONAL_MS'') (\<lambda>_.
         let cut = int_fld (clip_at doc p) ''in_ms'' + (at_ms - int_fld (clip_at doc p) ''start_ms'') * num div den
         in sbind (edit_id (fld body ''new_clip_id'')) (\<lambda>cid.
            Inr (add_clip (fst p) (split_tail cid at_ms (at_ms - int_fld (clip_at doc p) ''start_ms'') cut (clip_at doc p))
              (upd_clip p (split_head cut) doc))))
     | _ \<Rightarrow> Inl Type_Error) = Inr doc'"
    using assms unfolding edit_clip_split_def sbind_Inr_iff editable_iff Let_def by blast
  obtain c f where "doc' = add_clip (fst p) c (upd_clip p f doc)"
    using rest by (cases "getd (clip_at doc p) ''speed_num'' (VInt 1)"; cases "getd (clip_at doc p) ''speed_den'' (VInt 1)")
      (auto simp: sbind_Inr_iff Let_def)
  then show ?thesis using free by (auto intro!: clip_changes)
qed

lemma clip_move_change:
  assumes "edit_clip_move raw doc = Inr doc'"
  shows "clip_change doc doc'"
proof -
  obtain p k c doc1 where moved: "\<not> is_locked (track_at doc (fst p))" "\<not> is_locked (track_at doc k)" "doc' = add_clip k c (drop_clip p doc1)"
    and partner: "doc1 = doc \<or> (\<exists>q f. \<not> is_locked (track_at doc (fst q)) \<and> doc1 = upd_clip q f doc)"
    using assms unfolding edit_clip_move_def sbind_Inr_iff editable_iff Let_def
    by (auto simp: sbind_Inr_iff editable_iff Let_def split: option.splits) blast+
  have "clip_change doc doc1" using partner by (auto intro: clip_changes)
  then show ?thesis using moved by (auto intro!: clip_changes)
qed

end
