(* ===== verification/Timeline_Held.thy ===== *)
theory Timeline_Held
  imports Timeline_Locks
begin

text \<open>
  A locked track through a batch: \<open>held\<close> says that the track is still there and that the canvas is
  the one it was accepted with, up to the equality of values the code tests. Every operation keeps it
  unless it unlocks the track, and normalizing a document that holds a track yields it unchanged.
\<close>

section \<open>Canvas\<close>

definition canvas_value :: "bool \<Rightarrow> canvas \<Rightarrow> string \<Rightarrow> val" where
  "canvas_value audio_only cv k = fld (if audio_only
     then [(''schema_version'', VInt 3), (''media_kind'', vtext ''AUDIO''), (''duration_ms'', VInt (cv_duration cv))]
     else [(''schema_version'', VInt 2), (''duration_ms'', VInt (cv_duration cv)), (''width'', VInt (cv_width cv)),
           (''height'', VInt (cv_height cv)), (''fps'', VInt (cv_fps cv))]) k"

definition same_value :: "val \<Rightarrow> val \<Rightarrow> bool" where
  "same_value v w \<longleftrightarrow> w = v \<or> (\<exists>a. numeric v = Some a \<and> numeric w = Some a)"

lemma same_value_refl [simp]: "same_value v v" by (simp add: same_value_def)

lemma same_int: "same_value (VInt i) v \<Longrightarrow> v = VInt j \<Longrightarrow> j = i" by (auto simp: same_value_def)

lemma py_eq_same:
  assumes "py_eq w u" "same_value v u" "v = VNull \<or> (\<exists>i. v = VInt i) \<or> (\<exists>s. v = VStr s)"
  shows "same_value v w"
  using assms by (cases u; cases w) (auto simp: same_value_def py_eq.simps)

lemma canvas_value_plain: "canvas_value ao cv k = VNull \<or> (\<exists>i. canvas_value ao cv k = VInt i) \<or> (\<exists>s. canvas_value ao cv k = VStr s)"
  by (simp add: canvas_value_def getd_def)

section \<open>Normalized documents\<close>

lemma document_shape:
  assumes "normalize_v2 ao v = Inr t"
  obtains row cv raws sn tracks where
    "v = VDict row" "canvas_of row = Inr cv" "tracks_field row = Inr raws"
    "collect (track_v2 ao cv) nothing_seen raws = Inr (sn, tracks)" "tl_tracks t = sort_tracks tracks"
    "\<forall>k \<in> set CANVAS_FIELDS. fld (tl_fields t) k = canvas_value ao cv k"
    "dget (tl_fields t) ''tracks'' = None"
    "ao \<longrightarrow> cv_width cv = 1280 \<and> cv_height cv = 720 \<and> cv_fps cv = 24"
proof (cases ao)
  case True
  with assms obtain row cv raws sn tracks where
    run: "object_of v [''schema_version'', ''media_kind'', ''duration_ms'', ''tracks''] [''schema_version'', ''media_kind'', ''duration_ms'', ''tracks''] = Inr row"
      "canvas_of row = Inr cv" "tracks_field row = Inr raws" "collect (track_v2 True cv) nothing_seen raws = Inr (sn, tracks)"
    and t: "t = \<lparr>tl_fields = [(''schema_version'', VInt 3), (''media_kind'', vtext ''AUDIO''), (''duration_ms'', VInt (cv_duration cv))],
                  tl_tracks = sort_tracks tracks\<rparr>"
    unfolding normalize_v2_def sbind_Inr_iff guard_iff by (auto simp: Let_def)
  have "set (dkeys row) \<subseteq> {''schema_version'', ''media_kind'', ''duration_ms'', ''tracks''}" using run(1) by (simp add: object_of_Inr)
  then have "dget row ''width'' = None" "dget row ''height'' = None" "dget row ''fps'' = None"
    unfolding dget_None_keys by (auto simp del: set_map)
  then have "cv_width cv = 1280" "cv_height cv = 720" "cv_fps cv = 24"
    using run(2) by (auto simp: canvas_of_def sbind_Inr_iff integer_of_Inr getd_def)
  with True show thesis
    by (intro that [of row cv raws sn tracks]) (use run t in \<open>simp_all add: object_of_Inr canvas_value_def\<close>)
next
  case False
  with assms obtain row cv raws sn tracks captions style links where
    run: "object_of v [''schema_version'', ''duration_ms'', ''width'', ''height'', ''fps'', ''tracks'', ''captions'', ''caption_style'',
        ''clip_links''] [''schema_version'', ''duration_ms'', ''tracks''] = Inr row"
      "canvas_of row = Inr cv" "tracks_field row = Inr raws" "collect (track_v2 False cv) nothing_seen raws = Inr (sn, tracks)"
      "optional_field ''caption_style'' normalize_caption_style row = Inr style"
      "optional_field ''clip_links'' (normalize_clip_links (sort_tracks tracks)) row = Inr links"
    and t: "t = \<lparr>tl_fields = [(''schema_version'', VInt 2), (''duration_ms'', VInt (cv_duration cv)), (''width'', VInt (cv_width cv)),
                 (''height'', VInt (cv_height cv)), (''fps'', VInt (cv_fps cv)), (''captions'', captions)] @ style @ links,
               tl_tracks = sort_tracks tracks\<rparr>"
    unfolding normalize_v2_def sbind_Inr_iff guard_iff by (auto simp: Let_def sbind_Inr_iff)
  have keys: "dget style ''media_kind'' = None" "dget links ''media_kind'' = None" "dget style ''tracks'' = None" "dget links ''tracks'' = None"
    using run(5,6) by (auto simp: optional_field_def sbind_Inr_iff split: option.splits)
  from keys(1,2) have "\<forall>k \<in> set CANVAS_FIELDS. fld (tl_fields t) k = canvas_value ao cv k"
    using False by (simp add: CANVAS_FIELDS_def t canvas_value_def getd_def map_add_def)
  with False show thesis
    by (intro that [of row cv raws sn tracks]) (use run t keys in \<open>simp_all add: object_of_Inr map_add_def\<close>)
qed

text \<open>Locks exist from the second schema on.\<close>

lemma collect_members:
  assumes "collect body sn raws = Inr (sn', xs)"
  shows "raw \<in> set raws \<Longrightarrow> \<exists>s s' x. x \<in> set xs \<and> body s raw = Inr (s', x)"
    and "x \<in> set xs \<Longrightarrow> \<exists>s s' raw. raw \<in> set raws \<and> body s raw = Inr (s', x)"
proof -
  have "\<exists>new. ys = acc @ new \<and> (\<forall>raw \<in> set raws. \<exists>s s' x. x \<in> set new \<and> body s raw = Inr (s', x)) \<and>
      (\<forall>x \<in> set new. \<exists>s s' raw. raw \<in> set raws \<and> body s raw = Inr (s', x))"
    if "sfold (\<lambda>(sn, xs) raw. sbind (body sn raw) (\<lambda>(sn, x). Inr (sn, xs @ [x]))) (s, acc) raws = Inr (s', ys)" for s acc s' ys
    using that
  proof (induction raws arbitrary: s acc)
    case (Cons raw raws)
    from Cons.prems obtain s1 x where x: "body s raw = Inr (s1, x)" and
      rest: "sfold (\<lambda>(sn, xs) raw. sbind (body sn raw) (\<lambda>(sn, x). Inr (sn, xs @ [x]))) (s1, acc @ [x]) raws = Inr (s', ys)"
      by (auto simp: sbind_Inr_iff)
    from Cons.IH [OF rest] obtain new where new: "ys = (acc @ [x]) @ new"
      "\<forall>raw \<in> set raws. \<exists>s s' x. x \<in> set new \<and> body s raw = Inr (s', x)"
      "\<forall>x \<in> set new. \<exists>s s' raw. raw \<in> set raws \<and> body s raw = Inr (s', x)" by blast
    have "\<exists>s s' y. y \<in> set (x # new) \<and> body s r = Inr (s', y)" if elem: "r \<in> set (raw # raws)" for r
    proof (cases "r = raw")
      case True
      then show ?thesis using x by (intro exI [of _ s] exI [of _ s1] exI [of _ x]) simp
    next
      case False
      then obtain s s' y where "y \<in> set new" "body s r = Inr (s', y)" using elem new(2) by auto
      then show ?thesis by (intro exI [of _ s] exI [of _ s'] exI [of _ y]) simp
    qed
    moreover have "\<exists>s s' r. r \<in> set (raw # raws) \<and> body s r = Inr (s', y)" if elem: "y \<in> set (x # new)" for y
    proof (cases "y = x")
      case True
      then show ?thesis using x by (intro exI [of _ s] exI [of _ s1] exI [of _ raw]) simp
    next
      case False
      then obtain s s' r where "r \<in> set raws" "body s r = Inr (s', y)" using elem new(3) by auto
      then show ?thesis by (intro exI [of _ s] exI [of _ s'] exI [of _ r]) simp
    qed
    ultimately show ?case using new(1) by (intro exI [of _ "x # new"]) simp
  qed auto
  from this [OF assms [unfolded collect_def]] show "raw \<in> set raws \<Longrightarrow> \<exists>s s' x. x \<in> set xs \<and> body s raw = Inr (s', x)"
    "x \<in> set xs \<Longrightarrow> \<exists>s s' raw. raw \<in> set raws \<and> body s raw = Inr (s', x)" by auto
qed

lemma locks_need_v2:
  assumes "normalize_studio_timeline v = Inr t" "tk \<in> set (tl_tracks t)" "is_locked tk"
  obtains ao where "normalize_v2 ao v = Inr t"
proof -
  have "\<not> normalize_v1 v = Inr t"
  proof
    assume "normalize_v1 v = Inr t"
    then obtain cv sn raws tracks where run: "collect (track_v1 cv) nothing_seen raws = Inr (sn, tracks)" "tl_tracks t = sort_tracks tracks"
      unfolding normalize_v1_def sbind_Inr_iff by (auto simp: sbind_Inr_iff)
    have "tk \<in> set tracks" using assms(2) run(2) by (metis set_mset_mset sort_tracks_again(2))
    then obtain s s' raw where "track_v1 cv s raw = Inr (s', tk)" using collect_members(2) [OF run(1)] by blast
    then have "dget (tk_fields tk) ''locked'' = None" unfolding track_v1_def sbind_Inr_iff by (auto simp: sbind_Inr_iff Let_def)
    then show False using assms(3) by (simp add: is_locked_def)
  qed
  then show thesis
    using assms(1) that by (auto simp: normalize_studio_timeline_def split: val.splits option.splits)
qed

section \<open>Held tracks\<close>

definition held :: "timeline \<Rightarrow> track \<Rightarrow> timeline \<Rightarrow> bool" where
  "held t tk doc \<longleftrightarrow> tk \<in> set (tl_tracks doc) \<and> dget (tl_fields doc) ''tracks'' = None \<and>
     (\<forall>k \<in> set CANVAS_FIELDS. same_value (fld (tl_fields t) k) (fld (tl_fields doc) k))"

lemma held_start: "normalize_v2 ao v = Inr t \<Longrightarrow> tk \<in> set (tl_tracks t) \<Longrightarrow> held t tk t"
  by (erule document_shape) (simp add: held_def)

lemma getd_default: "fld d k \<noteq> VNull \<Longrightarrow> getd d k v = fld d k"
  by (simp add: getd_def split: option.splits)

lemma same_number: "same_value (VInt i) v \<longleftrightarrow> numeric v = Some (of_int i)"
  by (auto simp: same_value_def)

lemma same_canvas:
  assumes "canvas_of row = Inr cv'" and "ao \<longrightarrow> cv_width cv' = 1280 \<and> cv_height cv' = 720 \<and> cv_fps cv' = 24"
    and "ao \<longrightarrow> cv_width cv = 1280 \<and> cv_height cv = 720 \<and> cv_fps cv = 24"
    and same: "\<And>k. k \<in> set CANVAS_FIELDS \<Longrightarrow> same_value (canvas_value ao cv k) (fld row k)"
  shows "cv' = cv"
proof -
  have run: "fld row ''duration_ms'' = VInt (cv_duration cv')" "getd row ''width'' (VInt 1280) = VInt (cv_width cv')"
    "getd row ''height'' (VInt 720) = VInt (cv_height cv')" "getd row ''fps'' (VInt 24) = VInt (cv_fps cv')"
    using assms(1) by (auto simp: canvas_of_def sbind_Inr_iff integer_of_Inr)
  have number: "numeric (fld row k) = Some (of_int i) \<Longrightarrow> getd row k v = VInt j \<Longrightarrow> j = i" for k i v j
    using getd_default [of row k v] by fastforce
  have "cv_duration cv' = cv_duration cv"
    using same [of "''duration_ms''"] run(1) by (simp add: CANVAS_FIELDS_def canvas_value_def getd_def same_number split: if_splits)
  moreover have "cv_width cv' = cv_width cv \<and> cv_height cv' = cv_height cv \<and> cv_fps cv' = cv_fps cv"
  proof (cases ao)
    case False
    then have "same_value (VInt (cv_width cv)) (fld row ''width'')" "same_value (VInt (cv_height cv)) (fld row ''height'')"
      "same_value (VInt (cv_fps cv)) (fld row ''fps'')"
      using same [of "''width''"] same [of "''height''"] same [of "''fps''"] by (simp_all add: CANVAS_FIELDS_def canvas_value_def getd_def)
    then show ?thesis using number run(2-4) unfolding same_number by blast
  qed (use assms(2,3) in simp)
  ultimately show ?thesis by (cases cv; cases cv') simp
qed

theorem normalize_held:
  assumes t: "normalize_v2 ao v = Inr t" "tk \<in> set (tl_tracks t)" and doc: "held t tk doc"
    and t': "normalize_studio_timeline (timeline_value doc) = Inr t'"
  shows "held t tk t'"
proof -
  from t(1) obtain row cv raws sn tracks where
    "v = VDict row" "canvas_of row = Inr cv" "tracks_field row = Inr raws"
    and run: "collect (track_v2 ao cv) nothing_seen raws = Inr (sn, tracks)" "tl_tracks t = sort_tracks tracks"
    and fields: "\<forall>k \<in> set CANVAS_FIELDS. fld (tl_fields t) k = canvas_value ao cv k"
    and "dget (tl_fields t) ''tracks'' = None"
    and audio: "ao \<longrightarrow> cv_width cv = 1280 \<and> cv_height cv = 720 \<and> cv_fps cv = 24"
    by (rule document_shape)
  have "tk \<in> set tracks" using t(2) run(2) by (metis set_mset_mset sort_tracks_again(2))
  then obtain s s' raw where tk: "track_v2 ao cv s raw = Inr (s', tk)" using collect_members(2) [OF run(1)] by blast
  let ?d = "tl_fields doc @ [(''tracks'', VList (map track_value (tl_tracks doc)))]"
  have dumped: "timeline_value doc = VDict ?d" by (simp add: timeline_value_def)
  have lookup: "fld ?d k = fld (tl_fields doc) k" if "k \<in> set CANVAS_FIELDS" for k
    using that by (auto simp: getd_def map_add_def CANVAS_FIELDS_def split: option.splits)
  have same: "same_value (canvas_value ao cv k) (fld ?d k)" if "k \<in> set CANVAS_FIELDS" for k
    using doc that unfolding lookup [OF that] bspec [OF fields that, symmetric] held_def by blast
  have "same_value (VInt (if ao then 3 else 2)) (fld ?d ''schema_version'')"
    using same [of "''schema_version''"] by (simp add: CANVAS_FIELDS_def canvas_value_def getd_def split: if_splits)
  then have version: "numeric (fld ?d ''schema_version'') = Some (if ao then 3 else 2)" unfolding same_number by simp
  have present: "numeric (fld d k) = Some a \<Longrightarrow> \<exists>w. dget d k = Some w \<and> numeric w = Some a" for d k a
    by (cases "dget d k") (simp_all add: getd_def)
  obtain w where w: "dget ?d ''schema_version'' = Some w" "numeric w = Some (if ao then 3 else 2)"
    using present [OF version] by blast
  have "py_eq w (VInt 3) = ao" using w(2) by (cases w) (auto simp: py_eq.simps split: if_splits)
  then have "normalize_v2 ao (VDict ?d) = Inr t'" using t' w(1) unfolding dumped by (simp add: normalize_studio_timeline_def)
  then obtain row' cv' raws' sn' tracks' where
    again: "VDict ?d = VDict row'" "canvas_of row' = Inr cv'" "tracks_field row' = Inr raws'"
      "collect (track_v2 ao cv') nothing_seen raws' = Inr (sn', tracks')" "tl_tracks t' = sort_tracks tracks'"
    and fields': "\<forall>k \<in> set CANVAS_FIELDS. fld (tl_fields t') k = canvas_value ao cv' k"
    and free: "dget (tl_fields t') ''tracks'' = None"
    and audio': "ao \<longrightarrow> cv_width cv' = 1280 \<and> cv_height cv' = 720 \<and> cv_fps cv' = 24"
    by (rule document_shape)
  have cv: "cv' = cv" using again(1) by (intro same_canvas [OF again(2) audio' audio]) (use same in simp_all)
  have "fld ?d ''tracks'' = VList (map track_value (tl_tracks doc))" using doc by (simp add: held_def getd_def map_add_def)
  then have "raws' = map track_value (tl_tracks doc)" using again(1,3) by (simp add: tracks_field_def split: if_splits)
  then have "track_value tk \<in> set raws'" using doc by (simp add: held_def)
  then obtain s2 s3 y where y: "y \<in> set tracks'" "track_v2 ao cv s2 (track_value tk) = Inr (s3, y)"
    using collect_members(1) [OF again(4)] unfolding cv by blast
  have "y = tk" using track_v2_settled [OF tk] y(2) by blast
  then have "tk \<in> set (tl_tracks t')" using y(1) again(5) by (metis set_mset_mset sort_tracks_again(2))
  then show ?thesis using free fields fields' unfolding cv held_def by simp
qed

end
