(* ===== verification/Timeline_Batch.thy ===== *)
theory Timeline_Batch
  imports Timeline_Held
begin

text \<open>
  Every operation keeps a held track, and with it the whole batch: what
  \<open>apply_timeline_edits\<close> returns has each locked track exactly as it was, unless an operation of the
  batch unlocks it.
\<close>

text \<open>The one edit a locked track allows.\<close>

definition unlocks :: "track \<Rightarrow> val \<Rightarrow> bool" where
  "unlocks tk raw \<longleftrightarrow> (case raw of
     VDict d \<Rightarrow> fld d ''op'' = vtext ''track.update'' \<and> fld d ''track_id'' = fld (tk_fields tk) ''id'' \<and>
        fld d ''changes'' = VDict [(''locked'', VBool False)]
   | _ \<Rightarrow> False)"

lemma held_tracks:
  assumes "held t tk doc" "tk \<in> set (tl_tracks doc')" "tl_fields doc' = tl_fields doc"
  shows "held t tk doc'"
  using assms by (simp add: held_def)

lemma held_fields:
  assumes "held t tk doc" "tl_tracks doc' = tl_tracks doc"
    and "\<forall>k \<in> insert ''tracks'' (set CANVAS_FIELDS). dget (tl_fields doc') k = dget (tl_fields doc) k"
  shows "held t tk doc'"
proof -
  have "fld (tl_fields doc') k = fld (tl_fields doc) k" if "k \<in> set CANVAS_FIELDS" for k
    using assms(3) that unfolding getd_def by (metis insertI2)
  moreover have "dget (tl_fields doc') ''tracks'' = None" using assms(1,3) unfolding held_def by (metis insertI1)
  ultimately show ?thesis using assms(1,2) unfolding held_def by metis
qed

lemma held_change:
  assumes "held t tk doc" "is_locked tk" "clip_change doc doc'"
  shows "held t tk doc'"
proof -
  obtain m where "m < length (tl_tracks doc)" "tl_tracks doc ! m = tk" using assms(1) by (auto simp: held_def in_set_conv_nth)
  with assms(2,3) have "tl_tracks doc' ! m = tk" "m < length (tl_tracks doc')" "tl_fields doc' = tl_fields doc" by (auto simp: clip_change_def)
  then show ?thesis using held_tracks [OF assms(1), of doc'] nth_mem [of m "tl_tracks doc'"] by simp
qed

lemma held_update:
  assumes "held t tk doc" "track_at doc i = tk \<longrightarrow> f tk = tk"
  shows "held t tk (upd_track i f doc)"
proof -
  obtain m where m: "m < length (tl_tracks doc)" "tl_tracks doc ! m = tk" using assms(1) by (auto simp: held_def in_set_conv_nth)
  then have "tl_tracks (upd_track i f doc) ! m = tk" using assms(2) by (cases "m = i") (auto simp: upd_track_def track_at_def)
  then have "tk \<in> set (tl_tracks (upd_track i f doc))" using m(1) by (metis nth_mem length_list_update upd_track_def timeline.select_convs(2) timeline.surjective timeline.update_convs(2))
  then show ?thesis by (rule held_tracks [OF assms(1)]) (simp add: upd_track_def)
qed

lemma edit_fields_Inr: "edit_fields v required optional = Inr d \<longleftrightarrow>
    v = VDict d \<and> set (dkeys d) \<subseteq> set required \<union> set optional \<and> set required \<subseteq> set (dkeys d)"
  by (cases v) (auto simp: edit_fields_def)

lemma find_track_Inr:
  assumes "find_track doc identity = Inr i"
  shows "i < length (tl_tracks doc) \<and> dget (tk_fields (track_at doc i)) ''id'' = Some identity"
proof -
  let ?is = "filter (\<lambda>i. dget (tk_fields (track_at doc i)) ''id'' = Some identity) [0..<length (tl_tracks doc)]"
  have "?is = [i]" using assms by (auto simp: find_track_def sbind_Inr_iff split: list.splits)
  then have "i \<in> set ?is" by simp
  then show ?thesis by simp
qed

section \<open>Document operations\<close>

lemma held_set_links: "held t tk doc \<Longrightarrow> held t tk (set_links ls doc)"
  by (rule held_fields [of t tk doc]) (simp_all add: set_links_def CANVAS_FIELDS_def)

lemma link_held: "edit_link raw doc = Inr doc' \<Longrightarrow> held t tk doc \<Longrightarrow> held t tk doc'"
  by (auto simp: edit_link_def sbind_Inr_iff Let_def intro: held_set_links)

lemma unlink_held:
  assumes "edit_unlink raw doc = Inr doc'" "held t tk doc"
  shows "held t tk doc'"
proof -
  have "doc' = doc\<lparr>tl_fields := dpop (tl_fields doc) ''clip_links''\<rparr> \<or> (\<exists>ls. doc' = set_links ls doc)"
    using assms(1) by (auto simp: edit_unlink_def sbind_Inr_iff Let_def split: option.splits if_splits)
  moreover have "held t tk (doc\<lparr>tl_fields := dpop (tl_fields doc) ''clip_links''\<rparr>)"
    by (rule held_fields [OF assms(2)]) (simp_all add: CANVAS_FIELDS_def)
  ultimately show ?thesis using held_set_links [OF assms(2)] by auto
qed

lemma caption_held:
  assumes "edit_caption operation raw doc = Inr doc'" "held t tk doc"
  shows "held t tk doc'"
proof -
  define put where "put cs = doc\<lparr>tl_fields := dset (tl_fields doc) ''captions'' (VList cs)\<rparr>" for cs
  obtain body where run: "(case dget (tl_fields doc) ''captions'' of
       Some (VList captions) \<Rightarrow>
         if operation = ''caption.insert'' then Inr (put (captions @ [fld body ''caption'']))
         else sbind (edit_int (fld body ''index'')) (\<lambda>index.
              sbind (check (0 \<le> index \<and> index < int (length captions)) ''STUDIO_TIMELINE_EDIT_CAPTION_NOT_FOUND'') (\<lambda>_.
              Inr (put (if operation = ''caption.update'' then captions[nat index := fld body ''caption'']
                        else take (nat index) captions @ drop (Suc (nat index)) captions))))
     | _ \<Rightarrow> Inl Key_Error) = Inr doc'"
    using assms(1) unfolding edit_caption_def sbind_Inr_iff Let_def put_def by blast
  obtain v where "dget (tl_fields doc) ''captions'' = Some v" using run by (cases "dget (tl_fields doc) ''captions''") simp_all
  with run obtain cs where "doc' = put cs"
    by (cases v; cases "operation = ''caption.insert''") (auto simp: sbind_Inr_iff)
  then show ?thesis unfolding put_def by (intro held_fields [OF assms(2)]) (simp_all add: CANVAS_FIELDS_def)
qed

lemma insert_held: "edit_track_insert raw doc = Inr doc' \<Longrightarrow> held t tk doc \<Longrightarrow> held t tk doc'"
  by (auto simp: edit_track_insert_def sbind_Inr_iff held_def)

lemma remove_held:
  assumes "edit_track_remove raw doc = Inr doc'" "held t tk doc" "is_locked tk"
  shows "held t tk doc'"
proof -
  obtain i where i: "i < length (tl_tracks doc)" "\<not> is_locked (track_at doc i)"
    and doc': "doc' = doc\<lparr>tl_tracks := take i (tl_tracks doc) @ drop (Suc i) (tl_tracks doc)\<rparr>"
    using assms(1) find_track_Inr unfolding edit_track_remove_def sbind_Inr_iff editable_iff by blast
  have "set (tl_tracks doc) = set (take i (tl_tracks doc)) \<union> {tl_tracks doc ! i} \<union> set (drop (Suc i) (tl_tracks doc))"
    using arg_cong [OF id_take_nth_drop [OF i(1)], of set] by auto
  then have "tk \<in> set (tl_tracks doc')" using assms(2,3) i(2) doc' by (auto simp: held_def track_at_def)
  then show ?thesis by (rule held_tracks [OF assms(2)]) (simp add: doc')
qed

lemma update_held:
  assumes "edit_track_update raw doc = Inr doc'" "held t tk doc" "is_locked tk" and op: "fld raw ''op'' = vtext ''track.update''"
    and "\<not> unlocks tk (VDict raw)"
  shows "held t tk doc'"
proof -
  obtain i changes where i: "dget (tk_fields (track_at doc i)) ''id'' = Some (fld raw ''track_id'')"
    and run: "fld raw ''changes'' = VDict changes" "\<not> (is_locked (track_at doc i) \<and> changes \<noteq> [(''locked'', VBool False)])"
    and doc': "doc' = upd_track i (\<lambda>t. t\<lparr>tk_fields := dmerge (tk_fields t) changes\<rparr>) doc"
    using assms(1) find_track_Inr unfolding edit_track_update_def sbind_Inr_iff edit_fields_Inr guard_iff by blast
  have "track_at doc i \<noteq> tk"
    using i run op assms(3,5) by (auto simp: unlocks_def getd_Some)
  then show ?thesis unfolding doc' by (intro held_update assms(2)) simp
qed

lemma dset_same: "dget d k = Some v \<Longrightarrow> dset d k v = d"
  by (induction d) (auto split: if_splits)

lemma reorder_held:
  assumes "edit_track_reorder raw doc = Inr doc'" "held t tk doc" "is_locked tk" and order: "dget (tk_fields tk) ''order'' = Some (VInt n)"
  shows "held t tk doc'"
proof -
  obtain identities where run: "sfold (\<lambda>doc (order, identity).
           sbind (find_track doc identity) (\<lambda>i.
           sbind (check (\<not> (is_locked (track_at doc i) \<and> \<not> py_eq (fld (tk_fields (track_at doc i)) ''order'') (VInt (int order))))
             ''STUDIO_TIMELINE_TRACK_LOCKED'') (\<lambda>_.
           Inr (upd_track i (\<lambda>t. t\<lparr>tk_fields := dset (tk_fields t) ''order'' (VInt (int order))\<rparr>) doc)))) doc (enumerate 0 identities) = Inr doc'"
  proof -
    obtain body where list: "(case fld body ''track_ids'' of
       VList identities \<Rightarrow>
         sbind (check (list_all (\<lambda>v. case v of VStr _ \<Rightarrow> True | _ \<Rightarrow> False) identities \<and>
             length identities = length (tl_tracks doc) \<and> distinct identities \<and>
             set identities = set (map (\<lambda>t. fld (tk_fields t) ''id'') (tl_tracks doc))) ''STUDIO_TIMELINE_EDIT_TRACK_ORDER_INVALID'') (\<lambda>_.
         sfold (\<lambda>doc (order, identity).
           sbind (find_track doc identity) (\<lambda>i.
           sbind (check (\<not> (is_locked (track_at doc i) \<and> \<not> py_eq (fld (tk_fields (track_at doc i)) ''order'') (VInt (int order))))
             ''STUDIO_TIMELINE_TRACK_LOCKED'') (\<lambda>_.
           Inr (upd_track i (\<lambda>t. t\<lparr>tk_fields := dset (tk_fields t) ''order'' (VInt (int order))\<rparr>) doc)))) doc (enumerate 0 identities))
     | _ \<Rightarrow> invalid ''STUDIO_TIMELINE_EDIT_TRACK_ORDER_INVALID'') = Inr doc'"
      using assms(1) unfolding edit_track_reorder_def sbind_Inr_iff by blast
    show thesis
      using list by (cases "fld body ''track_ids''"; simp only: val.case sum.distinct sbind_Inr_iff) (blast intro: that)+
  qed
  show ?thesis
  proof (rule sfold_invariant [OF run, of "held t tk"])
    show "held t tk doc" by (rule assms(2))
    fix s x s'
    assume "held t tk s" and step: "(case x of (order, identity) \<Rightarrow>
           sbind (find_track s identity) (\<lambda>i.
           sbind (check (\<not> (is_locked (track_at s i) \<and> \<not> py_eq (fld (tk_fields (track_at s i)) ''order'') (VInt (int order))))
             ''STUDIO_TIMELINE_TRACK_LOCKED'') (\<lambda>_.
           Inr (upd_track i (\<lambda>t. t\<lparr>tk_fields := dset (tk_fields t) ''order'' (VInt (int order))\<rparr>) s)))) = Inr s'"
    obtain k i where i: "\<not> (is_locked (track_at s i) \<and> \<not> py_eq (fld (tk_fields (track_at s i)) ''order'') (VInt (int k)))"
      and s': "s' = upd_track i (\<lambda>t. t\<lparr>tk_fields := dset (tk_fields t) ''order'' (VInt (int k))\<rparr>) s"
      using step by (cases x) (auto simp: sbind_Inr_iff)
    have "track_at s i = tk \<Longrightarrow> n = int k" using i assms(3) order by (simp add: getd_Some py_eq.simps)
    then show "held t tk s'"
      unfolding s' using \<open>held t tk s\<close> order by (intro held_update) (auto simp: dset_same)
  qed
qed

section \<open>The canvas\<close>

text \<open>Python dictionaries have each key once.\<close>

function (sequential) proper :: "val \<Rightarrow> bool" where
  "proper (VList xs) = list_all proper xs"
| "proper (VDict d) = (distinct (dkeys d) \<and> list_all (\<lambda>kv. proper (snd kv)) d)"
| "proper v = True"
  by pat_completeness auto
termination
  by (relation "measure size") (auto intro: size_val_nth size_val_entry simp flip: less_Suc_eq_le)

lemma proper_fld: "proper (VDict d) \<Longrightarrow> proper (fld d k)"
  by (cases "dget d k") (auto simp: getd_def list_all_iff dest: dget_in_set)

lemma dget_dmerge: "distinct (dkeys e) \<Longrightarrow> dget (dmerge d e) k = (case dget e k of Some v \<Rightarrow> Some v | None \<Rightarrow> dget d k)"
proof (induction e arbitrary: d)
  case (Cons kv e)
  then have "dget e (fst kv) = None" by (simp add: dget_None_keys)
  then show ?case using Cons by (cases kv; cases "fst kv = k"; cases "dget e k") simp_all
qed simp

lemma canvas_held:
  assumes "edit_canvas raw doc = Inr doc'" "held t tk doc" "is_locked tk" "proper (VDict raw)"
    and plain: "\<forall>k \<in> set CANVAS_FIELDS. fld (tl_fields t) k = VNull \<or> (\<exists>i. fld (tl_fields t) k = VInt i) \<or> (\<exists>s. fld (tl_fields t) k = VStr s)"
  shows "held t tk doc'"
proof -
  obtain changes where changes: "fld raw ''changes'' = VDict changes"
      "set (dkeys changes) \<subseteq> set [] \<union> set [''duration_ms'', ''width'', ''height'', ''fps'', ''schema_version'', ''caption_style'']"
    and same: "\<not> (list_ex is_locked (tl_tracks doc) \<and>
         list_ex (\<lambda>k. dget changes k \<noteq> None \<and> \<not> py_eq (fld changes k) (fld (tl_fields doc) k)) CANVAS_FIELDS)"
    and doc': "(let updated = dmerge (tl_fields doc) changes
     in Inr (doc\<lparr>tl_fields := if dget changes ''caption_style'' = Some VNull then dpop updated ''caption_style'' else updated\<rparr>)) = (Inr doc' :: raised + timeline)"
    using assms(1) unfolding edit_canvas_def sbind_Inr_iff edit_fields_Inr guard_iff by blast
  have "proper (VDict changes)" using proper_fld [OF assms(4), of "''changes''"] changes(1) by simp
  then have dist: "distinct (dkeys changes)" by simp
  have "list_ex is_locked (tl_tracks doc)" using assms(2,3) by (auto simp: held_def list_ex_iff)
  with same have eq: "\<And>k. k \<in> set CANVAS_FIELDS \<Longrightarrow> dget changes k \<noteq> None \<Longrightarrow> py_eq (fld changes k) (fld (tl_fields doc) k)"
    by (auto simp: list_ex_iff)
  have fields: "dget (tl_fields doc') k = (case dget changes k of Some v \<Rightarrow> Some v | None \<Rightarrow> dget (tl_fields doc) k)" if "k \<noteq> ''caption_style''" for k
    using doc' that dget_dmerge [OF dist, of "tl_fields doc" k] by (auto simp: Let_def split: if_splits)
  have "''tracks'' \<notin> set (dkeys changes)" using changes(2) by (auto simp del: set_map)
  then have "dget changes ''tracks'' = None" by (simp add: dget_None_keys)
  then have free: "dget (tl_fields doc') ''tracks'' = None" using fields [of "''tracks''"] assms(2) by (simp add: held_def)
  have "same_value (fld (tl_fields t) k) (fld (tl_fields doc') k)" if k: "k \<in> set CANVAS_FIELDS" for k
  proof -
    have "k \<noteq> ''caption_style''" using k by (auto simp: CANVAS_FIELDS_def)
    note field = fields [OF this]
    have kept: "same_value (fld (tl_fields t) k) (fld (tl_fields doc) k)" using assms(2) k by (simp add: held_def)
    show ?thesis
    proof (cases "dget changes k")
      case None
      then have "fld (tl_fields doc') k = fld (tl_fields doc) k" using field by (simp add: getd_def)
      then show ?thesis using kept by simp
    next
      case (Some v)
      then have "fld (tl_fields doc') k = fld changes k" using field by (simp add: getd_def)
      then show ?thesis using py_eq_same [OF eq [OF k] kept] bspec [OF plain k] Some by simp
    qed
  qed
  moreover have "tl_tracks doc' = tl_tracks doc" using doc' by (auto simp: Let_def)
  ultimately show ?thesis using assms(2) free by (simp add: held_def)
qed

section \<open>Linked operations\<close>

lemma linked_free:
  assumes "linked_pair_facts doc video_id audio_id operation = Inr (pair, v, a, common)"
  shows "\<not> is_locked (track_at doc (fst v)) \<and> \<not> is_locked (track_at doc (fst a))"
proof (cases "clip_link doc video_id")
  case None
  show ?thesis using assms unfolding linked_pair_facts_def None option.case sbind_Inr_iff by blast
next
  case (Some row)
  show ?thesis using assms unfolding linked_pair_facts_def Some option.case sbind_Inr_iff Let_def guard_iff by blast
qed

lemma linked_change:
  assumes "edit_linked operation raw doc = Inr doc'"
  shows "\<exists>mid. clip_change doc mid \<and> (\<exists>out. (out = mid \<or> (\<exists>ls. out = set_links ls mid)) \<and>
    normalize_studio_timeline (timeline_value out) = Inr doc')"
proof (cases "operation = points ''clip.split_linked''")
  case True
  then obtain v a nv na at_ms where "split_linked_pair doc v a at_ms nv na = Inr doc'"
    using assms unfolding edit_linked_def if_P [OF True] sbind_Inr_iff by blast
  then obtain pair p q common f g c d ls where facts: "linked_pair_facts doc v a ''SPLIT'' = Inr (pair, p, q, common)" and
    out: "normalize_studio_timeline (timeline_value (set_links ls (add_clip (fst q) d (upd_clip q g (add_clip (fst p) c (upd_clip p f doc)))))) = Inr doc'"
    unfolding split_linked_pair_def sbind_Inr_iff Let_def by (auto simp: sbind_Inr_iff Let_def)
  have "clip_change doc (add_clip (fst q) d (upd_clip q g (add_clip (fst p) c (upd_clip p f doc))))"
    using linked_free [OF facts] by (auto intro!: clip_changes)
  then show ?thesis using out by blast
next
  case False
  then obtain v a x y where "trim_linked_pair doc v a x y = Inr doc'"
    using assms unfolding edit_linked_def if_not_P [OF False] sbind_Inr_iff by blast
  then obtain pair p q common f where facts: "linked_pair_facts doc v a ''TRIM'' = Inr (pair, p, q, common)" and
    out: "normalize_studio_timeline (timeline_value (upd_clip q f (upd_clip p f doc))) = Inr doc'"
    unfolding trim_linked_pair_def sbind_Inr_iff Let_def by (auto simp: sbind_Inr_iff Let_def)
  have "clip_change doc (upd_clip q f (upd_clip p f doc))" using linked_free [OF facts] by (auto intro!: clip_changes)
  then show ?thesis using out by blast
qed

lemma linked_held:
  assumes "normalize_v2 ao v = Inr t" "tk \<in> set (tl_tracks t)" "is_locked tk"
    and "edit_linked operation raw doc = Inr doc'" "held t tk doc"
  shows "held t tk doc'"
proof -
  obtain mid out where mid: "clip_change doc mid" "out = mid \<or> (\<exists>ls. out = set_links ls mid)"
    "normalize_studio_timeline (timeline_value out) = Inr doc'" using linked_change [OF assms(4)] by blast
  have "held t tk mid" by (rule held_change [OF assms(5,3) mid(1)])
  then have "held t tk out" using mid(2) held_set_links by auto
  then show ?thesis using normalize_held [OF assms(1,2)] mid(3) by blast
qed

section \<open>Batches\<close>

lemma track_order:
  assumes "normalize_v2 ao v = Inr t" "tk \<in> set (tl_tracks t)"
  shows "\<exists>n. dget (tk_fields tk) ''order'' = Some (VInt n)"
proof -
  from assms(1) obtain row cv raws sn tracks where
    "v = VDict row" "canvas_of row = Inr cv" "tracks_field row = Inr raws"
    and run: "collect (track_v2 ao cv) nothing_seen raws = Inr (sn, tracks)" "tl_tracks t = sort_tracks tracks"
    and "\<forall>k \<in> set CANVAS_FIELDS. fld (tl_fields t) k = canvas_value ao cv k" "dget (tl_fields t) ''tracks'' = None"
    "ao \<longrightarrow> cv_width cv = 1280 \<and> cv_height cv = 720 \<and> cv_fps cv = 24"
    by (rule document_shape)
  have "tk \<in> set tracks" using assms(2) run(2) by (metis set_mset_mset sort_tracks_again(2))
  then obtain s s' raw where "track_v2 ao cv s raw = Inr (s', tk)" using collect_members(2) [OF run(1)] by blast
  then show ?thesis by (rule track_v2_shape) simp
qed

lemma canvas_plain:
  assumes "normalize_v2 ao v = Inr t"
  shows "\<forall>k \<in> set CANVAS_FIELDS. fld (tl_fields t) k = VNull \<or> (\<exists>i. fld (tl_fields t) k = VInt i) \<or> (\<exists>s. fld (tl_fields t) k = VStr s)"
  by (rule document_shape [OF assms]) (use canvas_value_plain in simp)

lemma operation_of:
  assumes "dget (map (\<lambda>(k, f). (points k, f)) OPERATIONS) operation = Some f"
  obtains k where "operation = points k" "(k, f) \<in> set OPERATIONS"
proof -
  have "(operation, f) \<in> set (map (\<lambda>(k, f). (points k, f)) OPERATIONS)" using assms by (rule dget_in_set)
  then obtain k g where k: "(k, g) \<in> set OPERATIONS" "(operation, f) = (points k, g)" unfolding set_map by (auto simp: case_prod_beta)
  show thesis by (rule that [of k]) (use k in simp_all)
qed

lemma operation_held:
  assumes t: "normalize_v2 ao v = Inr t" "tk \<in> set (tl_tracks t)" "is_locked tk"
    and raw: "apply_operation doc raw = Inr doc'" "proper raw" "\<not> unlocks tk raw" and doc: "held t tk doc"
  shows "held t tk doc'"
proof -
  obtain d operation f where d: "raw = VDict d" "fld d ''op'' = VStr operation" "f d doc = Inr doc'"
      "dget (map (\<lambda>(k, f). (points k, f)) OPERATIONS) operation = Some f"
    using raw(1) unfolding apply_operation_def by (auto simp: sbind_Inr_iff split: val.splits option.splits)
  obtain k where k: "operation = points k" "(k, f) \<in> set OPERATIONS" using d(4) by (rule operation_of)
  obtain n where order: "dget (tk_fields tk) ''order'' = Some (VInt n)" using track_order [OF t(1,2)] by blast
  have change: "clip_change doc doc' \<Longrightarrow> held t tk doc'" by (rule held_change [OF doc t(3)])
  have linked: "edit_linked operation d doc = Inr doc' \<Longrightarrow> held t tk doc'" for operation
    by (rule linked_held [OF t]) (use doc in simp_all)
  have cases: "(k, f) = (''track.update'', edit_track_update) \<or> f = edit_linked (points ''clip.split_linked'') \<or>
      f = edit_linked (points ''clip.trim_linked'') \<or> f \<in> {edit_link, edit_unlink, edit_track_insert, edit_caption ''caption.insert'',
        edit_caption ''caption.update'', edit_caption ''caption.remove''} \<or> f = edit_canvas \<or> f = edit_track_remove \<or> f = edit_track_reorder \<or>
      f \<in> {edit_clip_insert, edit_clip_update, edit_clip_remove, edit_clip_move, edit_clip_duplicate, edit_clip_split, edit_clip_trim, edit_clip_slip}"
    using k(2) unfolding OPERATIONS_def by simp (elim disjE; simp)
  have update: ?thesis if "(k, f) = (''track.update'', edit_track_update)"
    using update_held [OF _ doc t(3), of d doc'] d(1-3) raw(3) \<open>operation = points k\<close> that by simp
  have canvas: ?thesis if "f = edit_canvas"
    using canvas_held [OF _ doc t(3) _ canvas_plain [OF t(1)], of d doc'] d(1,3) raw(2) that by simp
  show ?thesis
    using cases update canvas linked d(3) link_held [OF _ doc] unlink_held [OF _ doc] insert_held [OF _ doc] caption_held [OF _ doc]
      remove_held [OF _ doc t(3)] reorder_held [OF _ doc t(3) order]
      change [OF clip_insert_change] change [OF clip_update_change] change [OF clip_remove_change] change [OF clip_move_change]
      change [OF clip_duplicate_change] change [OF clip_split_change] change [OF clip_trim_change] change [OF clip_slip_change]
    by (elim disjE insertE emptyE) simp_all
qed

lemma batch_held:
  assumes "normalize_studio_timeline v = Inr t" "tk \<in> set (tl_tracks t)" "is_locked tk"
    and "apply_timeline_edits dumped v (VList ops) = Inr t'" "\<forall>raw \<in> set ops. proper raw \<and> \<not> unlocks tk raw"
  shows "tk \<in> set (tl_tracks t')"
proof -
  obtain ao where v2: "normalize_v2 ao v = Inr t" by (rule locks_need_v2 [OF assms(1-3)])
  obtain doc where run: "sfold apply_operation t ops = Inr doc" "normalize_studio_timeline (timeline_value doc) = Inr t'"
    using assms(1,4) by (auto simp: apply_timeline_edits_def sbind_Inr_iff)
  have "held t tk doc"
    by (rule sfold_invariant [OF run(1), of "held t tk"])
      (use held_start [OF v2 assms(2)] operation_held [OF v2 assms(2,3)] assms(5) in blast)+
  then have "held t tk t'" by (rule normalize_held [OF v2 assms(2) _ run(2)])
  then show ?thesis by (simp add: held_def)
qed

end
