(* ===== verification/Timeline_Pictures.thy ===== *)
theory Timeline_Pictures
  imports Timeline_Held
begin

text \<open>
  What a video track shows: at every instant of a normalized document at most two clips, and two
  only within a dissolve from the one into the next. Both schemas; the first is the second with
  every clip at plain speed and without dissolves.
\<close>

section \<open>Instants\<close>

definition plays :: "int \<Rightarrow> fields \<Rightarrow> bool" where
  "plays ms c \<longleftrightarrow> (case clip_duration_ms c of
     Inr len \<Rightarrow> int_fld c ''start_ms'' \<le> ms \<and> ms < int_fld c ''start_ms'' + len | Inl _ \<Rightarrow> False)"

definition dissolves_into :: "fields \<Rightarrow> fields \<Rightarrow> bool" where
  "dissolves_into left right \<longleftrightarrow> (case dget left ''transition_out'' of None \<Rightarrow> False
     | Some tr \<Rightarrow> fld (as_fields tr) ''to_clip_id'' = fld right ''id'' \<and>
         clip_duration_ms left = Inr (int_fld right ''start_ms'' + int_fld (as_fields tr) ''duration_ms'' - int_fld left ''start_ms''))"

abbreviation starts :: "fields list \<Rightarrow> int list" where "starts \<equiv> map (\<lambda>c. int_fld c ''start_ms'')"

lemma loop_step:
  assumes "transitions_loop inc (left # right # rest) = Inr ()"
  obtains len next_inc where "clip_duration_ms left = Inr len" "transitions_loop next_inc (right # rest) = Inr ()"
    "next_inc = 0 \<and> int_fld left ''start_ms'' + len \<le> int_fld right ''start_ms'' \<or>
     inc + next_inc \<le> len \<and> int_fld left ''start_ms'' + len = int_fld right ''start_ms'' + next_inc \<and> dissolves_into left right \<and>
     (\<exists>next_len. clip_duration_ms right = Inr next_len \<and> next_inc < next_len)"
proof (cases "dget left ''transition_out''")
  case None
  then obtain len where run: "clip_duration_ms left = Inr len" "\<not> int_fld left ''start_ms'' + len - int_fld right ''start_ms'' > 0"
    "transitions_loop 0 (right # rest) = Inr ()"
    using assms unfolding transitions_loop.simps(2) [of inc] None option.case list.case sbind_Inr_iff Let_def guard_iff by blast
  show thesis by (rule that [OF run(1,3)]) (use run(2) in simp)
next
  case (Some tr)
  let ?w = "int_fld (as_fields tr) ''duration_ms''"
  obtain len next_len where run: "clip_duration_ms left = Inr len" "fld (as_fields tr) ''to_clip_id'' = fld right ''id''"
    "int_fld left ''start_ms'' + len - int_fld right ''start_ms'' = ?w" "clip_duration_ms right = Inr next_len"
    "?w < next_len \<and> inc + ?w \<le> len" "transitions_loop ?w (right # rest) = Inr ()"
    using assms unfolding transitions_loop.simps(2) [of inc] Some option.case list.case sbind_Inr_iff Let_def guard_iff by blast
  then have "dissolves_into left right" using Some by (simp add: dissolves_into_def)
  then show thesis by (intro that [OF run(1,6)]) (use run(3-5) in auto)
qed

text \<open>What comes after a clip starts no earlier than the dissolve into that clip ends.\<close>

lemma loop_after:
  assumes "transitions_loop inc (left # rest) = Inr ()" "sorted (starts (left # rest))" "clip_duration_ms left = Inr len" "inc \<le> len"
    and "c \<in> set rest"
  shows "int_fld left ''start_ms'' + inc \<le> int_fld c ''start_ms''"
proof (cases rest)
  case (Cons right rest')
  obtain len' next_inc where "clip_duration_ms left = Inr len'"
    "next_inc = 0 \<and> int_fld left ''start_ms'' + len' \<le> int_fld right ''start_ms'' \<or>
     inc + next_inc \<le> len' \<and> int_fld left ''start_ms'' + len' = int_fld right ''start_ms'' + next_inc"
    using assms(1) unfolding Cons by (rule loop_step) blast
  then have "int_fld left ''start_ms'' + inc \<le> int_fld right ''start_ms''" using assms(3,4) by auto
  also have "\<dots> \<le> int_fld c ''start_ms''" using assms(2,5) Cons by auto
  finally show ?thesis .
qed (use assms(5) in simp)

lemma loop_apart:
  assumes "transitions_loop inc cs = Inr ()" "sorted (starts cs)" "i < j" "j < length cs" "plays ms (cs ! i)" "plays ms (cs ! j)"
  shows "j = Suc i \<and> dissolves_into (cs ! i) (cs ! j)"
  using assms
proof (induction cs arbitrary: inc i j)
  case (Cons left cs)
  then obtain right rest where cs: "cs = right # rest" by (cases cs) auto
  obtain len next_inc where step: "clip_duration_ms left = Inr len" "transitions_loop next_inc (right # rest) = Inr ()"
    "next_inc = 0 \<and> int_fld left ''start_ms'' + len \<le> int_fld right ''start_ms'' \<or>
     inc + next_inc \<le> len \<and> int_fld left ''start_ms'' + len = int_fld right ''start_ms'' + next_inc \<and> dissolves_into left right \<and>
     (\<exists>next_len. clip_duration_ms right = Inr next_len \<and> next_inc < next_len)"
    using Cons.prems(1) unfolding cs by (rule loop_step)
  have sorted: "sorted (starts cs)" using Cons.prems(2) by simp
  show ?case
  proof (cases i)
    case (Suc k)
    then show ?thesis using Cons.IH [of next_inc k "j - 1"] step(2) sorted Cons.prems(3-6) by (cases j) (auto simp: cs)
  next
    case 0
    then obtain k where j: "j = Suc k" using Cons.prems(3) by (cases j) auto
    have elem: "(left # cs) ! j \<in> set (right # rest)" using j Cons.prems(4) cs nth_mem [of k cs] by simp
    have left: "ms < int_fld left ''start_ms'' + len" using Cons.prems(5) 0 step(1) by (simp add: plays_def)
    have later: "int_fld ((left # cs) ! j) ''start_ms'' \<le> ms" using Cons.prems(6) by (auto simp: plays_def split: sum.splits)
    have ge: "int_fld right ''start_ms'' \<le> int_fld ((left # cs) ! j) ''start_ms''" using elem sorted cs by auto
    from left later ge have dissolve: "int_fld left ''start_ms'' + len = int_fld right ''start_ms'' + next_inc" "dissolves_into left right"
      and next_len: "\<exists>next_len. clip_duration_ms right = Inr next_len \<and> next_inc \<le> next_len"
      using step(3) by auto
    have "k = 0"
    proof (rule ccontr)
      assume "k \<noteq> 0"
      then have "(left # cs) ! j \<in> set rest" using j cs Cons.prems(4) by (cases k) auto
      then have "int_fld right ''start_ms'' + next_inc \<le> int_fld ((left # cs) ! j) ''start_ms''"
        using loop_after [OF step(2)] sorted cs next_len by blast
      then show False using left later dissolve(1) by simp
    qed
    then show ?thesis using 0 j cs dissolve(2) by simp
  qed
qed simp

lemma filter_pairs:
  assumes "\<And>i j. i < j \<Longrightarrow> j < length xs \<Longrightarrow> P (xs ! i) \<Longrightarrow> P (xs ! j) \<Longrightarrow> j = Suc i"
  shows "length (filter P xs) \<le> 2"
proof (cases "filter P xs = []")
  case False
  let ?S = "{i. i < length xs \<and> P (xs ! i)}"
  have card: "length (filter P xs) = card ?S" by (rule length_filter_conv_card)
  then have "?S \<noteq> {}" using False by (metis card.empty length_0_conv)
  then have min: "Min ?S \<in> ?S" by (intro Min_in) auto
  have "?S \<subseteq> {Min ?S, Suc (Min ?S)}"
  proof
    fix i assume i: "i \<in> ?S"
    then have "Min ?S \<le> i" by (intro Min_le) auto
    then show "i \<in> {Min ?S, Suc (Min ?S)}" using assms [of "Min ?S" i] min i by (cases "i = Min ?S") auto
  qed
  then have "card ?S \<le> card {Min ?S, Suc (Min ?S)}" by (intro card_mono) auto
  also have "\<dots> \<le> 2" by (simp add: card_insert_if)
  finally show ?thesis unfolding card .
qed simp

section \<open>The tracks of a document\<close>

lemma sorted_starts: "sorted (starts (sort_clips cs))"
proof -
  have "sorted (map (\<lambda>c. (int_fld c ''start_ms'', text_fld c ''id'')) (sort_clips cs))" unfolding sort_clips_def by (rule sorted_sort_key)
  then show ?thesis by (induction "sort_clips cs" arbitrary: cs rule: list.induct) (auto simp: sorted_wrt_map intro: sorted_wrt_mono_rel [rotated])
qed

text \<open>A clip of the first schema: plain speed, no dissolve, a positive length.\<close>

definition plain_v1 :: "fields \<Rightarrow> bool" where
  "plain_v1 c \<longleftrightarrow> clip_duration_ms c = Inr (int_fld c ''out_ms'' - int_fld c ''in_ms'') \<and> dget c ''transition_out'' = None"

lemma clip_v1_plain:
  assumes "clip_v1 cv video sn raw = Inr (sn', c)"
  shows "plain_v1 c"
proof -
  from assms obtain clip cid snapshot p a b sn2 where run: "\<not> (b \<le> a \<or> p + b - a > cv_duration cv)"
    and last: "(let item = [(''id'', VStr cid), (''source_snapshot'', VDict snapshot), (''start_ms'', VInt p),
                 (''in_ms'', VInt a), (''out_ms'', VInt b)]
     in if video then sbind (geometry_of cv clip) (\<lambda>g. Inr (sn2, item @ geometry_fields g))
        else sbind (check (\<forall>k \<in> {''x'', ''y'', ''width'', ''height''}. dget clip k = None)
               ''STUDIO_TIMELINE_VIDEO_GEOMETRY_REQUIRES_VIDEO'') (\<lambda>_. Inr (sn2, item))) = Inr (sn', c)"
    unfolding clip_v1_def sbind_Inr_iff Let_def guard_iff by blast
  obtain pic where "c = [(''id'', VStr cid), (''source_snapshot'', VDict snapshot), (''start_ms'', VInt p),
                 (''in_ms'', VInt a), (''out_ms'', VInt b)] @ pic" "pic = [] \<or> pic \<in> range geometry_fields"
    using last by (cases video) (auto simp: Let_def sbind_Inr_iff)
  then show ?thesis using run
    by (auto simp: plain_v1_def clip_duration_ms_def getd_def int_fld_def geometry_fields_def Let_def)
qed

lemma plain_loop:
  "\<forall>c \<in> set cs. plain_v1 c \<Longrightarrow> overlap_free cs \<Longrightarrow> transitions_loop 0 cs = Inr ()"
proof (induction cs)
  case (Cons left cs)
  have plain: "clip_duration_ms left = Inr (int_fld left ''out_ms'' - int_fld left ''in_ms'')" "dget left ''transition_out'' = None"
    using Cons.prems(1) by (simp_all add: plain_v1_def)
  have rest: "transitions_loop 0 cs = Inr ()" using Cons by (cases cs) (simp_all add: overlap_free_def)
  show ?case using plain rest Cons.prems(2) by (cases cs) (simp_all add: overlap_free_def)
qed simp

lemma video_track_loop:
  assumes "normalize_studio_timeline v = Inr t" "tk \<in> set (tl_tracks t)" "is_video (fld (tk_fields tk) ''kind'')"
  shows "transitions_loop 0 (tk_clips tk) = Inr () \<and> sorted (starts (tk_clips tk))"
proof -
  consider (new) ao where "normalize_v2 ao v = Inr t" | (old) "normalize_v1 v = Inr t"
    using assms(1) by (auto simp: normalize_studio_timeline_def split: val.splits option.splits)
  then show ?thesis
  proof cases
    case new
    from new obtain row cv raws sn tracks where
      "v = VDict row" "canvas_of row = Inr cv" "tracks_field row = Inr raws"
      and run: "collect (track_v2 ao cv) nothing_seen raws = Inr (sn, tracks)" "tl_tracks t = sort_tracks tracks"
      and "\<forall>k \<in> set CANVAS_FIELDS. fld (tl_fields t) k = canvas_value ao cv k" "dget (tl_fields t) ''tracks'' = None"
      "ao \<longrightarrow> cv_width cv = 1280 \<and> cv_height cv = 720 \<and> cv_fps cv = 24"
      by (rule document_shape)
    have "tk \<in> set tracks" using assms(2) run(2) by (metis set_mset_mset sort_tracks_again(2))
    then obtain s s' raw where "track_v2 ao cv s raw = Inr (s', tk)" using collect_members(2) [OF run(1)] by blast
    then show ?thesis by (rule track_v2_shape) (use assms(3) sorted_starts in \<open>simp add: getd_def\<close>)
  next
    case old
    then obtain cv sn raws tracks where run: "collect (track_v1 cv) nothing_seen raws = Inr (sn, tracks)" "tl_tracks t = sort_tracks tracks"
      unfolding normalize_v1_def sbind_Inr_iff by (auto simp: sbind_Inr_iff)
    have "tk \<in> set tracks" using assms(2) run(2) by (metis set_mset_mset sort_tracks_again(2))
    then obtain s s' raw where track: "track_v1 cv s raw = Inr (s', tk)" using collect_members(2) [OF run(1)] by blast
    obtain tid kind order muted gain video s1 s2 raws clips where
      clips: "collect (clip_v1 cv video) s1 raws = Inr (s2, clips)" and free: "\<not> (video \<and> \<not> overlap_free (sort_clips clips))"
      and video: "video = is_video kind"
      and tk: "tk = \<lparr>tk_fields = [(''id'', VStr tid), (''kind'', kind), (''order'', VInt order), (''muted'', VBool muted),
                (''gain_db'', VFloat gain)], tk_clips = sort_clips clips\<rparr>"
      using track unfolding track_v1_def sbind_Inr_iff Let_def by (auto simp: sbind_Inr_iff)
    have "\<forall>c \<in> set (sort_clips clips). plain_v1 c"
      using collect_members(2) [OF clips] clip_v1_plain by (metis mset_sort_clips(2))
    moreover have "overlap_free (sort_clips clips)" using free video assms(3) by (simp add: tk getd_def)
    ultimately show ?thesis using plain_loop sorted_starts by (simp add: tk)
  qed
qed

end
