(* ===== verification/Timeline_Split.thy ===== *)
theory Timeline_Split
  imports Timeline_Batch Timeline_Pictures
begin

text \<open>What a cut does to the instants of a clip.\<close>

text \<open>The position in its source a clip shows at an instant.\<close>

definition source_at :: "int \<Rightarrow> fields \<Rightarrow> rat option" where
  "source_at ms c = (case (getd c ''speed_num'' (VInt 1), getd c ''speed_den'' (VInt 1)) of
     (VInt num, VInt den) \<Rightarrow>
       if plays ms c then Some (of_int (int_fld c ''in_ms'') + of_int (ms - int_fld c ''start_ms'') * of_int num / of_int den) else None
   | _ \<Rightarrow> None)"

lemma edit_int_Inr: "edit_int v = Inr i \<longleftrightarrow> v = VInt i"
  by (cases v) (auto simp: edit_int_def)

lemma edit_duration_facts:
  assumes "edit_duration (VDict clip) = Inr len"
  obtains num den a b where "getd clip ''speed_num'' (VInt 1) = VInt num" "getd clip ''speed_den'' (VInt 1) = VInt den"
    "fld clip ''in_ms'' = VInt a" "fld clip ''out_ms'' = VInt b" "1 \<le> num" "num \<le> 4" "1 \<le> den" "den \<le> 4" "a < b"
    "(b - a) * den mod num = 0" "len = (b - a) * den div num"
proof -
  obtain b a where ab: "fld clip ''out_ms'' = VInt b" "fld clip ''in_ms'' = VInt a"
    and rest: "(case (getd clip ''speed_num'' (VInt 1), getd clip ''speed_den'' (VInt 1)) of
         (VInt num, VInt den) \<Rightarrow>
           sbind (check (1 \<le> num \<and> num \<le> 4 \<and> 1 \<le> den \<and> den \<le> 4 \<and> \<not> b - a \<le> 0 \<and> (b - a) * den mod num = 0)
             ''STUDIO_TIMELINE_EDIT_FRACTIONAL_MS'') (\<lambda>_. Inr ((b - a) * den div num))
       | _ \<Rightarrow> invalid ''STUDIO_TIMELINE_EDIT_FRACTIONAL_MS'') = Inr len"
    using assms unfolding edit_duration_def val.case sbind_Inr_iff edit_int_Inr by blast
  obtain num where num: "getd clip ''speed_num'' (VInt 1) = VInt num" using rest by (cases "getd clip ''speed_num'' (VInt 1)") simp_all
  obtain den where den: "getd clip ''speed_den'' (VInt 1) = VInt den" using rest num by (cases "getd clip ''speed_den'' (VInt 1)") simp_all
  show thesis by (rule that [OF num den ab(2,1)]) (use rest num den in \<open>auto simp: sbind_Inr_iff\<close>)
qed

lemma zeroed_other: "k \<noteq> k' \<Longrightarrow> getd (zeroed k' c) k v = getd c k v"
  by (simp add: zeroed_def getd_def)

lemma getd_dset: "getd (dset d k v) k' w = (if k' = k then v else getd d k' w)" by (simp add: getd_def)
lemma getd_dpop: "getd (dpop d k) k' w = (if k' = k then w else getd d k' w)" by (simp add: getd_def)

lemmas getd_changes = zeroed_other getd_dset getd_dpop

lemma plays_iff:
  assumes "clip_duration_ms c = Inr len"
  shows "plays ms c \<longleftrightarrow> int_fld c ''start_ms'' \<le> ms \<and> ms < int_fld c ''start_ms'' + len"
  using assms by (simp add: plays_def)

lemma clip_duration:
  assumes "getd c ''speed_num'' (VInt 1) = VInt num" "getd c ''speed_den'' (VInt 1) = VInt den" "fld c ''in_ms'' = VInt a" "fld c ''out_ms'' = VInt b"
    and "1 \<le> num" "num \<le> 4" "1 \<le> den" "den \<le> 4" "(b - a) * den = len * num" "1 \<le> len"
  shows "clip_duration_ms c = Inr len"
  using assms by (simp add: clip_duration_ms_def)

lemma split_pieces:
  assumes len: "edit_duration (VDict clip) = Inr len" and offset: "0 < offset" "offset < len" "at_ms = int_fld clip ''start_ms'' + offset"
    and speed: "getd clip ''speed_num'' (VInt 1) = VInt num" "getd clip ''speed_den'' (VInt 1) = VInt den"
    and cut: "offset * num mod den = 0" "cut_ms = int_fld clip ''in_ms'' + offset * num div den"
    and moving: "asset_kind_of clip \<noteq> vtext ''image''"
  shows "source_at ms (split_head cut_ms clip) = (if ms < at_ms then source_at ms clip else None)"
    and "source_at ms (split_tail cid at_ms offset cut_ms clip) = (if at_ms \<le> ms then source_at ms clip else None)"
    and "plays (at_ms - 1) (split_head cut_ms clip)" and "plays at_ms (split_tail cid at_ms offset cut_ms clip)"
proof -
  obtain a b where facts: "fld clip ''in_ms'' = VInt a" "fld clip ''out_ms'' = VInt b" "1 \<le> num" "num \<le> 4" "1 \<le> den" "den \<le> 4" "a < b"
    "(b - a) * den mod num = 0" "len = (b - a) * den div num"
    using edit_duration_facts [OF len] speed by (metis val.inject(2))
  let ?head = "split_head cut_ms clip" and ?tail = "split_tail cid at_ms offset cut_ms clip"
  have ints: "int_fld clip ''in_ms'' = a" "int_fld clip ''out_ms'' = b" using facts by (simp_all add: int_fld_def)
  have whole: "(b - a) * den = len * num" using facts(8,9) by auto
  have step: "(cut_ms - a) * den = offset * num" using cut ints by auto
  have head: "getd ?head ''speed_num'' (VInt 1) = VInt num" "getd ?head ''speed_den'' (VInt 1) = VInt den"
    "fld ?head ''in_ms'' = VInt a" "fld ?head ''out_ms'' = VInt cut_ms" "fld ?head ''start_ms'' = fld clip ''start_ms''"
    unfolding split_head_def using facts speed by (simp_all add: getd_changes)
  have tail: "getd ?tail ''speed_num'' (VInt 1) = VInt num" "getd ?tail ''speed_den'' (VInt 1) = VInt den"
    "fld ?tail ''in_ms'' = VInt cut_ms" "fld ?tail ''out_ms'' = VInt b" "fld ?tail ''start_ms'' = VInt at_ms"
    unfolding split_tail_def using facts speed moving by (simp_all add: getd_changes)
  have lens: "clip_duration_ms clip = Inr len" "clip_duration_ms ?head = Inr offset" "clip_duration_ms ?tail = Inr (len - offset)"
    by (rule clip_duration [OF speed facts(1-6) whole])
      (use offset in simp, rule clip_duration [OF head(1-4) facts(3-6) step], use offset in simp,
       rule clip_duration [OF tail(1-4) facts(3-6)], use whole step offset in \<open>simp_all add: algebra_simps\<close>)
  have place: "int_fld ?head ''start_ms'' = int_fld clip ''start_ms''" "int_fld ?tail ''start_ms'' = int_fld clip ''start_ms'' + offset"
    "int_fld ?head ''in_ms'' = a" "int_fld ?tail ''in_ms'' = cut_ms"
    using head tail offset(3) by (simp_all add: int_fld_def)
  have "of_int (cut_ms - a) * (of_int den :: rat) = of_int offset * of_int num" using step by (metis of_int_mult)
  then have "of_int cut_ms = of_int a + of_int offset * of_int num / (of_int den :: rat)" using facts(5) by (simp add: field_simps)
  then have same: "of_int cut_ms + of_int (ms - (int_fld clip ''start_ms'' + offset)) * of_int num / of_int den =
      (of_int a + of_int (ms - int_fld clip ''start_ms'') * of_int num / of_int den :: rat)"
    using facts(5) by (simp add: field_simps)
  show "source_at ms ?head = (if ms < at_ms then source_at ms clip else None)"
    unfolding source_at_def speed head plays_iff [OF lens(1)] plays_iff [OF lens(2)] place ints using offset by auto
  show "source_at ms ?tail = (if at_ms \<le> ms then source_at ms clip else None)"
    unfolding source_at_def speed tail plays_iff [OF lens(1)] plays_iff [OF lens(3)] place ints using offset same by auto
  show "plays (at_ms - 1) ?head" "plays at_ms ?tail"
    unfolding plays_iff [OF lens(2)] plays_iff [OF lens(3)] place using offset by auto
qed

lemma split_outcome:
  assumes "edit_clip_split raw doc = Inr doc'"
  shows "\<exists>p at_ms head tail. find_clip doc (fld raw ''clip_id'') = Inr p \<and> fld raw ''at_ms'' = VInt at_ms \<and>
    doc' = add_clip (fst p) tail (upd_clip p (\<lambda>_. head) doc) \<and>
    fld head ''id'' = fld (clip_at doc p) ''id'' \<and> fld tail ''id'' = fld raw ''new_clip_id'' \<and>
    (asset_kind_of (clip_at doc p) \<noteq> vtext ''image'' \<longrightarrow>
      (\<forall>ms. source_at ms head = (if ms < at_ms then source_at ms (clip_at doc p) else None) \<and>
            source_at ms tail = (if at_ms \<le> ms then source_at ms (clip_at doc p) else None)) \<and>
      plays (at_ms - 1) head \<and> plays at_ms tail)"
proof -
  obtain p at_ms len where run: "find_clip doc (fld raw ''clip_id'') = Inr p" "edit_int (fld raw ''at_ms'') = Inr at_ms"
    "0 < at_ms - int_fld (clip_at doc p) ''start_ms''" "edit_duration (VDict (clip_at doc p)) = Inr len"
    "at_ms - int_fld (clip_at doc p) ''start_ms'' < len" and
    rest: "(case (getd (clip_at doc p) ''speed_num'' (VInt 1), getd (clip_at doc p) ''speed_den'' (VInt 1)) of
       (VInt num, VInt den) \<Rightarrow>
         sbind (check ((at_ms - int_fld (clip_at doc p) ''start_ms'') * num mod den = 0) ''STUDIO_TIMELINE_EDIT_FRACTIONAL_MS'') (\<lambda>_.
         let cut = int_fld (clip_at doc p) ''in_ms'' + (at_ms - int_fld (clip_at doc p) ''start_ms'') * num div den
         in sbind (edit_id (fld raw ''new_clip_id'')) (\<lambda>cid.
            Inr (add_clip (fst p) (split_tail cid at_ms (at_ms - int_fld (clip_at doc p) ''start_ms'') cut (clip_at doc p))
              (upd_clip p (split_head cut) doc))))
     | _ \<Rightarrow> Inl Type_Error) = Inr doc'"
    using assms unfolding edit_clip_split_def sbind_Inr_iff edit_fields_Inr guard_iff Let_def by blast
  define offset where "offset = at_ms - int_fld (clip_at doc p) ''start_ms''"
  obtain num den where speed: "getd (clip_at doc p) ''speed_num'' (VInt 1) = VInt num" "getd (clip_at doc p) ''speed_den'' (VInt 1) = VInt den"
    using edit_duration_facts [OF run(4)] by metis
  define cut_ms where "cut_ms = int_fld (clip_at doc p) ''in_ms'' + offset * num div den"
  obtain cid where out: "offset * num mod den = 0" "edit_id (fld raw ''new_clip_id'') = Inr cid"
    "doc' = add_clip (fst p) (split_tail cid at_ms offset cut_ms (clip_at doc p)) (upd_clip p (split_head cut_ms) doc)"
    using rest unfolding speed prod.case val.case offset_def [symmetric] Let_def cut_ms_def [symmetric] sbind_Inr_iff guard_iff by auto
  have "upd_clip p (split_head cut_ms) doc = upd_clip p (\<lambda>_. split_head cut_ms (clip_at doc p)) doc"
    by (simp add: upd_clip_def upd_track_def clip_at_def)
  moreover have "fld (split_head cut_ms (clip_at doc p)) ''id'' = fld (clip_at doc p) ''id''" by (simp add: split_head_def getd_changes)
  moreover have "fld raw ''new_clip_id'' = VStr cid"
    using out(2) by (cases "fld raw ''new_clip_id''") (auto simp: edit_id_def split: if_splits)
  moreover have "fld (split_tail cid at_ms offset cut_ms (clip_at doc p)) ''id'' = VStr cid" by (simp add: split_tail_def Let_def getd_changes)
  moreover note split_pieces [OF run(4) _ _ _ speed out(1) cut_ms_def]
  ultimately show ?thesis
    using run(1,2,3,5) out(3) unfolding offset_def [symmetric]
    by (intro exI [of _ p] exI [of _ at_ms] exI [of _ "split_head cut_ms (clip_at doc p)"] exI [of _ "split_tail cid at_ms offset cut_ms (clip_at doc p)"])
      (simp add: offset_def edit_int_Inr)
qed

end
