(* ===== verification/Timeline_Subtitles.thy ===== *)
theory Timeline_Subtitles
  imports Timeline_Normal
begin

text \<open>
  Subtitle files of a timeline, \<open>app/services/studio_timeline_subtitles.py\<close>: the strict parser of SRT
  and plain WebVTT, the import that replaces the captions of a document, and the export.

  \<^item> Of Unicode's and HTML's tables the code uses three facts, the arguments in \<open>tables\<close>: the decimal
    value of a character (\<open>\\d\<close> and \<open>int\<close> accept every decimal digit of Unicode), the named character
    references \<open>html.entities.html5\<close>, and the length of the longest name.
  \<^item> The exported bytes are given as the text they encode.

  Shown in \<open>Timeline_Laws\<close>: what is exported imports back as the same captions, in both formats.
\<close>

record tables =
  tb_digit :: "nat \<Rightarrow> nat option"
  tb_html5 :: "utext \<Rightarrow> utext option"
  tb_longest :: nat

definition MAX_SIDECAR_BYTES :: nat where "MAX_SIDECAR_BYTES = 192000"

section \<open>Character references\<close>

definition ascii_digit :: "nat \<Rightarrow> bool" where "ascii_digit c \<longleftrightarrow> 48 \<le> c \<and> c \<le> 57"
definition ascii_letter :: "nat \<Rightarrow> bool" where "ascii_letter c \<longleftrightarrow> 65 \<le> c \<and> c \<le> 90 \<or> 97 \<le> c \<and> c \<le> 122"
definition ascii_hex :: "nat \<Rightarrow> bool" where "ascii_hex c \<longleftrightarrow> ascii_digit c \<or> 65 \<le> c \<and> c \<le> 70 \<or> 97 \<le> c \<and> c \<le> 102"

definition hex_value :: "nat \<Rightarrow> nat" where
  "hex_value c = (if c \<le> 57 then c - 48 else if c \<le> 70 then c - 55 else c - 87)"

text \<open>\<open>_VTT_REFERENCE_PATTERN\<close>: how much of the text after an ampersand belongs to the reference, 0 if there is none.\<close>

definition semicolon :: "utext \<Rightarrow> nat" where "semicolon s = (if s \<noteq> [] \<and> hd s = 59 then 1 else 0)"

definition run_of :: "(nat \<Rightarrow> bool) \<Rightarrow> utext \<Rightarrow> nat" where "run_of p s = length (takeWhile p s)"

definition reference_length :: "utext \<Rightarrow> nat" where
  "reference_length s = (case s of
     [] \<Rightarrow> 0
   | c # r \<Rightarrow>
       if c = 35
       then if r \<noteq> [] \<and> (hd r = 88 \<or> hd r = 120) \<and> run_of ascii_hex (tl r) \<noteq> 0
            then 2 + run_of ascii_hex (tl r) + semicolon (drop (run_of ascii_hex (tl r)) (tl r))
            else if run_of ascii_digit r \<noteq> 0 then 1 + run_of ascii_digit r + semicolon (drop (run_of ascii_digit r) r) else 0
       else if ascii_letter c then 1 + run_of ascii_alnum r + semicolon (drop (run_of ascii_alnum r) r) else 0)"

definition C1_REPLACEMENTS :: "(nat, nat) dict" where
  "C1_REPLACEMENTS = [(0x80, 0x20AC), (0x82, 0x201A), (0x83, 0x0192), (0x84, 0x201E), (0x85, 0x2026), (0x86, 0x2020), (0x87, 0x2021),
     (0x88, 0x02C6), (0x89, 0x2030), (0x8A, 0x0160), (0x8B, 0x2039), (0x8C, 0x0152), (0x8E, 0x017D), (0x91, 0x2018), (0x92, 0x2019),
     (0x93, 0x201C), (0x94, 0x201D), (0x95, 0x2022), (0x96, 0x2013), (0x97, 0x2014), (0x98, 0x02DC), (0x99, 0x2122), (0x9A, 0x0161),
     (0x9B, 0x203A), (0x9C, 0x0153), (0x9E, 0x017E), (0x9F, 0x0178)]"

fun saturate :: "nat \<Rightarrow> nat \<Rightarrow> utext \<Rightarrow> nat option" where
  "saturate base acc [] = Some acc"
| "saturate base acc (d # ds) = (let acc = acc * base + hex_value d in if acc > 0x10FFFF then None else saturate base acc ds)"

definition decode_reference :: "tables \<Rightarrow> utext \<Rightarrow> utext" where
  "decode_reference tb ref =
     (if hd ref \<noteq> 35
      then case List.find (\<lambda>n. tb_html5 tb (take n ref) \<noteq> None) (rev [1..<Suc (min (length ref) (tb_longest tb))]) of
          Some n \<Rightarrow> (case tb_html5 tb (take n ref) of Some s \<Rightarrow> s | None \<Rightarrow> []) @ drop n ref
        | None \<Rightarrow> 38 # ref
      else
        let body = (if last ref = 59 then butlast (tl ref) else tl ref);
            hex = (body \<noteq> [] \<and> (hd body = 88 \<or> hd body = 120))
        in case saturate (if hex then 16 else 10) 0 (if hex then tl body else body) of
             None \<Rightarrow> [0xFFFD]
           | Some n \<Rightarrow> if n = 0 \<or> 0xD800 \<le> n \<and> n \<le> 0xDFFF then [0xFFFD]
                       else [case dget C1_REPLACEMENTS n of Some m \<Rightarrow> m | None \<Rightarrow> n])"

function decode_vtt_text :: "tables \<Rightarrow> utext \<Rightarrow> utext" where
  "decode_vtt_text tb [] = []"
| "decode_vtt_text tb (c # s) =
     (if c = 38 \<and> reference_length s \<noteq> 0
      then decode_reference tb (take (reference_length s) s) @ decode_vtt_text tb (drop (reference_length s) s)
      else c # decode_vtt_text tb s)"
  by pat_completeness auto
termination by (relation "measure (\<lambda>(tb, s). length s)") auto

section \<open>Cues\<close>

definition is_digit :: "tables \<Rightarrow> nat \<Rightarrow> bool" where "is_digit tb c \<longleftrightarrow> tb_digit tb c \<noteq> None"

text \<open>\<open>int(text)\<close> of a run of digits\<close>

definition int_text :: "tables \<Rightarrow> utext \<Rightarrow> nat" where
  "int_text tb s = foldl (\<lambda>n c. 10 * n + (case tb_digit tb c of Some d \<Rightarrow> d | None \<Rightarrow> 0)) 0 s"

text \<open>A time stamp in front of the text, its milliseconds, and what follows.\<close>

definition stamp_at :: "tables \<Rightarrow> nat \<Rightarrow> utext \<Rightarrow> (nat \<times> utext) option" where
  "stamp_at tb separator s =
     (let hours = takeWhile (is_digit tb) s
      in if length hours < 2 \<or> 6 < length hours then None
         else case drop (length hours) s of
           c1 # m1 # m2 # c2 # s1 # s2 # c3 # a # b # c # rest \<Rightarrow>
             if c1 = 58 \<and> 48 \<le> m1 \<and> m1 \<le> 53 \<and> is_digit tb m2 \<and> c2 = 58 \<and> 48 \<le> s1 \<and> s1 \<le> 53 \<and> is_digit tb s2 \<and> c3 = separator \<and>
                is_digit tb a \<and> is_digit tb b \<and> is_digit tb c
             then Some (((int_text tb hours * 60 + int_text tb [m1, m2]) * 60 + int_text tb [s1, s2]) * 1000 + int_text tb [a, b, c], rest)
             else None
         | _ \<Rightarrow> None)"

definition arrow :: utext where "arrow = points '' --> ''"

definition timing_of :: "tables \<Rightarrow> nat \<Rightarrow> utext \<Rightarrow> (nat \<times> nat) option" where
  "timing_of tb separator line = (case stamp_at tb separator line of
     Some (start, rest) \<Rightarrow>
       if take (length arrow) rest = arrow
       then (case stamp_at tb separator (drop (length arrow) rest) of
           Some (stop, []) \<Rightarrow> Some (start, stop) | _ \<Rightarrow> None)
       else None
   | None \<Rightarrow> None)"

text \<open>\<open>str(index)\<close>; \<open>text.split("\\n\\n")\<close>; \<open>"\\n".join(lines)\<close>; \<open>text.strip("\\n")\<close>\<close>

fun decimal :: "nat \<Rightarrow> utext" where
  "decimal n = (if n < 10 then [48 + n] else decimal (n div 10) @ [48 + n mod 10])"

declare decimal.simps [simp del]

fun split_blocks :: "utext \<Rightarrow> utext list" where
  "split_blocks [] = [[]]"
| "split_blocks (c # s) = (if c = 10 \<and> s \<noteq> [] \<and> hd s = 10 then [] # split_blocks (tl s)
     else (case split_blocks s of [] \<Rightarrow> [[c]] | b # bs \<Rightarrow> (c # b) # bs))"

fun join_with :: "utext \<Rightarrow> utext list \<Rightarrow> utext" where
  "join_with sep [] = []"
| "join_with sep [l] = l"
| "join_with sep (l # ls) = l @ sep @ join_with sep ls"

definition strip_lines :: "utext \<Rightarrow> utext" where
  "strip_lines s = rev (dropWhile (\<lambda>c. c = 10) (rev (dropWhile (\<lambda>c. c = 10) s)))"

definition separator_of :: "string \<Rightarrow> nat" where "separator_of format = (if format = ''SRT'' then 44 else 46)"

definition cue_of :: "tables \<Rightarrow> string \<Rightarrow> nat \<times> utext \<Rightarrow> raised + int \<times> int \<times> utext" where
  "cue_of tb format b = (case b of (index, block) \<Rightarrow>
     let ls = split_lines block; separator = separator_of format
     in sbind (if format = ''VTT'' \<and> timing_of tb separator (hd ls) \<noteq> None then Inr 0
          else sbind (check (\<not> (length ls < 3 \<or> hd ls \<noteq> decimal index)) ''STUDIO_SUBTITLE_NUMBERED_CUES_REQUIRED'') (\<lambda>_. Inr 1)) (\<lambda>timing.
        case timing_of tb separator (ls ! timing) of
          None \<Rightarrow> invalid ''STUDIO_SUBTITLE_PLAIN_TIMING_REQUIRED''
        | Some (start, stop) \<Rightarrow>
            sbind (check (\<not> length ls \<le> timing + 1) ''STUDIO_SUBTITLE_PLAIN_TIMING_REQUIRED'') (\<lambda>_.
            let words = join_with [10] (drop (timing + 1) ls)
            in Inr (int start, int stop, if format = ''VTT'' then decode_vtt_text tb words else words))))"

definition utf8_length :: "utext \<Rightarrow> nat" where
  "utf8_length s = (\<Sum>c \<leftarrow> s. if c < 0x80 then 1 else if c < 0x800 then 2 else if c < 0x10000 then 3 else 4)"

definition vtt_header :: utext where "vtt_header = points ''WEBVTT'' @ [10, 10]"

definition parse_subtitle_cues :: "tables \<Rightarrow> val \<Rightarrow> string \<Rightarrow> raised + (int \<times> int \<times> utext) list" where
  "parse_subtitle_cues tb content format = (case content of
     VStr s \<Rightarrow>
       sbind (check (format \<in> {''SRT'', ''VTT''}) ''STUDIO_SUBTITLE_FORMAT_INVALID'') (\<lambda>_.
       sbind (check (list_all (\<lambda>c. \<not> (0xD800 \<le> c \<and> c \<le> 0xDFFF)) s) ''STUDIO_SUBTITLE_UTF8_REQUIRED'') (\<lambda>_.
       sbind (check (\<not> utf8_length s > MAX_SIDECAR_BYTES) ''STUDIO_SUBTITLE_BYTE_LIMIT'') (\<lambda>_.
       let s = unix_lines (if s \<noteq> [] \<and> hd s = 0xFEFF then tl s else s)
       in
       sbind (check (13 \<notin> set s) ''STUDIO_SUBTITLE_LINE_ENDINGS_INVALID'') (\<lambda>_.
       sbind (check (\<not> (format = ''VTT'' \<and> take (length vtt_header) s \<noteq> vtt_header)) ''STUDIO_SUBTITLE_VTT_PLAIN_HEADER_REQUIRED'') (\<lambda>_.
       let s = (if format = ''VTT'' then drop (length vtt_header) s else s);
           blocks = (if strip_lines s \<noteq> [] then split_blocks (strip_lines s) else [])
       in
       sbind (check (1 \<le> length blocks \<and> length blocks \<le> 500) ''STUDIO_SUBTITLE_CUE_LIMIT'') (\<lambda>_.
       smap (cue_of tb format) (enumerate 1 blocks)))))))
   | _ \<Rightarrow> invalid ''STUDIO_SUBTITLE_FORMAT_INVALID'')"

definition import_subtitles :: "tables \<Rightarrow> val \<Rightarrow> val \<Rightarrow> string \<Rightarrow> raised + timeline" where
  "import_subtitles tb v content format =
     sbind (parse_subtitle_cues tb content format) (\<lambda>cues.
     case v of
       VDict d \<Rightarrow> normalize_studio_timeline (VDict (dset d ''captions'' (VList (map cue_value cues))))
     | _ \<Rightarrow> Inl Type_Error)"

section \<open>Export\<close>

definition pad :: "nat \<Rightarrow> nat \<Rightarrow> utext" where
  "pad w n = replicate (w - length (decimal n)) 48 @ decimal n"

definition stamp_text :: "string \<Rightarrow> nat \<Rightarrow> utext" where
  "stamp_text format ms = pad 2 (ms div 3600000) @ [58] @ pad 2 (ms mod 3600000 div 60000) @ [58] @ pad 2 (ms mod 3600000 mod 60000 div 1000) @
     [separator_of format] @ pad 3 (ms mod 3600000 mod 60000 mod 1000)"

definition escape_text :: "utext \<Rightarrow> utext" where
  "escape_text s = concat (map (\<lambda>c. if c = 38 then points ''&amp;'' else [c]) s)"

definition block_text :: "string \<Rightarrow> nat \<times> fields \<Rightarrow> utext" where
  "block_text format b = (case b of (index, cue) \<Rightarrow>
     decimal index @ [10] @ stamp_text format (nat (int_fld cue ''start_ms'')) @ arrow @ stamp_text format (nat (int_fld cue ''end_ms'')) @ [10] @
     (if format = ''VTT'' then escape_text (text_fld cue ''text'') else text_fld cue ''text''))"

definition export_subtitles :: "val \<Rightarrow> string \<Rightarrow> raised + utext" where
  "export_subtitles v format =
     sbind (check (format \<in> {''SRT'', ''VTT''}) ''STUDIO_SUBTITLE_FORMAT_INVALID'') (\<lambda>_.
     sbind (normalize_studio_timeline v) (\<lambda>row.
     case dget (tl_fields row) ''captions'' of
       Some (VList cues) \<Rightarrow>
         let blocks = map (block_text format) (enumerate 1 (map as_fields cues));
             content = (if format = ''VTT'' then vtt_header else []) @ join_with [10, 10] blocks @ (if blocks \<noteq> [] then [10] else [])
         in sbind (check (\<not> utf8_length content > MAX_SIDECAR_BYTES) ''STUDIO_SUBTITLE_BYTE_LIMIT'') (\<lambda>_. Inr content)
     | _ \<Rightarrow> Inl Key_Error))"

end
