(* ===== verification/Timeline_Subtitle_Laws.thy ===== *)
theory Timeline_Subtitle_Laws
  imports Timeline_Subtitles Timeline_Batch
begin

text \<open>
  Exported subtitles read back: numbers, time stamps, lines, blocks and character references, each with
  its inverse, and from them the whole file.
\<close>

section \<open>Numbers and time stamps\<close>

text \<open>What is used of the tables: the ASCII digits, a colon that is no digit, and the name of the ampersand.\<close>

definition plain_tables :: "tables \<Rightarrow> bool" where
  "plain_tables tb \<longleftrightarrow> (\<forall>d \<in> {0..9}. tb_digit tb (48 + d) = Some d) \<and> tb_digit tb 58 = None \<and>
     tb_html5 tb (points ''amp;'') = Some [38] \<and> 4 \<le> tb_longest tb"

lemma digit_value: "plain_tables tb \<Longrightarrow> d < 10 \<Longrightarrow> tb_digit tb (48 + d) = Some d"
  by (simp add: plain_tables_def)

lemma decimal_small: "n < 10 \<Longrightarrow> decimal n = [48 + n]" by (subst decimal.simps) simp

lemma decimal_two: "10 \<le> n \<Longrightarrow> n < 100 \<Longrightarrow> decimal n = [48 + n div 10, 48 + n mod 10]"
  by (subst decimal.simps) (simp add: decimal_small)

lemma decimal_three: "100 \<le> n \<Longrightarrow> n < 1000 \<Longrightarrow> decimal n = [48 + n div 100, 48 + n div 10 mod 10, 48 + n mod 10]"
  by (subst decimal.simps) (simp add: decimal_two div_mult2_eq [of n 10 10, simplified])

lemma pad_two: "n < 100 \<Longrightarrow> pad 2 n = [48 + n div 10, 48 + n mod 10]"
  by (cases "n < 10") (simp_all add: pad_def decimal_small decimal_two)

lemma pad_three: "n < 1000 \<Longrightarrow> pad 3 n = [48 + n div 100, 48 + n div 10 mod 10, 48 + n mod 10]"
  by (cases "n < 10"; cases "n < 100") (simp_all add: pad_def decimal_small decimal_two decimal_three numeral_3_eq_3 numeral_2_eq_2)

lemma decimal_digits: "set (decimal n) \<subseteq> {48..57} \<and> decimal n \<noteq> []"
proof (induction n rule: decimal.induct)
  case (1 n)
  then show ?case by (subst (1 2) decimal.simps) auto
qed

lemma int_text_two: "plain_tables tb \<Longrightarrow> n < 100 \<Longrightarrow> int_text tb [48 + n div 10, 48 + n mod 10] = n"
  by (simp add: int_text_def digit_value)

lemma int_text_three: "plain_tables tb \<Longrightarrow> n < 1000 \<Longrightarrow> int_text tb [48 + n div 100, 48 + n div 10 mod 10, 48 + n mod 10] = n"
proof -
  assume tb: "plain_tables tb" and n: "n < 1000"
  have "n div 10 mod 10 < 10" "n mod 10 < 10" "n div 100 < 10" using n by simp_all
  moreover have "10 * (10 * (n div 100) + n div 10 mod 10) + n mod 10 = n"
    using div_mult2_eq [of n 10 10] by simp
  ultimately show ?thesis using tb by (simp add: int_text_def digit_value)
qed

lemma stamp_read:
  assumes tb: "plain_tables tb" and ms: "ms < 360000000"
  shows "stamp_at tb (separator_of format) (stamp_text format ms @ rest) = Some (ms, rest)"
proof -
  define h m s x where parts: "h = ms div 3600000" "m = ms mod 3600000 div 60000" "s = ms mod 3600000 mod 60000 div 1000"
    "x = ms mod 3600000 mod 60000 mod 1000"
  have less: "h < 100" "m < 60" "s < 60" "x < 1000" using ms unfolding parts by (simp_all add: less_mult_imp_div_less)
  have sum: "((h * 60 + m) * 60 + s) * 1000 + x = ms"
  proof -
    have "s * 1000 + x = ms mod 3600000 mod 60000" unfolding parts by simp
    moreover have "m * 60000 + ms mod 3600000 mod 60000 = ms mod 3600000" unfolding parts by simp
    moreover have "h * 3600000 + ms mod 3600000 = ms" unfolding parts by simp
    moreover have "((h * 60 + m) * 60 + s) * 1000 + x = h * 3600000 + (m * 60000 + (s * 1000 + x))" by (simp add: algebra_simps)
    ultimately show ?thesis by simp
  qed
  have digits: "is_digit tb (48 + d)" if "d < 10" for d using digit_value [OF tb that] by (simp add: is_digit_def)
  have colon: "\<not> is_digit tb 58" using tb by (simp add: is_digit_def plain_tables_def)
  have few: "h div 10 < 10" "h mod 10 < 10" "m div 10 < 6" "m mod 10 < 10" "s div 10 < 6" "s mod 10 < 10" "x div 100 < 10" "x div 10 mod 10 < 10" "x mod 10 < 10"
    using less by (simp_all add: less_mult_imp_div_less)
  have shape: "stamp_text format ms @ rest = [48 + h div 10, 48 + h mod 10] @ 58 # (48 + m div 10) # (48 + m mod 10) # 58 # (48 + s div 10) #
      (48 + s mod 10) # separator_of format # (48 + x div 100) # (48 + x div 10 mod 10) # (48 + x mod 10) # rest"
    using less unfolding stamp_text_def parts [symmetric] by (simp add: pad_two pad_three)
  have hours: "takeWhile (is_digit tb) (stamp_text format ms @ rest) = [48 + h div 10, 48 + h mod 10]"
    unfolding shape using digits few(1,2) colon by simp
  show ?thesis
    unfolding stamp_at_def hours Let_def shape
    using digits few less sum colon int_text_two [OF tb] int_text_three [OF tb] by simp
qed

lemma timing_read:
  assumes "plain_tables tb" "a < 360000000" "b < 360000000"
  shows "timing_of tb (separator_of format) (stamp_text format a @ arrow @ stamp_text format b) = Some (a, b)"
  using stamp_read [OF assms(1,2), of format "arrow @ stamp_text format b"] stamp_read [OF assms(1,3), of format "[]"]
  by (simp add: timing_of_def)

lemma timing_number:
  assumes "plain_tables tb"
  shows "timing_of tb separator (decimal n) = None"
proof -
  have "is_digit tb c" if c: "c \<in> set (decimal n)" for c
  proof -
    have "48 \<le> c" "c \<le> 57" using c decimal_digits [of n] by auto
    then show ?thesis using digit_value [OF assms, of "c - 48"] by (simp add: is_digit_def)
  qed
  then have all: "takeWhile (is_digit tb) (decimal n) = decimal n" by (simp add: takeWhile_eq_all_conv)
  show ?thesis unfolding timing_of_def stamp_at_def all Let_def by simp
qed

section \<open>Lines and blocks\<close>

lemma split_lines_line: "10 \<notin> set l \<Longrightarrow> split_lines (l @ 10 # s) = l # split_lines s"
  by (induction l) auto

lemma join_split_lines: "join_with [10] (split_lines s) = s"
proof (induction s)
  case (Cons c s)
  obtain l ls where ls: "split_lines s = l # ls" using split_lines_not_Nil [of s] by (cases "split_lines s") auto
  then show ?case using Cons by (cases ls) auto
qed simp

text \<open>No empty line: no line break at either end and no two in a row.\<close>

fun no_gap :: "utext \<Rightarrow> bool" where
  "no_gap (a # b # s) \<longleftrightarrow> \<not> (a = 10 \<and> b = 10) \<and> no_gap (b # s)"
| "no_gap s = True"

lemma full_lines:
  assumes "[] \<notin> set (split_lines s)"
  shows "no_gap s \<and> s \<noteq> [] \<and> hd s \<noteq> 10 \<and> last s \<noteq> 10"
  using assms
proof (induction s rule: length_induct)
  case (1 s)
  then obtain c r where s: "s = c # r" by (cases s) auto
  obtain l ls where ls: "split_lines r = l # ls" using split_lines_not_Nil [of r] by (cases "split_lines r") auto
  have c: "c \<noteq> 10" and rest: "[] \<notin> set ls" using "1.prems" ls by (auto simp: s split: if_splits)
  show ?case
  proof (cases r)
    case (Cons d r')
    show ?thesis
    proof (cases "d = 10")
      case True
      then have "[] \<notin> set (split_lines r')" using ls rest Cons by simp
      then have "no_gap r' \<and> r' \<noteq> [] \<and> hd r' \<noteq> 10 \<and> last r' \<noteq> 10" using "1.IH" s Cons by simp
      then show ?thesis using c s Cons True by (cases r') auto
    next
      case False
      then have "l \<noteq> []" using ls Cons by (auto split: list.splits)
      then have "[] \<notin> set (split_lines r)" using ls rest by simp
      then have "no_gap r \<and> last r \<noteq> 10" using "1.IH" s by simp
      then show ?thesis using c s Cons by simp
    qed
  qed (use c s in simp)
qed

lemma split_block: "no_gap b \<Longrightarrow> split_blocks b = [b]"
  by (induction b rule: no_gap.induct) auto

lemma split_blocks_block:
  "no_gap b \<Longrightarrow> b \<noteq> [] \<Longrightarrow> last b \<noteq> 10 \<Longrightarrow> split_blocks (b @ 10 # 10 # s) = b # split_blocks s"
  by (induction b rule: no_gap.induct) auto

lemma split_join_blocks:
  assumes "\<forall>b \<in> set bs. no_gap b \<and> b \<noteq> [] \<and> hd b \<noteq> 10 \<and> last b \<noteq> 10" "bs \<noteq> []"
  shows "split_blocks (join_with [10, 10] bs) = bs \<and> strip_lines (join_with [10, 10] bs @ [10]) = join_with [10, 10] bs \<and>
    join_with [10, 10] bs \<noteq> [] \<and> hd (join_with [10, 10] bs) = hd (hd bs)"
proof -
  let ?s = "join_with [10, 10] bs"
  have split: "split_blocks ?s = bs"
    using assms by (induction "[10 :: nat, 10]" bs rule: join_with.induct) (simp_all add: split_block split_blocks_block)
  have ends: "?s \<noteq> [] \<and> hd ?s = hd (hd bs) \<and> last ?s \<noteq> 10"
    using assms by (induction "[10 :: nat, 10]" bs rule: join_with.induct) auto
  then have "hd ?s \<noteq> 10" using assms by (cases bs) auto
  then have "dropWhile (\<lambda>c. c = 10) (?s @ [10]) = ?s @ [10]" using ends by (cases ?s) auto
  moreover have "dropWhile (\<lambda>c. c = 10) (rev ?s) = rev ?s" using ends by (cases "rev ?s") (auto simp: last_rev hd_rev simp flip: hd_rev)
  ultimately have "strip_lines (?s @ [10]) = ?s" by (simp add: strip_lines_def)
  then show ?thesis using split ends by blast
qed

section \<open>Character references\<close>

lemma decode_escape:
  assumes "plain_tables tb"
  shows "decode_vtt_text tb (escape_text s) = s"
proof (induction s)
  case Nil
  then show ?case by (simp add: escape_text_def)
next
  case (Cons c s)
  show ?case
  proof (cases "c = 38")
    case True
    let ?r = "escape_text s"
    have amp: "points ''amp;'' = [97, 109, 112, 59]" "points ''&amp;'' = [38, 97, 109, 112, 59]" by (simp_all add: points_def)
    have len: "reference_length ([97, 109, 112, 59] @ ?r) = 4"
      by (simp add: reference_length_def ascii_letter_def run_of_def ascii_alnum_def semicolon_def)
    have "decode_reference tb [97, 109, 112, 59] = [38]"
    proof -
      have "min (length [97, 109, 112, 59 :: nat]) (tb_longest tb) = 4" using assms by (simp add: plain_tables_def)
      moreover have "rev [1..<Suc 4] = [4, 3, 2, 1]" by code_simp
      ultimately have "rev [1..<Suc (min (length [97, 109, 112, 59 :: nat]) (tb_longest tb))] = [4, 3, 2, 1]" by simp
      then show ?thesis using assms by (simp add: decode_reference_def plain_tables_def amp)
    qed
    moreover have "escape_text (c # s) = 38 # [97, 109, 112, 59] @ ?r" using True by (simp add: escape_text_def amp)
    ultimately show ?thesis using Cons len True by simp
  next
    case False
    then have "escape_text (c # s) = c # escape_text s" by (simp add: escape_text_def)
    then show ?thesis using Cons False by simp
  qed
qed

section \<open>Captions of a document\<close>

definition caption_ok :: "int \<times> int \<times> utext \<Rightarrow> bool" where
  "caption_ok cue \<longleftrightarrow> 0 \<le> fst cue \<and> fst cue \<le> MAX_DURATION_MS \<and> 0 \<le> fst (snd cue) \<and> fst (snd cue) \<le> MAX_DURATION_MS \<and>
     literal_text (snd (snd cue))"

lemma captions_ok:
  assumes "captions_of cv row = Inr v" "canvas_of row' = Inr cv"
  obtains cues where "v = VList (map cue_value cues)" "length cues \<le> 500" "\<forall>c \<in> set cues. caption_ok c"
proof -
  have cv: "cv_duration cv \<le> MAX_DURATION_MS" using assms(2) by (auto simp: canvas_of_def sbind_Inr_iff integer_of_Inr)
  obtain raws cues where run: "length raws \<le> 500" "captions_loop cv raws 0 = Inr cues"
    and v: "v = VList (map cue_value (sort cues))"
    using assms(1) unfolding captions_of_def
    by (cases "getd row ''captions'' (VList [])") (auto simp: sbind_Inr_iff split: if_splits)
  have cues: "smap (caption_of cv) raws = Inr cues" using run(2) by (auto simp: captions_loop_iff)
  have "caption_ok c" if "caption_of cv raw = Inr c" for raw c
  proof -
    obtain start stop words where "0 \<le> start" "start \<le> cv_duration cv - 1" "1 \<le> stop" "stop \<le> cv_duration cv" "literal_text words"
        "c = (start, stop, words)"
    proof -
      obtain d start stop where run: "0 \<le> start" "start \<le> cv_duration cv - 1" "1 \<le> stop" "stop \<le> cv_duration cv" and
        rest: "(case fld d ''text'' of
           VStr words \<Rightarrow>
             sbind (check (not_blank words \<and> length words \<le> 1000) ''STUDIO_TIMELINE_CAPTION_TEXT_INVALID'') (\<lambda>_.
             let words = unix_lines words
             in sbind (check (start < stop \<and> literal_text words) ''STUDIO_TIMELINE_CAPTION_LITERAL_TEXT_REQUIRED'') (\<lambda>_.
                Inr (start, stop, words)))
         | _ \<Rightarrow> invalid ''STUDIO_TIMELINE_CAPTION_TEXT_INVALID'') = Inr c"
        using \<open>caption_of cv raw = Inr c\<close> unfolding caption_of_def sbind_Inr_iff integer_of_Inr by blast
      show thesis
        using rest that [OF run] by (cases "fld d ''text''") (auto simp: Let_def sbind_Inr_iff)
    qed
    then show ?thesis using cv by (simp add: caption_ok_def)
  qed
  then have "\<forall>c \<in> set cues. caption_ok c" using smap_all [OF cues, of caption_ok] by blast
  moreover have "length cues \<le> 500" using smap_nth [OF cues] run(1) by simp
  ultimately show thesis by (intro that [of "sort cues"]) (simp_all add: v)
qed

lemma document_captions:
  assumes "normalize_studio_timeline v = Inr t"
  shows "dget (tl_fields t) ''tracks'' = None \<and> (dget (tl_fields t) ''captions'' = None \<or>
    (\<exists>cues. dget (tl_fields t) ''captions'' = Some (VList (map cue_value cues)) \<and> length cues \<le> 500 \<and> (\<forall>c \<in> set cues. caption_ok c)))"
proof -
  consider (new) ao where "normalize_v2 ao v = Inr t" | (old) "normalize_v1 v = Inr t"
    using assms by (auto simp: normalize_studio_timeline_def split: val.splits option.splits)
  then show ?thesis
  proof cases
    case old
    then obtain row cv captions tracks where run: "canvas_of row = Inr cv" "captions_of cv row = Inr captions"
      and t: "t = \<lparr>tl_fields = [(''duration_ms'', VInt (cv_duration cv)), (''width'', VInt (cv_width cv)), (''height'', VInt (cv_height cv)),
            (''fps'', VInt (cv_fps cv)), (''captions'', captions)], tl_tracks = sort_tracks tracks\<rparr>"
      unfolding normalize_v1_def sbind_Inr_iff guard_iff by (auto simp: sbind_Inr_iff)
    show ?thesis by (rule captions_ok [OF run(2,1)]) (auto simp: t)
  next
    case new
    show ?thesis
    proof (cases ao)
      case True
      with new show ?thesis unfolding normalize_v2_def sbind_Inr_iff guard_iff by (auto simp: Let_def)
    next
      case False
      with new obtain row cv tracks captions style links where run: "canvas_of row = Inr cv" "captions_of cv row = Inr captions"
          "optional_field ''caption_style'' normalize_caption_style row = Inr style"
          "optional_field ''clip_links'' (normalize_clip_links (sort_tracks tracks)) row = Inr links"
        and t: "t = \<lparr>tl_fields = [(''schema_version'', VInt 2), (''duration_ms'', VInt (cv_duration cv)), (''width'', VInt (cv_width cv)),
                 (''height'', VInt (cv_height cv)), (''fps'', VInt (cv_fps cv)), (''captions'', captions)] @ style @ links,
               tl_tracks = sort_tracks tracks\<rparr>"
        unfolding normalize_v2_def sbind_Inr_iff guard_iff by (auto simp: Let_def sbind_Inr_iff)
      have "dget style ''tracks'' = None" "dget links ''tracks'' = None"
        using run(3,4) by (auto simp: optional_field_def sbind_Inr_iff split: option.splits)
      then have "dget (tl_fields t) ''tracks'' = None" by (simp add: t map_add_def)
      moreover have "dget (tl_fields t) ''captions'' = Some captions" by (simp add: t map_add_def)
      moreover obtain cues where "captions = VList (map cue_value cues)" "length cues \<le> 500" "\<forall>c \<in> set cues. caption_ok c"
        by (rule captions_ok [OF run(2,1)])
      ultimately show ?thesis by blast
    qed
  qed
qed

section \<open>A block and a file\<close>

lemma split_lines_escape: "split_lines (escape_text s) = map escape_text (split_lines s)"
proof (induction s)
  case Nil
  show ?case by (simp add: escape_text_def)
next
  case (Cons c s)
  obtain l ls where ls: "split_lines s = l # ls" using split_lines_not_Nil [of s] by (cases "split_lines s") auto
  show ?case
  proof (cases "c = 38")
    case True
    then have "escape_text (c # s) = points ''&amp;'' @ escape_text s" by (simp add: escape_text_def)
    then show ?thesis using Cons ls True by (simp add: points_def) (simp add: escape_text_def points_def)
  next
    case False
    then have "escape_text (c # s) = c # escape_text s" by (simp add: escape_text_def)
    then show ?thesis using Cons ls False by (simp add: escape_text_def)
  qed
qed

lemma escape_empty: "escape_text s = [] \<longleftrightarrow> s = []"
  by (cases s) (auto simp: escape_text_def points_def)

definition clean :: "nat \<Rightarrow> bool" where "clean c \<longleftrightarrow> c \<noteq> 13 \<and> \<not> (0xD800 \<le> c \<and> c \<le> 0xDFFF)"

lemma clean_decimal: "\<forall>c \<in> set (decimal n). clean c \<and> c \<noteq> 10"
  using decimal_digits [of n] by (auto simp: clean_def)

lemma clean_stamp: "\<forall>c \<in> set (stamp_text format ms). clean c \<and> c \<noteq> 10"
  using clean_decimal by (auto simp: stamp_text_def pad_def separator_of_def clean_def)

lemma clean_arrow: "\<forall>c \<in> set arrow. clean c \<and> c \<noteq> 10"
  by (simp add: arrow_def points_def clean_def)

lemma no_break: "10 \<notin> set (decimal n)" "10 \<notin> set (stamp_text format ms)" "10 \<notin> set arrow"
  using clean_decimal clean_stamp clean_arrow by blast+

lemma clean_parts: "list_all clean (decimal n)" "list_all clean (stamp_text format ms)" "list_all clean arrow" "clean 10"
  using clean_decimal clean_stamp clean_arrow unfolding list_all_iff by (blast, blast, blast, simp add: clean_def)

definition shown_text :: "string \<Rightarrow> utext \<Rightarrow> utext" where
  "shown_text format s = (if format = ''VTT'' then escape_text s else s)"

lemma shown_text:
  assumes "literal_text s"
  shows "[] \<notin> set (split_lines (shown_text format s))" and "list_all clean (shown_text format s)"
proof -
  have "[] \<notin> set (split_lines s)" using assms by (auto simp: literal_text_def list_all_iff not_blank_def)
  then show "[] \<notin> set (split_lines (shown_text format s))"
    unfolding shown_text_def by (cases "format = ''VTT''") (auto simp: split_lines_escape, metis escape_empty)
  have "\<forall>c \<in> set s. clean c" using assms literal_no_return [OF assms] by (auto simp: literal_text_def list_all_iff clean_def)
  then show "list_all clean (shown_text format s)"
    by (auto simp: shown_text_def escape_text_def points_def clean_def list_all_iff)
qed

lemma block_read:
  fixes i :: nat and format :: string
  assumes tb: "plain_tables tb" and cue: "caption_ok cue"
  defines "b \<equiv> block_text format (i, as_fields (cue_value cue))"
  shows "cue_of tb format (i, b) = Inr cue" "[] \<notin> set (split_lines b)" "list_all clean b" "hd b = hd (decimal i)"
proof -
  obtain start stop words where c: "cue = (start, stop, words)" by (cases cue)
  have ms: "nat start < 360000000" "nat stop < 360000000" "0 \<le> start" "0 \<le> stop" and words: "literal_text words"
    using cue by (auto simp: caption_ok_def c MAX_DURATION_MS_def nat_less_iff)
  let ?t = "stamp_text format (nat start) @ arrow @ stamp_text format (nat stop)"
  have b: "b = decimal i @ 10 # ?t @ 10 # shown_text format words"
    by (simp add: b_def block_text_def c cue_value_def as_fields_def int_fld_def text_fld_def getd_def shown_text_def)
  have breaks: "10 \<notin> set (decimal i)" "10 \<notin> set ?t" using no_break by simp_all
  have lines: "split_lines b = decimal i # ?t # split_lines (shown_text format words)"
    unfolding b split_lines_line [OF breaks(1)] split_lines_line [OF breaks(2)] by (rule refl)
  have timing: "timing_of tb (separator_of format) ?t = Some (nat start, nat stop)" by (rule timing_read [OF tb ms(1,2)])
  have some: "split_lines (shown_text format words) \<noteq> []" by (rule split_lines_not_Nil)
  have unescape: "(if format = ''VTT'' then decode_vtt_text tb (shown_text format words) else shown_text format words) = words"
    by (simp add: shown_text_def decode_escape [OF tb])
  show "cue_of tb format (i, b) = Inr cue"
    using timing some unescape ms(3,4) by (simp add: cue_of_def lines timing_number [OF tb] join_split_lines Let_def c Suc_le_eq not_less)
  have "?t \<noteq> []" by (simp add: arrow_def points_def)
  then show "[] \<notin> set (split_lines b)" unfolding lines using shown_text(1) [OF words] decimal_digits [of i] by auto
  show "list_all clean b" unfolding b by (simp add: clean_parts shown_text(2) [OF words])
  show "hd b = hd (decimal i)" using decimal_digits [of i] by (simp add: b)
qed

lemma blocks_read:
  fixes n :: nat and format :: string
  assumes tb: "plain_tables tb" and "\<forall>c \<in> set cues. caption_ok c"
  defines "bs \<equiv> map (block_text format) (enumerate n (map as_fields (map cue_value cues)))"
  shows "smap (cue_of tb format) (enumerate n bs) = Inr cues \<and>
    (\<forall>b \<in> set bs. [] \<notin> set (split_lines b) \<and> list_all clean b) \<and> length bs = length cues \<and>
    (cues \<noteq> [] \<longrightarrow> hd (hd bs) = hd (decimal n))"
  using assms(2) unfolding bs_def
proof (induction cues arbitrary: n)
  case (Cons c cues)
  then have c: "caption_ok c" and cues: "\<forall>c \<in> set cues. caption_ok c" by simp_all
  define b where "b = block_text format (n, as_fields (cue_value c))"
  define bs where "bs = map (block_text format) (enumerate (Suc n) (map as_fields (map cue_value cues)))"
  have all: "map (block_text format) (enumerate n (map as_fields (map cue_value (c # cues)))) = b # bs" by (simp add: b_def bs_def)
  have first: "cue_of tb format (n, b) = Inr c" "[] \<notin> set (split_lines b)" "list_all clean b" "hd b = hd (decimal n)"
    unfolding b_def by (rule block_read [OF tb c])+
  have rest: "smap (cue_of tb format) (enumerate (Suc n) bs) = Inr cues"
    "\<forall>b \<in> set bs. [] \<notin> set (split_lines b) \<and> list_all clean b" "length bs = length cues"
    using Cons.IH [of "Suc n", folded bs_def, OF cues] by blast+
  have "smap (cue_of tb format) (enumerate n (b # bs)) = Inr (c # cues)" using first(1) rest(1) by simp
  then show ?case unfolding all using first(2-4) rest(2,3) by simp
qed simp

lemma clean_join: "\<forall>b \<in> set bs. list_all clean b \<Longrightarrow> list_all clean (join_with [10, 10] bs)"
proof (induction bs rule: induct_list012)
  case (3 b b' bs)
  then show ?case by (simp add: clean_parts(4))
qed simp_all

lemma subtitles_read:
  assumes tb: "plain_tables tb" and t: "normalize_studio_timeline v = Inr t" and content: "export_subtitles v format = Inr content"
    and some: "fld (tl_fields t) ''captions'' \<noteq> VList []"
  shows "import_subtitles tb (timeline_value t) (VStr content) format = Inr t"
proof -
  obtain cues where cues: "dget (tl_fields t) ''captions'' = Some (VList (map cue_value cues))" "length cues \<le> 500" "\<forall>c \<in> set cues. caption_ok c"
    using document_captions [OF t] content t by (auto simp: export_subtitles_def sbind_Inr_iff)
  define bs where "bs = map (block_text format) (enumerate 1 (map as_fields (map cue_value cues)))"
  have nonempty: "cues \<noteq> []" using some cues(1) by (auto simp: getd_def)
  have read: "smap (cue_of tb format) (enumerate 1 bs) = Inr cues" "\<forall>b \<in> set bs. [] \<notin> set (split_lines b)" "\<forall>b \<in> set bs. list_all clean b"
    "length bs = length cues" "hd (hd bs) = hd (decimal 1)"
    using blocks_read [OF tb cues(3), of format 1] nonempty unfolding bs_def by simp_all
  have format: "format = ''SRT'' \<or> format = ''VTT''" and size: "\<not> utf8_length content > MAX_SIDECAR_BYTES"
    and content': "content = (if format = ''VTT'' then vtt_header else []) @ join_with [10, 10] bs @ [10]"
  proof -
    have ne: "bs \<noteq> []" using read(4) nonempty by auto
    show "format = ''SRT'' \<or> format = ''VTT''" using content by (simp add: export_subtitles_def sbind_Inr_iff)
    show "\<not> utf8_length content > MAX_SIDECAR_BYTES" "content = (if format = ''VTT'' then vtt_header else []) @ join_with [10, 10] bs @ [10]"
      using content ne unfolding export_subtitles_def sbind_Inr_iff t cues(1) bs_def
      by (auto simp: t cues(1) sbind_Inr_iff Let_def)
  qed
  have "\<forall>b \<in> set bs. no_gap b \<and> b \<noteq> [] \<and> hd b \<noteq> 10 \<and> last b \<noteq> 10" using read(2) full_lines by blast
  moreover have "bs \<noteq> []" using read(4) nonempty by auto
  ultimately have join: "split_blocks (join_with [10, 10] bs) = bs" "strip_lines (join_with [10, 10] bs @ [10]) = join_with [10, 10] bs"
    "join_with [10, 10] bs \<noteq> []" "hd (join_with [10, 10] bs) = hd (hd bs)"
    using split_join_blocks by blast+
  have "list_all clean vtt_header" by (simp add: vtt_header_def points_def clean_def)
  then have "list_all clean content" unfolding content' by (simp add: clean_join [OF read(3)] clean_parts(4))
  then have clean: "\<forall>c \<in> set content. clean c" by (simp add: list_all_iff)
  have first: "hd content \<noteq> 0xFEFF"
    using join(3,4) read(5) by (simp add: content' vtt_header_def points_def decimal_small hd_append)
  have lines: "unix_lines content = content" "13 \<notin> set content" using clean by (auto simp: clean_def intro!: unix_lines_id)
  have bare: "(if format = ''VTT'' then drop (length vtt_header) content else content) = join_with [10, 10] bs @ [10]"
    by (simp add: content')
  have head: "\<not> (format = ''VTT'' \<and> take (length vtt_header) content \<noteq> vtt_header)" by (simp add: content')
  have surrogates: "list_all (\<lambda>c. \<not> (0xD800 \<le> c \<and> c \<le> 0xDFFF)) content" using clean by (simp add: list_all_iff clean_def)
  have same: "(if content \<noteq> [] \<and> hd content = 0xFEFF then tl content else content) = content" using first by simp
  have count: "1 \<le> length bs \<and> length bs \<le> 500" using read(4) cues(2) nonempty by (cases cues) auto
  have "parse_subtitle_cues tb (VStr content) format = Inr cues"
    unfolding parse_subtitle_cues_def val.case same lines(1) Let_def bare join(2)
    using format surrogates size lines(2) head join(1,3) count read(1) by simp
  moreover have "dset (tl_fields t @ [(''tracks'', VList (map track_value (tl_tracks t)))]) ''captions'' (VList (map cue_value cues)) =
      tl_fields t @ [(''tracks'', VList (map track_value (tl_tracks t)))]"
    by (rule dset_same) (simp add: cues(1) map_add_def)
  ultimately show ?thesis
    using normalize_settled [OF t] by (simp add: import_subtitles_def timeline_value_def)
qed

lemma no_subtitles_read:
  assumes t: "normalize_studio_timeline v = Inr t" and content: "export_subtitles v format = Inr content"
    and none: "fld (tl_fields t) ''captions'' = VList []"
  shows "import_subtitles tb (timeline_value t) (VStr content) format = invalid ''STUDIO_SUBTITLE_CUE_LIMIT''"
proof -
  obtain cues where "dget (tl_fields t) ''captions'' = Some (VList cues)"
    using content t by (auto simp: export_subtitles_def sbind_Inr_iff split: option.splits val.splits)
  then have "dget (tl_fields t) ''captions'' = Some (VList [])" using none by (simp add: getd_def)
  then have c: "content = (if format = ''VTT'' then vtt_header else [])" and f: "format \<in> {''SRT'', ''VTT''}"
    using content t by (auto simp: export_subtitles_def sbind_Inr_iff Let_def)
  have "parse_subtitle_cues tb (VStr content) format = invalid ''STUDIO_SUBTITLE_CUE_LIMIT''"
    unfolding c using f by (elim insertE emptyE; simp)
      (simp_all add: parse_subtitle_cues_def vtt_header_def points_def guard_def strip_lines_def utf8_length_def MAX_SIDECAR_BYTES_def)
  then show ?thesis by (simp add: import_subtitles_def)
qed

end
