(* ===== verification/Timeline_Laws.thy ===== *)
theory Timeline_Laws
  imports Timeline_Split Timeline_Subtitle_Laws
begin

text \<open>The properties of timeline documents and their edits, each with an instance on a document that
  has a dissolve and a locked track.\<close>

section \<open>A document\<close>

definition sample_source :: "string \<Rightarrow> val" where
  "sample_source kind = VDict [(''id'', vtext kind), (''kind'', vtext ''ASSET''), (''asset_kind'', vtext kind), (''version'', VInt 1),
     (''digest'', VStr (replicate 64 97))]"

definition sample_clip :: "string \<Rightarrow> string \<Rightarrow> int \<Rightarrow> int \<Rightarrow> fields" where
  "sample_clip cid kind start stop = [(''id'', vtext cid), (''source_snapshot'', sample_source kind), (''start_ms'', VInt start),
     (''in_ms'', VInt 0), (''out_ms'', VInt stop)]"

definition sample :: val where
  "sample = VDict [(''schema_version'', VInt 2), (''duration_ms'', VInt 10000), (''tracks'', VList [
     VDict [(''id'', vtext ''v''), (''kind'', vtext ''VIDEO''), (''order'', VInt 0), (''clips'', VList [
       VDict (sample_clip ''b'' ''video'' 3500 3000),
       VDict (sample_clip ''a'' ''video'' 0 4000 @ [(''transition_out'', VDict [(''kind'', vtext ''CROSS_DISSOLVE''),
         (''to_clip_id'', vtext ''b''), (''duration_ms'', VInt 500)])])])],
     VDict [(''id'', vtext ''s''), (''kind'', vtext ''AUDIO''), (''order'', VInt 1), (''locked'', VBool True), (''clips'', VList [
       VDict (sample_clip ''c'' ''audio'' 0 4000)])]])]"

definition cut_b :: val where
  "cut_b = VDict [(''op'', vtext ''clip.split''), (''clip_id'', vtext ''b''), (''at_ms'', VInt 5000), (''new_clip_id'', vtext ''b2'')]"

definition mute_v :: val where
  "mute_v = VDict [(''op'', vtext ''track.update''), (''track_id'', vtext ''v''), (''changes'', VDict [(''muted'', VBool True)])]"

text \<open>The same document as it is stored, and after the two edits.\<close>

definition stored_clip :: "string \<Rightarrow> string \<Rightarrow> int \<Rightarrow> int \<Rightarrow> int \<Rightarrow> fields" where
  "stored_clip cid kind start a b = [(''id'', vtext cid), (''source_snapshot'', sample_source kind), (''start_ms'', VInt start),
     (''in_ms'', VInt a), (''out_ms'', VInt b), (''speed_num'', VInt 1), (''speed_den'', VInt 1), (''muted'', VBool False),
     (''gain_db'', VFloat 0), (''fade_in_ms'', VInt 0), (''fade_out_ms'', VInt 0)]"

definition full_picture :: fields where
  "full_picture = [(''x'', VInt 0), (''y'', VInt 0), (''width'', VInt 1280), (''height'', VInt 720), (''opacity'', VFloat 1),
     (''include_audio'', VBool False)]"

definition voice :: track where
  "voice = \<lparr>tk_fields = [(''id'', vtext ''s''), (''kind'', vtext ''AUDIO''), (''order'', VInt 1), (''role'', vtext ''DIALOGUE''),
     (''muted'', VBool False), (''gain_db'', VFloat 0), (''locked'', VBool True)], tk_clips = [stored_clip ''c'' ''audio'' 0 0 4000]\<rparr>"

definition video :: "bool \<Rightarrow> fields list \<Rightarrow> track" where
  "video muted clips = \<lparr>tk_fields = [(''id'', vtext ''v''), (''kind'', vtext ''VIDEO''), (''order'', VInt 0), (''role'', vtext ''PRIMARY''),
     (''muted'', VBool muted), (''gain_db'', VFloat 0)],
     tk_clips = (stored_clip ''a'' ''video'' 0 0 4000 @ full_picture @ [(''transition_out'', VDict [(''kind'', vtext ''CROSS_DISSOLVE''),
         (''to_clip_id'', vtext ''b''), (''duration_ms'', VInt 500)])]) # clips\<rparr>"

definition stored :: "track \<Rightarrow> timeline" where
  "stored pictures = \<lparr>tl_fields = [(''schema_version'', VInt 2), (''duration_ms'', VInt 10000), (''width'', VInt 1280), (''height'', VInt 720),
     (''fps'', VInt 24), (''captions'', VList [])], tl_tracks = [pictures, voice]\<rparr>"

definition sample_doc :: timeline where
  "sample_doc = stored (video False [stored_clip ''b'' ''video'' 3500 0 3000 @ full_picture])"

definition cut_clips :: "fields list" where
  "cut_clips = [stored_clip ''b'' ''video'' 3500 0 1500 @ full_picture, stored_clip ''b2'' ''video'' 5000 1500 3000 @ full_picture]"

lemma sample_normal: "normalize_studio_timeline sample = Inr sample_doc" by code_simp

lemma cut_step: "apply_operation sample_doc cut_b = Inr (stored (video False cut_clips))" by code_simp

lemma mute_step: "apply_operation (stored (video False cut_clips)) mute_v = Inr (stored (video True cut_clips))" by code_simp

lemma edits_normal: "normalize_studio_timeline (timeline_value (stored (video True cut_clips))) = Inr (stored (video True cut_clips))"
  by code_simp

lemma batch_of_two:
  assumes "normalize_studio_timeline v = Inr d" "has_linked [e, f] = Inr False" "apply_operation d e = Inr d1" "apply_operation d1 f = Inr d2"
    and "normalize_studio_timeline (timeline_value d2) = Inr t"
  shows "apply_timeline_edits (\<lambda>_. Some 300) v (VList [e, f]) = Inr t"
  using assms by (simp add: apply_timeline_edits_def)

lemma sample_edited: "apply_timeline_edits (\<lambda>_. Some 300) sample (VList [cut_b, mute_v]) = Inr (stored (video True cut_clips))"
proof -
  have "has_linked [cut_b, mute_v] = Inr False" by code_simp
  from batch_of_two [OF sample_normal this cut_step mute_step edits_normal] show ?thesis .
qed

lemma sample_members: "voice \<in> set (tl_tracks sample_doc)" "tl_tracks sample_doc ! 0 \<in> set (tl_tracks sample_doc)"
  by (simp_all add: sample_doc_def stored_def)

lemma voice_locked: "is_locked voice" by (simp add: is_locked_def voice_def)

section \<open>Locked tracks\<close>

text \<open>C37: whatever an accepted batch of edits does, every track that was locked before is in the result exactly
  as it was - fields, clips, order and all - unless the batch contains the very operation that unlocks it.\<close>

theorem locked_tracks_untouched:
  assumes "normalize_studio_timeline v = Inr t" and "tk \<in> set (tl_tracks t)" "is_locked tk"
    and "apply_timeline_edits dumped v (VList edits) = Inr t'"
    and "\<forall>raw \<in> set edits. proper raw \<and> \<not> unlocks tk raw"
  shows "tk \<in> set (tl_tracks t')"
  using assms by (rule batch_held)

lemma edits_unlock_nothing: "\<forall>raw \<in> set [cut_b, mute_v]. proper raw \<and> \<not> unlocks voice raw"
proof -
  have "list_all proper [cut_b, mute_v]" by code_simp
  moreover have "\<not> unlocks voice raw" if "raw \<in> {cut_b, mute_v}" for raw
    using that by (auto simp: unlocks_def cut_b_def mute_v_def getd_def)
  ultimately show ?thesis by (simp add: list_all_iff)
qed

theorem locked_tracks_untouched_witness:
  "is_locked voice \<and> apply_timeline_edits (\<lambda>_. Some 300) sample (VList [cut_b, mute_v]) = Inr (stored (video True cut_clips)) \<and>
   voice \<in> set (tl_tracks (stored (video True cut_clips)))"
  using voice_locked sample_edited
    locked_tracks_untouched [OF sample_normal sample_members(1) voice_locked sample_edited edits_unlock_nothing] by blast

text \<open>saving a whole document in place of another is refused unless every locked track of the old document
  is in the new one unchanged, and unless the canvas is the same when there is such a track; what is accepted
  is the new document, normalized.\<close>

theorem saves_keep_locked_tracks:
  assumes "require_timeline_lock_preservation current replacement = Inr after"
  shows "\<exists>before. normalize_studio_timeline current = Inr before \<and> normalize_studio_timeline replacement = Inr after \<and>
    (\<forall>tk \<in> set (tl_tracks before). is_locked tk \<longrightarrow> tk \<in> set (tl_tracks after) \<and>
       (\<forall>k \<in> set CANVAS_FIELDS. fld (tl_fields after) k = fld (tl_fields before) k))"
proof -
  obtain before after' where run: "normalize_studio_timeline current = Inr before" "normalize_studio_timeline replacement = Inr after'"
    and rest: "(if filter is_locked (tl_tracks before) = [] then Inr after'
        else
          sbind (check (\<not> list_ex (\<lambda>k. fld (tl_fields before) k \<noteq> fld (tl_fields after') k) CANVAS_FIELDS) ''STUDIO_TIMELINE_TRACK_LOCKED'') (\<lambda>_.
          sbind (check (\<not> list_ex (\<lambda>t. dget (dict_of (map (\<lambda>t. (fld (tk_fields t) ''id'', t)) (tl_tracks after'))) (fld (tk_fields t) ''id'') \<noteq> Some t)
             (filter is_locked (tl_tracks before))) ''STUDIO_TIMELINE_TRACK_LOCKED'') (\<lambda>_. Inr after'))) = Inr after"
    using assms unfolding require_timeline_lock_preservation_def sbind_Inr_iff Let_def by blast
  have "after' = after" using rest by (auto simp: sbind_Inr_iff split: if_splits)
  moreover have "tk \<in> set (tl_tracks after') \<and> (\<forall>k \<in> set CANVAS_FIELDS. fld (tl_fields after') k = fld (tl_fields before) k)"
    if tk: "tk \<in> set (tl_tracks before)" "is_locked tk" for tk
  proof -
    have some: "filter is_locked (tl_tracks before) \<noteq> []" using tk by (auto simp: filter_empty_conv)
    have "dget (dict_of (map (\<lambda>t. (fld (tk_fields t) ''id'', t)) (tl_tracks after'))) (fld (tk_fields tk) ''id'') = Some tk"
      "\<forall>k \<in> set CANVAS_FIELDS. fld (tl_fields before) k = fld (tl_fields after') k"
      using rest tk unfolding if_not_P [OF some] sbind_Inr_iff guard_iff list_ex_iff by auto
    then show ?thesis using dget_dict_of by fastforce
  qed
  ultimately show ?thesis using run by blast
qed

section \<open>Pictures\<close>

text \<open>C38: at every instant a video track of an accepted document shows at most two clips; it shows two only
  within a dissolve: they are neighbours in time, and the left one dissolves into the right one for exactly
  the time both are shown.\<close>

theorem at_most_two_pictures:
  assumes "normalize_studio_timeline v = Inr t" and "tk \<in> set (tl_tracks t)" and "is_video (fld (tk_fields tk) ''kind'')"
  shows "length (filter (plays ms) (tk_clips tk)) \<le> 2 \<and>
    (\<forall>i j. i < j \<longrightarrow> j < length (tk_clips tk) \<longrightarrow> plays ms (tk_clips tk ! i) \<longrightarrow> plays ms (tk_clips tk ! j) \<longrightarrow>
       j = Suc i \<and> dissolves_into (tk_clips tk ! i) (tk_clips tk ! j))"
proof -
  have apart: "j = Suc i \<and> dissolves_into (tk_clips tk ! i) (tk_clips tk ! j)"
    if "i < j" "j < length (tk_clips tk)" "plays ms (tk_clips tk ! i)" "plays ms (tk_clips tk ! j)" for i j
    using video_track_loop [OF assms] that loop_apart by blast
  then show ?thesis by (auto intro!: filter_pairs)
qed

theorem at_most_two_pictures_witness:
  "(\<exists>i j. i < j \<and> plays 3700 (tk_clips (tl_tracks sample_doc ! 0) ! i) \<and> plays 3700 (tk_clips (tl_tracks sample_doc ! 0) ! j)) \<and>
   length (filter (plays 3700) (tk_clips (tl_tracks sample_doc ! 0))) \<le> 2"
proof -
  have "plays 3700 (tk_clips (tl_tracks sample_doc ! 0) ! 0)" "plays 3700 (tk_clips (tl_tracks sample_doc ! 0) ! 1)" by code_simp+
  moreover have "is_video (fld (tk_fields (tl_tracks sample_doc ! 0)) ''kind'')"
    by (simp add: sample_doc_def stored_def video_def is_video_def getd_def)
  then have "length (filter (plays 3700) (tk_clips (tl_tracks sample_doc ! 0))) \<le> 2"
    using at_most_two_pictures [OF sample_normal sample_members(2)] by blast
  ultimately show ?thesis by (metis zero_less_one)
qed

section \<open>Cuts\<close>

text \<open>C40: an accepted cut replaces the clip in place by its head, which keeps the identity, and appends the tail
  under the new identity to the same track. Of a moving source the head plays exactly the whole clip before the
  instant of the cut and nothing from it on, the tail exactly the whole clip from that instant on and nothing
  before, each at the very source positions of the whole clip, at any speed; neither piece is empty.\<close>

theorem split_plays_same:
  assumes "edit_clip_split raw doc = Inr doc'"
  shows "\<exists>p at_ms head tail. find_clip doc (fld raw ''clip_id'') = Inr p \<and> fld raw ''at_ms'' = VInt at_ms \<and>
    doc' = add_clip (fst p) tail (upd_clip p (\<lambda>_. head) doc) \<and>
    fld head ''id'' = fld (clip_at doc p) ''id'' \<and> fld tail ''id'' = fld raw ''new_clip_id'' \<and>
    (asset_kind_of (clip_at doc p) \<noteq> vtext ''image'' \<longrightarrow>
      (\<forall>ms. source_at ms head = (if ms < at_ms then source_at ms (clip_at doc p) else None) \<and>
            source_at ms tail = (if at_ms \<le> ms then source_at ms (clip_at doc p) else None)) \<and>
      plays (at_ms - 1) head \<and> plays at_ms tail)"
  using assms by (rule split_outcome)

theorem split_plays_same_witness:
  "\<exists>p head tail. find_clip sample_doc (vtext ''b'') = Inr p \<and>
     stored (video False cut_clips) = add_clip (fst p) tail (upd_clip p (\<lambda>_. head) sample_doc) \<and>
     asset_kind_of (clip_at sample_doc p) \<noteq> vtext ''image'' \<and>
     (\<exists>at_ms. plays (at_ms - 1) head \<and> plays at_ms tail \<and> source_at at_ms head = None \<and>
       source_at at_ms tail = source_at at_ms (clip_at sample_doc p))"
proof -
  have cut: "edit_clip_split (as_fields cut_b) sample_doc = Inr (stored (video False cut_clips))" by code_simp
  have clip: "fld (as_fields cut_b) ''clip_id'' = vtext ''b''" by (simp add: cut_b_def as_fields_def getd_def)
  have p: "find_clip sample_doc (vtext ''b'') = Inr (0, 1)" by code_simp
  have "asset_kind_of (clip_at sample_doc (0, 1)) \<noteq> vtext ''image''" by code_simp
  then show ?thesis using split_plays_same [OF cut] p unfolding clip by fastforce
qed

section \<open>The stored form\<close>

text \<open>C39: what the normalizer returns, directly or at the end of a batch of edits, is its own normal form: stored, read
  back and normalized again it is accepted and does not change, so identical documents have identical digests.\<close>

theorem normalized_is_fixed:
  assumes "normalize_studio_timeline v = Inr t \<or> apply_timeline_edits dumped v edits = Inr t"
  shows "normalize_studio_timeline (timeline_value t) = Inr t"
proof -
  obtain w where "normalize_studio_timeline w = Inr t"
    using assms by (cases edits) (auto simp: apply_timeline_edits_def sbind_Inr_iff)
  then show ?thesis by (rule normalize_settled)
qed

theorem normalized_is_fixed_witness: "normalize_studio_timeline (timeline_value sample_doc) = Inr sample_doc \<and> tl_tracks sample_doc \<noteq> []"
  using normalized_is_fixed [OF disjI1 [OF sample_normal]] by (simp add: sample_doc_def stored_def)

section \<open>Subtitles\<close>

text \<open>C13: the subtitle file of an accepted document, SRT or WebVTT, imports back into it as exactly the document it
  was exported from: every caption with its times to the millisecond and its text, ampersands and line
  breaks included. A document without captions is the exception: its file is written, and refused on the way back.
  Of Unicode and HTML only this is used: the value of the ten ASCII digits, that a colon is no digit, and the
  reference \<open>&amp;\<close>.\<close>

theorem subtitles_roundtrip:
  assumes "plain_tables tb" and "normalize_studio_timeline v = Inr t" and "export_subtitles v format = Inr content"
  shows "import_subtitles tb (timeline_value t) (VStr content) format =
    (if fld (tl_fields t) ''captions'' = VList [] then invalid ''STUDIO_SUBTITLE_CUE_LIMIT'' else Inr t)"
  using subtitles_read [OF assms] no_subtitles_read [OF assms(2,3)] by simp

definition captioned :: val where
  "captioned = (case sample of VDict d \<Rightarrow> VDict (d @ [(''captions'', VList
     [cue_value (1000, 2500, points ''A&'' @ [10] @ points ''B'')])]) | v \<Rightarrow> v)"

definition captioned_doc :: timeline where
  "captioned_doc = sample_doc\<lparr>tl_fields := dset (tl_fields sample_doc) ''captions''
     (VList [cue_value (1000, 2500, points ''A&'' @ [10] @ points ''B'')])\<rparr>"

definition ascii_tables :: tables where
  "ascii_tables = \<lparr>tb_digit = (\<lambda>c. if ascii_digit c then Some (c - 48) else None),
     tb_html5 = (\<lambda>n. if n = points ''amp;'' then Some [38] else None), tb_longest = 33\<rparr>"

text \<open>Code points are compared as integers when a caption is evaluated.\<close>

lemma literal_text_code [code]: "literal_text s \<longleftrightarrow> length (filter (\<lambda>c. c = 10) s) \<le> 7 \<and> \<not> has_arrow s \<and> list_all not_blank (split_lines s) \<and>
     list_all (\<lambda>c. let i = int c in \<not> (i < 32 \<and> i \<noteq> 10 \<or> i = 127 \<or> 0xD800 \<le> i \<and> i \<le> 0xDFFF)) s \<and>
     list_all (\<lambda>c. c \<notin> set (points ''{}<>'') \<and> c \<noteq> 92) s"
  by (simp add: literal_text_def Let_def)

lemma py_space_code [code]: "py_space c \<longleftrightarrow> (let i = int c in 9 \<le> i \<and> i \<le> 13 \<or> 28 \<le> i \<and> i \<le> 32 \<or> i = 133 \<or> i = 160 \<or> i = 5760 \<or> 8192 \<le> i \<and> i \<le> 8202 \<or>
     i = 8232 \<or> i = 8233 \<or> i = 8239 \<or> i = 8287 \<or> i = 12288)"
  by (simp add: py_space_def Let_def)

lemma captions_loop_code [code]:
  "captions_loop cv [] characters = Inr []"
  "captions_loop cv (raw # raws) characters =
     sbind (caption_of cv raw) (\<lambda>cue.
     let characters = characters + length (snd (snd cue))
     in sbind (check (int characters \<le> 32000) ''STUDIO_TIMELINE_CAPTION_LIMIT'') (\<lambda>_.
        sbind (captions_loop cv raws characters) (\<lambda>cues. Inr (cue # cues))))"
  by (simp_all add: MAX_CAPTION_CHARACTERS_def Let_def)

lemma captioned_normal: "normalize_studio_timeline captioned = Inr captioned_doc" by code_simp

lemma captioned_block: "length (block_text ''VTT'' (1, as_fields (cue_value (1000, 2500, points ''A&'' @ [10] @ points ''B'')))) = 40"
  by (simp add: block_text_def cue_value_def as_fields_def int_fld_def text_fld_def getd_def decimal_small stamp_text_def pad_two pad_three arrow_def escape_text_def points_def)

lemma utf8_bound: "utf8_length s \<le> 4 * length s"
  unfolding utf8_length_def by (induction s) auto

lemma captioned_exports: "\<not> Sum_Type.isl (export_subtitles captioned ''VTT'')"
proof -
  let ?s = "vtt_header @ join_with [10, 10] [block_text ''VTT'' (1, as_fields (cue_value (1000, 2500, points ''A&'' @ [10] @ points ''B'')))] @ [10]"
  have "utf8_length ?s \<le> MAX_SIDECAR_BYTES"
    using utf8_bound [of ?s] captioned_block by (simp add: MAX_SIDECAR_BYTES_def vtt_header_def points_def)
  moreover have "dget (tl_fields captioned_doc) ''captions'' = Some (VList [cue_value (1000, 2500, points ''A&'' @ [10] @ points ''B'')])"
    by (simp add: captioned_doc_def)
  ultimately show ?thesis by (simp add: export_subtitles_def captioned_normal not_less)
qed

theorem subtitles_roundtrip_witness:
  "\<exists>content. export_subtitles captioned ''VTT'' = Inr content \<and>
     import_subtitles ascii_tables (timeline_value captioned_doc) (VStr content) ''VTT'' = Inr captioned_doc"
proof -
  obtain content where content: "export_subtitles captioned ''VTT'' = Inr content"
    using captioned_exports by (cases "export_subtitles captioned ''VTT''") auto
  have tb: "plain_tables ascii_tables" by (simp add: plain_tables_def ascii_tables_def ascii_digit_def)
  have "fld (tl_fields captioned_doc) ''captions'' \<noteq> VList []" by (simp add: captioned_doc_def getd_def)
  then show ?thesis using subtitles_roundtrip [OF tb captioned_normal content] content by simp
qed

end
