(* ===== verification/Spec2Isabelle.thy ===== *)
theory Spec2Isabelle
  imports Prelude Autosave Autosave_Threads Json Story_Cond Story_Play Story_Analysis Story_Export Routing Capacity Capacity_Store Capacity_Laws
    Text_Match Interop_Models Interop_Messages Interop_Validation Interop_Identity Interop_Events Interop_Host
    Interop_Transport Interop_Transport_Laws Interop_Transport_Run Interop_Sample Interop_Transport_Safety
    Interop_Laws Interop_Events_Laws Timeline Timeline_Normal Timeline_Links Timeline_Edit Timeline_Fixed Timeline_Documents Timeline_Locks Timeline_Held Timeline_Batch Timeline_Pictures Timeline_Split
    Timeline_Subtitles Timeline_Subtitle_Laws Timeline_Laws
begin

text \<open>
  Verification development for the Python service of AI Novel Studio: the parts under \<open>app\<close>,
  \<open>local_interop_protocol\<close> and \<open>local_interop_desktop\<close> that decide what happens to an author's work,
  money and privacy. Definitions are translated from the code and named after it; a field of a class
  carries a short prefix, a class is a \<^theory_text>\<open>record\<close>, an enumeration a \<^theory_text>\<open>datatype\<close>, a
  dictionary an association list in insertion order (\<open>dict\<close>), and a raise is the left side of a sum.

  \<^bold>\<open>Parts, and how they interact\<close>

  \<^item> Autosave (\<open>app/autosave\<close>): \<open>Autosave\<close>, \<open>Autosave_Threads\<close>. Edits mark a document dirty; timers
    and focus changes flush it through a save function. \<open>Autosave\<close> has the tracker, the scheduler and
    the coordinator, \<open>flush\<close> cut into its lock-protected sections; \<open>Autosave_Threads\<close> runs any number
    of threads over one coordinator as a step relation and proves its invariants by rule induction.
  \<^item> Interactive stories (\<open>app/experimental/interactive_story.py\<close>): \<open>Story_Cond\<close> (the condition
    language, its type checker and evaluator), \<open>Story_Play\<close> (specification, compiler, playback),
    \<open>Story_Analysis\<close> (the bounded search and the graph passes), \<open>Story_Export\<close> (the Ren'Py script).
    The analysis reports what playback would do, and the exporter writes what the compiler accepted;
    the properties relate the three. The analysis tells states apart by their SHA-256 digest; what
    rests on this assumes that the digests of the finitely many states it can meet differ.
  \<^item> Provider routing (\<open>app/provider_routing_policy_v2.py\<close> and its contracts): \<open>Routing\<close>.
  \<^item> Project capacity (\<open>app/project_capacity.py\<close>): \<open>Capacity\<close> (loader, writer, operations),
    \<open>Capacity_Store\<close> (what the loader accepts), \<open>Capacity_Laws\<close> (an abstract account per project:
    limit, version, bytes used, and what each live reservation holds until when; the rules say which
    reservations a call drops, adds and keeps, and the ledger file refines them).
  \<^item> Local interop: two products on one machine exchange messages through a host bridge.
    \<open>Text_Match\<close> (the secret patterns), \<open>Interop_Models\<close> and \<open>Interop_Messages\<close> (every class of
    \<open>local_interop_protocol/models.py\<close>), \<open>Interop_Validation\<close> (\<open>validation.py\<close>),
    \<open>Interop_Identity\<close>, \<open>Interop_Events\<close>, \<open>Interop_Host\<close> (\<open>identity.py\<close>, \<open>events.py\<close>,
    \<open>diagnostics.py\<close> and \<open>providers.py\<close> of \<open>local_interop_desktop\<close>) and \<open>Interop_Transport\<close>
    (\<open>transport.py\<close>). The transport calls all the others: it parses and validates messages, attests
    the peer against the trust store, and publishes to the event registry. The registry is shared with
    the host's own modules, whose calls interleave with the transport's; a subscription's permission is
    a question (\<open>grants\<close>) whose answer may change, asked when an event is queued and when it is delivered. \<open>Interop_Laws\<close> and
    \<open>Interop_Events_Laws\<close> hold what the callees promise; \<open>Interop_Transport_Laws\<close> proves that every
    segment of every coroutine is safe, \<open>Interop_Transport_Run\<close> and \<open>Interop_Sample\<close> run a concrete
    connection, \<open>Interop_Transport_Safety\<close> states the properties of all reachable states.
  \<^item> Author timelines (\<open>app/services/studio_timeline_render.py\<close>, \<open>_schema\<close>, \<open>_links\<close>,
    \<open>_caption_style\<close>, \<open>_edit\<close>, \<open>_subtitles\<close>): \<open>Timeline\<close> (values, documents, shared checks), \<open>Timeline_Normal\<close>
    (the normalizers of all schemas), \<open>Timeline_Links\<close> (linked pairs and their fence),
    \<open>Timeline_Edit\<close> (one definition per edit operation, the batch, the lock fence). Every edit ends in
    the normalizer, so what is proved of normalized documents holds of edited ones. \<open>Timeline_Fixed\<close>
    and \<open>Timeline_Documents\<close> show that the normal form is a fixed point, \<open>Timeline_Locks\<close>,
    \<open>Timeline_Held\<close> and \<open>Timeline_Batch\<close> carry a locked track through a batch, \<open>Timeline_Pictures\<close>
    bounds what a track shows, \<open>Timeline_Split\<close> follows a cut, \<open>Timeline_Subtitles\<close> has the
    SRT and WebVTT files with their import, \<open>Timeline_Subtitle_Laws\<close> reads an exported file back, and
    \<open>Timeline_Laws\<close> has the properties.
  \<^item> \<open>Prelude\<close> (dictionaries, results, loops that may raise, code points, invariants of step
    relations) and \<open>Json\<close> (JSON values with the accessors the code uses) serve all of them.

  \<^bold>\<open>Groups of lemmas\<close>

  \<^item> Invariants by rule induction: one saver per document, saved means stored, sessions need trust,
    events stay bounded and authorised, no project exceeds its limit.
  \<^item> Equivalences and refinements: analysis against playback, ledger against accounts, \<open>flush\<close>
    against its specification, routing against the order of its inputs.
  \<^item> Round trips: ledger, trust store, timeline documents, subtitle files.
  \<^item> Locales for the shared contracts: \<open>transition_system\<close> (\<open>Prelude\<close>), interpreted on the threads of
    autosave, the histories of the ledger, the event registry and the transport; \<open>ranked_choice\<close>
    (\<open>Routing\<close>); and \<open>settling\<close> (\<open>Timeline_Fixed\<close>), a loop body whose results read back as
    themselves, interpreted on the clips and the tracks of both schemas.
  \<^item> Defects of the code that the model shows are findings; where a theorem proves one (a lost
    wake-up, a ledger that bricks itself, a shutdown refused during a disconnect) it is a property.

  \<^bold>\<open>Bounds and fuel\<close>

  The story search is bounded by the code itself (4096 states) and proved total; \<open>advance\<close> of the
  scheduler is a \<^theory_text>\<open>partial_function\<close> because callbacks may schedule for ever; everything else is
  structural recursion or has a termination proof. Python's integers are \<open>int\<close>; floats are rationals
  where the code only compares and stores them, and what that leaves out is said in each theory.

  \<^bold>\<open>Parameters\<close>

  Code outside the repository is an argument: the clock, random identities, SHA-256, ISO texts,
  \<open>ast.parse\<close>, \<open>json\<close> byte lengths, \<open>urlsplit\<close>, the tables of Unicode digits and HTML
  entities, the adapter of the transport, the permission callbacks of the host, the save function.
  What is assumed of a digest or of \<open>json\<close> is assumed of the states or documents at hand, not of all.

  \<^bold>\<open>Not modelled\<close>

  Of the parts above: observers and timing of the transport, the Godot and Ink exporters, evidence
  views and persistence of interactive stories, how Ren'Py reads the exported script, the autosave adapter of the repository, media probing and
  FFmpeg rendering of timelines.
  Beside them: the HTTP routers and the application object, the file and PostgreSQL repositories,
  provider adapters and jobs (calls of services and processes, whose behaviour is not in the
  repository), the plugin subsystem, the creative graph and production services, model center,
  comics, audio, research and review features, packaging, the desktop host and the web frontend (other languages). They are
  dominated by I/O, SQL or third-party calls, or are large families of records with field checks
  like those already modelled. Copies of the code frozen under \<open>docs/delivery\<close> are evidence, not
  program.
\<close>

end
